(* ===== verification/Prelude.thy ===== *)
theory Prelude
  imports Main "HOL-Library.Word" "HOL-Library.Multiset"
begin

text \<open>
  Shared vocabulary of the development: the failures of the C runtime as values, 32-bit
  integer arithmetic, byte sequences and block copies, and the list and queue operations
  of the commons library that the daemons call (\<open>t_list\<close> and \<open>t_queue\<close> are HOL lists,
  oldest element first).

  The library lemmas are collected in \<open>res_simps\<close> (the failure monad), \<open>i32_simps\<close>
  (32-bit arithmetic) and \<open>mem_simps\<close> (block copies).
\<close>

named_theorems res_simps "evaluation of the failure monad"
named_theorems i32_simps "32-bit integers inside their range"
named_theorems mem_simps "block copies"

section \<open>Failures of the C program\<close>

text \<open>
  What C leaves undefined or what ends the process is a value: a dereference of a null
  pointer, an access outside an object, an allocation that cannot be served, a call
  of \<open>exit(1)\<close>, and a read that waits for ever.
\<close>

datatype c_error = Puntero_Nulo | Fuera_de_Rango | Malloc_Fallido | Salida | Bloqueado

type_synonym 'a res = "c_error + 'a"

definition bindE :: "'a res \<Rightarrow> ('a \<Rightarrow> 'b res) \<Rightarrow> 'b res" where
  "bindE r f = (case r of Inl e \<Rightarrow> Inl e | Inr x \<Rightarrow> f x)"

lemma bindE_Inr [simp, res_simps]: "bindE (Inr x) f = f x"
  by (simp add: bindE_def)

lemma bindE_Inl [simp, res_simps]: "bindE (Inl e) f = Inl e"
  by (simp add: bindE_def)

lemma bindE_eq_Inr: "bindE r f = Inr y \<longleftrightarrow> (\<exists>x. r = Inr x \<and> f x = Inr y)"
  by (cases r) auto

lemma bindE_split: "P (bindE r f) \<longleftrightarrow> (\<forall>e. r = Inl e \<longrightarrow> P (Inl e)) \<and> (\<forall>x. r = Inr x \<longrightarrow> P (f x))"
  by (cases r) auto

lemma bindE_cong [fundef_cong]:
  "r = r' \<Longrightarrow> (\<And>x. r' = Inr x \<Longrightarrow> f x = f' x) \<Longrightarrow> bindE r f = bindE r' f'"
  by (cases r') auto

definition no_nulo :: "'a option \<Rightarrow> 'a res" where
  "no_nulo p = (case p of None \<Rightarrow> Inl Puntero_Nulo | Some x \<Rightarrow> Inr x)"

lemma no_nulo_simps [simp, res_simps]:
  "no_nulo None = Inl Puntero_Nulo" "no_nulo (Some x) = Inr x"
  by (simp_all add: no_nulo_def)

section \<open>32-bit integers\<close>

text \<open>
  An \<open>int32_t\<close> is an \<open>int\<close> in the range \<open>es_i32\<close>. An addition that may leave the range is
  written \<open>i32 (a + b)\<close>: the two's complement value that the compiled code computes (the
  makefile passes no optimisation flag).
\<close>

definition es_i32 :: "int \<Rightarrow> bool" where
  "es_i32 x \<longleftrightarrow> - 2147483648 \<le> x \<and> x < 2147483648"

definition i32 :: "int \<Rightarrow> int" where
  "i32 x = (x + 2147483648) mod 4294967296 - 2147483648"

lemma i32_id [i32_simps]: "es_i32 x \<Longrightarrow> i32 x = x"
  by (simp add: i32_def es_i32_def)

lemma i32_id_bounds [i32_simps]: "- 2147483648 \<le> x \<Longrightarrow> x < 2147483648 \<Longrightarrow> i32 x = x"
  by (simp add: i32_def)

lemma es_i32_i32: "es_i32 (i32 x)"
proof -
  have "0 \<le> (x + 2147483648) mod 4294967296" "(x + 2147483648) mod 4294967296 < 4294967296"
    by simp_all
  then show ?thesis by (simp add: es_i32_def i32_def)
qed

lemma i32_mod: "i32 (x mod 4294967296) = i32 x"
  by (simp add: i32_def mod_add_left_eq)

section \<open>Bytes\<close>

type_synonym byte = "8 word"

text \<open>The four bytes of an \<open>int32_t\<close> in memory, least significant first.\<close>

definition i32_bytes :: "int \<Rightarrow> byte list" where
  "i32_bytes x = [word_of_int x, word_of_int (x div 256), word_of_int (x div 65536),
     word_of_int (x div 16777216)]"

fun le_val :: "byte list \<Rightarrow> int" where
  "le_val [] = 0"
| "le_val (b # bs) = uint b + 256 * le_val bs"

definition bytes_i32 :: "byte list \<Rightarrow> int" where
  "bytes_i32 bs = i32 (le_val bs)"

lemma length_i32_bytes [simp]: "length (i32_bytes x) = 4"
  by (simp add: i32_bytes_def)

lemma uint_byte_of_int: "uint (word_of_int x :: byte) = x mod 256"
  by (simp add: uint_word_of_int)

lemma le_val_i32_bytes: "le_val (i32_bytes x) = x mod 4294967296"
proof -
  have step: "x mod (256 * n) = x mod 256 + 256 * (x div 256 mod n)" if "0 \<le> n" for x n :: int
    using that by (simp add: zmod_zmult2_eq)
  have "x mod 4294967296 = x mod 256 + 256 * (x div 256 mod 16777216)"
    using step [of 16777216 x] by simp
  also have "x div 256 mod 16777216 = x div 256 mod 256 + 256 * (x div 65536 mod 65536)"
    using step [of 65536 "x div 256"] by (simp add: div_mult2_eq flip: zdiv_zmult2_eq)
  also have "x div 65536 mod 65536 = x div 65536 mod 256 + 256 * (x div 16777216 mod 256)"
    using step [of 256 "x div 65536"] by (simp flip: zdiv_zmult2_eq)
  finally have "x mod 4294967296 = x mod 256 + 256 * (x div 256 mod 256
      + 256 * (x div 65536 mod 256 + 256 * (x div 16777216 mod 256)))" .
  then show ?thesis
    by (simp only: i32_bytes_def le_val.simps uint_byte_of_int mult_zero_right add_0_right)
qed

lemma bytes_i32_of_i32_bytes: "bytes_i32 (i32_bytes x) = i32 x"
  by (simp add: bytes_i32_def le_val_i32_bytes i32_mod)

lemma bytes_i32_inverse [simp]: "es_i32 x \<Longrightarrow> bytes_i32 (i32_bytes x) = x"
  by (simp add: bytes_i32_of_i32_bytes i32_id)

lemma es_i32_bytes_i32: "es_i32 (bytes_i32 bs)"
  by (simp add: bytes_i32_def es_i32_i32)

section \<open>Block copies\<close>

text \<open>
  \<open>leer m pos n\<close> is what \<open>memcpy(dst, &m[pos], n)\<close> copies and \<open>escribir m pos bs\<close> is the
  object \<open>m\<close> after \<open>memcpy(&m[pos], bs, length bs)\<close>. A negative size becomes a huge
  \<open>size_t\<close>, so it leaves the object as well.
\<close>

definition leer :: "byte list \<Rightarrow> int \<Rightarrow> int \<Rightarrow> byte list res" where
  "leer m pos n = (if 0 \<le> pos \<and> 0 \<le> n \<and> pos + n \<le> int (length m)
     then Inr (take (nat n) (drop (nat pos) m)) else Inl Fuera_de_Rango)"

definition escribir :: "byte list \<Rightarrow> int \<Rightarrow> byte list \<Rightarrow> byte list res" where
  "escribir m pos bs = (if 0 \<le> pos \<and> pos + int (length bs) \<le> int (length m)
     then Inr (take (nat pos) m @ bs @ drop (nat pos + length bs) m) else Inl Fuera_de_Rango)"

definition leer_i32 :: "byte list \<Rightarrow> int \<Rightarrow> int res" where
  "leer_i32 m pos = bindE (leer m pos 4) (\<lambda>bs. Inr (bytes_i32 bs))"

lemma leer_ok [mem_simps]:
  "0 \<le> pos \<Longrightarrow> 0 \<le> n \<Longrightarrow> pos + n \<le> int (length m) \<Longrightarrow> leer m pos n = Inr (take (nat n) (drop (nat pos) m))"
  by (simp add: leer_def)

lemma leer_Inr_iff:
  "leer m pos n = Inr bs \<longleftrightarrow>
     0 \<le> pos \<and> 0 \<le> n \<and> pos + n \<le> int (length m) \<and> bs = take (nat n) (drop (nat pos) m)"
  by (auto simp: leer_def)

lemma length_leer: "leer m pos n = Inr bs \<Longrightarrow> length bs = nat n"
  by (auto simp: leer_Inr_iff)

lemma leer_negativo [mem_simps]: "n < 0 \<Longrightarrow> leer m pos n = Inl Fuera_de_Rango"
  by (simp add: leer_def)

lemma escribir_ok [mem_simps]:
  "0 \<le> pos \<Longrightarrow> pos + int (length bs) \<le> int (length m) \<Longrightarrow>
     escribir m pos bs = Inr (take (nat pos) m @ bs @ drop (nat pos + length bs) m)"
  by (simp add: escribir_def)

lemma escribir_Inr_iff:
  "escribir m pos bs = Inr m' \<longleftrightarrow> 0 \<le> pos \<and> pos + int (length bs) \<le> int (length m)
     \<and> m' = take (nat pos) m @ bs @ drop (nat pos + length bs) m"
  by (auto simp: escribir_def)

lemma length_escribir: "escribir m pos bs = Inr m' \<Longrightarrow> length m' = length m"
  by (auto simp: escribir_Inr_iff)

text \<open>Reading back what was written, and what a write elsewhere leaves alone.\<close>

lemma leer_escribir_mismo:
  assumes "escribir m pos bs = Inr m'"
  shows "leer m' pos (int (length bs)) = Inr bs"
proof -
  have m: "0 \<le> pos" "pos + int (length bs) \<le> int (length m)"
    "m' = take (nat pos) m @ bs @ drop (nat pos + length bs) m"
    using assms by (auto simp: escribir_Inr_iff)
  have "length (take (nat pos) m) = nat pos" using m by simp
  then show ?thesis using m by (auto simp: leer_def)
qed

lemma leer_escribir_aparte:
  assumes w: "escribir m pos bs = Inr m'"
    and d: "p + n \<le> pos \<or> pos + int (length bs) \<le> p"
  shows "leer m' p n = leer m p n"
proof (cases "0 \<le> p \<and> 0 \<le> n \<and> p + n \<le> int (length m)")
  case False
  then show ?thesis using length_escribir [OF w] by (auto simp: leer_def)
next
  case True
  have m: "0 \<le> pos" "pos + int (length bs) \<le> int (length m)"
    "m' = take (nat pos) m @ bs @ drop (nat pos + length bs) m"
    using w by (auto simp: escribir_Inr_iff)
  have "take (nat n) (drop (nat p) m') = take (nat n) (drop (nat p) m)"
  proof (cases "p + n \<le> pos")
    case True
    with \<open>0 \<le> p \<and> 0 \<le> n \<and> p + n \<le> int (length m)\<close> have "nat n + nat p \<le> nat pos" by linarith
    then show ?thesis using m by (auto simp: take_drop min_def)
  next
    case False
    with d have "nat pos + length bs \<le> nat p" using m(1) by linarith
    then show ?thesis using m by simp
  qed
  then show ?thesis using True length_escribir [OF w] by (simp add: leer_def)
qed

section \<open>Lists and queues of the commons library\<close>

text \<open>
  \<open>list_find\<close> is \<^const>\<open>find\<close>, \<open>list_add\<close> and \<open>queue_push\<close> append, \<open>queue_pop\<close> takes the
  oldest element (or returns \<open>NULL\<close> on an empty queue), and \<open>list_remove_by_condition\<close> takes
  the first element that satisfies the condition.
\<close>

definition queue_push :: "'a list \<Rightarrow> 'a \<Rightarrow> 'a list" where
  "queue_push q x = q @ [x]"

fun queue_pop :: "'a list \<Rightarrow> 'a option \<times> 'a list" where
  "queue_pop [] = (None, [])"
| "queue_pop (x # q) = (Some x, q)"

fun list_remove_by_condition :: "('a \<Rightarrow> bool) \<Rightarrow> 'a list \<Rightarrow> 'a option \<times> 'a list" where
  "list_remove_by_condition p [] = (None, [])"
| "list_remove_by_condition p (x # xs) =
     (if p x then (Some x, xs)
      else case list_remove_by_condition p xs of (r, ys) \<Rightarrow> (r, x # ys))"

lemma remove_find: "fst (list_remove_by_condition p xs) = find p xs"
  by (induction xs) (auto split: prod.splits)

lemma remove_None: "(\<And>x. x \<in> set xs \<Longrightarrow> \<not> p x) \<Longrightarrow> list_remove_by_condition p xs = (None, xs)"
  by (induction xs) auto

lemma remove_Some_mset:
  "list_remove_by_condition p xs = (Some x, ys) \<Longrightarrow> p x \<and> mset xs = add_mset x (mset ys)"
  by (induction xs arbitrary: ys) (auto split: if_splits prod.splits)

lemma remove_None_iff: "fst (list_remove_by_condition p xs) = None \<longleftrightarrow> (\<forall>x \<in> set xs. \<not> p x)"
  by (auto simp: remove_find find_None_iff)

lemma remove_None_same: "list_remove_by_condition p xs = (None, ys) \<Longrightarrow> ys = xs"
  by (induction xs arbitrary: ys) (auto split: if_splits prod.splits)

text \<open>A symmetric relation between the elements of a list does not depend on their order.\<close>

lemma sorted_wrt_mset:
  assumes sym: "\<And>x y. R x y \<Longrightarrow> R y x" and "mset xs = mset ys" and "sorted_wrt R xs"
  shows "sorted_wrt R ys"
  using assms(2,3)
proof (induction ys arbitrary: xs)
  case Nil
  then show ?case by simp
next
  case (Cons y ys)
  then obtain us vs where xs: "xs = us @ y # vs"
    by (metis list.set_intros(1) mset_eq_setD split_list)
  with Cons.prems have m: "mset (us @ vs) = mset ys" by simp
  have "sorted_wrt R (us @ vs)" using Cons.prems(2) xs by (auto simp: sorted_wrt_append)
  then have "sorted_wrt R ys" using Cons.IH m by blast
  moreover have "R y z" if "z \<in> set ys" for z
  proof -
    have "z \<in> set us \<or> z \<in> set vs" using m that by (metis Un_iff mset_eq_setD set_append)
    then show ?thesis using Cons.prems(2) xs sym by (auto simp: sorted_wrt_append)
  qed
  ultimately show ?case by simp
qed

end
