(* ===== verification/Sockets.thy ===== *)
theory Sockets
  imports Prelude
begin

text \<open>
  The message library \<open>sockets_lib\<close>: the message codes, the four message structures with
  their constructors, serializers and deserializers, and the framed send and receive over
  a stream socket. A socket is the sequence of bytes its owner has still to read.
\<close>

section \<open>Message codes\<close>

datatype tipo_datos = CONEC_CERRADA | HS_KERNEL | HS_PROG | HS_CPU | HS_UMV
  | FIN_QUANTUM | CPU_DESCONEC | IMPRIMIR_VALOR | IMPRIMIR_TEXTO | FIN_EJECUCION
  | OBTENER_VALOR | GRABAR_VALOR | VALOR_ASIGNADO | SEM_BLOQUEADO | SEM_OK
  | SIGUSR1_CPU_DESCONEC | R_IMPRIMIR | R_OBTENER_VALOR | R_GRABAR_VALOR
  | R_VALOR_ASIGNADO | R_SEM_BLOQUEADO | SINCRO_OK | ID_PROG | IO_ID | IO_CANT_UNIDADES
  | SIGNAL | WAIT | PROX_INSTRUCCION | PCB_Y_QUANTUM | VAR_INEX | SEM_INEX
  | PED_MEM_SEG_COD | PED_MEM_IND_ETI | PED_MEM_IND_COD | PED_MEM_SEG_STACK | DESTR_SEGS
  | ESCRIBIR_SEG | CODIGO_SCRIPT | IND_ETI_FUNC | IND_COD | IND_STACK | RESP_MEM_SEG_COD
  | RESP_MEM_IND_ETI | RESP_MEM_IND_COD | RESP_MEM_SEG_STACK | MEN_ALM_OK | SOL_BYTES
  | ALM_BYTES | CAMBIO_PA | R_SOL_BYTES | R_ALM_BYTES | MEM_OVERLOAD | SEGMEN_FAULT
  | QUIT_SISTEMA_UMV

fun codigo :: "tipo_datos \<Rightarrow> int" where
  "codigo CONEC_CERRADA = 0"
| "codigo HS_KERNEL = 10" | "codigo HS_PROG = 11" | "codigo HS_CPU = 12" | "codigo HS_UMV = 13"
| "codigo FIN_QUANTUM = 20" | "codigo CPU_DESCONEC = 21" | "codigo IMPRIMIR_VALOR = 22"
| "codigo IMPRIMIR_TEXTO = 23" | "codigo FIN_EJECUCION = 24" | "codigo OBTENER_VALOR = 25"
| "codigo GRABAR_VALOR = 26" | "codigo VALOR_ASIGNADO = 27" | "codigo SEM_BLOQUEADO = 28"
| "codigo SEM_OK = 29" | "codigo SIGUSR1_CPU_DESCONEC = 30"
| "codigo R_IMPRIMIR = 50" | "codigo R_OBTENER_VALOR = 52" | "codigo R_GRABAR_VALOR = 53"
| "codigo R_VALOR_ASIGNADO = 54" | "codigo R_SEM_BLOQUEADO = 55" | "codigo SINCRO_OK = 61"
| "codigo ID_PROG = 62" | "codigo IO_ID = 63" | "codigo IO_CANT_UNIDADES = 64"
| "codigo SIGNAL = 65" | "codigo WAIT = 66" | "codigo PROX_INSTRUCCION = 67"
| "codigo PCB_Y_QUANTUM = 68" | "codigo VAR_INEX = 69" | "codigo SEM_INEX = 70"
| "codigo PED_MEM_SEG_COD = 200" | "codigo PED_MEM_IND_ETI = 201"
| "codigo PED_MEM_IND_COD = 202" | "codigo PED_MEM_SEG_STACK = 203"
| "codigo DESTR_SEGS = 204" | "codigo ESCRIBIR_SEG = 205" | "codigo CODIGO_SCRIPT = 206"
| "codigo IND_ETI_FUNC = 207" | "codigo IND_COD = 208" | "codigo IND_STACK = 209"
| "codigo RESP_MEM_SEG_COD = 250" | "codigo RESP_MEM_IND_ETI = 251"
| "codigo RESP_MEM_IND_COD = 252" | "codigo RESP_MEM_SEG_STACK = 253"
| "codigo MEN_ALM_OK = 254" | "codigo SOL_BYTES = 300" | "codigo ALM_BYTES = 301"
| "codigo CAMBIO_PA = 302" | "codigo R_SOL_BYTES = 350" | "codigo R_ALM_BYTES = 351"
| "codigo MEM_OVERLOAD = 352" | "codigo SEGMEN_FAULT = 353" | "codigo QUIT_SISTEMA_UMV = 500"

section \<open>Common messages\<close>

record t_men_comun =
  tam_dato :: int
  tipo :: int
  dato :: "byte list"

text \<open>The constructor copies \<open>tam\<close> bytes out of the buffer that it is given.\<close>

definition crear_men_comun :: "int \<Rightarrow> byte list \<Rightarrow> int \<Rightarrow> t_men_comun res" where
  "crear_men_comun t buf tam =
     bindE (leer buf 0 tam) (\<lambda>d. Inr \<lparr>tam_dato = tam, tipo = t, dato = d\<rparr>)"

definition men_serealizer_comun :: "t_men_comun \<Rightarrow> byte list res" where
  "men_serealizer_comun self =
     (let length = i32 (4 * 3 + tam_dato self) in
      if length < 0 then Inl Malloc_Fallido
      else bindE (leer (dato self) 0 (tam_dato self)) (\<lambda>d.
        Inr (i32_bytes length @ i32_bytes (tipo self) @ i32_bytes (tam_dato self) @ d)))"

definition men_deserealizer_comun :: "byte list \<Rightarrow> t_men_comun res" where
  "men_deserealizer_comun stream =
     bindE (leer_i32 stream 4) (\<lambda>t.
     bindE (leer_i32 stream 8) (\<lambda>n.
     if n = 0 then Inr \<lparr>tam_dato = n, tipo = t, dato = []\<rparr>
     else bindE (leer stream 12 n) (\<lambda>d. Inr \<lparr>tam_dato = n, tipo = t, dato = d\<rparr>)))"

section \<open>Messages that carry a process control block\<close>

record t_pcb =
  cant_var_cont_actual :: int
  dir_cont_actual :: int
  dir_indice_codigo :: int
  dir_indice_etiquetas :: int
  dir_seg_codigo :: int
  dir_seg_stack :: int
  pcb_id :: int
  program_counter :: int
  tam_indice_etiquetas :: int
  cant_instrucciones :: int

record t_men_quantum_pcb =
  mq_tipo :: int
  mq_quantum :: int
  mq_pcb :: t_pcb

text \<open>The pcb is copied through the pointer that the constructor receives.\<close>

definition crear_men_quantum_pcb :: "int \<Rightarrow> int \<Rightarrow> t_pcb option \<Rightarrow> t_men_quantum_pcb res" where
  "crear_men_quantum_pcb t q p =
     bindE (no_nulo p) (\<lambda>pcb. Inr \<lparr>mq_tipo = t, mq_quantum = q, mq_pcb = pcb\<rparr>)"

definition men_serealizer_quantum_pcb :: "t_men_quantum_pcb \<Rightarrow> byte list res" where
  "men_serealizer_quantum_pcb self = (let p = mq_pcb self in
     Inr (i32_bytes (4 * 13) @ i32_bytes (mq_tipo self) @ i32_bytes (mq_quantum self)
       @ i32_bytes (cant_var_cont_actual p) @ i32_bytes (dir_cont_actual p)
       @ i32_bytes (dir_indice_codigo p) @ i32_bytes (dir_indice_etiquetas p)
       @ i32_bytes (dir_seg_codigo p) @ i32_bytes (dir_seg_stack p) @ i32_bytes (pcb_id p)
       @ i32_bytes (program_counter p) @ i32_bytes (tam_indice_etiquetas p)
       @ i32_bytes (cant_instrucciones p)))"

definition men_deserealizer_quantum_pcb :: "byte list \<Rightarrow> t_men_quantum_pcb res" where
  "men_deserealizer_quantum_pcb stream =
     bindE (leer_i32 stream 4) (\<lambda>t. bindE (leer_i32 stream 8) (\<lambda>q.
     bindE (leer_i32 stream 12) (\<lambda>cv. bindE (leer_i32 stream 16) (\<lambda>dc.
     bindE (leer_i32 stream 20) (\<lambda>ic. bindE (leer_i32 stream 24) (\<lambda>ie.
     bindE (leer_i32 stream 28) (\<lambda>sc. bindE (leer_i32 stream 32) (\<lambda>ss.
     bindE (leer_i32 stream 36) (\<lambda>i. bindE (leer_i32 stream 40) (\<lambda>pc.
     bindE (leer_i32 stream 44) (\<lambda>ti. bindE (leer_i32 stream 48) (\<lambda>ci.
       Inr \<lparr>mq_tipo = t, mq_quantum = q, mq_pcb =
         \<lparr>cant_var_cont_actual = cv, dir_cont_actual = dc, dir_indice_codigo = ic,
          dir_indice_etiquetas = ie, dir_seg_codigo = sc, dir_seg_stack = ss, pcb_id = i,
          program_counter = pc, tam_indice_etiquetas = ti, cant_instrucciones = ci\<rparr>\<rparr>))))))))))))"

text \<open>What goes over the connection of a kernel and a CPU.\<close>

datatype mensaje = Men_Comun t_men_comun | Men_Pcb t_men_quantum_pcb

section \<open>Messages from a CPU to the memory unit\<close>

record t_men_cpu_umv =
  cu_tipo :: int
  cu_base :: int
  cu_offset :: int
  cu_tam :: int
  cu_buffer :: "byte list"

definition crear_men_cpu_umv ::
  "int \<Rightarrow> int \<Rightarrow> int \<Rightarrow> int \<Rightarrow> byte list option \<Rightarrow> t_men_cpu_umv res" where
  "crear_men_cpu_umv t b off n buffer =
     (case buffer of
        None \<Rightarrow> Inr \<lparr>cu_tipo = t, cu_base = b, cu_offset = off, cu_tam = n, cu_buffer = []\<rparr>
      | Some buf \<Rightarrow> bindE (leer buf 0 n) (\<lambda>d.
          Inr \<lparr>cu_tipo = t, cu_base = b, cu_offset = off, cu_tam = n, cu_buffer = d\<rparr>))"

text \<open>
  The serializer copies \<open>tam\<close> bytes from the buffer. The buffer of a request to read is
  empty while its \<open>tam\<close> is not, so the copy continues into the heap bytes that lie behind
  the buffer: they are the argument \<open>heap\<close>.
\<close>

definition men_serealizer_cpu_umv :: "byte list \<Rightarrow> t_men_cpu_umv \<Rightarrow> byte list res" where
  "men_serealizer_cpu_umv heap self =
     (let length = i32 (4 * 5 + cu_tam self) in
      if length < 0 then Inl Malloc_Fallido
      else bindE (leer (cu_buffer self @ heap) 0 (cu_tam self)) (\<lambda>d.
        Inr (i32_bytes length @ i32_bytes (cu_tipo self) @ i32_bytes (cu_base self)
          @ i32_bytes (cu_offset self) @ i32_bytes (cu_tam self) @ d)))"

definition men_deserealizer_cpu_umv :: "byte list \<Rightarrow> t_men_cpu_umv res" where
  "men_deserealizer_cpu_umv stream =
     bindE (leer_i32 stream 4) (\<lambda>t. bindE (leer_i32 stream 8) (\<lambda>b.
     bindE (leer_i32 stream 12) (\<lambda>off. bindE (leer_i32 stream 16) (\<lambda>n.
     if n = 0 then Inr \<lparr>cu_tipo = t, cu_base = b, cu_offset = off, cu_tam = n, cu_buffer = []\<rparr>
     else bindE (leer stream 20 n) (\<lambda>d.
       Inr \<lparr>cu_tipo = t, cu_base = b, cu_offset = off, cu_tam = n, cu_buffer = d\<rparr>)))))"

section \<open>Segment requests\<close>

record t_men_seg =
  ms_tipo :: int
  ms_id_prog :: int
  ms_tam_seg :: int

definition crear_men_seg :: "int \<Rightarrow> int \<Rightarrow> int \<Rightarrow> t_men_seg" where
  "crear_men_seg t i n = \<lparr>ms_tipo = t, ms_id_prog = i, ms_tam_seg = n\<rparr>"

definition men_serealizer_seg :: "t_men_seg \<Rightarrow> byte list res" where
  "men_serealizer_seg self =
     Inr (i32_bytes (4 * 4) @ i32_bytes (ms_tipo self) @ i32_bytes (ms_id_prog self)
       @ i32_bytes (ms_tam_seg self))"

definition men_deserealizer_seg :: "byte list \<Rightarrow> t_men_seg res" where
  "men_deserealizer_seg stream =
     bindE (leer_i32 stream 4) (\<lambda>t. bindE (leer_i32 stream 8) (\<lambda>i.
     bindE (leer_i32 stream 12) (\<lambda>n. Inr \<lparr>ms_tipo = t, ms_id_prog = i, ms_tam_seg = n\<rparr>)))"

section \<open>Streams: framed send and receive\<close>

text \<open>
  A socket holds the bytes that are still to be read, up to the peer's close
  (\<open>entrante\<close>), and whether the next system call on it fails (\<open>roto\<close>). The environment of a
  receive says how many bytes the first, peeking \<open>recv\<close> found (at least one: it blocks on an
  open empty stream) and what the uninitialised buffers hold.
\<close>

record socket =
  entrante :: "byte list"
  roto :: bool

record red =
  disponibles :: nat
  basura :: "nat \<Rightarrow> byte"

definition rellenar :: "red \<Rightarrow> nat \<Rightarrow> byte list \<Rightarrow> byte list" where
  "rellenar r n bs = bs @ map (basura r) [length bs ..< n]"

text \<open>
  The receive of the four message kinds: peek the length word, read that many bytes (fewer
  at the end of the stream) into an array of that length, deserialize it.
\<close>

definition recibir_con ::
  "(byte list \<Rightarrow> 'm res) \<Rightarrow> 'm res \<Rightarrow> red \<Rightarrow> socket \<Rightarrow> ('m \<times> socket) res" where
  "recibir_con des cerrada r soc =
     (if roto soc then Inl Salida
      else if entrante soc = [] then bindE cerrada (\<lambda>m. Inr (m, soc))
      else let length = bytes_i32 (rellenar r 4
                 (take (min 4 (max 1 (disponibles r))) (entrante soc))) in
        if length < 0 then Inl Fuera_de_Rango
        else if length = 0 then bindE cerrada (\<lambda>m. Inr (m, soc))
        else bindE (des (rellenar r (nat length) (take (nat length) (entrante soc)))) (\<lambda>m.
          Inr (m, soc\<lparr>entrante := drop (nat length) (entrante soc)\<rparr>)))"

definition socket_recv_comun :: "red \<Rightarrow> socket \<Rightarrow> (t_men_comun \<times> socket) res" where
  "socket_recv_comun =
     recibir_con men_deserealizer_comun (crear_men_comun (codigo CONEC_CERRADA) [] 0)"

definition socket_recv_quantum_pcb :: "red \<Rightarrow> socket \<Rightarrow> (t_men_quantum_pcb \<times> socket) res" where
  "socket_recv_quantum_pcb =
     recibir_con men_deserealizer_quantum_pcb
       (crear_men_quantum_pcb (codigo CONEC_CERRADA) 0 None)"

definition socket_recv_cpu_umv :: "red \<Rightarrow> socket \<Rightarrow> (t_men_cpu_umv \<times> socket) res" where
  "socket_recv_cpu_umv =
     recibir_con men_deserealizer_cpu_umv (crear_men_cpu_umv (codigo CONEC_CERRADA) 0 0 0 None)"

definition socket_recv_seg :: "red \<Rightarrow> socket \<Rightarrow> (t_men_seg \<times> socket) res" where
  "socket_recv_seg =
     recibir_con men_deserealizer_seg (Inr (crear_men_seg (codigo CONEC_CERRADA) 0 0))"

text \<open>
  The send hands the stream to the system call, which accepts \<open>pude_enviar\<close> of its bytes, or
  fails with -1; the accepted bytes reach the peer. The result is the accepted number.
\<close>

definition enviar_stream :: "int \<Rightarrow> byte list \<Rightarrow> socket \<Rightarrow> (int \<times> socket) res" where
  "enviar_stream pude_enviar stream soc =
     (if pude_enviar = -1 then Inl Salida
      else Inr (pude_enviar, soc\<lparr>entrante := entrante soc @ take (nat pude_enviar) stream\<rparr>))"

definition socket_send_comun :: "int \<Rightarrow> t_men_comun \<Rightarrow> socket \<Rightarrow> (int \<times> socket) res" where
  "socket_send_comun pude_enviar men soc =
     bindE (men_serealizer_comun men) (\<lambda>stream. enviar_stream pude_enviar stream soc)"

definition socket_send_quantum_pcb ::
  "int \<Rightarrow> t_men_quantum_pcb \<Rightarrow> socket \<Rightarrow> (int \<times> socket) res" where
  "socket_send_quantum_pcb pude_enviar men soc =
     bindE (men_serealizer_quantum_pcb men) (\<lambda>stream. enviar_stream pude_enviar stream soc)"

definition socket_send_cpu_umv ::
  "byte list \<Rightarrow> int \<Rightarrow> t_men_cpu_umv \<Rightarrow> socket \<Rightarrow> (int \<times> socket) res" where
  "socket_send_cpu_umv heap pude_enviar men soc =
     bindE (men_serealizer_cpu_umv heap men) (\<lambda>stream. enviar_stream pude_enviar stream soc)"

definition socket_send_seg :: "int \<Rightarrow> t_men_seg \<Rightarrow> socket \<Rightarrow> (int \<times> socket) res" where
  "socket_send_seg pude_enviar men soc =
     bindE (men_serealizer_seg men) (\<lambda>stream. enviar_stream pude_enviar stream soc)"

text \<open>Create, send and destroy, as the daemons use it.\<close>

definition enviar_men_comun_destruir ::
  "int \<Rightarrow> int \<Rightarrow> byte list \<Rightarrow> int \<Rightarrow> socket \<Rightarrow> socket res" where
  "enviar_men_comun_destruir pude_enviar t buf tam soc =
     bindE (crear_men_comun t buf tam) (\<lambda>men.
     bindE (socket_send_comun pude_enviar men soc) (\<lambda>(_, soc'). Inr soc'))"

definition enviar_umv_mem_seg_destruir ::
  "int \<Rightarrow> int \<Rightarrow> int \<Rightarrow> int \<Rightarrow> socket \<Rightarrow> socket res" where
  "enviar_umv_mem_seg_destruir pude_enviar t id_prog tam_seg soc =
     bindE (socket_send_seg pude_enviar (crear_men_seg t id_prog tam_seg) soc)
       (\<lambda>(_, soc'). Inr soc')"

section \<open>What the library promises: framing\<close>

text \<open>
  The contract of a message kind, as the receive relies on it: a valid message serializes to
  a non-empty stream that starts with its own length, and deserializing the stream gives the
  message that arrives (\<open>llega m\<close>, the message itself unless the sender over-reads).
\<close>

locale codec =
  fixes ser :: "'m \<Rightarrow> byte list res"
    and des :: "byte list \<Rightarrow> 'm res"
    and cerrada :: "'m res"
    and valido :: "'m \<Rightarrow> bool"
    and llega :: "'m \<Rightarrow> 'm"
  assumes ser_Inr: "valido m \<Longrightarrow> \<exists>bs. ser m = Inr bs"
    and des_ser: "valido m \<Longrightarrow> ser m = Inr bs \<Longrightarrow> des bs = Inr (llega m)"
    and encabezado: "valido m \<Longrightarrow> ser m = Inr bs \<Longrightarrow>
      4 \<le> length bs \<and> bytes_i32 (take 4 bs) = int (length bs)"
begin

lemma recibir_un_mensaje:
  assumes m: "valido m" "ser m = Inr bs"
    and soc: "entrante soc = bs @ resto" "\<not> roto soc" and r: "4 \<le> disponibles r"
  shows "recibir_con des cerrada r soc = Inr (llega m, soc\<lparr>entrante := resto\<rparr>)"
proof -
  have bs: "4 \<le> length bs" "bytes_i32 (take 4 bs) = int (length bs)"
    using encabezado m by auto
  then have "bs \<noteq> []" by auto
  have cuatro: "min 4 (max (Suc 0) (disponibles r)) = 4" using r by simp
  have cab: "rellenar r 4 (take 4 bs) = take 4 bs" using bs by (simp add: rellenar_def)
  have todo: "rellenar r (length bs) bs = bs" by (simp add: rellenar_def)
  have "des bs = Inr (llega m)" using des_ser m by blast
  then show ?thesis
    using soc bs todo \<open>bs \<noteq> []\<close> by (simp add: recibir_con_def cuatro cab)
qed

end

text \<open>A whole conversation: every message is received once, in the order of the sends.\<close>

fun recibir_todos ::
  "(red \<Rightarrow> socket \<Rightarrow> ('m \<times> socket) res) \<Rightarrow> red list \<Rightarrow> socket \<Rightarrow> ('m list \<times> socket) res" where
  "recibir_todos recv [] soc = Inr ([], soc)"
| "recibir_todos recv (r # rs) soc =
     bindE (recv r soc) (\<lambda>(m, soc').
     bindE (recibir_todos recv rs soc') (\<lambda>(ms, soc''). Inr (m # ms, soc'')))"

fun enviar_todos :: "('m \<Rightarrow> byte list res) \<Rightarrow> 'm list \<Rightarrow> socket \<Rightarrow> socket res" where
  "enviar_todos ser [] soc = Inr soc"
| "enviar_todos ser (m # ms) soc =
     bindE (ser m) (\<lambda>bs.
     bindE (enviar_stream (int (length bs)) bs soc) (\<lambda>(_, soc'). enviar_todos ser ms soc'))"

context codec
begin

lemma enviar_todos_stream:
  "(\<And>m. m \<in> set ms \<Longrightarrow> valido m) \<Longrightarrow>
     \<exists>bss. map ser ms = map Inr bss \<and>
       enviar_todos ser ms soc = Inr (soc\<lparr>entrante := entrante soc @ concat bss\<rparr>)"
proof (induction ms arbitrary: soc)
  case Nil
  then show ?case by simp
next
  case (Cons m ms)
  obtain bs where bs: "ser m = Inr bs" using ser_Inr Cons.prems by auto
  let ?soc = "soc\<lparr>entrante := entrante soc @ bs\<rparr>"
  obtain bss where "map ser ms = map Inr bss"
    "enviar_todos ser ms ?soc = Inr (?soc\<lparr>entrante := entrante ?soc @ concat bss\<rparr>)"
    using Cons by (metis list.set_intros(2))
  then show ?case
    using bs by (intro exI [of _ "bs # bss"]) (simp add: enviar_stream_def)
qed

lemma recibir_stream:
  "(\<And>m. m \<in> set ms \<Longrightarrow> valido m) \<Longrightarrow> map ser ms = map Inr bss \<Longrightarrow>
     entrante soc = concat bss @ resto \<Longrightarrow> \<not> roto soc \<Longrightarrow> length rs = length ms \<Longrightarrow>
     (\<And>r. r \<in> set rs \<Longrightarrow> 4 \<le> disponibles r) \<Longrightarrow>
     recibir_todos (recibir_con des cerrada) rs soc = Inr (map llega ms, soc\<lparr>entrante := resto\<rparr>)"
proof (induction ms arbitrary: bss rs soc)
  case Nil
  then show ?case by (cases soc) simp
next
  case (Cons m ms)
  then obtain bs bss' r rs' where bss: "bss = bs # bss'" and rs: "rs = r # rs'"
    by (metis length_Suc_conv list.simps(9) map_eq_Cons_conv)
  have "recibir_con des cerrada r soc
      = Inr (llega m, soc\<lparr>entrante := concat bss' @ resto\<rparr>)"
    using Cons.prems by (intro recibir_un_mensaje) (auto simp: bss rs)
  moreover have "recibir_todos (recibir_con des cerrada) rs' (soc\<lparr>entrante := concat bss' @ resto\<rparr>)
      = Inr (map llega ms, soc\<lparr>entrante := concat bss' @ resto, entrante := resto\<rparr>)"
    using Cons.prems by (intro Cons.IH [of bss']) (auto simp: bss rs)
  ultimately show ?case by (simp add: rs)
qed

lemma conversacion:
  assumes "\<And>m. m \<in> set ms \<Longrightarrow> valido m" "\<not> roto soc" "entrante soc = []"
    "length rs = length ms" "\<And>r. r \<in> set rs \<Longrightarrow> 4 \<le> disponibles r"
  shows "bindE (enviar_todos ser ms soc) (recibir_todos (recibir_con des cerrada) rs)
    = Inr (map llega ms, soc)"
proof -
  obtain bss where bss: "map ser ms = map Inr bss"
    "enviar_todos ser ms soc = Inr (soc\<lparr>entrante := concat bss\<rparr>)"
    using enviar_todos_stream [of ms soc] assms by auto
  have "recibir_todos (recibir_con des cerrada) rs (soc\<lparr>entrante := concat bss\<rparr>)
      = Inr (map llega ms, soc\<lparr>entrante := concat bss, entrante := []\<rparr>)"
    using assms bss by (intro recibir_stream) auto
  then show ?thesis using assms(3) bss by (cases soc) simp
qed

end

section \<open>The four message kinds satisfy the contract\<close>

lemma leer_i32_cabeza [mem_simps]: "leer_i32 (i32_bytes x @ bs) 0 = Inr (i32 x)"
  by (simp add: leer_i32_def leer_def bytes_i32_of_i32_bytes)

lemma leer_i32_unico [mem_simps]: "leer_i32 (i32_bytes x) 0 = Inr (i32 x)"
  using leer_i32_cabeza [of x "[]"] by simp

lemma leer_saltar [mem_simps]: "4 \<le> pos \<Longrightarrow> leer (i32_bytes x @ bs) pos n = leer bs (pos - 4) n"
  by (auto simp: leer_def nat_diff_distrib)

lemma leer_i32_saltar [mem_simps]: "4 \<le> pos \<Longrightarrow> leer_i32 (i32_bytes x @ bs) pos = leer_i32 bs (pos - 4)"
  by (simp add: leer_i32_def leer_saltar)

lemma leer_todo [mem_simps]: "int (length bs) = n \<Longrightarrow> leer bs 0 n = Inr bs"
  by (auto simp: leer_def)

lemma encabezado_i32 [mem_simps]: "es_i32 x \<Longrightarrow> bytes_i32 (take 4 (i32_bytes x @ bs)) = x"
  by simp

definition valido_comun :: "t_men_comun \<Rightarrow> bool" where
  "valido_comun m \<longleftrightarrow> es_i32 (tipo m) \<and> tam_dato m \<le> 2147483635
     \<and> int (length (dato m)) = tam_dato m"

definition valido_pcb :: "t_pcb \<Rightarrow> bool" where
  "valido_pcb p \<longleftrightarrow> es_i32 (cant_var_cont_actual p) \<and> es_i32 (dir_cont_actual p)
     \<and> es_i32 (dir_indice_codigo p) \<and> es_i32 (dir_indice_etiquetas p)
     \<and> es_i32 (dir_seg_codigo p) \<and> es_i32 (dir_seg_stack p) \<and> es_i32 (pcb_id p)
     \<and> es_i32 (program_counter p) \<and> es_i32 (tam_indice_etiquetas p)
     \<and> es_i32 (cant_instrucciones p)"

definition valido_quantum_pcb :: "t_men_quantum_pcb \<Rightarrow> bool" where
  "valido_quantum_pcb m \<longleftrightarrow> es_i32 (mq_tipo m) \<and> es_i32 (mq_quantum m) \<and> valido_pcb (mq_pcb m)"

definition valido_cpu_umv :: "byte list \<Rightarrow> t_men_cpu_umv \<Rightarrow> bool" where
  "valido_cpu_umv heap m \<longleftrightarrow> es_i32 (cu_tipo m) \<and> es_i32 (cu_base m) \<and> es_i32 (cu_offset m)
     \<and> 0 \<le> cu_tam m \<and> cu_tam m \<le> 2147483627 \<and> cu_tam m \<le> int (length (cu_buffer m @ heap))"

definition llega_cpu_umv :: "byte list \<Rightarrow> t_men_cpu_umv \<Rightarrow> t_men_cpu_umv" where
  "llega_cpu_umv heap m = m\<lparr>cu_buffer := take (nat (cu_tam m)) (cu_buffer m @ heap)\<rparr>"

definition valido_seg :: "t_men_seg \<Rightarrow> bool" where
  "valido_seg m \<longleftrightarrow> es_i32 (ms_tipo m) \<and> es_i32 (ms_id_prog m) \<and> es_i32 (ms_tam_seg m)"

lemma leer_prefijo:
  "0 \<le> n \<Longrightarrow> n \<le> int (length bs) \<Longrightarrow>
     leer bs 0 n = Inr (take (nat n) bs) \<and> int (length (take (nat n) bs)) = n"
  by (simp add: leer_def)

lemmas valido_defs = valido_comun_def valido_pcb_def valido_quantum_pcb_def
  valido_cpu_umv_def valido_seg_def

interpretation comun: codec men_serealizer_comun men_deserealizer_comun
  "crear_men_comun (codigo CONEC_CERRADA) [] 0" valido_comun "\<lambda>m. m"
proof (unfold_locales, goal_cases)
  case (1 m)
  then show ?case
    by (simp add: valido_defs men_serealizer_comun_def i32_simps mem_simps)
next
  case (2 m bs)
  then show ?case
    by (auto simp: valido_defs men_serealizer_comun_def men_deserealizer_comun_def
        es_i32_def i32_simps mem_simps)
next
  case (3 m bs)
  then show ?case
    by (auto simp: valido_defs men_serealizer_comun_def es_i32_def i32_simps mem_simps)
qed

interpretation quantum_pcb: codec men_serealizer_quantum_pcb men_deserealizer_quantum_pcb
  "crear_men_quantum_pcb (codigo CONEC_CERRADA) 0 None" valido_quantum_pcb "\<lambda>m. m"
proof (unfold_locales, goal_cases)
  case (1 m)
  then show ?case by (simp add: men_serealizer_quantum_pcb_def Let_def)
next
  case (2 m bs)
  then show ?case
    by (auto simp: valido_defs men_serealizer_quantum_pcb_def Let_def
        men_deserealizer_quantum_pcb_def i32_simps mem_simps)
next
  case (3 m bs)
  then show ?case
    by (auto simp: men_serealizer_quantum_pcb_def Let_def es_i32_def)
qed

interpretation cpu_umv: codec "men_serealizer_cpu_umv heap" men_deserealizer_cpu_umv
  "crear_men_cpu_umv (codigo CONEC_CERRADA) 0 0 0 None" "valido_cpu_umv heap"
  "llega_cpu_umv heap" for heap
proof (unfold_locales, goal_cases)
  case (1 m)
  then show ?case
    by (simp add: valido_defs men_serealizer_cpu_umv_def i32_simps mem_simps)
next
  case (2 m bs)
  define d where "d = take (nat (cu_tam m)) (cu_buffer m @ heap)"
  have d: "leer (cu_buffer m @ heap) 0 (cu_tam m) = Inr d" "int (length d) = cu_tam m"
    using 2 leer_prefijo [of "cu_tam m" "cu_buffer m @ heap"] unfolding d_def
    by (simp_all add: valido_defs)
  have r: "es_i32 (cu_tipo m)" "es_i32 (cu_base m)" "es_i32 (cu_offset m)" "es_i32 (cu_tam m)"
    "i32 (20 + cu_tam m) = 20 + cu_tam m" "0 \<le> cu_tam m"
    using 2(1) by (simp_all add: valido_defs es_i32_def i32_simps)
  have bs: "bs = i32_bytes (20 + cu_tam m) @ i32_bytes (cu_tipo m) @ i32_bytes (cu_base m)
      @ i32_bytes (cu_offset m) @ i32_bytes (cu_tam m) @ d"
    using 2(2) d(1) r by (simp add: men_serealizer_cpu_umv_def)
  have "d = []" if "cu_tam m = 0" using that d(2) by simp
  moreover have "llega_cpu_umv heap m = m\<lparr>cu_buffer := d\<rparr>" by (simp add: llega_cpu_umv_def d_def)
  ultimately show ?case
    unfolding bs men_deserealizer_cpu_umv_def using r(1-4) d(2)
    by (simp add: mem_simps i32_id)
next
  case (3 m bs)
  define d where "d = take (nat (cu_tam m)) (cu_buffer m @ heap)"
  have d: "leer (cu_buffer m @ heap) 0 (cu_tam m) = Inr d" "int (length d) = cu_tam m"
    using 3 leer_prefijo [of "cu_tam m" "cu_buffer m @ heap"] unfolding d_def
    by (simp_all add: valido_defs)
  have r: "es_i32 (20 + cu_tam m)" "0 \<le> cu_tam m"
    using 3(1) by (simp_all add: valido_defs es_i32_def)
  then show ?case
    using 3(2) d by (auto simp: men_serealizer_cpu_umv_def i32_id mem_simps)
qed

interpretation seg: codec men_serealizer_seg men_deserealizer_seg
  "Inr (crear_men_seg (codigo CONEC_CERRADA) 0 0)" valido_seg "\<lambda>m. m"
proof (unfold_locales, goal_cases)
  case (1 m)
  then show ?case by (simp add: men_serealizer_seg_def)
next
  case (2 m bs)
  then show ?case
    by (auto simp: valido_defs men_serealizer_seg_def men_deserealizer_seg_def i32_simps mem_simps)
next
  case (3 m bs)
  then show ?case by (auto simp: men_serealizer_seg_def es_i32_def)
qed

end
