(* ===== verification/UMV_Mem.thy ===== *)
theory UMV_Mem
  imports Sockets
begin

text \<open>
  The memory manager of the UMV (\<open>UMV/UMV.c\<close>): the segment table over the main memory, the
  search for a hole (first fit and worst fit), compaction, creation and destruction of
  segments, and the bounds-checked reads and writes of a process. Each definition is the
  body of the C function of its name under \<open>mutex_list_seg\<close>; logging is left out.
\<close>

section \<open>State\<close>

record t_seg =
  id_proc :: int
  dir_logica :: int
  dir_fisica :: int
  tam_seg :: int
  tipo_seg :: int

record umv =
  mem_prin :: "byte list"
  tam_mem_total :: int
  list_seg :: "t_seg list"
  alg_actual :: int
  umv_retardo :: int
  umv_quit :: int

definition FIRST_FIT :: int where "FIRST_FIT = 1"
definition WORST_FIT :: int where "WORST_FIT = 2"

text \<open>
  What the code gets from outside: \<open>list_sort\<close> of the commons library, and the bytes on the
  stack of \<open>compactar\<close>, starting at its local pointer, in each iteration of its loop.
\<close>

record entorno =
  list_sort :: "(t_seg \<Rightarrow> t_seg \<Rightarrow> bool) \<Rightarrow> t_seg list \<Rightarrow> t_seg list"
  pila :: "nat \<Rightarrow> byte list"

section \<open>The segment table\<close>

definition menor_dir_fisica :: "t_seg \<Rightarrow> t_seg \<Rightarrow> bool" where
  "menor_dir_fisica seg1 seg2 \<longleftrightarrow> dir_fisica seg1 < dir_fisica seg2"

definition ordenar_lista_seg_por_dir_fisica :: "entorno \<Rightarrow> umv \<Rightarrow> umv" where
  "ordenar_lista_seg_por_dir_fisica e u =
     u\<lparr>list_seg := list_sort e menor_dir_fisica (list_seg u)\<rparr>"

definition buscar_segmento_tipo_seg :: "umv \<Rightarrow> int \<Rightarrow> int \<Rightarrow> t_seg option" where
  "buscar_segmento_tipo_seg u id_p t =
     find (\<lambda>seg. tipo_seg seg = t \<and> id_proc seg = id_p) (list_seg u)"

definition buscar_segmento_dir_logica :: "umv \<Rightarrow> int \<Rightarrow> int \<Rightarrow> t_seg option" where
  "buscar_segmento_dir_logica u id_p d =
     find (\<lambda>seg. dir_logica seg = d \<and> id_proc seg = id_p) (list_seg u)"

section \<open>Reading and writing\<close>

text \<open>The kernel fills a whole segment; a message of another size is reported and dropped.\<close>

definition almacenar_segmento :: "t_men_comun \<Rightarrow> int \<Rightarrow> umv \<Rightarrow> umv res" where
  "almacenar_segmento aux_men id_p u =
     (case buscar_segmento_tipo_seg u id_p (tipo aux_men) of
        None \<Rightarrow> Inr u
      | Some aux_seg \<Rightarrow>
          if tam_dato aux_men \<noteq> tam_seg aux_seg then Inr u
          else bindE (leer (dato aux_men) 0 (tam_dato aux_men)) (\<lambda>d.
               bindE (escribir (mem_prin u) (dir_fisica aux_seg) d) (\<lambda>m.
               Inr (u\<lparr>mem_prin := m\<rparr>))))"

text \<open>
  \<open>solicitar_bytes\<close> returns \<open>None\<close> for \<open>NULL\<close>. The result block comes from \<open>malloc\<close>, which
  serves no negative size; \<open>fresco\<close> is what a fresh block holds. When no segment starts at
  \<open>base\<close>, the code returns that block as it is.
\<close>

definition solicitar_bytes ::
  "(nat \<Rightarrow> byte) \<Rightarrow> umv \<Rightarrow> int \<Rightarrow> int \<Rightarrow> int \<Rightarrow> int \<Rightarrow> byte list option res" where
  "solicitar_bytes fresco u id_p base offset tam =
     (if offset < 0 \<or> base < 0 \<or> tam_mem_total u < offset \<or> tam_mem_total u < tam
      then Inr None
      else let ret = (if tam < 0 then None else Some (map fresco [0..<nat tam])) in
        case buscar_segmento_dir_logica u id_p base of
          None \<Rightarrow> Inr ret
        | Some aux_seg \<Rightarrow>
            let pos = i32 (dir_fisica aux_seg + offset) in
            if tam_seg aux_seg < i32 (offset + tam) then Inr None
            else bindE (leer (mem_prin u) pos tam) (\<lambda>bs. Inr (Some bs)))"

text \<open>\<open>almacenar_bytes\<close> uses the segment that it looked up without a check for \<open>NULL\<close>.\<close>

definition almacenar_bytes ::
  "int \<Rightarrow> int \<Rightarrow> int \<Rightarrow> int \<Rightarrow> byte list \<Rightarrow> umv \<Rightarrow> (int \<times> umv) res" where
  "almacenar_bytes id_p base offset tam buffer u =
     (if offset < 0 \<or> base < 0 \<or> tam_mem_total u < offset \<or> tam_mem_total u < tam
      then Inr (codigo SEGMEN_FAULT, u)
      else bindE (no_nulo (buscar_segmento_dir_logica u id_p base)) (\<lambda>aux_seg.
        let pos = i32 (dir_fisica aux_seg + offset) in
        if tam_seg aux_seg < i32 (offset + tam) then Inr (codigo SEGMEN_FAULT, u)
        else bindE (leer buffer 0 tam) (\<lambda>d.
             bindE (escribir (mem_prin u) pos d) (\<lambda>m.
             Inr (codigo R_ALM_BYTES, u\<lparr>mem_prin := m\<rparr>)))))"

section \<open>The search for a hole\<close>

text \<open>
  The inner loop of first fit walks the bytes of the hole below \<open>dir_fis\<close>, counting them in
  \<open>tam\<close>; it returns from the function (\<open>Inl\<close>) when the count reaches the request, and
  otherwise ends with \<open>ind_mem\<close> at the segment (\<open>Inr\<close>).
\<close>

function recorrer_first_fit :: "int \<Rightarrow> int \<Rightarrow> int \<Rightarrow> int \<Rightarrow> int + int" where
  "recorrer_first_fit tam_a_reservar dir_fis ind_mem tam =
     (if ind_mem < dir_fis
      then if tam = tam_a_reservar then Inl (ind_mem - tam)
           else recorrer_first_fit tam_a_reservar dir_fis (ind_mem + 1) (tam + 1)
      else Inr ind_mem)"
  by pat_completeness auto
termination
  by (relation "measure (\<lambda>(_, dir_fis, ind_mem, _). nat (dir_fis - ind_mem))") auto

fun buscar_first_fit :: "int \<Rightarrow> int \<Rightarrow> t_seg list \<Rightarrow> int \<Rightarrow> int" where
  "buscar_first_fit tam_a_reservar tot [] ind_mem =
     (let tam = i32 (tot - ind_mem) in if tam_a_reservar \<le> tam then ind_mem else -1)"
| "buscar_first_fit tam_a_reservar tot (aux_seg # segs) ind_mem =
     (case recorrer_first_fit tam_a_reservar (dir_fisica aux_seg) ind_mem 0 of
        Inl ret \<Rightarrow> ret
      | Inr ind_mem' \<Rightarrow>
          buscar_first_fit tam_a_reservar tot segs (i32 (ind_mem' + tam_seg aux_seg)))"

text \<open>The inner loop of worst fit keeps the largest count and the start of its hole.\<close>

function recorrer_worst_fit :: "int \<Rightarrow> int \<Rightarrow> int \<Rightarrow> int \<Rightarrow> int \<Rightarrow> int \<times> int \<times> int" where
  "recorrer_worst_fit dir_fis ind_mem tam tam_seg_max pos_seg_max =
     (if ind_mem < dir_fis
      then if tam > tam_seg_max
           then recorrer_worst_fit dir_fis (ind_mem + 1) (tam + 1) tam (ind_mem - tam)
           else recorrer_worst_fit dir_fis (ind_mem + 1) (tam + 1) tam_seg_max pos_seg_max
      else (ind_mem, tam_seg_max, pos_seg_max))"
  by pat_completeness auto
termination
  by (relation "measure (\<lambda>(dir_fis, ind_mem, _). nat (dir_fis - ind_mem))") auto

fun buscar_worst_fit :: "int \<Rightarrow> int \<Rightarrow> t_seg list \<Rightarrow> int \<Rightarrow> int \<Rightarrow> int \<Rightarrow> int" where
  "buscar_worst_fit tam_a_reservar tot [] ind_mem tam_seg_max pos_seg_max =
     (let tam = i32 (tot - ind_mem);
          (tam_max, pos_max) =
            (if tam > tam_seg_max then (tam, ind_mem) else (tam_seg_max, pos_seg_max))
      in if tam_a_reservar \<le> tam_max then pos_max else -1)"
| "buscar_worst_fit tam_a_reservar tot (aux_seg # segs) ind_mem tam_seg_max pos_seg_max =
     (case recorrer_worst_fit (dir_fisica aux_seg) ind_mem 0 tam_seg_max pos_seg_max of
        (ind_mem', tam_max, pos_max) \<Rightarrow>
          buscar_worst_fit tam_a_reservar tot segs (i32 (ind_mem' + tam_seg aux_seg))
            tam_max pos_max)"

definition buscar_espacio_mem_prin :: "entorno \<Rightarrow> int \<Rightarrow> umv \<Rightarrow> int \<times> umv" where
  "buscar_espacio_mem_prin e tam_a_reservar u =
     (let u' = ordenar_lista_seg_por_dir_fisica e u in
      if alg_actual u' = FIRST_FIT
      then (buscar_first_fit tam_a_reservar (tam_mem_total u') (list_seg u') 0, u')
      else (buscar_worst_fit tam_a_reservar (tam_mem_total u') (list_seg u') 0 (-1) (-1), u'))"

section \<open>Compaction\<close>

text \<open>
  The loop of \<open>compactar\<close>: a segment that is not at \<open>ind_mem\<close> gets that address, and
  \<open>tam_seg\<close> bytes starting at the local variable \<open>aux_seg\<close> (the code passes the address of
  the pointer) are copied there.
\<close>

fun compactar_segs ::
  "(nat \<Rightarrow> byte list) \<Rightarrow> nat \<Rightarrow> int \<Rightarrow> t_seg list \<Rightarrow> byte list \<Rightarrow> (t_seg list \<times> byte list) res" where
  "compactar_segs pil i ind_mem [] mem = Inr ([], mem)"
| "compactar_segs pil i ind_mem (aux_seg # segs) mem =
     (let aux_dir_fisica = ind_mem in
      if ind_mem = dir_fisica aux_seg
      then bindE (compactar_segs pil (Suc i) (i32 (ind_mem + tam_seg aux_seg)) segs mem)
             (\<lambda>(segs', mem'). Inr (aux_seg # segs', mem'))
      else bindE (leer (pil i) 0 (tam_seg aux_seg)) (\<lambda>d.
           bindE (escribir mem aux_dir_fisica d) (\<lambda>mem1.
           bindE (compactar_segs pil (Suc i) (i32 (aux_dir_fisica + tam_seg aux_seg)) segs mem1)
             (\<lambda>(segs', mem'). Inr (aux_seg\<lparr>dir_fisica := aux_dir_fisica\<rparr> # segs', mem')))))"

definition compactar :: "entorno \<Rightarrow> umv \<Rightarrow> umv res" where
  "compactar e u =
     (let u' = ordenar_lista_seg_por_dir_fisica e u in
      bindE (compactar_segs (pila e) 0 0 (list_seg u') (mem_prin u')) (\<lambda>(segs, mem).
        Inr (u'\<lparr>list_seg := segs, mem_prin := mem\<rparr>)))"

section \<open>Creating and destroying segments\<close>

definition tipo_seg_pedido :: "int \<Rightarrow> int" where
  "tipo_seg_pedido t =
     (if t = codigo PED_MEM_SEG_COD then codigo CODIGO_SCRIPT
      else if t = codigo PED_MEM_IND_ETI then codigo IND_ETI_FUNC
      else if t = codigo PED_MEM_IND_COD then codigo IND_COD
      else if t = codigo PED_MEM_SEG_STACK then codigo IND_STACK
      else t)"

text \<open>
  \<open>aleatorio\<close> is the value of \<open>rand()\<close>. The result is the logical address, or -1 for a
  memory overload.
\<close>

definition crearSegmento :: "entorno \<Rightarrow> int \<Rightarrow> t_men_seg \<Rightarrow> umv \<Rightarrow> (int \<times> umv) res" where
  "crearSegmento e aleatorio men_ped u =
     (case buscar_espacio_mem_prin e (ms_tam_seg men_ped) u of (resp, u1) \<Rightarrow>
      bindE (if resp = -1
             then bindE (compactar e u1) (\<lambda>u2.
                    Inr (buscar_espacio_mem_prin e (ms_tam_seg men_ped) u2))
             else Inr (resp, u1)) (\<lambda>(resp', u3).
      if resp' = -1 then Inr (-1, u3)
      else let aux_seg = \<lparr>id_proc = ms_id_prog men_ped, dir_logica = aleatorio,
             dir_fisica = resp', tam_seg = ms_tam_seg men_ped,
             tipo_seg = tipo_seg_pedido (ms_tipo men_ped)\<rparr>
           in Inr (dir_logica aux_seg, u3\<lparr>list_seg := list_seg u3 @ [aux_seg]\<rparr>)))"

text \<open>Removing one matching segment after another, while there is one.\<close>

lemma length_remove:
  "list_ex p xs \<Longrightarrow> length (snd (list_remove_by_condition p xs)) < length xs"
  by (induction xs) (auto split: prod.splits)

function quitar_segs :: "('a \<Rightarrow> bool) \<Rightarrow> 'a list \<Rightarrow> 'a list" where
  "quitar_segs p xs =
     (if list_ex p xs then quitar_segs p (snd (list_remove_by_condition p xs)) else xs)"
  by pat_completeness auto
termination
  by (relation "measure (\<lambda>(p, xs). length xs)") (auto simp: length_remove)

definition destruirSegmentos :: "int \<Rightarrow> umv \<Rightarrow> umv" where
  "destruirSegmentos id_prog u =
     (if id_prog = 0 then u\<lparr>list_seg := []\<rparr>
      else u\<lparr>list_seg := quitar_segs (\<lambda>seg. id_proc seg = id_prog) (list_seg u)\<rparr>)"

declare recorrer_first_fit.simps [simp del] recorrer_worst_fit.simps [simp del]
  buscar_first_fit.simps [simp del] buscar_worst_fit.simps [simp del]
  compactar_segs.simps [simp del] quitar_segs.simps [simp del]

end
