(* ===== verification/UMV_Inv.thy ===== *)
theory UMV_Inv
  imports UMV_Mem
begin

text \<open>
  The layout invariant of the main memory and what the search, the compaction, the creation
  and the destruction of segments do to it.
\<close>

named_theorems umv_intro "the parts of the layout invariant"

section \<open>The invariant\<close>

definition ajenos :: "t_seg \<Rightarrow> t_seg \<Rightarrow> bool" where
  "ajenos s t \<longleftrightarrow> dir_fisica s + tam_seg s \<le> dir_fisica t \<or> dir_fisica t + tam_seg t \<le> dir_fisica s"

definition seg_ok :: "int \<Rightarrow> t_seg \<Rightarrow> bool" where
  "seg_ok tot s \<longleftrightarrow> 0 \<le> dir_fisica s \<and> 0 \<le> tam_seg s \<and> dir_fisica s + tam_seg s \<le> tot"

definition umv_inv :: "umv \<Rightarrow> bool" where
  "umv_inv u \<longleftrightarrow> 0 \<le> tam_mem_total u \<and> tam_mem_total u < 2147483648
     \<and> int (length (mem_prin u)) = tam_mem_total u
     \<and> (\<forall>s \<in> set (list_seg u). seg_ok (tam_mem_total u) s)
     \<and> sorted_wrt ajenos (list_seg u)"

text \<open>A hole of \<open>n\<close> bytes at \<open>r\<close>, free of all segments of a set.\<close>

definition hueco :: "int \<Rightarrow> t_seg set \<Rightarrow> int \<Rightarrow> int \<Rightarrow> bool" where
  "hueco tot S r n \<longleftrightarrow> 0 \<le> r \<and> r + n \<le> tot
     \<and> (\<forall>s \<in> S. r + n \<le> dir_fisica s \<or> dir_fisica s + tam_seg s \<le> r)"

definition ocupado :: "t_seg list \<Rightarrow> int" where
  "ocupado segs = sum_list (map tam_seg segs)"

text \<open>The documented contract of \<open>list_sort\<close>, and a stack that \<open>compactar\<close> can read.\<close>

definition list_sort_ok :: "entorno \<Rightarrow> bool" where
  "list_sort_ok e \<longleftrightarrow> (\<forall>xs. mset (list_sort e menor_dir_fisica xs) = mset xs
     \<and> sorted (map dir_fisica (list_sort e menor_dir_fisica xs)))"

definition pila_ok :: "entorno \<Rightarrow> int \<Rightarrow> bool" where
  "pila_ok e tot \<longleftrightarrow> (\<forall>i. tot \<le> int (length (pila e i)))"

lemma ajenos_sym: "ajenos s t \<Longrightarrow> ajenos t s"
  by (auto simp: ajenos_def)

lemma ocupado_simps [simp]:
  "ocupado [] = 0" "ocupado (s # ss) = tam_seg s + ocupado ss"
  "ocupado (ss @ ts) = ocupado ss + ocupado ts"
  by (simp_all add: ocupado_def)

lemma ocupado_no_neg: "(\<And>s. s \<in> set ss \<Longrightarrow> 0 \<le> tam_seg s) \<Longrightarrow> 0 \<le> ocupado ss"
  by (induction ss) auto

lemma ocupado_mset: "mset ss = mset ts \<Longrightarrow> ocupado ss = ocupado ts"
  unfolding ocupado_def by (metis mset_map sum_mset_sum_list)

lemma list_sort_set:
  "list_sort_ok e \<Longrightarrow> set (list_sort e menor_dir_fisica xs) = set xs"
  unfolding list_sort_ok_def by (metis mset_eq_setD)

section \<open>Segments in address order\<close>

text \<open>
  What the loops know at address \<open>ind\<close> about the segments that are still to come: they are
  sorted, apart from each other, and the non-empty ones start at \<open>ind\<close> or above.
\<close>

definition en_orden :: "int \<Rightarrow> int \<Rightarrow> t_seg list \<Rightarrow> bool" where
  "en_orden tot ind ss \<longleftrightarrow> 0 \<le> ind \<and> ind \<le> tot \<and> tot < 2147483648
     \<and> sorted (map dir_fisica ss) \<and> sorted_wrt ajenos ss
     \<and> (\<forall>s \<in> set ss. seg_ok tot s \<and> (tam_seg s = 0 \<or> ind \<le> dir_fisica s))"

definition paso :: "int \<Rightarrow> t_seg \<Rightarrow> int" where
  "paso ind s = max ind (dir_fisica s) + tam_seg s"

lemma en_orden_Nil: "en_orden tot ind [] \<longleftrightarrow> 0 \<le> ind \<and> ind \<le> tot \<and> tot < 2147483648"
  by (simp add: en_orden_def)

lemma en_orden_seg:
  assumes "en_orden tot ind (s # ss)"
  shows "0 \<le> ind" "0 \<le> dir_fisica s" "0 \<le> tam_seg s" "dir_fisica s + tam_seg s \<le> paso ind s"
    "ind \<le> paso ind s" "paso ind s \<le> tot" "tot < 2147483648" "i32 (paso ind s) = paso ind s"
    "tam_seg s = 0 \<or> ind \<le> dir_fisica s"
  using assms by (auto simp: en_orden_def seg_ok_def paso_def i32_simps)

lemma en_orden_Cons:
  assumes "en_orden tot ind (s # ss)"
  shows "en_orden tot (paso ind s) ss"
proof -
  have "tam_seg t = 0 \<or> paso ind s \<le> dir_fisica t" if "t \<in> set ss" for t
    using assms that unfolding en_orden_def seg_ok_def ajenos_def paso_def by fastforce
  then show ?thesis
    using assms en_orden_seg [OF assms] by (auto simp: en_orden_def)
qed

lemma en_orden_despues:
  "en_orden tot ind (s # ss) \<Longrightarrow> t \<in> set ss \<Longrightarrow> dir_fisica s \<le> dir_fisica t"
  by (simp add: en_orden_def)

fun final :: "int \<Rightarrow> t_seg list \<Rightarrow> int" where
  "final ind [] = ind"
| "final ind (s # ss) = final (paso ind s) ss"

lemma final_cotas:
  "en_orden tot ind ss \<Longrightarrow> ind + ocupado ss \<le> final ind ss \<and> final ind ss \<le> tot"
proof (induction ss arbitrary: ind)
  case Nil
  then show ?case by (simp add: en_orden_Nil)
next
  case (Cons s ss)
  from Cons.IH [OF en_orden_Cons [OF Cons.prems]] en_orden_seg [OF Cons.prems]
  show ?case by (auto simp: paso_def)
qed

lemma umv_inv_en_orden:
  assumes "umv_inv u" "list_sort_ok e"
  shows "en_orden (tam_mem_total u) 0 (list_sort e menor_dir_fisica (list_seg u))"
proof -
  have "sorted_wrt ajenos (list_sort e menor_dir_fisica (list_seg u))"
    using assms sorted_wrt_mset [of ajenos "list_seg u"] ajenos_sym
    by (metis list_sort_ok_def umv_inv_def)
  then show ?thesis
    using assms by (auto simp: en_orden_def umv_inv_def list_sort_ok_def seg_ok_def list_sort_set)
qed

section \<open>First fit\<close>

lemma recorrer_first_fit_eq:
  "0 \<le> c \<Longrightarrow> c \<le> tam \<Longrightarrow> recorrer_first_fit tam d ind c =
     (if tam - c < d - ind then Inl (ind - c) else Inr (max ind d))"
proof (induction tam d ind c rule: recorrer_first_fit.induct)
  case (1 tam d ind c)
  show ?case
  proof (cases "ind < d \<and> c \<noteq> tam")
    case True
    then have "recorrer_first_fit tam d (ind + 1) (c + 1)
        = (if tam - (c + 1) < d - (ind + 1) then Inl (ind - c) else Inr (max (ind + 1) d))"
      using 1 by auto
    with True show ?thesis by (subst recorrer_first_fit.simps) auto
  next
    case False
    then show ?thesis using "1.prems" by (subst recorrer_first_fit.simps) auto
  qed
qed

lemma buscar_first_fit_Cons:
  assumes "en_orden tot ind (s # ss)" "0 \<le> tam"
  shows "buscar_first_fit tam tot (s # ss) ind =
    (if tam < dir_fisica s - ind then ind else buscar_first_fit tam tot ss (paso ind s))"
  using assms en_orden_seg [OF assms(1)]
  by (simp add: buscar_first_fit.simps recorrer_first_fit_eq paso_def)

lemma buscar_first_fit_Nil:
  "en_orden tot ind [] \<Longrightarrow> buscar_first_fit tam tot [] ind = (if tam \<le> tot - ind then ind else -1)"
  by (simp add: buscar_first_fit.simps en_orden_Nil i32_simps)

text \<open>The address found is a hole of the requested size.\<close>

lemma buscar_first_fit_hueco:
  "en_orden tot ind ss \<Longrightarrow> 0 \<le> tam \<Longrightarrow> buscar_first_fit tam tot ss ind = r \<Longrightarrow> r \<noteq> -1 \<Longrightarrow>
     ind \<le> r \<and> hueco tot (set ss) r tam"
proof (induction ss arbitrary: ind)
  case Nil
  then show ?case by (auto simp: buscar_first_fit_Nil en_orden_Nil hueco_def split: if_splits)
next
  case (Cons s ss)
  note o = en_orden_seg [OF Cons.prems(1)]
  show ?case
  proof (cases "tam < dir_fisica s - ind")
    case True
    then have "r = ind" using Cons.prems by (simp add: buscar_first_fit_Cons)
    moreover have "ind + tam \<le> dir_fisica t" if "t \<in> set (s # ss)" for t
      using True that en_orden_despues [OF Cons.prems(1), of t] by auto
    ultimately show ?thesis using True o Cons.prems(2) by (auto simp: hueco_def paso_def)
  next
    case False
    then have "buscar_first_fit tam tot ss (paso ind s) = r"
      using Cons.prems by (simp add: buscar_first_fit_Cons)
    then have "paso ind s \<le> r \<and> hueco tot (set ss) r tam"
      using Cons en_orden_Cons by blast
    then show ?thesis using o by (auto simp: hueco_def)
  qed
qed

text \<open>Every hole with one byte to spare is found, and no later address is preferred to it.\<close>

lemma buscar_first_fit_completo:
  "en_orden tot ind ss \<Longrightarrow> 0 \<le> tam \<Longrightarrow> ind \<le> q \<Longrightarrow> hueco tot (set ss) q (tam + 1) \<Longrightarrow>
     0 \<le> buscar_first_fit tam tot ss ind \<and> buscar_first_fit tam tot ss ind \<le> q"
proof (induction ss arbitrary: ind)
  case Nil
  then show ?case by (simp add: buscar_first_fit_Nil en_orden_Nil hueco_def)
next
  case (Cons s ss)
  note o = en_orden_seg [OF Cons.prems(1)]
  show ?case
  proof (cases "tam < dir_fisica s - ind")
    case True
    then show ?thesis using Cons.prems o by (simp add: buscar_first_fit_Cons)
  next
    case False
    then have "dir_fisica s + tam_seg s \<le> q" using Cons.prems(3,4) by (auto simp: hueco_def)
    then have "paso ind s \<le> q" using Cons.prems(3) o(3,9) by (auto simp: paso_def)
    moreover have "hueco tot (set ss) q (tam + 1)" using Cons.prems(4) by (auto simp: hueco_def)
    ultimately show ?thesis
      using False Cons.IH [OF en_orden_Cons [OF Cons.prems(1)]] Cons.prems(1,2)
      by (simp add: buscar_first_fit_Cons)
  qed
qed

lemma buscar_first_fit_sin_huecos:
  "en_orden tot ind ss \<Longrightarrow> 0 \<le> tam \<Longrightarrow> final ind ss = ind + ocupado ss \<Longrightarrow>
     buscar_first_fit tam tot ss ind =
       (if tam \<le> tot - ind - ocupado ss then ind + ocupado ss else -1)"
proof (induction ss arbitrary: ind)
  case Nil
  then show ?case by (simp add: buscar_first_fit_Nil)
next
  case (Cons s ss)
  note o = en_orden_seg [OF Cons.prems(1)] and o' = en_orden_Cons [OF Cons.prems(1)]
  have p: "paso ind s = ind + tam_seg s"
    using final_cotas [OF o'] Cons.prems(3) by (simp add: paso_def)
  then have "dir_fisica s \<le> ind" by (simp add: paso_def)
  then show ?case
    using Cons.IH [OF o'] Cons.prems p by (simp add: buscar_first_fit_Cons algebra_simps)
qed

section \<open>Worst fit\<close>

text \<open>
  The choice that worst fit makes, without the byte-by-byte walk: the holes below a segment
  count one byte less than they have, the tail counts in full.
\<close>

fun peor :: "int \<Rightarrow> t_seg list \<Rightarrow> int \<Rightarrow> int \<times> int \<Rightarrow> int \<times> int" where
  "peor tot [] ind mejor = (if tot - ind > fst mejor then (tot - ind, ind) else mejor)"
| "peor tot (s # ss) ind mejor =
     peor tot ss (paso ind s)
       (if dir_fisica s - ind - 1 > fst mejor then (dir_fisica s - ind - 1, ind) else mejor)"

lemma recorrer_worst_fit_eq:
  "0 \<le> c \<Longrightarrow> -1 \<le> mx \<Longrightarrow> recorrer_worst_fit d ind c mx pos =
     (if ind < d \<and> c + (d - ind) - 1 > mx then (d, c + (d - ind) - 1, ind - c)
      else (max ind d, mx, pos))"
proof (induction d ind c mx pos rule: recorrer_worst_fit.induct)
  case (1 d ind c mx pos)
  show ?case
  proof (cases "ind < d")
    case False
    then show ?thesis by (subst recorrer_worst_fit.simps) auto
  next
    case True
    show ?thesis
    proof (cases "c > mx")
      case mayor: True
      have "recorrer_worst_fit d (ind + 1) (c + 1) c (ind - c) = (d, c + (d - ind) - 1, ind - c)"
        using 1(1) [OF True mayor] "1.prems" True by (cases "ind + 1 < d") auto
      then show ?thesis using True mayor by (subst recorrer_worst_fit.simps) auto
    next
      case False
      have "recorrer_worst_fit d (ind + 1) (c + 1) mx pos =
          (if c + (d - ind) - 1 > mx then (d, c + (d - ind) - 1, ind - c) else (d, mx, pos))"
        using 1(2) [OF True False] "1.prems" True False by (cases "ind + 1 < d") auto
      then show ?thesis using True False by (subst recorrer_worst_fit.simps) auto
    qed
  qed
qed

lemma buscar_worst_fit_peor:
  "en_orden tot ind ss \<Longrightarrow> -1 \<le> mx \<Longrightarrow> buscar_worst_fit tam tot ss ind mx pos =
     (if tam \<le> fst (peor tot ss ind (mx, pos)) then snd (peor tot ss ind (mx, pos)) else -1)"
proof (induction ss arbitrary: ind mx pos)
  case Nil
  then show ?case by (simp add: buscar_worst_fit.simps en_orden_Nil i32_simps)
next
  case (Cons s ss)
  note o = en_orden_seg [OF Cons.prems(1)] and IH = Cons.IH [OF en_orden_Cons [OF Cons.prems(1)]]
  show ?case
  proof (cases "dir_fisica s - ind - 1 > mx")
    case True
    then have "recorrer_worst_fit (dir_fisica s) ind 0 mx pos
        = (max ind (dir_fisica s), dir_fisica s - ind - 1, ind)"
      using Cons.prems(2) by (simp add: recorrer_worst_fit_eq)
    moreover have "max ind (dir_fisica s) + tam_seg s = paso ind s" by (simp add: paso_def)
    moreover have "max ind (dir_fisica s) = dir_fisica s" using True Cons.prems(2) by simp
    ultimately show ?thesis
      using True IH Cons.prems(2) o(8) by (simp add: buscar_worst_fit.simps(2))
  next
    case False
    then have "recorrer_worst_fit (dir_fisica s) ind 0 mx pos = (max ind (dir_fisica s), mx, pos)"
      using Cons.prems(2) by (simp add: recorrer_worst_fit_eq)
    then show ?thesis
      using False IH Cons.prems(2) o(8) by (simp add: buscar_worst_fit.simps(2) flip: paso_def)
  qed
qed

lemma peor_hueco:
  "en_orden tot ind ss \<Longrightarrow> (\<And>p. p \<in> P \<Longrightarrow> dir_fisica p + tam_seg p \<le> ind) \<Longrightarrow>
     mejor = (-1, -1) \<or> 0 \<le> fst mejor \<and> hueco tot (P \<union> set ss) (snd mejor) (fst mejor) \<Longrightarrow>
     0 \<le> fst (peor tot ss ind mejor)
     \<and> hueco tot (P \<union> set ss) (snd (peor tot ss ind mejor)) (fst (peor tot ss ind mejor))"
proof (induction ss arbitrary: ind mejor P)
  case Nil
  then show ?case by (auto simp: en_orden_Nil hueco_def)
next
  case (Cons s ss)
  note o = en_orden_seg [OF Cons.prems(1)]
  let ?mejor = "if dir_fisica s - ind - 1 > fst mejor then (dir_fisica s - ind - 1, ind) else mejor"
  have "?mejor = (-1, -1) \<or> 0 \<le> fst ?mejor \<and> hueco tot (P \<union> set (s # ss)) (snd ?mejor) (fst ?mejor)"
  proof (cases "dir_fisica s - ind - 1 > fst mejor")
    case True
    have "hueco tot (P \<union> set (s # ss)) ind (dir_fisica s - ind - 1)"
      using o Cons.prems(2) en_orden_despues [OF Cons.prems(1)] by (fastforce simp: hueco_def)
    moreover have "-1 \<le> fst mejor" using Cons.prems(3) by auto
    ultimately show ?thesis using True by auto
  next
    case False
    then show ?thesis using Cons.prems(3) by simp
  qed
  moreover have "dir_fisica p + tam_seg p \<le> paso ind s" if "p \<in> insert s P" for p
    using that Cons.prems(2) o(4,5) by fastforce
  moreover have "insert s P \<union> set ss = P \<union> set (s # ss)" by auto
  ultimately show ?case
    using Cons.IH [OF en_orden_Cons [OF Cons.prems(1)], of "insert s P" ?mejor] by simp
qed

lemma peor_maximo:
  "en_orden tot ind ss \<Longrightarrow> -1 \<le> fst mejor \<Longrightarrow> fst mejor \<le> fst (peor tot ss ind mejor) \<and>
     (\<forall>q n. ind \<le> q \<longrightarrow> hueco tot (set ss) q n \<longrightarrow> n \<le> fst (peor tot ss ind mejor) + 1)"
proof (induction ss arbitrary: ind mejor)
  case Nil
  then show ?case by (auto simp: hueco_def)
next
  case (Cons s ss)
  note o = en_orden_seg [OF Cons.prems(1)]
  let ?mejor = "if dir_fisica s - ind - 1 > fst mejor then (dir_fisica s - ind - 1, ind) else mejor"
  have m: "dir_fisica s - ind - 1 \<le> fst ?mejor" "fst mejor \<le> fst ?mejor" by auto
  have IH: "fst ?mejor \<le> fst (peor tot ss (paso ind s) ?mejor)"
    "\<And>q n. paso ind s \<le> q \<Longrightarrow> hueco tot (set ss) q n \<Longrightarrow> n \<le> fst (peor tot ss (paso ind s) ?mejor) + 1"
    using Cons.IH [OF en_orden_Cons [OF Cons.prems(1)], of ?mejor] Cons.prems(2) m(2) by auto
  have "n \<le> fst (peor tot ss (paso ind s) ?mejor) + 1"
    if q: "ind \<le> q" "hueco tot (set (s # ss)) q n" for q n
  proof (cases "q + n \<le> dir_fisica s")
    case True
    then show ?thesis using q(1) m(1) IH(1) by linarith
  next
    case False
    with q(2) have "dir_fisica s + tam_seg s \<le> q" by (auto simp: hueco_def)
    then have "paso ind s \<le> q" using q(1) o(3,9) by (auto simp: paso_def)
    then show ?thesis using IH(2) q(2) by (auto simp: hueco_def)
  qed
  then show ?case using m(2) IH(1) by auto
qed

lemma peor_sin_huecos:
  "en_orden tot ind ss \<Longrightarrow> final ind ss = ind + ocupado ss \<Longrightarrow>
     peor tot ss ind (-1, p) = (tot - ind - ocupado ss, ind + ocupado ss)"
proof (induction ss arbitrary: ind)
  case Nil
  then show ?case by (simp add: en_orden_Nil)
next
  case (Cons s ss)
  note o' = en_orden_Cons [OF Cons.prems(1)]
  have p: "paso ind s = ind + tam_seg s"
    using final_cotas [OF o'] Cons.prems(2) by (simp add: paso_def)
  then have "dir_fisica s \<le> ind" by (simp add: paso_def)
  then show ?case
    using Cons.IH [OF o'] Cons.prems p by (simp add: algebra_simps)
qed

section \<open>Compaction\<close>

text \<open>The layout that compaction produces: every segment right behind its predecessor.\<close>

fun colocar :: "int \<Rightarrow> t_seg list \<Rightarrow> t_seg list" where
  "colocar ind [] = []"
| "colocar ind (s # ss) = s\<lparr>dir_fisica := ind\<rparr> # colocar (ind + tam_seg s) ss"

lemma colocar_map:
  "(\<And>s d. f (s\<lparr>dir_fisica := d\<rparr>) = f s) \<Longrightarrow> map f (colocar ind ss) = map f ss"
  by (induction ss arbitrary: ind) simp_all

lemma ocupado_colocar [simp]: "ocupado (colocar ind ss) = ocupado ss"
  by (simp add: ocupado_def colocar_map)

lemma colocar_en_rango:
  "(\<And>s. s \<in> set ss \<Longrightarrow> 0 \<le> tam_seg s) \<Longrightarrow> t \<in> set (colocar ind ss) \<Longrightarrow>
     ind \<le> dir_fisica t \<and> 0 \<le> tam_seg t \<and> dir_fisica t + tam_seg t \<le> ind + ocupado ss"
proof (induction ss arbitrary: ind)
  case Nil
  then show ?case by simp
next
  case (Cons s ss)
  have p: "0 \<le> tam_seg s" "0 \<le> ocupado ss" and q: "\<And>s. s \<in> set ss \<Longrightarrow> 0 \<le> tam_seg s"
    using Cons.prems(1) by (auto intro: ocupado_no_neg)
  consider "t = s\<lparr>dir_fisica := ind\<rparr>" | "t \<in> set (colocar (ind + tam_seg s) ss)"
    using Cons.prems(2) by auto
  then show ?case
  proof cases
    case 1
    then show ?thesis using p by simp
  next
    case 2
    then show ?thesis using Cons.IH [OF q 2] p by simp
  qed
qed

lemma colocar_ajenos:
  "(\<And>s. s \<in> set ss \<Longrightarrow> 0 \<le> tam_seg s) \<Longrightarrow> sorted_wrt ajenos (colocar ind ss)"
proof (induction ss arbitrary: ind)
  case Nil
  then show ?case by simp
next
  case (Cons s ss)
  have "ind + tam_seg s \<le> dir_fisica t" if "t \<in> set (colocar (ind + tam_seg s) ss)" for t
    using colocar_en_rango [of ss t "ind + tam_seg s"] Cons.prems that by auto
  then show ?case using Cons by (auto simp: ajenos_def)
qed

text \<open>The loop computes that layout, stays inside the memory, and keeps its size.\<close>

lemma compactar_segs_eq:
  "en_orden tot ind ss \<Longrightarrow> int (length mem) = tot \<Longrightarrow> (\<And>i. tot \<le> int (length (pil i))) \<Longrightarrow>
     \<exists>mem'. compactar_segs pil i ind ss mem = Inr (colocar ind ss, mem') \<and> length mem' = length mem"
proof (induction ss arbitrary: i ind mem)
  case Nil
  then show ?case by (simp add: compactar_segs.simps)
next
  case (Cons s ss)
  note o = en_orden_seg [OF Cons.prems(1)]
  have "ind + tam_seg s + ocupado ss \<le> tot"
    using final_cotas [OF Cons.prems(1)] by simp
  moreover have "0 \<le> ocupado ss"
    using Cons.prems(1) by (auto simp: en_orden_def seg_ok_def intro: ocupado_no_neg)
  ultimately have cabe: "ind + tam_seg s \<le> tot" by simp
  then have suma: "i32 (ind + tam_seg s) = ind + tam_seg s" using o by (simp add: i32_simps)
  have "en_orden tot (ind + tam_seg s) ss"
    using Cons.prems(1) en_orden_Cons [OF Cons.prems(1)] cabe o(1,3)
    by (fastforce simp: en_orden_def paso_def)
  note IH = Cons.IH [OF this _ Cons.prems(3)]
  show ?case
  proof (cases "ind = dir_fisica s")
    case True
    then show ?thesis
      using IH [of mem "Suc i"] Cons.prems(2) suma by (auto simp: compactar_segs.simps)
  next
    case False
    have "leer (pil i) 0 (tam_seg s) = Inr (take (nat (tam_seg s)) (pil i))"
      "int (length (take (nat (tam_seg s)) (pil i))) = tam_seg s"
      using leer_prefijo [of "tam_seg s" "pil i"] Cons.prems(3) [of i] cabe o(1,3) by simp_all
    moreover from this(2) obtain mem1
      where "escribir mem ind (take (nat (tam_seg s)) (pil i)) = Inr mem1"
      using cabe o(1) Cons.prems(2) by (simp add: escribir_def)
    moreover from this have "length mem1 = length mem" by (rule length_escribir)
    ultimately show ?thesis
      using IH [of mem1 "Suc i"] Cons.prems(2) False suma by (auto simp: compactar_segs.simps Let_def)
  qed
qed

section \<open>Preservation of the invariant\<close>

lemma umv_inv_lista [umv_intro]:
  "umv_inv u \<Longrightarrow> mset segs = mset (list_seg u) \<Longrightarrow> umv_inv (u\<lparr>list_seg := segs\<rparr>)"
  unfolding umv_inv_def
  using sorted_wrt_mset [of ajenos "list_seg u" segs] ajenos_sym by (auto dest: mset_eq_setD)

lemma umv_inv_ordenado [umv_intro]:
  "umv_inv u \<Longrightarrow> list_sort_ok e \<Longrightarrow>
     umv_inv (u\<lparr>list_seg := list_sort e menor_dir_fisica (list_seg u)\<rparr>)"
  by (rule umv_inv_lista) (simp_all add: list_sort_ok_def)

lemma umv_inv_mem [umv_intro]:
  "umv_inv u \<Longrightarrow> length m = length (mem_prin u) \<Longrightarrow> umv_inv (u\<lparr>mem_prin := m\<rparr>)"
  by (simp add: umv_inv_def)

lemma umv_inv_filtrar: "umv_inv u \<Longrightarrow> umv_inv (u\<lparr>list_seg := filter p (list_seg u)\<rparr>)"
  by (auto simp: umv_inv_def sorted_wrt_filter)

lemma umv_inv_agregar:
  "umv_inv u \<Longrightarrow> hueco (tam_mem_total u) (set (list_seg u)) (dir_fisica s) (tam_seg s) \<Longrightarrow>
     0 \<le> tam_seg s \<Longrightarrow> umv_inv (u\<lparr>list_seg := list_seg u @ [s]\<rparr>)"
  by (auto simp: umv_inv_def hueco_def seg_ok_def sorted_wrt_append ajenos_def)

lemma umv_inv_ocupado:
  assumes "umv_inv u"
  shows "0 \<le> ocupado (list_seg u) \<and> ocupado (list_seg u) \<le> tam_mem_total u"
proof -
  let ?segs = "sort_key dir_fisica (list_seg u)"
  have "sorted_wrt ajenos ?segs"
    using assms sorted_wrt_mset [of ajenos "list_seg u" ?segs] ajenos_sym by (auto simp: umv_inv_def)
  then have "en_orden (tam_mem_total u) 0 ?segs"
    using assms by (auto simp: en_orden_def umv_inv_def seg_ok_def)
  from final_cotas [OF this] have "ocupado ?segs \<le> tam_mem_total u" by linarith
  moreover have "ocupado ?segs = ocupado (list_seg u)" by (rule ocupado_mset) simp
  moreover have "0 \<le> ocupado (list_seg u)"
    using assms by (intro ocupado_no_neg) (auto simp: umv_inv_def seg_ok_def)
  ultimately show ?thesis by simp
qed

lemma hueco_cabe:
  assumes "umv_inv u" "hueco (tam_mem_total u) (set (list_seg u)) r n" "0 \<le> n"
  shows "n \<le> tam_mem_total u - ocupado (list_seg u)"
proof -
  let ?s = "\<lparr>id_proc = 0, dir_logica = 0, dir_fisica = r, tam_seg = n, tipo_seg = 0\<rparr>"
  have "umv_inv (u\<lparr>list_seg := list_seg u @ [?s]\<rparr>)"
    using assms by (intro umv_inv_agregar) simp_all
  from umv_inv_ocupado [OF this] show ?thesis by simp
qed

text \<open>The search only reorders the table.\<close>

lemma buscar_espacio_estado:
  "snd (buscar_espacio_mem_prin e n u) = u\<lparr>list_seg := list_sort e menor_dir_fisica (list_seg u)\<rparr>"
  by (simp add: buscar_espacio_mem_prin_def ordenar_lista_seg_por_dir_fisica_def Let_def)

lemma buscar_espacio_cases:
  obtains (ff) "alg_actual u = FIRST_FIT" "fst (buscar_espacio_mem_prin e n u) =
      buscar_first_fit n (tam_mem_total u) (list_sort e menor_dir_fisica (list_seg u)) 0"
  | (wf) "alg_actual u \<noteq> FIRST_FIT" "fst (buscar_espacio_mem_prin e n u) =
      buscar_worst_fit n (tam_mem_total u) (list_sort e menor_dir_fisica (list_seg u)) 0 (-1) (-1)"
  by (cases "alg_actual u = FIRST_FIT")
     (simp_all add: buscar_espacio_mem_prin_def ordenar_lista_seg_por_dir_fisica_def Let_def)

lemma buscar_espacio_hueco:
  assumes u: "umv_inv u" and e: "list_sort_ok e" and n: "0 \<le> n"
    and r: "fst (buscar_espacio_mem_prin e n u) = r" "r \<noteq> -1"
  shows "hueco (tam_mem_total u) (set (list_seg u)) r n"
proof -
  let ?segs = "list_sort e menor_dir_fisica (list_seg u)"
  note o = umv_inv_en_orden [OF u e] and S = list_sort_set [OF e]
  show ?thesis
  proof (cases rule: buscar_espacio_cases [of u e n])
    case ff
    then show ?thesis using buscar_first_fit_hueco [OF o n] r S by auto
  next
    case wf
    let ?p = "peor (tam_mem_total u) ?segs 0 (-1, -1)"
    have "hueco (tam_mem_total u) (set ?segs) (snd ?p) (fst ?p)"
      using peor_hueco [OF o, of "{}" "(-1, -1)"] by simp
    moreover have "n \<le> fst ?p" "r = snd ?p"
      using wf(2) r buscar_worst_fit_peor [OF o, of "-1" n "-1"] by (simp_all split: if_splits)
    ultimately show ?thesis using S by (fastforce simp: hueco_def)
  qed
qed

lemma buscar_espacio_falla:
  assumes u: "umv_inv u" and e: "list_sort_ok e" and n: "0 \<le> n"
    and r: "fst (buscar_espacio_mem_prin e n u) = -1"
  shows "\<not> hueco (tam_mem_total u) (set (list_seg u)) q (n + 1)"
proof
  let ?segs = "list_sort e menor_dir_fisica (list_seg u)"
  note o = umv_inv_en_orden [OF u e] and S = list_sort_set [OF e]
  assume h: "hueco (tam_mem_total u) (set (list_seg u)) q (n + 1)"
  then have q: "0 \<le> q" "hueco (tam_mem_total u) (set ?segs) q (n + 1)"
    by (auto simp: S hueco_def)
  show False
  proof (cases rule: buscar_espacio_cases [of u e n])
    case ff
    then show ?thesis using buscar_first_fit_completo [OF o n q] r by simp
  next
    case wf
    let ?p = "peor (tam_mem_total u) ?segs 0 (-1, -1)"
    have "n \<le> fst ?p" using peor_maximo [OF o, of "(-1, -1)"] q by fastforce
    moreover have "hueco (tam_mem_total u) (set ?segs) (snd ?p) (fst ?p)"
      using peor_hueco [OF o, of "{}" "(-1, -1)"] by simp
    ultimately show ?thesis
      using wf(2) r buscar_worst_fit_peor [OF o, of "-1" n "-1"] by (auto simp: hueco_def)
  qed
qed

text \<open>
  Without holes between the segments both algorithms give the start of the free tail, and
  they fail exactly when the request is larger than the tail.
\<close>

definition compacta :: "umv \<Rightarrow> bool" where
  "compacta u \<longleftrightarrow> (\<forall>s \<in> set (list_seg u). dir_fisica s + tam_seg s \<le> ocupado (list_seg u))"

lemma buscar_espacio_compacta:
  assumes u: "umv_inv u" and e: "list_sort_ok e" and n: "0 \<le> n" and c: "compacta u"
  shows "fst (buscar_espacio_mem_prin e n u) =
    (if n \<le> tam_mem_total u - ocupado (list_seg u) then ocupado (list_seg u) else -1)"
proof -
  let ?segs = "list_sort e menor_dir_fisica (list_seg u)"
  note o = umv_inv_en_orden [OF u e]
  have oc: "ocupado ?segs = ocupado (list_seg u)"
    by (rule ocupado_mset) (use e in \<open>simp add: list_sort_ok_def\<close>)
  have "en_orden (ocupado ?segs) 0 ?segs"
    using o c umv_inv_ocupado [OF u] unfolding en_orden_def compacta_def seg_ok_def oc
    by (auto simp: list_sort_set [OF e])
  from final_cotas [OF this] have f: "final 0 ?segs = 0 + ocupado ?segs" by simp
  show ?thesis
  proof (cases rule: buscar_espacio_cases [of u e n])
    case ff
    then show ?thesis using buscar_first_fit_sin_huecos [OF o n f] oc by simp
  next
    case wf
    then show ?thesis
      using buscar_worst_fit_peor [OF o, of "-1" n "-1"] peor_sin_huecos [OF o f, of "-1"] oc by simp
  qed
qed

lemma compactar_ok:
  assumes u: "umv_inv u" and e: "list_sort_ok e" "pila_ok e (tam_mem_total u)"
  obtains m where "length m = length (mem_prin u)"
    "compactar e u = Inr (u\<lparr>list_seg := colocar 0 (list_sort e menor_dir_fisica (list_seg u)),
       mem_prin := m\<rparr>)"
proof -
  note o = umv_inv_en_orden [OF u e(1)]
  obtain m where "length m = length (mem_prin u)"
    "compactar_segs (pila e) 0 0 (list_sort e menor_dir_fisica (list_seg u)) (mem_prin u)
      = Inr (colocar 0 (list_sort e menor_dir_fisica (list_seg u)), m)"
    using compactar_segs_eq [OF o, of "mem_prin u" "pila e" 0] u e(2)
    by (auto simp: umv_inv_def pila_ok_def)
  then show thesis
    by (intro that [of m]) (simp_all add: compactar_def ordenar_lista_seg_por_dir_fisica_def Let_def)
qed

lemma umv_inv_colocar:
  assumes u: "umv_inv u" and segs: "mset segs = mset (list_seg u)" and m: "length m = length (mem_prin u)"
  shows "umv_inv (u\<lparr>list_seg := colocar 0 segs, mem_prin := m\<rparr>)
    \<and> compacta (u\<lparr>list_seg := colocar 0 segs, mem_prin := m\<rparr>)"
proof -
  have t: "0 \<le> tam_seg s" if "s \<in> set segs" for s
    using u that mset_eq_setD [OF segs] by (auto simp: umv_inv_def seg_ok_def)
  have oc: "ocupado segs \<le> tam_mem_total u"
    using umv_inv_ocupado [OF u] ocupado_mset [OF segs] by simp
  have "seg_ok (tam_mem_total u) s \<and> dir_fisica s + tam_seg s \<le> ocupado segs"
    if "s \<in> set (colocar 0 segs)" for s
    using colocar_en_rango [OF t that] oc by (simp add: seg_ok_def)
  then show ?thesis
    using u m colocar_ajenos [OF t, where ind = 0] by (simp add: umv_inv_def compacta_def)
qed

text \<open>
  What identifies a segment besides its address: creation and compaction may move segments,
  they never lose, resize or rename one.
\<close>

definition sin_dir :: "t_seg \<Rightarrow> t_seg" where
  "sin_dir s = s\<lparr>dir_fisica := 0\<rparr>"

lemma sin_dir_colocar: "map sin_dir (colocar ind segs) = map sin_dir segs"
  by (rule colocar_map) (simp add: sin_dir_def)

definition contenido :: "umv \<Rightarrow> t_seg multiset" where
  "contenido u = image_mset sin_dir (mset (list_seg u))"

definition marco :: "umv \<Rightarrow> umv \<Rightarrow> bool" where
  "marco u u' \<longleftrightarrow> tam_mem_total u' = tam_mem_total u \<and> alg_actual u' = alg_actual u
     \<and> length (mem_prin u') = length (mem_prin u) \<and> umv_retardo u' = umv_retardo u
     \<and> umv_quit u' = umv_quit u"

definition seg_nuevo :: "int \<Rightarrow> t_men_seg \<Rightarrow> t_seg" where
  "seg_nuevo a men = \<lparr>id_proc = ms_id_prog men, dir_logica = a, dir_fisica = 0,
     tam_seg = ms_tam_seg men, tipo_seg = tipo_seg_pedido (ms_tipo men)\<rparr>"

lemma contenido_ordenado:
  "list_sort_ok e \<Longrightarrow>
     contenido (u\<lparr>list_seg := list_sort e menor_dir_fisica (list_seg u)\<rparr>) = contenido u"
  by (simp add: contenido_def list_sort_ok_def)

lemma ocupado_contenido: "contenido u = contenido u' \<Longrightarrow> ocupado (list_seg u) = ocupado (list_seg u')"
proof -
  have oc: "ocupado (list_seg v) = \<Sum>\<^sub># (image_mset tam_seg (contenido v))" for v
  proof -
    have "image_mset tam_seg (contenido v) = mset (map tam_seg (list_seg v))"
      by (simp add: contenido_def sin_dir_def image_mset.compositionality comp_def)
    then show ?thesis by (simp only: ocupado_def sum_mset_sum_list)
  qed
  assume "contenido u = contenido u'"
  then show ?thesis by (simp add: oc)
qed

text \<open>
  Creation, on a table that a first search has or has not found a place in: the segment is
  appended where the search put it.
\<close>

lemma crear_con_lugar:
  assumes u: "umv_inv u" and e: "list_sort_ok e" and n: "0 \<le> ms_tam_seg men"
    and r: "fst (buscar_espacio_mem_prin e (ms_tam_seg men) u) = r" "r \<noteq> -1"
  shows "umv_inv (u\<lparr>list_seg := list_sort e menor_dir_fisica (list_seg u)
      @ [(seg_nuevo a men)\<lparr>dir_fisica := r\<rparr>]\<rparr>)"
proof -
  let ?u = "u\<lparr>list_seg := list_sort e menor_dir_fisica (list_seg u)\<rparr>"
  have "umv_inv ?u" by (rule umv_inv_ordenado [OF u e])
  moreover have "hueco (tam_mem_total ?u) (set (list_seg ?u)) r (ms_tam_seg men)"
    using buscar_espacio_hueco [OF u e n r] list_sort_set [OF e] by simp
  ultimately show ?thesis
    using umv_inv_agregar [of ?u "(seg_nuevo a men)\<lparr>dir_fisica := r\<rparr>"] n by (simp add: seg_nuevo_def)
qed

lemma crear_ok:
  assumes u: "umv_inv u" and e: "list_sort_ok e" "pila_ok e (tam_mem_total u)"
    and n: "0 \<le> ms_tam_seg men"
  shows "\<exists>u'. crearSegmento e a men u =
      Inr (if ms_tam_seg men \<le> tam_mem_total u - ocupado (list_seg u) then a else -1, u')
    \<and> umv_inv u' \<and> marco u u'
    \<and> contenido u' = contenido u +
        (if ms_tam_seg men \<le> tam_mem_total u - ocupado (list_seg u) then {#seg_nuevo a men#} else {#})"
proof -
  let ?n = "ms_tam_seg men" and ?sort = "list_sort e menor_dir_fisica"
  let ?u1 = "u\<lparr>list_seg := ?sort (list_seg u)\<rparr>"
  have i1: "umv_inv ?u1" "contenido ?u1 = contenido u"
    using umv_inv_ordenado [OF u e(1)] contenido_ordenado [OF e(1)] by simp_all
  obtain r where r: "buscar_espacio_mem_prin e ?n u = (r, ?u1)"
    using buscar_espacio_estado [of e ?n u] by (metis prod.collapse)
  show ?thesis
  proof (cases "r = -1")
    case False
    let ?u' = "u\<lparr>list_seg := ?sort (list_seg u) @ [(seg_nuevo a men)\<lparr>dir_fisica := r\<rparr>]\<rparr>"
    have "?n \<le> tam_mem_total u - ocupado (list_seg u)"
      using hueco_cabe [OF u _ n] buscar_espacio_hueco [OF u e(1) n _ False] r by simp
    moreover have "crearSegmento e a men u = Inr (a, ?u')"
      using r False by (simp add: crearSegmento_def seg_nuevo_def)
    moreover have "umv_inv ?u'" using crear_con_lugar [OF u e(1) n _ False] r by simp
    moreover have "contenido ?u' = contenido u + {#seg_nuevo a men#}"
      using i1(2) by (simp add: contenido_def sin_dir_def seg_nuevo_def)
    ultimately show ?thesis by (intro exI [of _ ?u']) (simp add: marco_def)
  next
    case True
    obtain m where m: "length m = length (mem_prin u)"
      "compactar e ?u1 = Inr (u\<lparr>list_seg := colocar 0 (?sort (?sort (list_seg u))), mem_prin := m\<rparr>)"
      using compactar_ok [OF i1(1) e(1)] e(2) by auto
    let ?u2 = "u\<lparr>list_seg := colocar 0 (?sort (?sort (list_seg u))), mem_prin := m\<rparr>"
    have mset2: "mset (?sort (?sort (list_seg u))) = mset (list_seg u)"
      using e(1) by (simp add: list_sort_ok_def)
    have i2: "umv_inv ?u2" "compacta ?u2" using umv_inv_colocar [OF u mset2 m(1)] by auto
    have c2: "contenido ?u2 = contenido u"
      unfolding contenido_def using mset2
      by (metis mset_map sin_dir_colocar umv.select_convs(3) umv.simps(9) umv.surjective umv.update_convs(1,3))
    have libre: "tam_mem_total ?u2 - ocupado (list_seg ?u2) = tam_mem_total u - ocupado (list_seg u)"
      using ocupado_contenido [OF c2] by simp
    let ?u3 = "?u2\<lparr>list_seg := ?sort (list_seg ?u2)\<rparr>"
    obtain r' where r2: "buscar_espacio_mem_prin e ?n ?u2 = (r', ?u3)"
      using buscar_espacio_estado [of e ?n ?u2] by (metis prod.collapse)
    have i3: "umv_inv ?u3" "contenido ?u3 = contenido u"
      using umv_inv_ordenado [OF i2(1) e(1)] contenido_ordenado [OF e(1), of ?u2] c2 by simp_all
    have r3: "r' = (if ?n \<le> tam_mem_total u - ocupado (list_seg u) then ocupado (list_seg ?u2) else -1)"
      using buscar_espacio_compacta [OF i2(1) e(1) n i2(2)] libre r2 by simp
    show ?thesis
    proof (cases "r' = -1")
      case falla: True
      moreover have "0 \<le> ocupado (list_seg ?u2)" using umv_inv_ocupado [OF i2(1)] by blast
      ultimately have "\<not> ?n \<le> tam_mem_total u - ocupado (list_seg u)" using r3 by auto
      moreover have "crearSegmento e a men u = Inr (-1, ?u3)"
        using r True m(2) r2 falla by (simp add: crearSegmento_def)
      ultimately show ?thesis using i3 m(1) by (intro exI [of _ ?u3]) (simp add: marco_def)
    next
      case False
      let ?u4 = "?u2\<lparr>list_seg := ?sort (list_seg ?u2) @ [(seg_nuevo a men)\<lparr>dir_fisica := r'\<rparr>]\<rparr>"
      have "?n \<le> tam_mem_total u - ocupado (list_seg u)" using r3 False by (simp split: if_splits)
      moreover have "crearSegmento e a men u = Inr (a, ?u4)"
        using r True m(2) r2 False by (simp add: crearSegmento_def seg_nuevo_def)
      moreover have "umv_inv ?u4" using crear_con_lugar [OF i2(1) e(1) n _ False] r2 by simp
      moreover have "contenido ?u4 = contenido u + {#seg_nuevo a men#}"
        using i3(2) by (simp add: contenido_def sin_dir_def seg_nuevo_def)
      ultimately show ?thesis using m(1) by (intro exI [of _ ?u4]) (simp add: marco_def)
    qed
  qed
qed

end
