(* ===== verification/UMV_Acceso.thy ===== *)
theory UMV_Acceso
  imports UMV_Inv
begin

text \<open>
  Reads and writes of the processes: what they return on every branch, when they leave the
  memory, and that the segments protect the processes from each other.
\<close>

named_theorems acceso_simps "reads and writes inside the bounds of the memory"

section \<open>Looking a segment up\<close>

lemma buscar_dir_logica_Some:
  "buscar_segmento_dir_logica u p b = Some s \<Longrightarrow>
     s \<in> set (list_seg u) \<and> dir_logica s = b \<and> id_proc s = p"
  by (auto simp: buscar_segmento_dir_logica_def find_Some_iff)

lemma buscar_tipo_Some:
  "buscar_segmento_tipo_seg u p t = Some s \<Longrightarrow>
     s \<in> set (list_seg u) \<and> tipo_seg s = t \<and> id_proc s = p"
  by (auto simp: buscar_segmento_tipo_seg_def find_Some_iff)

lemma buscar_mem [simp]:
  "buscar_segmento_dir_logica (u\<lparr>mem_prin := m\<rparr>) p b = buscar_segmento_dir_logica u p b"
  "buscar_segmento_tipo_seg (u\<lparr>mem_prin := m\<rparr>) p b = buscar_segmento_tipo_seg u p b"
  by (simp_all add: buscar_segmento_dir_logica_def buscar_segmento_tipo_seg_def)

lemma umv_inv_seg:
  "umv_inv u \<Longrightarrow> s \<in> set (list_seg u) \<Longrightarrow> 0 \<le> dir_fisica s \<and> 0 \<le> tam_seg s
     \<and> dir_fisica s + tam_seg s \<le> int (length (mem_prin u))"
  by (auto simp: umv_inv_def seg_ok_def)

lemma umv_inv_ajenos:
  assumes "umv_inv u" "s \<in> set (list_seg u)" "t \<in> set (list_seg u)" "s \<noteq> t"
  shows "ajenos s t"
proof -
  obtain i j where ij: "i < length (list_seg u)" "j < length (list_seg u)"
    "s = list_seg u ! i" "t = list_seg u ! j"
    using assms(2,3) by (metis in_set_conv_nth)
  then have "i < j \<or> j < i" using assms(4) by (metis linorder_neqE_nat)
  then show ?thesis
    using assms(1) ij ajenos_sym unfolding umv_inv_def by (metis sorted_wrt_nth_less)
qed

section \<open>The bounds check\<close>

text \<open>The accesses that the check lets through, with the sums as integers.\<close>

definition rechaza :: "umv \<Rightarrow> int \<Rightarrow> int \<Rightarrow> int \<Rightarrow> bool" where
  "rechaza u base offset tam \<longleftrightarrow>
     offset < 0 \<or> base < 0 \<or> tam_mem_total u < offset \<or> tam_mem_total u < tam"

lemma rango_acceso:
  assumes "umv_inv u" "tam_mem_total u < 1073741824" "s \<in> set (list_seg u)"
    "0 \<le> off" "off \<le> tam_mem_total u" "0 \<le> tam" "tam \<le> tam_mem_total u"
  shows "i32 (off + tam) = off + tam" "i32 (dir_fisica s + off) = dir_fisica s + off"
  using assms umv_inv_seg [OF assms(1,3)] by (auto simp: umv_inv_def i32_simps)

lemma solicitar_bytes_eq:
  assumes u: "umv_inv u" "tam_mem_total u < 1073741824" and tam: "0 \<le> tam"
  shows "solicitar_bytes fresco u p base off tam = Inr
    (if rechaza u base off tam then None
     else case buscar_segmento_dir_logica u p base of
       None \<Rightarrow> Some (map fresco [0..<nat tam])
     | Some s \<Rightarrow> if tam_seg s < off + tam then None
         else Some (take (nat tam) (drop (nat (dir_fisica s + off)) (mem_prin u))))"
proof (cases "rechaza u base off tam")
  case True
  then show ?thesis by (simp add: solicitar_bytes_def rechaza_def)
next
  case False
  then have r: "0 \<le> off" "off \<le> tam_mem_total u" "tam \<le> tam_mem_total u"
    "\<not> (off < 0 \<or> base < 0 \<or> tam_mem_total u < off \<or> tam_mem_total u < tam)"
    by (auto simp: rechaza_def)
  show ?thesis
  proof (cases "buscar_segmento_dir_logica u p base")
    case None
    then show ?thesis using r(4) tam False by (simp add: solicitar_bytes_def)
  next
    case (Some s)
    have s: "s \<in> set (list_seg u)" using buscar_dir_logica_Some [OF Some] by blast
    note i = rango_acceso [OF u s r(1,2) tam r(3)] and m = umv_inv_seg [OF u(1) s]
    show ?thesis
    proof (cases "tam_seg s < off + tam")
      case True
      then show ?thesis using r(4) tam False Some i by (simp add: solicitar_bytes_def)
    next
      case fits: False
      then have "leer (mem_prin u) (dir_fisica s + off) tam
          = Inr (take (nat tam) (drop (nat (dir_fisica s + off)) (mem_prin u)))"
        using m r tam by (simp add: leer_ok)
      then show ?thesis using r(4) tam False Some i fits by (simp add: solicitar_bytes_def)
    qed
  qed
qed

text \<open>A write of a buffer of the announced size.\<close>

lemma almacenar_bytes_eq:
  assumes u: "umv_inv u" "tam_mem_total u < 1073741824"
  shows "almacenar_bytes p base off (int (length buf)) buf u =
    (if rechaza u base off (int (length buf)) then Inr (codigo SEGMEN_FAULT, u)
     else case buscar_segmento_dir_logica u p base of
       None \<Rightarrow> Inl Puntero_Nulo
     | Some s \<Rightarrow> if tam_seg s < off + int (length buf) then Inr (codigo SEGMEN_FAULT, u)
         else Inr (codigo R_ALM_BYTES, u\<lparr>mem_prin := take (nat (dir_fisica s + off)) (mem_prin u)
           @ buf @ drop (nat (dir_fisica s + off) + length buf) (mem_prin u)\<rparr>))"
proof (cases "rechaza u base off (int (length buf))")
  case True
  then show ?thesis by (simp add: almacenar_bytes_def rechaza_def)
next
  case False
  then have r: "0 \<le> off" "off \<le> tam_mem_total u" "int (length buf) \<le> tam_mem_total u"
    "\<not> (off < 0 \<or> base < 0 \<or> tam_mem_total u < off \<or> tam_mem_total u < int (length buf))"
    by (auto simp: rechaza_def)
  show ?thesis
  proof (cases "buscar_segmento_dir_logica u p base")
    case None
    then show ?thesis using r(4) False by (simp add: almacenar_bytes_def)
  next
    case (Some s)
    have s: "s \<in> set (list_seg u)" using buscar_dir_logica_Some [OF Some] by blast
    note i = rango_acceso [OF u s r(1,2) _ r(3)] and m = umv_inv_seg [OF u(1) s]
    show ?thesis
    proof (cases "tam_seg s < off + int (length buf)")
      case True
      then show ?thesis using r(4) False Some i by (simp add: almacenar_bytes_def)
    next
      case fits: False
      then have "escribir (mem_prin u) (dir_fisica s + off) buf
          = Inr (take (nat (dir_fisica s + off)) (mem_prin u) @ buf
              @ drop (nat (dir_fisica s + off) + length buf) (mem_prin u))"
        using m r by (simp add: escribir_ok)
      then show ?thesis
        using r(4) False Some i fits by (simp add: almacenar_bytes_def leer_todo)
    qed
  qed
qed

section \<open>Writes\<close>

text \<open>A write that succeeds is a write into the segment that starts at the base.\<close>

lemma almacenar_bytes_ok:
  assumes u: "umv_inv u" "tam_mem_total u < 1073741824"
    and w: "almacenar_bytes p base off (int (length buf)) buf u = Inr (codigo R_ALM_BYTES, u')"
  obtains s m where "buscar_segmento_dir_logica u p base = Some s" "0 \<le> off"
    "off + int (length buf) \<le> tam_seg s" "\<not> rechaza u base off (int (length buf))"
    "escribir (mem_prin u) (dir_fisica s + off) buf = Inr m" "u' = u\<lparr>mem_prin := m\<rparr>"
proof -
  let ?n = "int (length buf)"
  have r: "\<not> rechaza u base off ?n"
    using w by (auto simp: almacenar_bytes_eq [OF u] split: if_splits)
  then obtain s where s: "buscar_segmento_dir_logica u p base = Some s"
    using w by (auto simp: almacenar_bytes_eq [OF u] split: if_splits option.splits)
  then have f: "off + ?n \<le> tam_seg s"
    using w r by (auto simp: almacenar_bytes_eq [OF u] split: if_splits)
  have m: "0 \<le> dir_fisica s" "dir_fisica s + tam_seg s \<le> int (length (mem_prin u))" "0 \<le> off"
    using umv_inv_seg [OF u(1)] buscar_dir_logica_Some [OF s] r by (auto simp: rechaza_def)
  let ?m = "take (nat (dir_fisica s + off)) (mem_prin u) @ buf
    @ drop (nat (dir_fisica s + off) + length buf) (mem_prin u)"
  have "escribir (mem_prin u) (dir_fisica s + off) buf = Inr ?m"
    using m f by (simp add: escribir_ok)
  moreover have "u' = u\<lparr>mem_prin := ?m\<rparr>"
    using w r s f by (simp add: almacenar_bytes_eq [OF u])
  ultimately show thesis using that s m(3) f r by blast
qed

lemma almacenar_bytes_inv:
  assumes "umv_inv u" "almacenar_bytes p base off tam buf u = Inr (c, u')"
  shows "umv_inv u' \<and> marco u u' \<and> list_seg u' = list_seg u"
  using assms
  by (auto simp: almacenar_bytes_def bindE_eq_Inr Let_def marco_def umv_inv_mem length_escribir
      split: if_splits)

lemma almacenar_segmento_inv:
  assumes "umv_inv u" "almacenar_segmento men p u = Inr u'"
  shows "umv_inv u' \<and> marco u u' \<and> list_seg u' = list_seg u"
  using assms
  by (auto simp: almacenar_segmento_def bindE_eq_Inr marco_def umv_inv_mem length_escribir
      split: if_splits option.splits)

text \<open>Reads after a write, inside the written range and anywhere else.\<close>

lemma leer_tras_almacenar:
  assumes u: "umv_inv u" "tam_mem_total u < 1073741824"
    and w: "almacenar_bytes p base off (int (length buf)) buf u = Inr (codigo R_ALM_BYTES, u')"
  shows "solicitar_bytes fresco u' p base off (int (length buf)) = Inr (Some buf)"
proof -
  obtain s m where s: "buscar_segmento_dir_logica u p base = Some s" "0 \<le> off"
      "off + int (length buf) \<le> tam_seg s" "\<not> rechaza u base off (int (length buf))"
    and m: "escribir (mem_prin u) (dir_fisica s + off) buf = Inr m" "u' = u\<lparr>mem_prin := m\<rparr>"
    by (rule almacenar_bytes_ok [OF u w])
  have i: "umv_inv u'" "tam_mem_total u' < 1073741824"
    using almacenar_bytes_inv [OF u(1) w] u(2) by (auto simp: marco_def)
  have "leer m (dir_fisica s + off) (int (length buf)) = Inr buf"
    by (rule leer_escribir_mismo [OF m(1)])
  then have "take (length buf) (drop (nat (dir_fisica s + off)) m) = buf"
    by (simp add: leer_Inr_iff)
  then show ?thesis
    unfolding solicitar_bytes_eq [OF i of_nat_0_le_iff] using s m(2) by (simp add: rechaza_def)
qed

lemma leer_aparte:
  assumes u: "umv_inv u" "tam_mem_total u < 1073741824" and n: "0 \<le> n"
    and w: "almacenar_bytes p base off (int (length buf)) buf u = Inr (c, u')"
    and d: "q \<noteq> p \<or> base' = base \<and> (off' + n \<le> off \<or> off + int (length buf) \<le> off')"
  shows "solicitar_bytes fresco u' q base' off' n = solicitar_bytes fresco u q base' off' n"
proof (cases "c = codigo R_ALM_BYTES")
  case False
  then have "u' = u"
    using w by (auto simp: almacenar_bytes_eq [OF u] split: if_splits option.splits)
  then show ?thesis by simp
next
  case True
  note w = w [unfolded True]
  obtain s m where s: "buscar_segmento_dir_logica u p base = Some s" "0 \<le> off"
      "off + int (length buf) \<le> tam_seg s"
    and m: "escribir (mem_prin u) (dir_fisica s + off) buf = Inr m" "u' = u\<lparr>mem_prin := m\<rparr>"
    by (rule almacenar_bytes_ok [OF u w])
  have i: "umv_inv u'" "tam_mem_total u' < 1073741824" "rechaza u' = rechaza u"
    using almacenar_bytes_inv [OF u(1) w] u(2) m(2) by (auto simp: marco_def rechaza_def fun_eq_iff)
  have "take (nat n) (drop (nat (dir_fisica t + off')) m)
      = take (nat n) (drop (nat (dir_fisica t + off')) (mem_prin u))"
    if t: "buscar_segmento_dir_logica u q base' = Some t" "\<not> rechaza u base' off' n"
      "off' + n \<le> tam_seg t" for t
  proof -
    have off': "0 \<le> off'" using t(2) by (auto simp: rechaza_def)
    have aparte: "dir_fisica t + off' + n \<le> dir_fisica s + off
        \<or> dir_fisica s + off + int (length buf) \<le> dir_fisica t + off'"
    proof (cases "q = p")
      case True
      then show ?thesis using d s(1) t(1) by auto
    next
      case False
      then have "s \<noteq> t" using buscar_dir_logica_Some s(1) t(1) by blast
      then have "ajenos s t"
        using umv_inv_ajenos [OF u(1)] buscar_dir_logica_Some s(1) t(1) by blast
      then show ?thesis using s(2,3) t(3) off' by (auto simp: ajenos_def)
    qed
    have "leer m (dir_fisica t + off') n = leer (mem_prin u) (dir_fisica t + off') n"
      by (rule leer_escribir_aparte [OF m(1) aparte])
    then show ?thesis
      using umv_inv_seg [OF u(1)] buscar_dir_logica_Some [OF t(1)] t(3) off' n
        length_escribir [OF m(1)] by (fastforce simp: leer_def)
  qed
  then show ?thesis
    unfolding solicitar_bytes_eq [OF i(1,2) n] solicitar_bytes_eq [OF u n]
    using m(2) i(3) by (auto split: option.splits)
qed

section \<open>Destroying the segments of a process\<close>

lemma filtrar_remove:
  "list_ex p xs \<Longrightarrow>
     filter (\<lambda>x. \<not> p x) (snd (list_remove_by_condition p xs)) = filter (\<lambda>x. \<not> p x) xs"
  by (induction xs) (auto split: prod.splits)

lemma quitar_segs_filter: "quitar_segs p xs = filter (\<lambda>x. \<not> p x) xs"
proof (induction p xs rule: quitar_segs.induct)
  case (1 p xs)
  show ?case
  proof (cases "list_ex p xs")
    case True
    then show ?thesis using 1 by (subst quitar_segs.simps) (simp add: filtrar_remove)
  next
    case False
    then have "\<not> p x" if "x \<in> set xs" for x using that by (auto simp: list_ex_iff)
    then have "filter (\<lambda>x. \<not> p x) xs = xs" by (simp add: filter_id_conv)
    then show ?thesis using False by (subst quitar_segs.simps) simp
  qed
qed

lemma destruirSegmentos_eq:
  "destruirSegmentos p u =
     u\<lparr>list_seg := filter (\<lambda>s. p \<noteq> 0 \<and> id_proc s \<noteq> p) (list_seg u)\<rparr>"
  by (simp add: destruirSegmentos_def quitar_segs_filter)

lemma destruirSegmentos_inv: "umv_inv u \<Longrightarrow> umv_inv (destruirSegmentos p u) \<and> marco u (destruirSegmentos p u)"
  by (simp add: destruirSegmentos_eq umv_inv_filtrar marco_def)

lemma find_filtrar:
  "(\<And>x. x \<in> set xs \<Longrightarrow> p x \<Longrightarrow> q x) \<Longrightarrow> find p (filter q xs) = find p xs"
  by (induction xs) auto

lemma destruir_otro:
  "p \<noteq> 0 \<Longrightarrow> q \<noteq> p \<Longrightarrow>
     buscar_segmento_dir_logica (destruirSegmentos p u) q b = buscar_segmento_dir_logica u q b"
  by (auto simp: destruirSegmentos_eq buscar_segmento_dir_logica_def intro: find_filtrar)

lemma destruir_propio:
  "id_proc s = p \<Longrightarrow> s \<notin> set (list_seg (destruirSegmentos p u))"
  by (auto simp: destruirSegmentos_eq)

end
