(* ===== verification/Interfaz.thy ===== *)
theory Interfaz
  imports Sockets
begin

text \<open>
  The contract between a CPU (client) and the memory unit (provider), as the CPU relies on
  it. \<open>srv q m\<close> is the provider's reaction to the request \<open>q\<close>: the reply, if the request
  has one, and the next state. \<open>vista m b\<close> is what the active process sees at the logical
  base \<open>b\<close>: the bytes of a segment, or nothing.
\<close>

definition respuesta_vacia :: "tipo_datos \<Rightarrow> t_men_comun" where
  "respuesta_vacia t = \<lparr>tam_dato = 0, tipo = codigo t, dato = []\<rparr>"

definition respuesta_bytes :: "byte list \<Rightarrow> t_men_comun" where
  "respuesta_bytes bs =
     \<lparr>tam_dato = int (length bs), tipo = codigo R_SOL_BYTES, dato = bs\<rparr>"

definition reemplazar :: "byte list \<Rightarrow> int \<Rightarrow> byte list \<Rightarrow> byte list" where
  "reemplazar bs off buf = take (nat off) bs @ buf @ drop (nat off + length buf) bs"

lemma length_reemplazar [simp]:
  "0 \<le> off \<Longrightarrow> off + int (length buf) \<le> int (length bs) \<Longrightarrow>
     length (reemplazar bs off buf) = length bs"
  by (simp add: reemplazar_def)

lemma reemplazar_mismo:
  "0 \<le> off \<Longrightarrow> off + int (length buf) \<le> int (length bs) \<Longrightarrow>
     take (length buf) (drop (nat off) (reemplazar bs off buf)) = buf"
  by (simp add: reemplazar_def)

lemma reemplazar_aparte:
  assumes "0 \<le> off" "off + int (length buf) \<le> int (length bs)" "0 \<le> off'" "0 \<le> n"
    "off' + n \<le> off \<or> off + int (length buf) \<le> off'"
  shows "take (nat n) (drop (nat off') (reemplazar bs off buf)) = take (nat n) (drop (nat off') bs)"
proof (cases "off' + n \<le> off")
  case True
  then have "nat n + nat off' \<le> nat off" using assms by simp
  then show ?thesis using assms(1,2) by (auto simp: reemplazar_def take_drop min_def)
next
  case False
  then have "nat off + length buf \<le> nat off'" using assms by simp
  then show ?thesis using assms(1,2) by (simp add: reemplazar_def)
qed

locale memoria_remota =
  fixes srv :: "t_men_cpu_umv \<Rightarrow> 'm \<Rightarrow> (t_men_comun option \<times> 'm) res"
    and inv :: "'m \<Rightarrow> bool"
    and vista :: "'m \<Rightarrow> int \<Rightarrow> byte list option"
  assumes sol_ok: "inv m \<Longrightarrow> vista m (cu_base q) = Some bs \<Longrightarrow> cu_tipo q = codigo SOL_BYTES \<Longrightarrow>
      0 \<le> cu_offset q \<Longrightarrow> 0 \<le> cu_tam q \<Longrightarrow> cu_offset q + cu_tam q \<le> int (length bs) \<Longrightarrow>
      srv q m = Inr (Some (respuesta_bytes (take (nat (cu_tam q)) (drop (nat (cu_offset q)) bs))), m)"
    and sol_mal: "inv m \<Longrightarrow> vista m (cu_base q) = Some bs \<Longrightarrow> cu_tipo q = codigo SOL_BYTES \<Longrightarrow>
      0 \<le> cu_tam q \<Longrightarrow> cu_offset q < 0 \<or> int (length bs) < cu_offset q + cu_tam q \<Longrightarrow>
      srv q m = Inr (Some (respuesta_vacia SEGMEN_FAULT), m)"
    and alm_ok: "inv m \<Longrightarrow> vista m (cu_base q) = Some bs \<Longrightarrow> cu_tipo q = codigo ALM_BYTES \<Longrightarrow>
      0 \<le> cu_offset q \<Longrightarrow> cu_tam q = int (length (cu_buffer q)) \<Longrightarrow>
      cu_offset q + cu_tam q \<le> int (length bs) \<Longrightarrow>
      \<exists>m'. srv q m = Inr (Some (respuesta_vacia R_ALM_BYTES), m') \<and> inv m' \<and>
        vista m' = (vista m)(cu_base q \<mapsto> reemplazar bs (cu_offset q) (cu_buffer q))"
    and alm_mal: "inv m \<Longrightarrow> vista m (cu_base q) = Some bs \<Longrightarrow> cu_tipo q = codigo ALM_BYTES \<Longrightarrow>
      cu_tam q = int (length (cu_buffer q)) \<Longrightarrow>
      cu_offset q < 0 \<or> int (length bs) < cu_offset q + cu_tam q \<Longrightarrow>
      srv q m = Inr (Some (respuesta_vacia SEGMEN_FAULT), m)"
begin

text \<open>What the client builds on: a write is what later reads see, at its place and only there.\<close>

lemma escribir_leer:
  assumes "inv m" "vista m b = Some bs" "0 \<le> off" "off + int (length buf) \<le> int (length bs)"
    and "cu_tipo q = codigo ALM_BYTES" "cu_base q = b" "cu_offset q = off"
      "cu_tam q = int (length buf)" "cu_buffer q = buf"
  obtains m' where "srv q m = Inr (Some (respuesta_vacia R_ALM_BYTES), m')" "inv m'"
    "vista m' b = Some (reemplazar bs off buf)" "\<And>b'. b' \<noteq> b \<Longrightarrow> vista m' b' = vista m b'"
    "\<And>q'. cu_tipo q' = codigo SOL_BYTES \<Longrightarrow> cu_base q' = b \<Longrightarrow> cu_offset q' = off \<Longrightarrow>
       cu_tam q' = int (length buf) \<Longrightarrow> srv q' m' = Inr (Some (respuesta_bytes buf), m')"
proof -
  obtain m' where m': "srv q m = Inr (Some (respuesta_vacia R_ALM_BYTES), m')" "inv m'"
      "vista m' = (vista m)(b \<mapsto> reemplazar bs off buf)"
    using alm_ok [of m q bs] assms by auto
  have "srv q' m' = Inr (Some (respuesta_bytes buf), m')"
    if "cu_tipo q' = codigo SOL_BYTES" "cu_base q' = b" "cu_offset q' = off" "cu_tam q' = int (length buf)" for q'
    using sol_ok [of m' q' "reemplazar bs off buf"] m' that assms reemplazar_mismo [of off buf bs] by simp
  with m' that show thesis by auto
qed

end

end
