(* ===== verification/UMV_Server.thy ===== *)
theory UMV_Server
  imports UMV_Acceso Interfaz
begin

text \<open>
  The daemon around the memory manager: the reaction to one message of the kernel, of a CPU
  or of a new connection, the console, and the runs of all of them interleaved.
\<close>

section \<open>Messages of the kernel\<close>

text \<open>
  \<open>itoa\<close> is \<open>string_itoa\<close> of the commons library (the characters before the terminator).
  \<open>aleatorio\<close> is the value of \<open>rand()\<close>; \<open>aux_men\<close> is the next message on the kernel's
  socket, which only \<open>ESCRIBIR_SEG\<close> reads. The results are the sent messages.
\<close>

definition gestionar_ped_seg ::
  "entorno \<Rightarrow> (int \<Rightarrow> byte list) \<Rightarrow> int \<Rightarrow> t_men_seg \<Rightarrow> tipo_datos \<Rightarrow> umv
     \<Rightarrow> (umv \<times> t_men_comun list) res" where
  "gestionar_ped_seg e itoa aleatorio men_seg tipo_resp u =
     bindE (crearSegmento e aleatorio men_seg u) (\<lambda>(resp_dir_mem, u').
       if resp_dir_mem = -1
       then bindE (crear_men_comun (codigo MEM_OVERLOAD) [] 0) (\<lambda>m.
              Inr (destruirSegmentos (ms_id_prog men_seg) u', [m]))
       else let aux_string = itoa resp_dir_mem in
            bindE (crear_men_comun (codigo tipo_resp) (aux_string @ [0]) (int (length aux_string) + 1))
              (\<lambda>m. Inr (u', [m])))"

definition gestionar_alm_seg :: "t_men_comun \<Rightarrow> int \<Rightarrow> umv \<Rightarrow> (umv \<times> t_men_comun list) res" where
  "gestionar_alm_seg aux_men id_p u =
     bindE (almacenar_segmento aux_men id_p u) (\<lambda>u'.
     bindE (crear_men_comun (codigo MEN_ALM_OK) [] 0) (\<lambda>m. Inr (u', [m])))"

text \<open>One round of the loop of \<open>admin_conec_kernel\<close>.\<close>

definition atender_kernel ::
  "entorno \<Rightarrow> (int \<Rightarrow> byte list) \<Rightarrow> int \<Rightarrow> t_men_seg \<Rightarrow> t_men_comun \<Rightarrow> umv
     \<Rightarrow> (umv \<times> t_men_comun list) res" where
  "atender_kernel e itoa aleatorio men_seg aux_men u =
     (if ms_tipo men_seg = codigo CONEC_CERRADA then Inr (u\<lparr>umv_quit := 0\<rparr>, [])
      else if ms_tipo men_seg = codigo DESTR_SEGS then
        bindE (crear_men_comun (codigo SINCRO_OK) [] 0) (\<lambda>m.
          Inr (destruirSegmentos (ms_id_prog men_seg) u, [m]))
      else if ms_tipo men_seg = codigo PED_MEM_SEG_COD then
        gestionar_ped_seg e itoa aleatorio men_seg RESP_MEM_SEG_COD u
      else if ms_tipo men_seg = codigo PED_MEM_IND_ETI then
        gestionar_ped_seg e itoa aleatorio men_seg RESP_MEM_IND_ETI u
      else if ms_tipo men_seg = codigo PED_MEM_IND_COD then
        gestionar_ped_seg e itoa aleatorio men_seg RESP_MEM_IND_COD u
      else if ms_tipo men_seg = codigo PED_MEM_SEG_STACK then
        gestionar_ped_seg e itoa aleatorio men_seg RESP_MEM_SEG_STACK u
      else if ms_tipo men_seg = codigo ESCRIBIR_SEG then
        gestionar_alm_seg aux_men (ms_id_prog men_seg) u
      else Inr (u, []))"

section \<open>Messages of a CPU\<close>

definition gestionar_solicitud_bytes ::
  "(nat \<Rightarrow> byte) \<Rightarrow> t_men_cpu_umv \<Rightarrow> int \<Rightarrow> umv \<Rightarrow> t_men_comun res" where
  "gestionar_solicitud_bytes fresco men_bytes proc_activo u =
     bindE (solicitar_bytes fresco u proc_activo (cu_base men_bytes) (cu_offset men_bytes)
              (cu_tam men_bytes)) (\<lambda>bytes.
       case bytes of
         None \<Rightarrow> crear_men_comun (codigo SEGMEN_FAULT) [] 0
       | Some b \<Rightarrow> crear_men_comun (codigo R_SOL_BYTES) b (cu_tam men_bytes))"

definition gestionar_almacenamiento_bytes ::
  "t_men_cpu_umv \<Rightarrow> int \<Rightarrow> umv \<Rightarrow> (t_men_comun \<times> umv) res" where
  "gestionar_almacenamiento_bytes men_bytes proc_activo u =
     bindE (almacenar_bytes proc_activo (cu_base men_bytes) (cu_offset men_bytes)
              (cu_tam men_bytes) (cu_buffer men_bytes) u) (\<lambda>(resp, u').
     bindE (crear_men_comun resp [] 0) (\<lambda>m. Inr (m, u')))"

text \<open>
  One round of the loop of \<open>admin_conec_cpu\<close>: its local \<open>proc_activo\<close>, the memory, the
  reply if there is one, and whether the connection stays.
\<close>

definition atender_cpu ::
  "(nat \<Rightarrow> byte) \<Rightarrow> t_men_cpu_umv \<Rightarrow> int \<Rightarrow> umv
     \<Rightarrow> (t_men_comun option \<times> int \<times> umv \<times> bool) res" where
  "atender_cpu fresco men_bytes proc_activo u =
     (if cu_tipo men_bytes = codigo CONEC_CERRADA then Inr (None, proc_activo, u, False)
      else if cu_tipo men_bytes = codigo CAMBIO_PA then Inr (None, cu_base men_bytes, u, True)
      else if cu_tipo men_bytes = codigo SOL_BYTES then
        bindE (gestionar_solicitud_bytes fresco men_bytes proc_activo u) (\<lambda>m.
          Inr (Some m, proc_activo, u, True))
      else if cu_tipo men_bytes = codigo ALM_BYTES then
        bindE (gestionar_almacenamiento_bytes men_bytes proc_activo u) (\<lambda>(m, u').
          Inr (Some m, proc_activo, u', True))
      else Inr (None, proc_activo, u, True))"

section \<open>The console\<close>

definition cambiar_mem_total :: "(nat \<Rightarrow> byte) \<Rightarrow> int \<Rightarrow> umv \<Rightarrow> umv" where
  "cambiar_mem_total fresco nuevo_tamanio u =
     u\<lparr>tam_mem_total := nuevo_tamanio,
       mem_prin := take (nat nuevo_tamanio) (mem_prin u)
         @ map fresco [length (mem_prin u) ..< nat nuevo_tamanio]\<rparr>"

definition cambiarAlgoritmo :: "umv \<Rightarrow> umv" where
  "cambiarAlgoritmo u =
     u\<lparr>alg_actual := (if alg_actual u = WORST_FIT then FIRST_FIT else WORST_FIT)\<rparr>"

definition cambiarRetardo :: "int \<Rightarrow> umv \<Rightarrow> umv" where
  "cambiarRetardo t u = (if t \<ge> 0 then u\<lparr>umv_retardo := t\<rparr> else u)"

datatype orden =
    Crear_Segmento int int int int
  | Destruir_Segmento int
  | Solicitar_Memoria int int int int "nat \<Rightarrow> byte"
  | Escribir_Memoria int int int int "byte list"
  | Cambiar_Memoria int "nat \<Rightarrow> byte"
  | Cambiar_Retardo int
  | Cambiar_Algoritmo
  | Compactar
  | Imprimir_Mem_Prin

fun operacion_segmentos :: "entorno \<Rightarrow> orden \<Rightarrow> umv \<Rightarrow> umv res" where
  "operacion_segmentos e (Crear_Segmento id_p tipo_s tam aleatorio) u =
     bindE (crearSegmento e aleatorio (crear_men_seg tipo_s id_p tam) u) (\<lambda>(_, u'). Inr u')"
| "operacion_segmentos e (Destruir_Segmento id_p) u = Inr (destruirSegmentos id_p u)"
| "operacion_segmentos e _ u = Inr u"

fun operacion_memoria :: "orden \<Rightarrow> umv \<Rightarrow> umv res" where
  "operacion_memoria (Solicitar_Memoria id_p tipo_s offset tam fresco) u =
     (case buscar_segmento_tipo_seg u id_p tipo_s of
        None \<Rightarrow> Inr u
      | Some aux_seg \<Rightarrow>
          bindE (solicitar_bytes fresco u id_p (dir_logica aux_seg) offset tam) (\<lambda>_. Inr u))"
| "operacion_memoria (Escribir_Memoria id_p tipo_s offset tam buffer) u =
     (case buscar_segmento_tipo_seg u id_p tipo_s of
        None \<Rightarrow> Inr u
      | Some aux_seg \<Rightarrow>
          bindE (almacenar_bytes id_p (dir_logica aux_seg) offset tam buffer u) (\<lambda>(_, u'). Inr u'))"
| "operacion_memoria _ u = Inr u"

fun consola :: "entorno \<Rightarrow> orden \<Rightarrow> umv \<Rightarrow> umv res" where
  "consola e (Cambiar_Memoria n fresco) u = Inr (cambiar_mem_total fresco n u)"
| "consola e (Cambiar_Retardo t) u = Inr (cambiarRetardo t u)"
| "consola e Cambiar_Algoritmo u = Inr (cambiarAlgoritmo u)"
| "consola e Compactar u = compactar e u"
| "consola e Imprimir_Mem_Prin u = Inr (ordenar_lista_seg_por_dir_fisica e u)"
| "consola e (Crear_Segmento i t n a) u = operacion_segmentos e (Crear_Segmento i t n a) u"
| "consola e (Destruir_Segmento i) u = operacion_segmentos e (Destruir_Segmento i) u"
| "consola e (Solicitar_Memoria i t off n f) u = operacion_memoria (Solicitar_Memoria i t off n f) u"
| "consola e (Escribir_Memoria i t off n b) u = operacion_memoria (Escribir_Memoria i t off n b) u"

section \<open>Start, connections and runs\<close>

definition umv_inicial :: "(nat \<Rightarrow> byte) \<Rightarrow> int \<Rightarrow> int \<Rightarrow> umv" where
  "umv_inicial fresco tamanio modo =
     \<lparr>mem_prin = map fresco [0..<nat tamanio], tam_mem_total = tamanio, list_seg = [],
      alg_actual = modo, umv_retardo = 0, umv_quit = 1\<rparr>"

record umv_sistema =
  su :: umv
  soc_kernel_umv :: int
  proc_activos :: "int \<rightharpoonup> int"

text \<open>
  \<open>admin_conecciones\<close>: the handshake of an accepted socket decides which thread serves it; the
  new thread greets with \<open>HS_UMV\<close>, and a CPU starts without an active process.
\<close>

definition admin_conecciones ::
  "int \<Rightarrow> t_men_comun \<Rightarrow> umv_sistema \<Rightarrow> (umv_sistema \<times> (int \<times> t_men_comun) list) res" where
  "admin_conecciones new_soc men_hs s =
     (if tipo men_hs = codigo HS_KERNEL then
        bindE (crear_men_comun (codigo HS_UMV) [] 0) (\<lambda>m.
          Inr (s\<lparr>soc_kernel_umv := new_soc\<rparr>, [(new_soc, m)]))
      else if tipo men_hs = codigo HS_CPU then
        bindE (crear_men_comun (codigo HS_UMV) [] 0) (\<lambda>m.
          Inr (s\<lparr>proc_activos := (proc_activos s)(new_soc \<mapsto> 0)\<rparr>, [(new_soc, m)]))
      else Inr (s, []))"

datatype evento_umv =
    Conexion int t_men_comun
  | De_Kernel int t_men_seg t_men_comun
  | De_CPU int "nat \<Rightarrow> byte" t_men_cpu_umv
  | De_Consola orden

fun umv_evento ::
  "entorno \<Rightarrow> (int \<Rightarrow> byte list) \<Rightarrow> evento_umv \<Rightarrow> umv_sistema
     \<Rightarrow> (umv_sistema \<times> (int \<times> t_men_comun) list) res" where
  "umv_evento e itoa (Conexion soc men) s = admin_conecciones soc men s"
| "umv_evento e itoa (De_Kernel aleatorio men aux) s =
     bindE (atender_kernel e itoa aleatorio men aux (su s)) (\<lambda>(u, ms).
       Inr (s\<lparr>su := u\<rparr>, map (Pair (soc_kernel_umv s)) ms))"
| "umv_evento e itoa (De_CPU soc fresco men) s =
     (case proc_activos s soc of
        None \<Rightarrow> Inr (s, [])
      | Some pa \<Rightarrow> bindE (atender_cpu fresco men pa (su s)) (\<lambda>(m, pa', u, sigue).
          Inr (s\<lparr>su := u, proc_activos := (if sigue then (proc_activos s)(soc \<mapsto> pa')
                 else (proc_activos s)(soc := None))\<rparr>,
               case m of None \<Rightarrow> [] | Some x \<Rightarrow> [(soc, x)])))"
| "umv_evento e itoa (De_Consola ord) s =
     bindE (consola e ord (su s)) (\<lambda>u. Inr (s\<lparr>su := u\<rparr>, []))"

end
