(* ===== verification/UMV_Vista.thy ===== *)
theory UMV_Vista
  imports UMV_Server
begin

text \<open>
  The abstract memory: every process has a store from logical bases to byte sequences. The
  segment table, the physical memory and the bounds checks implement it, and the daemon
  gives the CPUs the contract \<open>memoria_remota\<close>.
\<close>

definition bytes_seg :: "byte list \<Rightarrow> t_seg \<Rightarrow> byte list" where
  "bytes_seg m s = take (nat (tam_seg s)) (drop (nat (dir_fisica s)) m)"

definition vista :: "umv \<Rightarrow> int \<Rightarrow> int \<Rightarrow> byte list option" where
  "vista u p b = (if b < 0 then None
     else map_option (bytes_seg (mem_prin u)) (buscar_segmento_dir_logica u p b))"

lemma vista_Some:
  assumes "umv_inv u" "vista u p b = Some bs"
  obtains s where "buscar_segmento_dir_logica u p b = Some s" "0 \<le> b" "bs = bytes_seg (mem_prin u) s"
    "int (length bs) = tam_seg s" "tam_seg s \<le> tam_mem_total u"
proof -
  obtain s where s: "buscar_segmento_dir_logica u p b = Some s" "0 \<le> b" "bs = bytes_seg (mem_prin u) s"
    using assms(2) by (auto simp: vista_def split: if_splits)
  have "0 \<le> dir_fisica s \<and> 0 \<le> tam_seg s \<and> dir_fisica s + tam_seg s \<le> int (length (mem_prin u))"
    using umv_inv_seg [OF assms(1)] buscar_dir_logica_Some [OF s(1)] by blast
  then have "int (length bs) = tam_seg s" "tam_seg s \<le> tam_mem_total u"
    using s(3) assms(1) by (auto simp: bytes_seg_def umv_inv_def)
  with s that show thesis by blast
qed

text \<open>One segment under a write: inside the segment, and in another one.\<close>

lemma bytes_seg_escribir:
  assumes s: "0 \<le> dir_fisica s" "dir_fisica s + tam_seg s \<le> int (length m)"
    and w: "0 \<le> off" "off + int (length buf) \<le> tam_seg s"
      "escribir m (dir_fisica s + off) buf = Inr m'"
  shows "bytes_seg m' s = reemplazar (bytes_seg m s) off buf"
proof -
  define A B where "A = take (nat (dir_fisica s)) m"
    and "B = drop (nat (dir_fisica s) + nat (tam_seg s)) m"
  have m: "m = A @ bytes_seg m s @ B"
    unfolding A_def B_def bytes_seg_def
    by (metis add.commute append_take_drop_id drop_drop)
  have l: "length A = nat (dir_fisica s)" "length (bytes_seg m s) = nat (tam_seg s)"
    using s w by (auto simp: A_def bytes_seg_def)
  have i: "nat (dir_fisica s + off) = nat (dir_fisica s) + nat off" "nat off + length buf \<le> nat (tam_seg s)"
    using s w by (auto simp: nat_add_distrib)
  have "m' = A @ reemplazar (bytes_seg m s) off buf @ B"
    using w(3) l i by (subst (asm) m) (simp add: escribir_Inr_iff reemplazar_def)
  moreover have "length (reemplazar (bytes_seg m s) off buf) = nat (tam_seg s)"
    using l i w(1) by (simp add: reemplazar_def)
  ultimately show ?thesis using l(1) by (simp add: bytes_seg_def)
qed

lemma bytes_seg_aparte:
  assumes "ajenos s t" "0 \<le> off" "off + int (length buf) \<le> tam_seg s"
    "escribir m (dir_fisica s + off) buf = Inr m'"
    "0 \<le> dir_fisica t" "0 \<le> tam_seg t" "dir_fisica t + tam_seg t \<le> int (length m)"
  shows "bytes_seg m' t = bytes_seg m t"
proof -
  have "leer m' (dir_fisica t) (tam_seg t) = leer m (dir_fisica t) (tam_seg t)"
    using assms(1-3) by (intro leer_escribir_aparte [OF assms(4)]) (auto simp: ajenos_def)
  then show ?thesis
    using assms(5-7) length_escribir [OF assms(4)] by (simp add: leer_ok bytes_seg_def)
qed

section \<open>The operations on the abstract memory\<close>

lemma solicitar_vista:
  assumes u: "umv_inv u" "tam_mem_total u < 1073741824" and tam: "0 \<le> tam"
    and v: "vista u p b = Some bs"
  shows "solicitar_bytes fresco u p b off tam = Inr
    (if 0 \<le> off \<and> off + tam \<le> int (length bs) then Some (take (nat tam) (drop (nat off) bs)) else None)"
proof -
  obtain s where s: "buscar_segmento_dir_logica u p b = Some s" "0 \<le> b" "bs = bytes_seg (mem_prin u) s"
    "int (length bs) = tam_seg s" "tam_seg s \<le> tam_mem_total u"
    by (rule vista_Some [OF u(1) v])
  have d: "0 \<le> dir_fisica s" "0 \<le> tam_seg s"
    using umv_inv_seg [OF u(1)] buscar_dir_logica_Some [OF s(1)] by auto
  show ?thesis
  proof (cases "0 \<le> off \<and> off + tam \<le> int (length bs)")
    case True
    then have "min (nat tam) (nat (tam_seg s) - nat off) = nat tam" using s(4) by linarith
    then have "take (nat tam) (drop (nat off) bs)
        = take (nat tam) (drop (nat (dir_fisica s + off)) (mem_prin u))"
      using s(3) d True by (simp add: bytes_seg_def drop_take nat_add_distrib add.commute)
    then show ?thesis
      using True s d tam by (simp add: solicitar_bytes_eq [OF u tam] rechaza_def)
  next
    case False
    then show ?thesis
      using s d tam by (auto simp: solicitar_bytes_eq [OF u tam] rechaza_def)
  qed
qed

lemma almacenar_vista:
  assumes u: "umv_inv u" "tam_mem_total u < 1073741824"
    and v: "vista u p b = Some bs"
  shows "\<exists>u'. almacenar_bytes p b off (int (length buf)) buf u =
      Inr (if 0 \<le> off \<and> off + int (length buf) \<le> int (length bs) then codigo R_ALM_BYTES
           else codigo SEGMEN_FAULT, u')
    \<and> vista u' p = (if 0 \<le> off \<and> off + int (length buf) \<le> int (length bs)
        then (vista u p)(b \<mapsto> reemplazar bs off buf) else vista u p)
    \<and> (\<forall>q. q \<noteq> p \<longrightarrow> vista u' q = vista u q)"
proof -
  let ?n = "int (length buf)"
  obtain s where s: "buscar_segmento_dir_logica u p b = Some s" "0 \<le> b" "bs = bytes_seg (mem_prin u) s"
    "int (length bs) = tam_seg s" "tam_seg s \<le> tam_mem_total u"
    by (rule vista_Some [OF u(1) v])
  have ss: "s \<in> set (list_seg u)" using buscar_dir_logica_Some [OF s(1)] by blast
  show ?thesis
  proof (cases "0 \<le> off \<and> off + ?n \<le> int (length bs)")
    case False
    then have "almacenar_bytes p b off ?n buf u = Inr (codigo SEGMEN_FAULT, u)"
      using s by (auto simp: almacenar_bytes_eq [OF u] rechaza_def)
    then show ?thesis using False by auto
  next
    case True
    let ?m = "take (nat (dir_fisica s + off)) (mem_prin u) @ buf
      @ drop (nat (dir_fisica s + off) + length buf) (mem_prin u)"
    have d: "0 \<le> dir_fisica s" "dir_fisica s + tam_seg s \<le> int (length (mem_prin u))"
      using umv_inv_seg [OF u(1) ss] by auto
    have w: "escribir (mem_prin u) (dir_fisica s + off) buf = Inr ?m"
      using True s(4) d by (simp add: escribir_ok)
    have "almacenar_bytes p b off ?n buf u = Inr (codigo R_ALM_BYTES, u\<lparr>mem_prin := ?m\<rparr>)"
      using True s by (simp add: almacenar_bytes_eq [OF u] rechaza_def)
    moreover have otra: "bytes_seg ?m t = bytes_seg (mem_prin u) t" if "t \<in> set (list_seg u)" "s \<noteq> t" for t
      using bytes_seg_aparte [OF umv_inv_ajenos [OF u(1) ss that] _ _ w] True s(4)
        umv_inv_seg [OF u(1) that(1)] by simp
    have "bytes_seg ?m s = reemplazar bs off buf"
      using bytes_seg_escribir [OF d _ _ w] True s(3,4) by simp
    then have "vista (u\<lparr>mem_prin := ?m\<rparr>) p b' = ((vista u p)(b \<mapsto> reemplazar bs off buf)) b'" for b'
    proof (cases "b' = b")
      case False
      have "bytes_seg ?m t = bytes_seg (mem_prin u) t" if "buscar_segmento_dir_logica u p b' = Some t" for t
        using otra buscar_dir_logica_Some [OF that] buscar_dir_logica_Some [OF s(1)] False by blast
      then show ?thesis
        using False by (cases "buscar_segmento_dir_logica u p b'") (simp_all add: vista_def)
    qed (use s in \<open>simp add: vista_def\<close>)
    moreover have "vista (u\<lparr>mem_prin := ?m\<rparr>) q b' = vista u q b'" if "q \<noteq> p" for q b'
    proof -
      have "bytes_seg ?m t = bytes_seg (mem_prin u) t" if "buscar_segmento_dir_logica u q b' = Some t" for t
        using otra buscar_dir_logica_Some [OF that] buscar_dir_logica_Some [OF s(1)] \<open>q \<noteq> p\<close> by blast
      then show ?thesis
        by (cases "buscar_segmento_dir_logica u q b'") (simp_all add: vista_def)
    qed
    ultimately show ?thesis using True by (intro exI [of _ "u\<lparr>mem_prin := ?m\<rparr>"]) auto
  qed
qed

section \<open>The daemon provides the contract\<close>

definition servir_cpu ::
  "(nat \<Rightarrow> byte) \<Rightarrow> t_men_cpu_umv \<Rightarrow> int \<times> umv \<Rightarrow> (t_men_comun option \<times> (int \<times> umv)) res" where
  "servir_cpu fresco q m =
     (case m of (pa, u) \<Rightarrow>
      bindE (atender_cpu fresco q pa u) (\<lambda>(r, pa', u', _). Inr (r, (pa', u'))))"

definition servir_inv :: "int \<times> umv \<Rightarrow> bool" where
  "servir_inv m \<longleftrightarrow> umv_inv (snd m) \<and> tam_mem_total (snd m) < 1073741824"

definition servir_vista :: "int \<times> umv \<Rightarrow> int \<Rightarrow> byte list option" where
  "servir_vista m = vista (snd m) (fst m)"

lemma crear_men_comun_vacio [simp]:
  "crear_men_comun t [] 0 = Inr \<lparr>tam_dato = 0, tipo = t, dato = []\<rparr>"
  by (simp add: crear_men_comun_def leer_def)

lemma crear_men_comun_todo:
  "int (length bs) = n \<Longrightarrow> crear_men_comun t bs n = Inr \<lparr>tam_dato = n, tipo = t, dato = bs\<rparr>"
  by (simp add: crear_men_comun_def leer_todo)

lemma servir_sol:
  assumes "servir_inv m" "servir_vista m (cu_base q) = Some bs" "cu_tipo q = codigo SOL_BYTES"
    "0 \<le> cu_tam q"
  shows "servir_cpu fresco q m = Inr (Some
    (if 0 \<le> cu_offset q \<and> cu_offset q + cu_tam q \<le> int (length bs)
     then respuesta_bytes (take (nat (cu_tam q)) (drop (nat (cu_offset q)) bs))
     else respuesta_vacia SEGMEN_FAULT), m)"
proof -
  obtain pa u where m: "m = (pa, u)" by fastforce
  have u: "umv_inv u" "tam_mem_total u < 1073741824" and v: "vista u pa (cu_base q) = Some bs"
    using assms by (auto simp: m servir_inv_def servir_vista_def)
  note s = solicitar_vista [OF u assms(4) v, of fresco "cu_offset q"]
  show ?thesis
  proof (cases "0 \<le> cu_offset q \<and> cu_offset q + cu_tam q \<le> int (length bs)")
    case True
    then have "nat (cu_tam q) \<le> length bs - nat (cu_offset q)" using assms(4) by linarith
    then have "int (length (take (nat (cu_tam q)) (drop (nat (cu_offset q)) bs))) = cu_tam q"
      using assms(4) by simp
    then show ?thesis
      using True s assms(3) by (simp add: m servir_cpu_def atender_cpu_def
          gestionar_solicitud_bytes_def respuesta_bytes_def crear_men_comun_todo)
  next
    case False
    then have "solicitar_bytes fresco u pa (cu_base q) (cu_offset q) (cu_tam q) = Inr None"
      using s by simp
    then show ?thesis
      using False assms(3) by (auto simp add: m servir_cpu_def atender_cpu_def
          gestionar_solicitud_bytes_def respuesta_vacia_def)
  qed
qed

lemma servir_alm:
  assumes "servir_inv m" "servir_vista m (cu_base q) = Some bs" "cu_tipo q = codigo ALM_BYTES"
    "cu_tam q = int (length (cu_buffer q))"
  shows "\<exists>m'. servir_cpu fresco q m = Inr (Some
      (if 0 \<le> cu_offset q \<and> cu_offset q + cu_tam q \<le> int (length bs)
       then respuesta_vacia R_ALM_BYTES else respuesta_vacia SEGMEN_FAULT), m')
    \<and> servir_inv m'
    \<and> servir_vista m' = (if 0 \<le> cu_offset q \<and> cu_offset q + cu_tam q \<le> int (length bs)
        then (servir_vista m)(cu_base q \<mapsto> reemplazar bs (cu_offset q) (cu_buffer q))
        else servir_vista m)"
proof -
  obtain pa u where m: "m = (pa, u)" by fastforce
  have u: "umv_inv u" "tam_mem_total u < 1073741824" and v: "vista u pa (cu_base q) = Some bs"
    using assms by (auto simp: m servir_inv_def servir_vista_def)
  obtain u' where u': "almacenar_bytes pa (cu_base q) (cu_offset q) (cu_tam q) (cu_buffer q) u =
      Inr (if 0 \<le> cu_offset q \<and> cu_offset q + cu_tam q \<le> int (length bs)
           then codigo R_ALM_BYTES else codigo SEGMEN_FAULT, u')"
    and v': "vista u' pa = (if 0 \<le> cu_offset q \<and> cu_offset q + cu_tam q \<le> int (length bs)
        then (vista u pa)(cu_base q \<mapsto> reemplazar bs (cu_offset q) (cu_buffer q)) else vista u pa)"
    using almacenar_vista [OF u v, of "cu_offset q" "cu_buffer q"] unfolding assms(4) by blast
  have "umv_inv u' \<and> marco u u'" using almacenar_bytes_inv [OF u(1) u'] by blast
  then have "servir_inv (pa, u')" using u(2) by (simp add: servir_inv_def marco_def)
  then show ?thesis
    using u' v' assms(3) by (intro exI [of _ "(pa, u')"])
      (simp add: m servir_cpu_def atender_cpu_def gestionar_almacenamiento_bytes_def
        respuesta_vacia_def servir_vista_def)
qed

lemma servir_alm_mal:
  assumes "servir_inv m" "servir_vista m (cu_base q) = Some bs" "cu_tipo q = codigo ALM_BYTES"
    "cu_tam q = int (length (cu_buffer q))"
    "cu_offset q < 0 \<or> int (length bs) < cu_offset q + cu_tam q"
  shows "servir_cpu fresco q m = Inr (Some (respuesta_vacia SEGMEN_FAULT), m)"
proof -
  obtain pa u where m: "m = (pa, u)" by fastforce
  have u: "umv_inv u" "tam_mem_total u < 1073741824" and v: "vista u pa (cu_base q) = Some bs"
    using assms by (auto simp: m servir_inv_def servir_vista_def)
  obtain s where s: "buscar_segmento_dir_logica u pa (cu_base q) = Some s" "int (length bs) = tam_seg s"
    by (rule vista_Some [OF u(1) v])
  have "almacenar_bytes pa (cu_base q) (cu_offset q) (int (length (cu_buffer q))) (cu_buffer q) u
      = Inr (codigo SEGMEN_FAULT, u)"
    using s assms(4,5) by (auto simp: almacenar_bytes_eq [OF u] rechaza_def)
  then show ?thesis
    using assms(3,4) by (simp add: m servir_cpu_def atender_cpu_def
        gestionar_almacenamiento_bytes_def respuesta_vacia_def)
qed

interpretation umv_cpu: memoria_remota "servir_cpu fresco" servir_inv servir_vista for fresco
proof (unfold_locales, goal_cases)
  case (1 m q bs)
  then show ?case using servir_sol [of m q bs fresco] by simp
next
  case (2 m q bs)
  then show ?case using servir_sol [of m q bs fresco] by auto
next
  case (3 m q bs)
  then show ?case using servir_alm [of m q bs fresco] by simp
next
  case (4 m q bs)
  then show ?case by (rule servir_alm_mal)
qed

end
