(* ===== verification/UMV_Corridas.thy ===== *)
theory UMV_Corridas
  imports UMV_Vista
begin

text \<open>
  The runs of the memory daemon: every step of the kernel, the CPUs, new connections and the
  operator keeps the invariant. The last section holds a concrete environment and memory.
\<close>

section \<open>Steps keep the invariant\<close>

lemma pila_ok_mono: "pila_ok e n \<Longrightarrow> m \<le> n \<Longrightarrow> pila_ok e m"
  unfolding pila_ok_def by (meson order_trans)

lemma crearSegmento_inv:
  assumes "umv_inv u" "list_sort_ok e" "pila_ok e (tam_mem_total u)" "0 \<le> ms_tam_seg men"
    "crearSegmento e a men u = Inr (r, u')"
  shows "umv_inv u' \<and> marco u u'"
  using crear_ok [OF assms(1-4), of a] assms(5) by auto

lemma marco_trans: "marco u v \<Longrightarrow> marco v w \<Longrightarrow> marco u w"
  by (simp add: marco_def)

lemma gestionar_ped_seg_inv:
  assumes "umv_inv u" "list_sort_ok e" "pila_ok e (tam_mem_total u)" "0 \<le> ms_tam_seg men"
    "gestionar_ped_seg e itoa a men t u = Inr (u', ms)"
  shows "umv_inv u' \<and> marco u u'"
proof -
  obtain r u1 where c: "crearSegmento e a men u = Inr (r, u1)"
    using assms(5) by (auto simp: gestionar_ped_seg_def bindE_eq_Inr)
  have i: "umv_inv u1 \<and> marco u u1" by (rule crearSegmento_inv [OF assms(1-4) c])
  then have "umv_inv (destruirSegmentos p u1) \<and> marco u (destruirSegmentos p u1)" for p
    using destruirSegmentos_inv marco_trans by blast
  then show ?thesis
    using assms(5) c i by (auto simp: gestionar_ped_seg_def bindE_eq_Inr Let_def split: if_splits)
qed

lemma atender_kernel_inv:
  assumes "umv_inv u" "list_sort_ok e" "pila_ok e (tam_mem_total u)" "0 \<le> ms_tam_seg men"
    "atender_kernel e itoa a men aux u = Inr (u', ms)"
  shows "umv_inv u' \<and> tam_mem_total u' = tam_mem_total u"
proof -
  have ped: "umv_inv u' \<and> tam_mem_total u' = tam_mem_total u"
    if "gestionar_ped_seg e itoa a men t u = Inr (u', ms)" for t
    using gestionar_ped_seg_inv [OF assms(1-4) that] by (simp add: marco_def)
  have alm: "umv_inv u' \<and> tam_mem_total u' = tam_mem_total u"
    if "gestionar_alm_seg aux p u = Inr (u', ms)" for p
    using that almacenar_segmento_inv [OF assms(1)]
    by (auto simp: gestionar_alm_seg_def bindE_eq_Inr marco_def)
  have quit: "umv_inv (u\<lparr>umv_quit := 0\<rparr>)" using assms(1) by (simp add: umv_inv_def)
  show ?thesis
    using assms(5) ped alm quit destruirSegmentos_inv [OF assms(1)] assms(1)
    unfolding atender_kernel_def by (auto simp: bindE_eq_Inr marco_def split: if_splits)
qed

lemma atender_cpu_inv:
  assumes "umv_inv u" "atender_cpu fresco men pa u = Inr (r, pa', u', sigue)"
  shows "umv_inv u' \<and> tam_mem_total u' = tam_mem_total u"
  using assms(2) almacenar_bytes_inv [OF assms(1)] assms(1)
  by (auto simp: atender_cpu_def gestionar_almacenamiento_bytes_def bindE_eq_Inr marco_def
      split: if_splits)

lemma cambiar_mem_total_inv:
  "umv_inv u \<Longrightarrow> tam_mem_total u \<le> n \<Longrightarrow> n < 2147483648 \<Longrightarrow> umv_inv (cambiar_mem_total fresco n u)"
  by (auto simp: umv_inv_def cambiar_mem_total_def seg_ok_def)

text \<open>
  The events of a run. The kernel and the operator ask for segments of a size that is not
  negative, and the operator may enlarge the memory, up to \<open>M\<close> bytes, but not shrink it.
\<close>

fun permitido :: "int \<Rightarrow> evento_umv \<Rightarrow> umv_sistema \<Rightarrow> bool" where
  "permitido M (De_Kernel a men aux) s = (0 \<le> ms_tam_seg men)"
| "permitido M (De_Consola (Crear_Segmento i t n a)) s = (0 \<le> n)"
| "permitido M (De_Consola (Cambiar_Memoria n f)) s = (tam_mem_total (su s) \<le> n \<and> n \<le> M)"
| "permitido M ev s = True"

inductive alcanzable :: "entorno \<Rightarrow> (int \<Rightarrow> byte list) \<Rightarrow> int \<Rightarrow> umv_sistema \<Rightarrow> bool"
  for e itoa M where
  inicio: "0 \<le> tamanio \<Longrightarrow> tamanio \<le> M \<Longrightarrow>
    alcanzable e itoa M \<lparr>su = umv_inicial fresco tamanio modo, soc_kernel_umv = 0, proc_activos = Map.empty\<rparr>"
| paso: "alcanzable e itoa M s \<Longrightarrow> permitido M ev s \<Longrightarrow> umv_evento e itoa ev s = Inr (s', out) \<Longrightarrow>
    alcanzable e itoa M s'"

lemma consola_inv:
  assumes u: "umv_inv u" "list_sort_ok e" "pila_ok e (tam_mem_total u)"
    and p: "permitido M (De_Consola ord) s" "u = su s" "M < 2147483648"
    and c: "consola e ord u = Inr u'"
  shows "umv_inv u' \<and> (tam_mem_total u' = tam_mem_total u \<or> tam_mem_total u' \<le> M)"
proof (cases ord)
  case (Crear_Segmento i t n a)
  then show ?thesis
    using c p crearSegmento_inv [OF u, of "crear_men_seg t i n" a]
    by (auto simp: bindE_eq_Inr crear_men_seg_def marco_def)
next
  case (Destruir_Segmento i)
  then show ?thesis using c destruirSegmentos_inv [OF u(1)] by (auto simp: marco_def)
next
  case (Escribir_Memoria i t off n b)
  then show ?thesis
    using c u(1) almacenar_bytes_inv [OF u(1)]
    by (auto simp: bindE_eq_Inr marco_def split: option.splits)
next
  case (Cambiar_Memoria n f)
  then show ?thesis
    using c p cambiar_mem_total_inv [OF u(1), of n f] by (auto simp: cambiar_mem_total_def)
next
  case Compactar
  obtain m where m: "length m = length (mem_prin u)" "compactar e u =
      Inr (u\<lparr>list_seg := colocar 0 (list_sort e menor_dir_fisica (list_seg u)), mem_prin := m\<rparr>)"
    by (rule compactar_ok [OF u])
  have "mset (list_sort e menor_dir_fisica (list_seg u)) = mset (list_seg u)"
    using u(2) by (simp add: list_sort_ok_def)
  from umv_inv_colocar [OF u(1) this m(1)] show ?thesis using m c Compactar by auto
next
  case Imprimir_Mem_Prin
  then show ?thesis
    using c umv_inv_ordenado [OF u(1,2)] by (auto simp: ordenar_lista_seg_por_dir_fisica_def)
qed (use c u(1) in \<open>auto simp: bindE_eq_Inr cambiarRetardo_def cambiarAlgoritmo_def umv_inv_def
      split: option.splits if_splits\<close>)

lemma umv_evento_inv:
  assumes s: "umv_inv (su s)" "tam_mem_total (su s) \<le> M" and M: "M < 2147483648"
    and e: "list_sort_ok e" "pila_ok e M"
    and ev: "permitido M ev s" "umv_evento e itoa ev s = Inr (s', out)"
  shows "umv_inv (su s') \<and> tam_mem_total (su s') \<le> M"
proof -
  have p: "pila_ok e (tam_mem_total (su s))" by (rule pila_ok_mono [OF e(2) s(2)])
  show ?thesis
  proof (cases ev)
    case (Conexion soc men)
    then show ?thesis using ev(2) s by (auto simp: admin_conecciones_def bindE_eq_Inr split: if_splits)
  next
    case (De_Kernel a men aux)
    then show ?thesis
      using ev s(2) atender_kernel_inv [OF s(1) e(1) p] by (auto simp: bindE_eq_Inr)
  next
    case (De_CPU soc fresco men)
    then show ?thesis
      using ev s atender_cpu_inv [OF s(1)] by (fastforce simp: bindE_eq_Inr split: option.splits)
  next
    case (De_Consola ord)
    then show ?thesis
      using ev s(2) consola_inv [OF s(1) e(1) p _ refl M] by (fastforce simp: bindE_eq_Inr)
  qed
qed

lemma alcanzable_inv:
  assumes "list_sort_ok e" "pila_ok e M" "M < 2147483648"
  shows "alcanzable e itoa M s \<Longrightarrow> umv_inv (su s) \<and> tam_mem_total (su s) \<le> M"
proof (induction rule: alcanzable.induct)
  case (inicio tamanio fresco modo)
  then show ?case using assms(3) by (simp add: umv_inv_def umv_inicial_def)
next
  case (paso s ev s' out)
  then show ?case using umv_evento_inv [OF _ _ assms(3,1,2)] by blast
qed

section \<open>A concrete environment\<close>

text \<open>
  A sorting function and a stack that satisfy the hypotheses, and a memory of 24 bytes with
  two segments of process 1, one of process 2 and two holes of four bytes.
\<close>

definition e_ej :: entorno where
  "e_ej = \<lparr>list_sort = (\<lambda>menor. sort_key dir_fisica), pila = (\<lambda>i. replicate 64 204)\<rparr>"

lemma list_sort_e_ej: "list_sort_ok e_ej"
  by (simp add: list_sort_ok_def e_ej_def)

lemma pila_e_ej: "n \<le> 64 \<Longrightarrow> pila_ok e_ej n"
  by (simp add: pila_ok_def e_ej_def)

definition seg_ej :: "int \<Rightarrow> int \<Rightarrow> int \<Rightarrow> int \<Rightarrow> t_seg" where
  "seg_ej p l d n = \<lparr>id_proc = p, dir_logica = l, dir_fisica = d, tam_seg = n, tipo_seg = 206\<rparr>"

definition u_ej :: umv where
  "u_ej = \<lparr>mem_prin = map word_of_nat [0..<24], tam_mem_total = 24,
     list_seg = [seg_ej 1 100 0 4, seg_ej 1 200 16 8, seg_ej 2 100 8 4], alg_actual = 1,
     umv_retardo = 0, umv_quit = 1\<rparr>"

lemma u_ej_inv: "umv_inv u_ej"
  by (simp add: umv_inv_def u_ej_def seg_ej_def seg_ok_def ajenos_def)

lemma u_ej_campos [simp]:
  "tam_mem_total u_ej = 24" "list_seg u_ej = [seg_ej 1 100 0 4, seg_ej 1 200 16 8, seg_ej 2 100 8 4]"
  "alg_actual u_ej = 1" "mem_prin u_ej = map word_of_nat [0..<24]"
  by (simp_all add: u_ej_def)

lemma seg_ej_campos [simp]:
  "id_proc (seg_ej p l d n) = p" "dir_logica (seg_ej p l d n) = l" "dir_fisica (seg_ej p l d n) = d"
  "tam_seg (seg_ej p l d n) = n" "tipo_seg (seg_ej p l d n) = 206"
  by (simp_all add: seg_ej_def)

end
