(* ===== verification/UMV_Prop.thy ===== *)
theory UMV_Prop
  imports UMV_Corridas
begin

text \<open>
  The properties of the memory unit: what creation promises, the invariant of every run, the
  refinement of the abstract memory with its isolation of the processes, the choices of first
  and worst fit, and compaction.
\<close>

section \<open>Creation and the invariant\<close>

text \<open>
  C12. Creating a segment fails with -1 exactly when the request is larger than the sum of all
  free bytes (the search and, behind it, the compaction find every other place). On success
  it returns the drawn logical address, and the new table holds the old segments, possibly
  moved, and the new one; in both cases the memory layout stays valid: segments inside the
  memory and apart from each other.
\<close>

theorem crearSegmento_correcto:
  assumes "umv_inv u" "list_sort_ok e" "pila_ok e (tam_mem_total u)" "0 \<le> ms_tam_seg men"
  shows "\<exists>u'. crearSegmento e a men u =
      Inr (if ms_tam_seg men \<le> tam_mem_total u - ocupado (list_seg u) then a else -1, u')
    \<and> umv_inv u' \<and> marco u u'
    \<and> contenido u' = contenido u +
        (if ms_tam_seg men \<le> tam_mem_total u - ocupado (list_seg u) then {#seg_nuevo a men#} else {#})"
  by (rule crear_ok [OF assms])

theorem crearSegmento_correcto_testigo:
  "\<exists>u'. crearSegmento e_ej 300 (crear_men_seg 203 2 7) u_ej = Inr (300, u') \<and> umv_inv u' \<and> marco u_ej u'
     \<and> contenido u' = contenido u_ej + {#seg_nuevo 300 (crear_men_seg 203 2 7)#}"
  using crearSegmento_correcto [OF u_ej_inv list_sort_e_ej, of "crear_men_seg 203 2 7" 300]
    pila_e_ej [of 24] by (simp add: crear_men_seg_def)


definition sistema_ej :: umv_sistema where
  "sistema_ej = \<lparr>su = umv_inicial (\<lambda>_. 0) 24 1, soc_kernel_umv = 0, proc_activos = Map.empty\<rparr>"


section \<open>The choice of a hole\<close>

text \<open>
  C34. With first fit, the address found is a hole of the requested size inside the memory. Any
  hole with one byte to spare makes the search succeed, and no address above that hole is
  chosen; so a failed search means that no hole is larger than the request.
\<close>

theorem first_fit_correcto:
  assumes "umv_inv u" "list_sort_ok e" "0 \<le> n" "alg_actual u = FIRST_FIT"
    and "fst (buscar_espacio_mem_prin e n u) = r"
  shows "(r \<noteq> -1 \<longrightarrow> hueco (tam_mem_total u) (set (list_seg u)) r n)
    \<and> (\<forall>q. hueco (tam_mem_total u) (set (list_seg u)) q (n + 1) \<longrightarrow> r \<noteq> -1 \<and> r \<le> q)"
proof (intro conjI impI allI)
  assume "r \<noteq> -1"
  then show "hueco (tam_mem_total u) (set (list_seg u)) r n"
    by (rule buscar_espacio_hueco [OF assms(1,2,3,5)])
next
  fix q
  assume "hueco (tam_mem_total u) (set (list_seg u)) q (n + 1)"
  then have "0 \<le> buscar_first_fit n (tam_mem_total u) (list_sort e menor_dir_fisica (list_seg u)) 0
    \<and> buscar_first_fit n (tam_mem_total u) (list_sort e menor_dir_fisica (list_seg u)) 0 \<le> q"
    using assms(3)
    by (intro buscar_first_fit_completo [OF umv_inv_en_orden [OF assms(1,2)]])
       (auto simp: list_sort_set [OF assms(2)] hueco_def)
  then show "r \<noteq> -1" "r \<le> q"
    using assms(4,5) by (cases rule: buscar_espacio_cases [of u e n]; simp)+
qed

theorem first_fit_correcto_testigo:
  "hueco 24 (set (list_seg u_ej)) 4 3 \<and> fst (buscar_espacio_mem_prin e_ej 3 u_ej) = 4"
proof -
  have "fst (buscar_espacio_mem_prin e_ej 3 u_ej) = 4"
    by (simp add: buscar_espacio_mem_prin_def ordenar_lista_seg_por_dir_fisica_def e_ej_def
        FIRST_FIT_def buscar_first_fit.simps recorrer_first_fit.simps i32_simps)
  then show ?thesis
    using first_fit_correcto [OF u_ej_inv list_sort_e_ej, of 3 4] by (simp add: FIRST_FIT_def)
qed

text \<open>
  With worst fit, the address found starts a hole that holds the request and is, up to one
  byte, as large as every hole of the memory.
\<close>

theorem worst_fit_correcto:
  assumes "umv_inv u" "list_sort_ok e" "0 \<le> n" "alg_actual u \<noteq> FIRST_FIT"
    and "fst (buscar_espacio_mem_prin e n u) = r" "r \<noteq> -1"
  shows "\<exists>m. n \<le> m \<and> hueco (tam_mem_total u) (set (list_seg u)) r m
    \<and> (\<forall>q k. hueco (tam_mem_total u) (set (list_seg u)) q k \<longrightarrow> k \<le> m + 1)"
proof -
  let ?segs = "list_sort e menor_dir_fisica (list_seg u)"
  let ?p = "peor (tam_mem_total u) ?segs 0 (-1, -1)"
  note o = umv_inv_en_orden [OF assms(1,2)] and S = list_sort_set [OF assms(2)]
  have r: "fst (buscar_espacio_mem_prin e n u) = (if n \<le> fst ?p then snd ?p else -1)"
    using assms(4) buscar_worst_fit_peor [OF o, of "-1" n "-1"]
    by (cases rule: buscar_espacio_cases [of u e n]) simp_all
  have "hueco (tam_mem_total u) (set ?segs) (snd ?p) (fst ?p)"
    using peor_hueco [OF o, of "{}" "(-1, -1)"] by simp
  moreover have "k \<le> fst ?p + 1" if "hueco (tam_mem_total u) (set ?segs) q k" for q k
  proof -
    have "0 \<le> q" using that by (simp add: hueco_def)
    then show ?thesis using peor_maximo [OF o, of "(-1, -1)"] that by auto
  qed
  ultimately show ?thesis
    using r assms(5,6) unfolding S by (intro exI [of _ "fst ?p"]) (auto split: if_splits)
qed

theorem worst_fit_correcto_testigo:
  "\<exists>m \<ge> 3. hueco 24 (set (list_seg u_ej)) 4 m"
proof -
  let ?u = "u_ej\<lparr>alg_actual := 2\<rparr>"
  have u: "umv_inv ?u" using u_ej_inv by (simp add: umv_inv_def)
  have "fst (buscar_espacio_mem_prin e_ej 3 ?u) = 4"
    by (simp add: buscar_espacio_mem_prin_def ordenar_lista_seg_por_dir_fisica_def e_ej_def
        FIRST_FIT_def buscar_worst_fit.simps recorrer_worst_fit.simps i32_simps)
  then show ?thesis
    using worst_fit_correcto [OF u list_sort_e_ej, of 3 4] by (auto simp: FIRST_FIT_def)
qed

section \<open>Compaction\<close>

lemma colocar_nth:
  "i < length ss \<Longrightarrow> dir_fisica (colocar ind ss ! i) = ind + ocupado (take i (colocar ind ss))"
proof (induction ss arbitrary: i ind)
  case Nil
  then show ?case by simp
next
  case (Cons s ss)
  then show ?case by (cases i) auto
qed

text \<open>
  C33. Compaction succeeds, keeps every segment (owner, logical address, size and kind) and
  lays the segments out one after another from address 0, so the free bytes end up in one
  hole behind them.
\<close>

theorem compactar_correcto:
  assumes "umv_inv u" "list_sort_ok e" "pila_ok e (tam_mem_total u)"
  shows "\<exists>u'. compactar e u = Inr u' \<and> umv_inv u' \<and> marco u u' \<and> contenido u' = contenido u
    \<and> (\<forall>i < length (list_seg u'). dir_fisica (list_seg u' ! i) = ocupado (take i (list_seg u')))
    \<and> hueco (tam_mem_total u) (set (list_seg u')) (ocupado (list_seg u))
        (tam_mem_total u - ocupado (list_seg u))"
proof -
  let ?s = "list_sort e menor_dir_fisica (list_seg u)"
  obtain m where m: "length m = length (mem_prin u)"
    "compactar e u = Inr (u\<lparr>list_seg := colocar 0 ?s, mem_prin := m\<rparr>)"
    by (rule compactar_ok [OF assms])
  let ?u = "u\<lparr>list_seg := colocar 0 ?s, mem_prin := m\<rparr>"
  have ms: "mset ?s = mset (list_seg u)" using assms(2) by (simp add: list_sort_ok_def)
  note i = umv_inv_colocar [OF assms(1) ms m(1)]
  have "contenido ?u = contenido u"
    using ms by (simp add: contenido_def flip: mset_map) (simp add: sin_dir_colocar)
  moreover have "length (colocar 0 ?s) = length ?s"
    using arg_cong [OF sin_dir_colocar [of 0 ?s], of length] by simp
  then have "dir_fisica (colocar 0 ?s ! j) = ocupado (take j (colocar 0 ?s))"
    if "j < length (colocar 0 ?s)" for j
    using colocar_nth [of j ?s 0] that by simp
  moreover have "ocupado ?s = ocupado (list_seg u)" by (rule ocupado_mset [OF ms])
  then have "hueco (tam_mem_total u) (set (list_seg ?u)) (ocupado (list_seg u))
        (tam_mem_total u - ocupado (list_seg u))"
    using i umv_inv_ocupado [OF assms(1)] by (auto simp: hueco_def compacta_def)
  ultimately show ?thesis using m i by (intro exI [of _ ?u]) (simp add: marco_def)
qed

theorem compactar_correcto_testigo:
  "\<exists>u'. compactar e_ej u_ej = Inr u' \<and> umv_inv u' \<and> hueco 24 (set (list_seg u')) 16 8"
  using compactar_correcto [OF u_ej_inv list_sort_e_ej] pila_e_ej [of 24] by auto

section \<open>The abstract memory of the processes\<close>

text \<open>
  C13. The physical write refines the write on the abstract memory: it is accepted exactly when
  the range lies inside the bytes that the process sees at the base, then changes those bytes
  of that segment and nothing else, of this or of any other process.
\<close>

theorem almacenar_refina:
  assumes "umv_inv u" "tam_mem_total u < 1073741824" "vista u p b = Some bs"
  shows "\<exists>u'. almacenar_bytes p b off (int (length buf)) buf u =
      Inr (if 0 \<le> off \<and> off + int (length buf) \<le> int (length bs) then codigo R_ALM_BYTES
           else codigo SEGMEN_FAULT, u')
    \<and> vista u' = (if 0 \<le> off \<and> off + int (length buf) \<le> int (length bs)
        then (vista u)(p := (vista u p)(b \<mapsto> reemplazar bs off buf)) else vista u)"
proof -
  obtain u' where "almacenar_bytes p b off (int (length buf)) buf u =
      Inr (if 0 \<le> off \<and> off + int (length buf) \<le> int (length bs) then codigo R_ALM_BYTES
           else codigo SEGMEN_FAULT, u')"
    and v: "vista u' p = (if 0 \<le> off \<and> off + int (length buf) \<le> int (length bs)
        then (vista u p)(b \<mapsto> reemplazar bs off buf) else vista u p)"
      "\<And>q. q \<noteq> p \<Longrightarrow> vista u' q = vista u q"
    using almacenar_vista [OF assms, of off buf] by blast
  moreover have "vista u' = (if 0 \<le> off \<and> off + int (length buf) \<le> int (length bs)
        then (vista u)(p := (vista u p)(b \<mapsto> reemplazar bs off buf)) else vista u)"
  proof (rule ext)
    fix q
    show "vista u' q = (if 0 \<le> off \<and> off + int (length buf) \<le> int (length bs)
        then (vista u)(p := (vista u p)(b \<mapsto> reemplazar bs off buf)) else vista u) q"
      using v by (cases "q = p") simp_all
  qed
  ultimately show ?thesis by blast
qed

lemma vista_u_ej: "vista u_ej 1 100 = Some [0, 1, 2, 3]" "vista u_ej 2 100 = Some [8, 9, 10, 11]"
  by (simp_all add: vista_def buscar_segmento_dir_logica_def bytes_seg_def upt_rec)

theorem almacenar_refina_testigo:
  "\<exists>u'. almacenar_bytes 2 100 1 2 [70, 71] u_ej = Inr (codigo R_ALM_BYTES, u')
     \<and> vista u' 2 100 = Some [8, 70, 71, 11] \<and> vista u' 1 = vista u_ej 1"
  using almacenar_refina [OF u_ej_inv _ vista_u_ej(2), of 1 "[70, 71]"]
  by (auto simp: reemplazar_def)

lemma umv_evento_servir:
  assumes "proc_activos s soc = Some pa" "servir_cpu fresco q (pa, su s) = Inr (Some r, (pa', u'))"
  shows "umv_evento e itoa (De_CPU soc fresco q) s =
    Inr (s\<lparr>su := u', proc_activos := (proc_activos s)(soc \<mapsto> pa')\<rparr>, [(soc, r)])"
proof -
  obtain sigue where "atender_cpu fresco q pa (su s) = Inr (Some r, pa', u', sigue)"
    using assms(2) by (auto simp: servir_cpu_def bindE_eq_Inr)
  moreover from this have "sigue" by (auto simp: atender_cpu_def bindE_eq_Inr split: if_splits)
  ultimately show ?thesis using assms(1) by simp
qed

lemma servir_activo:
  "servir_cpu fresco q (pa, u) = Inr (Some r, (pa', u')) \<Longrightarrow> pa' = pa"
  by (auto simp: servir_cpu_def bindE_eq_Inr atender_cpu_def split: if_splits)

text \<open>
  What a CPU stores, it reads back: the daemon answers a store inside a segment of the
  active process with \<open>R_ALM_BYTES\<close> and the following request for the same range with the
  bytes that were stored, through the same connection.
\<close>

theorem lectura_tras_escritura:
  assumes "umv_inv (su s)" "tam_mem_total (su s) < 1073741824" "proc_activos s soc = Some p"
    "vista (su s) p b = Some bs" "0 \<le> off" "off + int (length buf) \<le> int (length bs)"
  shows "\<exists>s'. umv_evento e itoa (De_CPU soc f \<lparr>cu_tipo = codigo ALM_BYTES, cu_base = b,
        cu_offset = off, cu_tam = int (length buf), cu_buffer = buf\<rparr>) s
      = Inr (s', [(soc, respuesta_vacia R_ALM_BYTES)])
    \<and> umv_evento e itoa (De_CPU soc g \<lparr>cu_tipo = codigo SOL_BYTES, cu_base = b,
        cu_offset = off, cu_tam = int (length buf), cu_buffer = x\<rparr>) s'
      = Inr (s', [(soc, respuesta_bytes buf)])"
proof -
  let ?a = "\<lparr>cu_tipo = codigo ALM_BYTES, cu_base = b, cu_offset = off, cu_tam = int (length buf),
    cu_buffer = buf\<rparr>"
  let ?l = "\<lparr>cu_tipo = codigo SOL_BYTES, cu_base = b, cu_offset = off, cu_tam = int (length buf),
    cu_buffer = x\<rparr>"
  have i: "servir_inv (p, su s)" "servir_vista (p, su s) b = Some bs"
    using assms by (simp_all add: servir_inv_def servir_vista_def)
  obtain m' where m': "servir_cpu f ?a (p, su s) = Inr (Some (respuesta_vacia R_ALM_BYTES), m')"
    "servir_inv m'" "servir_vista m' b = Some (reemplazar bs off buf)"
    by (rule umv_cpu.escribir_leer [OF i assms(5,6), of ?a]) simp_all
  then obtain u' where u': "m' = (p, u')" using servir_activo by (cases m') blast
  have l: "servir_cpu g ?l (p, u') = Inr (Some (respuesta_bytes buf), (p, u'))"
    using umv_cpu.sol_ok [of m' ?l "reemplazar bs off buf" g] m' u' assms(5,6)
      reemplazar_mismo [of off buf bs] by simp
  let ?s = "s\<lparr>su := u', proc_activos := (proc_activos s)(soc \<mapsto> p)\<rparr>"
  have "umv_evento e itoa (De_CPU soc f ?a) s = Inr (?s, [(soc, respuesta_vacia R_ALM_BYTES)])"
    using umv_evento_servir [OF assms(3)] m'(1) u' by blast
  moreover have "umv_evento e itoa (De_CPU soc g ?l) ?s = Inr (?s, [(soc, respuesta_bytes buf)])"
    using umv_evento_servir [of ?s soc p g ?l "respuesta_bytes buf" p u' e itoa] l by simp
  ultimately show ?thesis by blast
qed

definition s_ej :: umv_sistema where
  "s_ej = \<lparr>su = u_ej, soc_kernel_umv = 4, proc_activos = [5 \<mapsto> 2]\<rparr>"

theorem lectura_tras_escritura_testigo:
  "\<exists>s'. umv_evento e_ej (\<lambda>_. []) (De_CPU 5 (\<lambda>_. 0) \<lparr>cu_tipo = 301, cu_base = 100,
        cu_offset = 2, cu_tam = 2, cu_buffer = [70, 71]\<rparr>) s_ej
      = Inr (s', [(5, respuesta_vacia R_ALM_BYTES)])
    \<and> umv_evento e_ej (\<lambda>_. []) (De_CPU 5 (\<lambda>_. 0) \<lparr>cu_tipo = 300, cu_base = 100,
        cu_offset = 2, cu_tam = 2, cu_buffer = []\<rparr>) s'
      = Inr (s', [(5, respuesta_bytes [70, 71])])"
  using lectura_tras_escritura [of s_ej 5 2 100 "[8, 9, 10, 11]" 2 "[70, 71]" e_ej "\<lambda>_. []" "\<lambda>_. 0" "\<lambda>_. 0" "[]"]
    u_ej_inv vista_u_ej by (simp add: s_ej_def)

section \<open>Isolation\<close>

lemma vista_None:
  "vista u p b = None \<Longrightarrow> b < 0 \<or> buscar_segmento_dir_logica u p b = None"
  by (auto simp: vista_def split: if_splits)

lemma almacenar_sin_vista:
  assumes "umv_inv u" "tam_mem_total u < 1073741824" "vista u p b = None"
    "almacenar_bytes p b off (int (length buf)) buf u = Inr (c, u')"
  shows "u' = u"
  using assms(4) vista_None [OF assms(3)]
  by (auto simp: almacenar_bytes_eq [OF assms(1,2)] rechaza_def split: if_splits)

text \<open>
  C14. Isolation: whatever message a CPU sends, when the daemon handles it without crashing,
  the memory that every process other than the CPU's active one sees is unchanged (a message
  arrives with a buffer of the size that it announces).
\<close>

theorem aislamiento:
  assumes "umv_inv (su s)" "tam_mem_total (su s) < 1073741824" "proc_activos s soc = Some p"
    "cu_tam men = int (length (cu_buffer men))"
    "umv_evento e itoa (De_CPU soc fresco men) s = Inr (s', out)" "q \<noteq> p"
  shows "vista (su s') q = vista (su s) q"
proof -
  obtain r pa' u' sigue where a: "atender_cpu fresco men p (su s) = Inr (r, pa', u', sigue)"
    and s': "su s' = u'"
    using assms(3,5) by (auto simp: bindE_eq_Inr)
  show ?thesis
  proof (cases "cu_tipo men = codigo ALM_BYTES")
    case False
    then have "u' = su s" using a by (auto simp: atender_cpu_def bindE_eq_Inr split: if_splits)
    then show ?thesis using s' by simp
  next
    case True
    then obtain c where c: "almacenar_bytes p (cu_base men) (cu_offset men)
        (int (length (cu_buffer men))) (cu_buffer men) (su s) = Inr (c, u')"
      using a assms(4)
      by (auto simp: atender_cpu_def gestionar_almacenamiento_bytes_def bindE_eq_Inr)
    show ?thesis
    proof (cases "vista (su s) p (cu_base men)")
      case None
      from almacenar_sin_vista [OF assms(1,2) this c] show ?thesis using s' by simp
    next
      case (Some bs)
      from almacenar_vista [OF assms(1,2) this, of "cu_offset men" "cu_buffer men"]
      show ?thesis using c s' assms(6) by auto
    qed
  qed
qed

theorem aislamiento_testigo:
  "\<exists>s'. umv_evento e_ej (\<lambda>_. []) (De_CPU 5 (\<lambda>_. 0) \<lparr>cu_tipo = 301, cu_base = 100,
        cu_offset = 2, cu_tam = 2, cu_buffer = [70, 71]\<rparr>) s_ej = Inr (s', [(5, respuesta_vacia R_ALM_BYTES)])
     \<and> vista (su s') 1 = vista u_ej 1"
proof -
  let ?m = "\<lparr>cu_tipo = 301, cu_base = 100, cu_offset = 2, cu_tam = 2, cu_buffer = [70, 71]\<rparr>"
  have s: "su s_ej = u_ej" "proc_activos s_ej 5 = Some 2" by (simp_all add: s_ej_def)
  have "\<exists>s'. umv_evento e_ej (\<lambda>_. []) (De_CPU 5 (\<lambda>_. 0) ?m) s_ej = Inr (s', [(5, respuesta_vacia R_ALM_BYTES)])"
    by (simp add: s atender_cpu_def gestionar_almacenamiento_bytes_def almacenar_bytes_def
        buscar_segmento_dir_logica_def leer_def escribir_def i32_simps respuesta_vacia_def
        crear_men_comun_def)
  then obtain s' where e: "umv_evento e_ej (\<lambda>_. []) (De_CPU 5 (\<lambda>_. 0) ?m) s_ej
      = Inr (s', [(5, respuesta_vacia R_ALM_BYTES)])" by blast
  from aislamiento [OF _ _ s(2) _ e, of 1] u_ej_inv have "vista (su s') 1 = vista u_ej 1"
    by (simp add: s)
  with e show ?thesis by blast
qed

text \<open>
  When the kernel destroys the segments of a process, the process sees no memory any more,
  every other process sees what it saw before, and the kernel gets its acknowledgement.
\<close>

theorem destruir_aisla:
  assumes "ms_tipo men = codigo DESTR_SEGS" "ms_id_prog men = p" "p \<noteq> 0"
  shows "\<exists>s'. umv_evento e itoa (De_Kernel a men aux) s
      = Inr (s', [(soc_kernel_umv s, respuesta_vacia SINCRO_OK)])
    \<and> vista (su s') = (vista (su s))(p := Map.empty)"
proof -
  let ?u = "destruirSegmentos p (su s)"
  have n: "buscar_segmento_dir_logica ?u p b = None" for b
    using destruir_propio [of _ p "su s"]
    by (auto simp: buscar_segmento_dir_logica_def find_None_iff)
  have m: "mem_prin ?u = mem_prin (su s)" by (simp add: destruirSegmentos_eq)
  have "vista ?u q = ((vista (su s))(p := Map.empty)) q" for q
    using n m destruir_otro [OF assms(3), of q "su s"]
    by (cases "q = p") (auto simp: vista_def fun_eq_iff)
  then show ?thesis
    using assms by (intro exI [of _ "s\<lparr>su := ?u\<rparr>"])
      (auto simp: atender_kernel_def respuesta_vacia_def)
qed

theorem destruir_aisla_testigo:
  "\<exists>s'. umv_evento e_ej (\<lambda>_. []) (De_Kernel 0 (crear_men_seg 204 1 0)
        \<lparr>tam_dato = 0, tipo = 0, dato = []\<rparr>) s_ej = Inr (s', [(4, respuesta_vacia SINCRO_OK)])
     \<and> vista (su s') 1 = Map.empty \<and> vista (su s') 2 = vista u_ej 2"
  using destruir_aisla [of "crear_men_seg 204 1 0" 1 e_ej "\<lambda>_. []" 0
      "\<lparr>tam_dato = 0, tipo = 0, dato = []\<rparr>" s_ej]
  by (auto simp: crear_men_seg_def s_ej_def)

section \<open>The requests that end the daemon\<close>

lemma solicitar_longitud:
  "0 \<le> tam \<Longrightarrow> solicitar_bytes fresco u p base off tam = Inr (Some bs) \<Longrightarrow> int (length bs) = tam"
  using length_leer
  by (fastforce simp: solicitar_bytes_def bindE_eq_Inr Let_def split: if_splits option.splits)

text \<open>
  In a valid memory below 1 GiB the only message of a CPU that ends the daemon is a store,
  in bounds of the memory as a whole, at a base where the active process has no segment: the
  missing segment is a null pointer. Every other message (of a non-negative size, with the
  buffer that it announces) is answered or ignored.
\<close>

theorem caida_por_cpu:
  assumes "umv_inv u" "tam_mem_total u < 1073741824" "0 \<le> cu_tam men"
    "cu_tipo men = codigo ALM_BYTES \<Longrightarrow> cu_tam men = int (length (cu_buffer men))"
  shows "atender_cpu fresco men p u = Inl er \<longleftrightarrow> er = Puntero_Nulo
    \<and> cu_tipo men = codigo ALM_BYTES \<and> \<not> rechaza u (cu_base men) (cu_offset men) (cu_tam men)
    \<and> buscar_segmento_dir_logica u p (cu_base men) = None"
proof (cases "cu_tipo men = codigo ALM_BYTES")
  case True
  note t = assms(4) [OF True]
  show ?thesis
    using True unfolding atender_cpu_def gestionar_almacenamiento_bytes_def t
      almacenar_bytes_eq [OF assms(1,2)] by (auto split: option.splits)
next
  case False
  obtain r where r: "solicitar_bytes fresco u p (cu_base men) (cu_offset men) (cu_tam men) = Inr r"
    using solicitar_bytes_eq [OF assms(1-3)] by blast
  have "\<exists>m. gestionar_solicitud_bytes fresco men p u = Inr m"
  proof (cases r)
    case (Some bs)
    then have "int (length bs) = cu_tam men" using solicitar_longitud [OF assms(3)] r by blast
    then show ?thesis using r Some by (simp add: gestionar_solicitud_bytes_def crear_men_comun_todo)
  qed (use r in \<open>simp add: gestionar_solicitud_bytes_def\<close>)
  then show ?thesis using False by (auto simp: atender_cpu_def)
qed

theorem caida_por_cpu_testigo:
  "atender_cpu (\<lambda>_. 0) \<lparr>cu_tipo = 301, cu_base = 7, cu_offset = 0, cu_tam = 1, cu_buffer = [9]\<rparr> 2 u_ej
     = Inl Puntero_Nulo"
  using caida_por_cpu [OF u_ej_inv, of "\<lparr>cu_tipo = 301, cu_base = 7, cu_offset = 0, cu_tam = 1,
      cu_buffer = [9]\<rparr>" "\<lambda>_. 0" 2 Puntero_Nulo]
  by (simp add: rechaza_def buscar_segmento_dir_logica_def)

end
