(* ===== verification/UMV_Fallas.thy ===== *)
theory UMV_Fallas
  imports UMV_Corridas
begin

text \<open>
  Where the memory unit leaves its contract: compaction does not carry the bytes along, a hole
  of exactly the requested size is passed over, a base without a segment is readable, a sum of
  offset and size that leaves the 32 bits escapes the bounds check, and shrinking the memory
  leaves segments outside.
\<close>

section \<open>Compaction and the exact hole\<close>

definition u_compactada :: umv where
  "u_compactada = u_ej\<lparr>list_seg := [seg_ej 1 100 0 4, seg_ej 2 100 4 4, seg_ej 1 200 8 8],
     mem_prin := map word_of_nat [0..<4] @ replicate 12 204 @ map word_of_nat [16..<24]\<rparr>"

lemma compactar_u_ej:
  "compactar e_ej (u_ej\<lparr>list_seg := sort_key dir_fisica (list_seg u_ej)\<rparr>) = Inr u_compactada"
  by (simp add: compactar_def ordenar_lista_seg_por_dir_fisica_def e_ej_def compactar_segs.simps
      leer_def escribir_def i32_simps upt_rec numeral_eq_Suc seg_ej_def u_compactada_def)

lemma buscar_u_compactada: "buscar_espacio_mem_prin e_ej 4 u_compactada = (16, u_compactada)"
  by (simp add: buscar_espacio_mem_prin_def ordenar_lista_seg_por_dir_fisica_def e_ej_def
        FIRST_FIT_def buscar_first_fit.simps recorrer_first_fit.simps i32_simps u_compactada_def)

lemma buscar_u_ej:
  "buscar_espacio_mem_prin e_ej 4 u_ej = (-1, u_ej\<lparr>list_seg := sort_key dir_fisica (list_seg u_ej)\<rparr>)"
  by (simp add: buscar_espacio_mem_prin_def ordenar_lista_seg_por_dir_fisica_def e_ej_def
        FIRST_FIT_def buscar_first_fit.simps recorrer_first_fit.simps i32_simps)

text \<open>
  A request that fits a hole exactly is not served from it: the search fails, although
  four bytes at address 4 are free and four are asked for. The compaction that follows moves
  the segment of process 2 and fills it with the bytes that lie on the stack behind the local
  pointer (here 204) in place of its data: the process loses its memory to a request that
  needed no compaction.
\<close>

theorem hueco_justo_pierde_datos:
  "hueco 24 (set (list_seg u_ej)) 4 4 \<and> fst (buscar_espacio_mem_prin e_ej 4 u_ej) = -1
   \<and> vista u_ej 2 100 = Some [8, 9, 10, 11]
   \<and> (\<exists>u'. crearSegmento e_ej 300 (crear_men_seg 203 3 4) u_ej = Inr (300, u')
        \<and> vista u' 2 100 = Some [204, 204, 204, 204])"
proof -
  have "vista u_ej 2 100 = Some [8, 9, 10, 11]"
    by (simp add: vista_def buscar_segmento_dir_logica_def bytes_seg_def upt_rec)
  moreover have "crearSegmento e_ej 300 (crear_men_seg 203 3 4) u_ej = Inr (300,
      u_compactada\<lparr>list_seg := list_seg u_compactada @ [(seg_ej 3 300 16 4)\<lparr>tipo_seg := 209\<rparr>]\<rparr>)"
    by (simp add: crearSegmento_def crear_men_seg_def buscar_u_ej compactar_u_ej
        buscar_u_compactada tipo_seg_pedido_def seg_ej_def del: u_ej_campos)
  moreover have "vista (u_compactada\<lparr>list_seg := list_seg u_compactada @ [t]\<rparr>) 2 100
      = Some [204, 204, 204, 204]" for t
    by (simp add: u_compactada_def vista_def buscar_segmento_dir_logica_def bytes_seg_def
        numeral_eq_Suc)
  moreover have "hueco 24 (set (list_seg u_ej)) 4 4" by (simp add: hueco_def)
  ultimately show ?thesis by (simp add: buscar_u_ej del: u_ej_campos)
qed

section \<open>Bases without a segment\<close>

text \<open>
  A read at a base where the active process has no segment is not refused: the CPU gets
  \<open>R_SOL_BYTES\<close> with as many bytes as it asked for, which are what the allocator left in the
  fresh block.
\<close>

theorem lectura_sin_segmento:
  assumes "buscar_segmento_dir_logica u p (cu_base men) = None" "cu_tipo men = codigo SOL_BYTES"
    "0 \<le> cu_base men" "0 \<le> cu_offset men" "cu_offset men \<le> tam_mem_total u"
    "0 \<le> cu_tam men" "cu_tam men \<le> tam_mem_total u"
  shows "atender_cpu fresco men p u
    = Inr (Some (respuesta_bytes (map fresco [0..<nat (cu_tam men)])), p, u, True)"
proof -
  have "solicitar_bytes fresco u p (cu_base men) (cu_offset men) (cu_tam men)
      = Inr (Some (map fresco [0..<nat (cu_tam men)]))"
    using assms by (simp add: solicitar_bytes_def)
  then show ?thesis
    using assms(2,6) by (simp add: atender_cpu_def gestionar_solicitud_bytes_def
        crear_men_comun_todo respuesta_bytes_def)
qed

theorem lectura_sin_segmento_testigo:
  "atender_cpu (\<lambda>_. 77) \<lparr>cu_tipo = 300, cu_base = 7, cu_offset = 0, cu_tam = 2, cu_buffer = []\<rparr> 2 u_ej
     = Inr (Some (respuesta_bytes [77, 77]), 2, u_ej, True)"
  using lectura_sin_segmento [of u_ej 2 "\<lparr>cu_tipo = 300, cu_base = 7, cu_offset = 0, cu_tam = 2,
      cu_buffer = []\<rparr>" "\<lambda>_. 77"]
  by (simp add: buscar_segmento_dir_logica_def upt_rec)

section \<open>The sum of offset and size\<close>

lemma i32_desborde:
  assumes "2147483648 \<le> x" "x < 6442450944"
  shows "i32 x = x - 4294967296"
proof -
  have "(x + 2147483648) mod 4294967296 = (x + 2147483648 - 4294967296) mod 4294967296"
    using minus_mod_self2 [of "x + 2147483648" "4294967296 :: int"] by (rule sym)
  also have "\<dots> = x + 2147483648 - 4294967296" using assms by (intro mod_pos_pos_trivial) simp_all
  finally show ?thesis by (simp add: i32_def)
qed

text \<open>
  With a memory of 1 GiB or more the sum of offset and size can leave the 32 bits. Then it
  is negative, every comparison with the size of the segment lets the access through, and the
  daemon reads outside its memory, instead of answering \<open>SEGMEN_FAULT\<close>.
\<close>

theorem desborde_escapa_control:
  assumes "umv_inv u" "buscar_segmento_dir_logica u p b = Some s"
    "\<not> rechaza u b off tam" "0 \<le> tam" "2147483648 \<le> off + tam"
  shows "solicitar_bytes fresco u p b off tam = Inl Fuera_de_Rango"
proof -
  have r: "0 \<le> off" "off < 2147483648" "tam < 2147483648"
    "\<not> (off < 0 \<or> b < 0 \<or> tam_mem_total u < off \<or> tam_mem_total u < tam)"
    using assms(1,3) by (auto simp: rechaza_def umv_inv_def)
  have s: "0 \<le> dir_fisica s" "0 \<le> tam_seg s" "dir_fisica s + tam_seg s < 2147483648"
    "int (length (mem_prin u)) < 2147483648"
    using umv_inv_seg [OF assms(1)] buscar_dir_logica_Some [OF assms(2)] assms(1)
    by (fastforce simp: umv_inv_def)+
  have suma: "i32 (off + tam) < 0" using r assms(5) by (simp add: i32_desborde)
  have "leer (mem_prin u) (i32 (dir_fisica s + off)) tam = Inl Fuera_de_Rango"
  proof (cases "dir_fisica s + off < 2147483648")
    case True
    then show ?thesis using r s assms(5) by (simp add: i32_id_bounds leer_def)
  next
    case False
    then have "i32 (dir_fisica s + off) < 0" using r s by (simp add: i32_desborde)
    then show ?thesis by (simp add: leer_def)
  qed
  then show ?thesis using r(4) suma s(2) assms(2) by (simp add: solicitar_bytes_def)
qed

definition u_grande :: umv where
  "u_grande = \<lparr>mem_prin = replicate (nat 2147483647) 0, tam_mem_total = 2147483647,
     list_seg = [seg_ej 1 100 0 8], alg_actual = 1, umv_retardo = 0, umv_quit = 1\<rparr>"

theorem desborde_escapa_control_testigo:
  "solicitar_bytes (\<lambda>_. 0) u_grande 1 100 2147483647 1 = Inl Fuera_de_Rango"
proof (rule desborde_escapa_control)
  show "umv_inv u_grande"
    unfolding umv_inv_def u_grande_def by (simp add: seg_ok_def)
  show "buscar_segmento_dir_logica u_grande 1 100 = Some (seg_ej 1 100 0 8)"
    unfolding u_grande_def buscar_segmento_dir_logica_def by simp
  show "\<not> rechaza u_grande 100 2147483647 1"
    unfolding u_grande_def rechaza_def by simp
qed simp_all

section \<open>Shrinking the memory\<close>

text \<open>
  The operator can shrink the memory below a segment: the segment table stays as it is,
  the invariant is lost, and the next legal read of the owner leaves the memory.
\<close>

theorem achicar_rompe:
  "umv_inv u_ej \<and> \<not> umv_inv (cambiar_mem_total (\<lambda>_. 0) 20 u_ej)
   \<and> solicitar_bytes (\<lambda>_. 0) (cambiar_mem_total (\<lambda>_. 0) 20 u_ej) 1 200 0 8 = Inl Fuera_de_Rango"
  using u_ej_inv
  by (simp add: cambiar_mem_total_def umv_inv_def seg_ok_def solicitar_bytes_def
      buscar_segmento_dir_logica_def leer_def i32_simps)

end
