(* ===== verification/Cadenas.thy ===== *)
theory Cadenas
  imports Prelude
begin

text \<open>
  C strings inside message buffers: the text up to the terminator, which the dictionaries use
  as key, and the decimal numbers that the daemons exchange (\<open>atoi\<close>, and \<open>string_itoa\<close> of the
  commons library by its documented result).
\<close>

text \<open>
  Reading a string: an absent buffer is a null pointer, and a buffer without a terminator is
  read beyond its end.
\<close>

definition cadena :: "byte list \<Rightarrow> byte list res" where
  "cadena bs = (if bs = [] then Inl Puntero_Nulo
     else if 0 \<in> set bs then Inr (takeWhile (\<lambda>b. b \<noteq> 0) bs) else Inl Fuera_de_Rango)"

lemma cadena_terminada [simp]: "0 \<notin> set s \<Longrightarrow> cadena (s @ 0 # r) = Inr s"
  by (simp add: cadena_def takeWhile_append)

text \<open>
  \<open>atoi\<close>: white space, a sign, digits up to the first other character; the value is that of
  \<open>strtol\<close> (which saturates at 64 bits) cut to 32 bits.
\<close>

definition es_espacio :: "byte \<Rightarrow> bool" where
  "es_espacio b \<longleftrightarrow> b \<in> {32, 9, 10, 11, 12, 13}"

definition es_digito :: "byte \<Rightarrow> bool" where
  "es_digito b \<longleftrightarrow> 48 \<le> uint b \<and> uint b \<le> 57"

fun digitos :: "int \<Rightarrow> byte list \<Rightarrow> int res" where
  "digitos acc [] = Inl Fuera_de_Rango"
| "digitos acc (b # bs) =
     (if es_digito b then digitos (acc * 10 + (uint b - 48)) bs else Inr acc)"

definition a_int :: "int \<Rightarrow> int" where
  "a_int v = i32 (max (- 9223372036854775808) (min 9223372036854775807 v))"

definition atoi :: "byte list \<Rightarrow> int res" where
  "atoi bs = (if bs = [] then Inl Puntero_Nulo
     else case dropWhile es_espacio bs of
       [] \<Rightarrow> Inl Fuera_de_Rango
     | b # r \<Rightarrow>
         if b = 45 then bindE (digitos 0 r) (\<lambda>v. Inr (a_int (- v)))
         else if b = 43 then bindE (digitos 0 r) (\<lambda>v. Inr (a_int v))
         else bindE (digitos 0 (b # r)) (\<lambda>v. Inr (a_int v)))"

text \<open>The decimal representation, and what the documentation of \<open>string_itoa\<close> promises.\<close>

fun cifras :: "nat \<Rightarrow> byte list" where
  "cifras n = (if n < 10 then [word_of_nat (48 + n)]
     else cifras (n div 10) @ [word_of_nat (48 + n mod 10)])"

declare cifras.simps [simp del]

definition decimal :: "int \<Rightarrow> byte list" where
  "decimal n = (if n < 0 then 45 # cifras (nat (- n)) else cifras (nat n))"

definition itoa_ok :: "(int \<Rightarrow> byte list) \<Rightarrow> bool" where
  "itoa_ok itoa \<longleftrightarrow> (\<forall>n. es_i32 n \<longrightarrow> itoa n = decimal n)"

lemma uint_cifra: "d < 10 \<Longrightarrow> uint (word_of_nat (48 + d) :: byte) = 48 + int d"
proof -
  assume "d < 10"
  then have "d = 0 \<or> d = 1 \<or> d = 2 \<or> d = 3 \<or> d = 4 \<or> d = 5 \<or> d = 6 \<or> d = 7 \<or> d = 8 \<or> d = 9"
    by arith
  then show ?thesis by (elim disjE) simp_all
qed

lemma cifra_digito: "d < 10 \<Longrightarrow> es_digito (word_of_nat (48 + d))"
  by (simp only: es_digito_def uint_cifra) simp

lemma digitos_append:
  "(\<And>b. b \<in> set ds \<Longrightarrow> es_digito b) \<Longrightarrow>
     digitos acc (ds @ r) = digitos (foldl (\<lambda>a b. a * 10 + (uint b - 48)) acc ds) r"
  by (induction ds arbitrary: acc) auto

lemma cifras_digitos: "b \<in> set (cifras n) \<Longrightarrow> es_digito b"
proof (induction n arbitrary: b rule: cifras.induct)
  case (1 n)
  show ?case
  proof (cases "n < 10")
    case True
    then have "b = word_of_nat (48 + n)" using "1.prems" by (simp add: cifras.simps [of n])
    then show ?thesis using True cifra_digito by simp
  next
    case False
    then have "b \<in> set (cifras (n div 10)) \<or> b = word_of_nat (48 + n mod 10)"
      using "1.prems" by (auto simp: cifras.simps [of n])
    then show ?thesis using "1.IH" False cifra_digito [of "n mod 10"] by auto
  qed
qed

lemma valor_cifras: "foldl (\<lambda>a b. a * 10 + (uint b - 48)) 0 (cifras n) = int n"
proof (induction n rule: cifras.induct)
  case (1 n)
  show ?case
  proof (cases "n < 10")
    case True
    then show ?thesis
      by (simp add: cifras.simps [of n] uint_cifra del: of_nat_add)
  next
    case False
    have "int n = int (n div 10) * 10 + int (n mod 10)"
      by (metis div_mult_mod_eq of_nat_add of_nat_mult of_nat_numeral)
    with False 1 show ?thesis
      by (simp add: cifras.simps [of n] uint_cifra del: of_nat_add)
  qed
qed

lemma cifras_no_vacio: "cifras n \<noteq> []"
  by (simp add: cifras.simps [of n])

lemma digito_no_signo: "es_digito b \<Longrightarrow> b \<noteq> 45 \<and> b \<noteq> 43 \<and> b \<noteq> 0 \<and> \<not> es_espacio b"
  by (auto simp: es_digito_def es_espacio_def)

lemma digitos_cifras: "\<not> es_digito z \<Longrightarrow> digitos 0 (cifras n @ z # r) = Inr (int n)"
  using digitos_append [of "cifras n" 0 "z # r"] cifras_digitos valor_cifras by simp

lemma a_int_id: "es_i32 n \<Longrightarrow> a_int n = n"
  by (simp add: a_int_def es_i32_def i32_id_bounds)

text \<open>A number that one daemon prints, with its terminator, is read back by the other.\<close>

lemma atoi_decimal:
  assumes "es_i32 n"
  shows "atoi (decimal n @ 0 # r) = Inr n"
proof -
  have cero: "\<not> es_digito 0" by (simp add: es_digito_def)
  show ?thesis
  proof (cases "n < 0")
    case True
    then have "a_int (- int (nat (- n))) = n" using assms by (simp add: a_int_id)
    then show ?thesis
      using True digitos_cifras [OF cero, of "nat (- n)" r]
      by (simp add: atoi_def decimal_def es_espacio_def)
  next
    case False
    obtain b bs where c: "cifras (nat n) = b # bs" using cifras_no_vacio by (cases "cifras (nat n)") auto
    then have d: "b \<noteq> 45 \<and> b \<noteq> 43 \<and> b \<noteq> 0 \<and> \<not> es_espacio b"
      using cifras_digitos [of b "nat n"] digito_no_signo by simp
    have "digitos 0 (b # bs @ 0 # r) = Inr n"
      using digitos_cifras [OF cero, of "nat n" r] c False by simp
    then show ?thesis
      using False c d assms by (simp add: atoi_def decimal_def a_int_id del: digitos.simps)
  qed
qed

lemma decimal_sin_cero: "0 \<notin> set (decimal n)"
  using cifras_digitos digito_no_signo by (auto simp: decimal_def)

end
