(* ===== verification/Terminal.thy ===== *)
theory Terminal
  imports Cadenas
begin

text \<open>
  The terminal of a daemon and its log files. What is written is a list of pieces, each with
  its destination; a number is the piece that \<open>string_itoa\<close> or \<open>%i\<close> makes of it. The keyboard
  is a list of characters that \<open>scanf\<close> and \<open>fgets\<close> consume. Prompts, which are constant texts
  on the screen, are left out, and letters outside ASCII are written without their mark.
\<close>

section \<open>Writing\<close>

datatype destino = Pantalla | Archivo_Consola | Archivo_Log

datatype pieza = Txt string | Num int | Bytes "byte list" | Medio_Arriba | Medio_Abajo | Bloque_Lleno

type_synonym escrito = "(destino \<times> pieza) list"

definition en :: "destino \<Rightarrow> pieza list \<Rightarrow> escrito" where
  "en d ps = map (Pair d) ps"

definition lo_de :: "destino \<Rightarrow> escrito \<Rightarrow> pieza list" where
  "lo_de d w = map snd (filter (\<lambda>(d', p). d' = d) w)"

definition NL :: pieza where "NL = Txt [CHR 0x0A]"
definition TAB :: pieza where "TAB = Txt [CHR 0x09]"

lemma en_simps [simp]:
  "lo_de d (en d ps) = ps" "d \<noteq> d' \<Longrightarrow> lo_de d (en d' ps) = []"
  "lo_de d (v @ w) = lo_de d v @ lo_de d w" "lo_de d [] = []"
  by (simp_all add: lo_de_def en_def filter_map comp_def)

text \<open>\<open>logear_char\<close> of the memory unit: the number of a (signed) character, and a dash.\<close>

definition logear_char :: "byte \<Rightarrow> pieza list" where
  "logear_char un_char =
     (if un_char = 0 then [Txt [CHR 0x5C, CHR 0x30]] else [Num (sint un_char)]) @ [Txt ''-'']"

section \<open>Reading\<close>

text \<open>
  A loop that reads characters with \<open>%c\<close> until one of them is an option. At the end of the
  input \<open>scanf\<close> leaves the variable as it is: the loop ends if the variable holds an option
  (\<open>ant\<close> is what it holds), and otherwise never.
\<close>

fun leer_opcion :: "(byte \<Rightarrow> bool) \<Rightarrow> byte \<Rightarrow> byte list \<Rightarrow> (byte \<times> byte list) res" where
  "leer_opcion es_opcion ant [] = (if es_opcion ant then Inr (ant, []) else Inl Bloqueado)"
| "leer_opcion es_opcion ant (c # cs) =
     (if es_opcion c then Inr (c, cs) else leer_opcion es_opcion c cs)"

definition entre :: "int \<Rightarrow> int \<Rightarrow> byte \<Rightarrow> bool" where
  "entre desde hasta c \<longleftrightarrow> desde \<le> sint c \<and> sint c \<le> hasta"

text \<open>
  The conversion \<open>%i\<close>: white space, a sign, and a number in base ten, in base sixteen after
  \<open>0x\<close> or in base eight after \<open>0\<close>.
\<close>

definition valor_cifra :: "byte \<Rightarrow> int" where
  "valor_cifra b = (let n = uint b in
     if 48 \<le> n \<and> n \<le> 57 then n - 48 else if 97 \<le> n \<and> n \<le> 102 then n - 87
     else if 65 \<le> n \<and> n \<le> 70 then n - 55 else 99)"

fun en_base :: "int \<Rightarrow> int \<Rightarrow> byte list \<Rightarrow> int \<times> byte list" where
  "en_base base acc [] = (acc, [])"
| "en_base base acc (b # bs) =
     (if valor_cifra b < base then en_base base (acc * base + valor_cifra b) bs else (acc, b # bs))"

definition numero_i :: "byte list \<Rightarrow> int option \<times> byte list" where
  "numero_i s = (case s of [] \<Rightarrow> (None, [])
     | b # r \<Rightarrow>
         if b = 48 \<and> r \<noteq> [] \<and> hd r \<in> {88, 120}
         then (if tl r \<noteq> [] \<and> valor_cifra (hd (tl r)) < 16
               then apfst Some (en_base 16 0 (tl r)) else (None, tl r))
         else if b = 48 then apfst Some (en_base 8 0 s)
         else if valor_cifra b < 10 then apfst Some (en_base 10 0 s) else (None, s))"

definition scanf_i :: "byte list \<Rightarrow> int option \<times> byte list" where
  "scanf_i s = (case dropWhile es_espacio s of [] \<Rightarrow> (None, [])
     | b # r \<Rightarrow>
         if b = 45 then apfst (map_option (\<lambda>n. a_int (- n))) (numero_i r)
         else if b = 43 then apfst (map_option a_int) (numero_i r)
         else apfst (map_option a_int) (numero_i (b # r)))"

text \<open>A variable that the conversion does not set keeps what it held, \<open>v\<close>.\<close>

definition leer_entero :: "int \<Rightarrow> byte list \<Rightarrow> int \<times> byte list" where
  "leer_entero v s = (case scanf_i s of (r, s') \<Rightarrow> (case r of None \<Rightarrow> v | Some n \<Rightarrow> n, s'))"

text \<open>\<open>fgets\<close> with a block of \<open>n\<close> bytes: the characters it stores before the terminator.\<close>

definition fgets :: "int \<Rightarrow> byte list \<Rightarrow> byte list option \<times> byte list" where
  "fgets n s =
     (if n \<le> 0 \<or> (n > 1 \<and> s = []) then (None, s)
      else let t = take (nat (n - 1)) s;
               l = takeWhile (\<lambda>c. c \<noteq> 10) t @ (if 10 \<in> set t then [10] else [])
           in (Some l, drop (length l) s))"

section \<open>The input only gets shorter\<close>

lemma leer_opcion_Inr:
  "leer_opcion p ant s = Inr (c, s') \<Longrightarrow> p c \<and> length s' \<le> length s - 1"
  by (induction s arbitrary: ant) (fastforce split: if_splits)+

lemma leer_opcion_primera:
  "\<exists>c \<in> set s. p c \<Longrightarrow> leer_opcion p ant s = Inr (hd (dropWhile (\<lambda>c. \<not> p c) s), tl (dropWhile (\<lambda>c. \<not> p c) s))"
  by (induction s arbitrary: ant) auto

lemma en_base_resto: "length (snd (en_base base acc s)) \<le> length s"
  by (induction s arbitrary: acc) (auto simp: le_SucI)

lemma numero_i_resto: "length (snd (numero_i s)) \<le> length s"
  using en_base_resto [of 16 0 "tl (tl s)"] en_base_resto [of 16 0 "tl s"]
    en_base_resto [of 8 0 s] en_base_resto [of 10 0 s]
  by (auto simp: numero_i_def split: list.splits)

lemma scanf_i_resto: "length (snd (scanf_i s)) \<le> length s"
proof (cases "dropWhile es_espacio s")
  case Nil
  have "scanf_i s = (None, [])" unfolding scanf_i_def Nil by simp
  then show ?thesis by simp
next
  case (Cons b r)
  then have "length (b # r) \<le> length s" using length_dropWhile_le [of es_espacio s] by simp
  then show ?thesis
    using Cons numero_i_resto [of r] numero_i_resto [of "b # r"] by (auto simp: scanf_i_def)
qed

lemma leer_entero_resto: "leer_entero v s = (n, s') \<Longrightarrow> length s' \<le> length s"
  using scanf_i_resto [of s] by (auto simp: leer_entero_def split: prod.splits)

lemma fgets_resto: "fgets n s = (r, s') \<Longrightarrow> length s' \<le> length s"
  by (auto simp: fgets_def Let_def split: if_splits)

lemma fgets_cabe:
  assumes "fgets n s = (Some l, s')"
  shows "int (length l) < n"
proof -
  let ?t = "take (nat (n - 1)) s"
  have n: "1 \<le> n" using assms by (auto simp: fgets_def split: if_splits)
  have l: "l = takeWhile (\<lambda>c. c \<noteq> 10) ?t @ (if 10 \<in> set ?t then [10] else [])"
    using assms by (auto simp: fgets_def Let_def split: if_splits)
  have "length l \<le> length ?t"
  proof (cases "10 \<in> set ?t")
    case True
    then have "length (takeWhile (\<lambda>c. c \<noteq> 10) ?t) < length ?t"
      by (metis (mono_tags, lifting) antisym_conv1 length_takeWhile_le takeWhile_eq_all_conv
          takeWhile_eq_take take_all_iff order_refl)
    then show ?thesis using l True by simp
  next
    case False
    then have "l = takeWhile (\<lambda>c. c \<noteq> 10) ?t" using l by simp
    then show ?thesis by (simp only: length_takeWhile_le)
  qed
  then have "length l \<le> nat (n - 1)" by simp
  then show ?thesis using n by linarith
qed

end
