(* ===== verification/UMV_Consola.thy ===== *)
theory UMV_Consola
  imports UMV_Server Terminal
begin

text \<open>
  The console of the memory unit as its operator meets it: the menus that read the keyboard,
  what they write to the console's log and to the screen, and the printing of the segment
  table, of the map of the memory and of its bytes (\<open>UMV/UMV.c\<close>, from \<open>crearConsola\<close> on).
  What the operations on segments write to \<open>umv.log\<close> is left out.
\<close>

section \<open>Printing the memory\<close>

definition imp_seg :: "t_seg \<Rightarrow> pieza list" where
  "imp_seg seg = [TAB, Num (tipo_seg seg), TAB, Txt ''|'', Num (id_proc seg), TAB, Txt ''|'',
     Num (dir_fisica seg), TAB, Txt ''|'', Num (tam_seg seg), TAB, Txt ''|'',
     Num (dir_logica seg), NL]"

definition titulo_segs :: "pieza list" where
  "titulo_segs = [TAB, Txt ''TIPO'', TAB, Txt ''|ID'', TAB, Txt ''|DIR_F'', TAB, Txt ''|TAM'',
     TAB, Txt ''|DIR_L'', NL]"

text \<open>With a process the title goes to the log only, its segments to the screen as well.\<close>

definition imp_tablas_segmentos :: "int \<Rightarrow> umv \<Rightarrow> escrito" where
  "imp_tablas_segmentos id_prog u =
     (let imp = (\<lambda>seg. en Pantalla (imp_seg seg) @ en Archivo_Consola (imp_seg seg)) in
      if id_prog = 0 then
        (if list_seg u = []
         then en Archivo_Consola [TAB, Txt ''Lista de segmentos vacia'', NL]
           @ en Pantalla [NL, TAB, Txt ''Lista de segmentos vacia'', NL]
         else en Archivo_Consola titulo_segs @ en Pantalla (NL # titulo_segs)
           @ concat (map imp (list_seg u)))
      else if find (\<lambda>seg. id_proc seg = id_prog) (list_seg u) = None
        then en Archivo_Consola [TAB, Txt ''El proceso no existe'', NL]
      else en Archivo_Consola titulo_segs @ en Archivo_Consola [TAB]
        @ concat (map imp (filter (\<lambda>seg. id_proc seg = id_prog) (list_seg u))))"

text \<open>
  The map: the free bytes up to \<open>hasta\<close>, each the upper or the lower half of a block in
  turn (\<open>anterior\<close>), then a segment, as the number of its process and a full block for each
  byte, and so on; the free bytes behind the last segment end the line.
\<close>

function imp_libres :: "int \<Rightarrow> int \<Rightarrow> bool \<Rightarrow> pieza list \<times> int \<times> bool" where
  "imp_libres hasta ind_mem anterior =
     (if ind_mem < hasta
      then case imp_libres hasta (ind_mem + 1) (\<not> anterior) of
        (ps, r) \<Rightarrow> ((if anterior then Medio_Abajo else Medio_Arriba) # ps, r)
      else ([], ind_mem, anterior))"
  by pat_completeness auto
termination
  by (relation "measure (\<lambda>(hasta, ind_mem, _). nat (hasta - ind_mem))") auto

fun imp_bloques :: "int \<Rightarrow> t_seg list \<Rightarrow> int \<Rightarrow> bool \<Rightarrow> pieza list" where
  "imp_bloques tot [] ind_mem anterior = fst (imp_libres tot ind_mem anterior)"
| "imp_bloques tot (aux_seg # segs) ind_mem anterior =
     (case imp_libres (dir_fisica aux_seg) ind_mem anterior of
        (ps, ind_mem', anterior') \<Rightarrow>
          ps @ Num (id_proc aux_seg) # replicate (nat (tam_seg aux_seg)) Bloque_Lleno
             @ imp_bloques tot segs (i32 (ind_mem' + max 0 (tam_seg aux_seg))) anterior')"

definition imp_mem_prin :: "entorno \<Rightarrow> umv \<Rightarrow> escrito \<times> umv" where
  "imp_mem_prin e u =
     (let u' = ordenar_lista_seg_por_dir_fisica e u in
      (en Archivo_Consola ([Txt ''Imprimo la memoria principal'', NL, TAB]
         @ imp_bloques (tam_mem_total u') (list_seg u') 0 False @ [NL]), u'))"

text \<open>
  The bytes from \<open>offset\<close> on. Only the end of the range is compared with the size of the
  memory; the loop reads whatever indices are in the range.
\<close>

definition byte_de :: "byte list \<Rightarrow> int \<Rightarrow> byte res" where
  "byte_de m i = bindE (leer m i 1) (\<lambda>b. Inr (hd b))"

fun imp_bytes :: "byte list \<Rightarrow> int list \<Rightarrow> pieza list res" where
  "imp_bytes m [] = Inr []"
| "imp_bytes m (i # is) =
     bindE (byte_de m i) (\<lambda>b. bindE (imp_bytes m is) (\<lambda>ps. Inr (logear_char b @ ps)))"

definition imp_cont_mem_prin :: "int \<Rightarrow> int \<Rightarrow> umv \<Rightarrow> escrito res" where
  "imp_cont_mem_prin offset tam u =
     bindE (if i32 (tam + offset) > tam_mem_total u
            then Inr [TAB, Txt ''Segmentation Fault'', NL]
            else bindE (imp_bytes (mem_prin u) [offset .. i32 (offset + tam) - 1])
                   (\<lambda>ps. Inr ([TAB] @ ps @ [NL])))
       (\<lambda>ps. Inr (en Archivo_Consola
          ([Txt ''Imprimo contenido de la memoria principal, Offset:'', Num offset,
            Txt '', Cantidad de bytes:'', Num tam, NL] @ ps)))"

section \<open>The menus\<close>

text \<open>
  What a round of the console gets from outside: the value of \<open>rand()\<close>, the bytes of a fresh
  block, and what a local variable holds that nothing has set.
\<close>

record azar =
  az_rand :: int
  az_fresco :: "nat \<Rightarrow> byte"
  az_basura :: int

definition cambiar_mem_total_io :: "azar \<Rightarrow> byte list \<Rightarrow> umv \<Rightarrow> byte list \<times> umv" where
  "cambiar_mem_total_io az s u =
     (case leer_entero (az_basura az) s of (nuevo_tamanio, s') \<Rightarrow>
        (s', cambiar_mem_total (az_fresco az) nuevo_tamanio u))"

definition crear_segmento_io ::
  "azar \<Rightarrow> entorno \<Rightarrow> int \<Rightarrow> int \<Rightarrow> int \<Rightarrow> umv \<Rightarrow> (escrito \<times> umv) res" where
  "crear_segmento_io az e id_p tipo_s tam u =
     bindE (crearSegmento e (az_rand az) (crear_men_seg tipo_s id_p tam) u) (\<lambda>(dir, u').
       Inr (en Archivo_Consola
         ([Txt ''Creo segmento con ID proceso: '', Num id_p, Txt '', tipo: '', Num tipo_s,
           Txt '', tamanio: '', Num tam, NL]
          @ (if dir = -1 then [TAB, Txt ''Memory overload'', NL]
             else [TAB, Txt ''Direccion logica del segmento: '', Num dir, NL])), u'))"

definition destruir_segmento_io :: "int \<Rightarrow> umv \<Rightarrow> escrito \<times> umv" where
  "destruir_segmento_io id_p u =
     (en Archivo_Consola
        (if id_p = 0 then [Txt ''Destruyo todos los segmentos de la tabla'', NL]
         else [Txt ''Destruyo los segmentos del proceso n'', Num id_p, NL]),
      destruirSegmentos id_p u)"

definition operacion_segmentos_io ::
  "azar \<Rightarrow> entorno \<Rightarrow> byte \<Rightarrow> byte list \<Rightarrow> umv \<Rightarrow> (escrito \<times> byte list \<times> umv) res" where
  "operacion_segmentos_io az e opcion s u =
     (if opcion = 49
      then let (id_p, s1) = leer_entero (az_basura az) s;
               (tipo_s, s2) = leer_entero (az_basura az) s1;
               (tam, s3) = leer_entero (az_basura az) s2
           in bindE (crear_segmento_io az e id_p tipo_s tam u) (\<lambda>(w, u'). Inr (w, s3, u'))
      else let (id_p, s1) = leer_entero (az_basura az) s;
               (w, u') = destruir_segmento_io id_p u
           in Inr (w, s1, u'))"

definition no_encontrado :: "int \<Rightarrow> int \<Rightarrow> pieza list" where
  "no_encontrado tipo_s id_p = [TAB, Txt ''ERROR no se a encontrado el tipo de segmento n'',
     Num tipo_s, Txt '' del proceso '', Num id_p, NL]"

definition datos_memoria :: "int \<Rightarrow> int \<Rightarrow> int \<Rightarrow> int \<Rightarrow> pieza list" where
  "datos_memoria id_p tipo_s offset tam = [Txt '' la memoria del proceso n: '', Num id_p,
     Txt '', Tipo de segmento: '', Num tipo_s, Txt '', Offset: '', Num offset,
     Txt '', Tamanio: '', Num tam]"

definition imprimir_memoria_io ::
  "azar \<Rightarrow> int \<Rightarrow> int \<Rightarrow> int \<Rightarrow> int \<Rightarrow> umv \<Rightarrow> escrito res" where
  "imprimir_memoria_io az id_p tipo_s offset tam u =
     bindE (case buscar_segmento_tipo_seg u id_p tipo_s of
              None \<Rightarrow> Inr (no_encontrado tipo_s id_p)
            | Some aux_seg \<Rightarrow>
                bindE (solicitar_bytes (az_fresco az) u id_p (dir_logica aux_seg) offset tam)
                  (\<lambda>buffer. case buffer of
                     None \<Rightarrow> Inr [TAB, Txt ''SEGMENTATION FAULT'', NL]
                   | Some b \<Rightarrow> bindE (imp_bytes b [0 .. tam - 1]) (\<lambda>ps. Inr ([TAB] @ ps @ [NL]))))
       (\<lambda>ps. Inr (en Archivo_Consola (Txt ''Imprimo'' # datos_memoria id_p tipo_s offset tam
          @ [NL] @ ps)))"

text \<open>
  The line to write: what is left of the current one is skipped, then \<open>fgets\<close> fills a block
  of \<open>tam + 1\<close> bytes, which holds garbage behind the terminator. A block that \<open>malloc\<close> does
  not serve, or the end of the input, makes \<open>fgets\<close> return \<open>NULL\<close>, which is logged as a text.
\<close>

definition leer_renglon :: "azar \<Rightarrow> int \<Rightarrow> byte list \<Rightarrow> (byte list \<times> byte list \<times> byte list) res" where
  "leer_renglon az tam s =
     (case fgets (i32 (tam + 1)) (drop 1 (dropWhile (\<lambda>c. c \<noteq> 10) s)) of (r, s') \<Rightarrow>
        bindE (no_nulo r) (\<lambda>l.
          Inr (l, l @ [0] @ map (az_fresco az) [length l + 1 ..< nat (i32 (tam + 1))], s')))"

definition escribir_memoria_io ::
  "int \<Rightarrow> int \<Rightarrow> int \<Rightarrow> int \<Rightarrow> byte list \<Rightarrow> byte list \<Rightarrow> umv \<Rightarrow> (escrito \<times> umv) res" where
  "escribir_memoria_io id_p tipo_s offset tam renglon buffer u =
     bindE (case buscar_segmento_tipo_seg u id_p tipo_s of
              None \<Rightarrow> Inr (no_encontrado tipo_s id_p, u)
            | Some aux_seg \<Rightarrow>
                bindE (almacenar_bytes id_p (dir_logica aux_seg) offset tam buffer u)
                  (\<lambda>(resp, u'). Inr
                     (if resp = codigo SEGMEN_FAULT then [TAB, Txt ''Segmentation Fault'', NL]
                      else [TAB, Txt ''Se escribio corectamente'', NL], u')))
       (\<lambda>(ps, u'). Inr (en Archivo_Consola (Txt ''Escribo'' # datos_memoria id_p tipo_s offset tam
          @ [Txt '', Buffer: '', Bytes (takeWhile (\<lambda>c. c \<noteq> 0) renglon), NL] @ ps), u'))"

definition operacion_memoria_io ::
  "azar \<Rightarrow> byte \<Rightarrow> byte list \<Rightarrow> umv \<Rightarrow> (escrito \<times> byte list \<times> umv) res" where
  "operacion_memoria_io az opcion s u =
     (let (id_p, s1) = leer_entero 0 s;
          (tipo_s, s2) = leer_entero 0 s1;
          (offset, s3) = leer_entero 0 s2;
          (tam, s4) = leer_entero 0 s3
      in if opcion = 51
         then bindE (imprimir_memoria_io az id_p tipo_s offset tam u) (\<lambda>w. Inr (w, s4, u))
         else bindE (leer_renglon az tam s4) (\<lambda>(renglon, buffer, s5).
              bindE (escribir_memoria_io id_p tipo_s offset tam renglon buffer u) (\<lambda>(w, u').
              Inr (w, s5, u'))))"

definition operacion ::
  "azar \<Rightarrow> entorno \<Rightarrow> byte list \<Rightarrow> umv \<Rightarrow> (escrito \<times> byte list \<times> umv) res" where
  "operacion az e s u =
     bindE (leer_opcion (entre 49 52) (word_of_int (az_basura az)) s) (\<lambda>(opcion, s').
       if opcion = 49 \<or> opcion = 50 then operacion_segmentos_io az e opcion s' u
       else operacion_memoria_io az opcion s' u)"

definition cambiarAlgoritmo_io :: "umv \<Rightarrow> escrito \<times> umv" where
  "cambiarAlgoritmo_io u =
     (en Pantalla [Txt (if alg_actual u = WORST_FIT then ''Algoritmo cambiado a = First-Fit''
        else ''Algoritmo cambiado a = Worst-Fit''), NL], cambiarAlgoritmo u)"

definition cambiarRetardo_io :: "azar \<Rightarrow> byte list \<Rightarrow> umv \<Rightarrow> escrito \<times> byte list \<times> umv" where
  "cambiarRetardo_io az s u =
     (case leer_entero (az_basura az) s of (t, s') \<Rightarrow>
        if dropWhile es_espacio s \<noteq> [] \<and> t \<ge> 0
        then (en Pantalla [Txt ''Nuevo retardo: '', Num t, NL], s', cambiarRetardo t u)
        else (en Pantalla [Txt ''Tiempo no valido.'', NL], s', u))"

definition imp_estructura_mem :: "azar \<Rightarrow> byte list \<Rightarrow> umv \<Rightarrow> escrito \<times> byte list" where
  "imp_estructura_mem az s u =
     (case leer_entero (az_basura az) s of (id_prog, s') \<Rightarrow>
        (en Archivo_Consola
           (if id_prog \<noteq> 0 then [Txt ''Imprimo los segmentos del proceso n'', Num id_prog, NL]
            else [Txt ''Imprimo todos los segmentos de los procesos'', NL])
         @ imp_tablas_segmentos id_prog u, s'))"

definition imprimirDump ::
  "azar \<Rightarrow> entorno \<Rightarrow> byte list \<Rightarrow> umv \<Rightarrow> (escrito \<times> byte list \<times> umv) res" where
  "imprimirDump az e s u =
     bindE (leer_opcion (entre 49 51) (word_of_int (az_basura az)) s) (\<lambda>(opcion, s').
       if opcion = 49 then (case imp_estructura_mem az s' u of (w, s'') \<Rightarrow> Inr (w, s'', u))
       else if opcion = 50 then (case imp_mem_prin e u of (w, u') \<Rightarrow> Inr (w, s', u'))
       else let (offset, s1) = leer_entero (az_basura az) s';
                (tam, s2) = leer_entero (az_basura az) s1
            in bindE (imp_cont_mem_prin offset tam u) (\<lambda>w. Inr (w, s2, u)))"

text \<open>One round: the option that the menu returned, and what it does.\<close>

definition atender_opcion ::
  "azar \<Rightarrow> entorno \<Rightarrow> byte \<Rightarrow> byte list \<Rightarrow> umv \<Rightarrow> (escrito \<times> byte list \<times> umv) res" where
  "atender_opcion az e opcion s u =
     (if opcion = 48 then (case cambiar_mem_total_io az s u of (s', u') \<Rightarrow> Inr ([], s', u'))
      else if opcion = 49 then operacion az e s u
      else if opcion = 50 then Inr (cambiarRetardo_io az s u)
      else if opcion = 51 then (case cambiarAlgoritmo_io u of (w, u') \<Rightarrow> Inr (w, s, u'))
      else if opcion = 52 then
        bindE (compactar e u) (\<lambda>u'. Inr ([], s, u'))
      else if opcion = 53 then imprimirDump az e s u
      else Inr ([], s, u))"

text \<open>
  The loop of the console, with a bound on its rounds: \<open>None\<close> when it is still running
  after that many. \<open>az\<close> gives what each round gets from outside.
\<close>

fun rondas_consola ::
  "nat \<Rightarrow> (nat \<Rightarrow> azar) \<Rightarrow> entorno \<Rightarrow> byte \<Rightarrow> byte list \<Rightarrow> umv
     \<Rightarrow> (escrito \<times> byte list \<times> umv) res option" where
  "rondas_consola 0 az e ant s u = None"
| "rondas_consola (Suc n) az e ant s u =
     (case leer_opcion (entre 48 54) ant s of
        Inl err \<Rightarrow> Some (Inl err)
      | Inr (opcion, s1) \<Rightarrow>
          (case atender_opcion (az 0) e opcion s1 u of
             Inl err \<Rightarrow> Some (Inl err)
           | Inr (w, s2, u') \<Rightarrow>
               if opcion = 54 then Some (Inr (w, s2, u'))
               else map_option (\<lambda>r. bindE r (\<lambda>(w', s', u''). Inr (w @ w', s', u'')))
                      (rondas_consola n (\<lambda>i. az (Suc i)) e opcion s2 u')))"

definition crearConsola ::
  "nat \<Rightarrow> (nat \<Rightarrow> azar) \<Rightarrow> entorno \<Rightarrow> byte list \<Rightarrow> umv \<Rightarrow> (escrito \<times> byte list \<times> umv) res option" where
  "crearConsola n az e s u =
     map_option (\<lambda>r. bindE r (\<lambda>(w, s', u').
       Inr (en Archivo_Consola [Txt ''----------Nueva ejecucion-------'', NL] @ w
          @ en Archivo_Consola [Txt ''----------Fin ejecucion---------'', NL],
        s', u'\<lparr>umv_quit := 0\<rparr>)))
       (rondas_consola n (\<lambda>i. az (Suc i)) e (word_of_int (az_basura (az 0))) s u)"

declare imp_libres.simps [simp del] imp_bloques.simps(2) [simp del]

end
