(* ===== verification/UMV_Consola_Prop.thy ===== *)
theory UMV_Consola_Prop
  imports UMV_Consola UMV_Corridas
begin

text \<open>
  What the operator of the memory unit sees and does: the printed map shows every byte of
  the memory as it is, and a round of the console is at most one order of the model of the
  daemon, so that the invariant of its runs covers the console as well.
\<close>

section \<open>The map of the memory\<close>

definition es_marca :: "pieza \<Rightarrow> bool" where
  "es_marca p \<longleftrightarrow> p \<in> {Medio_Arriba, Medio_Abajo, Bloque_Lleno}"

definition marcas :: "pieza list \<Rightarrow> pieza list" where
  "marcas ps = filter es_marca ps"

lemma marcas_simps [simp]:
  "marcas [] = []" "marcas (p # ps) = (if es_marca p then p # marcas ps else marcas ps)"
  "marcas (ps @ qs) = marcas ps @ marcas qs" "es_marca Medio_Arriba" "es_marca Medio_Abajo"
  "es_marca Bloque_Lleno" "\<not> es_marca (Num n)" "\<not> es_marca (Txt t)" "marcas (replicate k Bloque_Lleno) = replicate k Bloque_Lleno"
  by (simp_all add: marcas_def es_marca_def)

text \<open>\<open>n\<close> half blocks in turn, from the upper one on when \<open>a\<close> is false.\<close>

fun medios :: "nat \<Rightarrow> bool \<Rightarrow> pieza list" where
  "medios 0 a = []"
| "medios (Suc n) a = (if a then Medio_Abajo else Medio_Arriba) # medios n (\<not> a)"

lemma medios_simps [simp]:
  "length (medios n a) = n" "marcas (medios n a) = medios n a" "Bloque_Lleno \<notin> set (medios n a)"
  "filter (\<lambda>p. p \<noteq> Bloque_Lleno) (medios n a) = medios n a"
  by (induction n arbitrary: a) auto

lemma medios_add: "medios (m + n) a = medios m a @ medios n (a \<noteq> odd m)"
proof (induction m arbitrary: a)
  case (Suc m)
  show ?case using Suc [of "\<not> a"] by (cases a; cases "odd m") simp_all
qed simp

lemma imp_libres_eq:
  "imp_libres hasta ind a =
     (medios (nat (hasta - ind)) a, max ind hasta, a \<noteq> odd (nat (hasta - ind)))"
proof (induction hasta ind a rule: imp_libres.induct)
  case (1 hasta ind a)
  show ?case
  proof (cases "ind < hasta")
    case True
    then have "nat (hasta - ind) = Suc (nat (hasta - (ind + 1)))" by linarith
    then show ?thesis using 1 True by (subst imp_libres.simps) auto
  next
    case False
    then show ?thesis by (subst imp_libres.simps) auto
  qed
qed

text \<open>What the map holds from the address \<open>ind\<close> on.\<close>

definition lleno :: "t_seg list \<Rightarrow> int \<Rightarrow> bool" where
  "lleno segs k \<longleftrightarrow> (\<exists>s \<in> set segs. dir_fisica s \<le> k \<and> k < dir_fisica s + tam_seg s)"

lemma imp_bloques_Cons:
  assumes "en_orden tot ind (s # ss)"
  shows "imp_bloques tot (s # ss) ind a =
    medios (nat (dir_fisica s - ind)) a @ Num (id_proc s) # replicate (nat (tam_seg s)) Bloque_Lleno
      @ imp_bloques tot ss (paso ind s) (a \<noteq> odd (nat (dir_fisica s - ind)))"
  using en_orden_seg [OF assms] by (simp add: imp_bloques.simps(2) imp_libres_eq paso_def max_def)

lemma imp_bloques_length:
  "en_orden tot ind ss \<Longrightarrow> length (marcas (imp_bloques tot ss ind a)) = nat (tot - ind)"
proof (induction ss arbitrary: ind a)
  case Nil
  then show ?case by (simp add: imp_libres_eq)
next
  case (Cons s ss)
  note o = en_orden_seg [OF Cons.prems]
  have "nat (dir_fisica s - ind) + nat (tam_seg s) + nat (tot - paso ind s) = nat (tot - ind)"
    using o by (auto simp: paso_def max_def)
  then show ?case
    using Cons.IH [OF en_orden_Cons [OF Cons.prems]] by (simp add: imp_bloques_Cons [OF Cons.prems])
qed

lemma nth_tras_bloques:
  "length xs + n \<le> i \<Longrightarrow> (xs @ replicate n b @ ys) ! i = ys ! (i - length xs - n)"
  by (auto simp: nth_append)

lemma imp_bloques_nth:
  assumes "en_orden tot ind ss" "ind \<le> k" "k < tot"
  shows "marcas (imp_bloques tot ss ind a) ! nat (k - ind) = Bloque_Lleno \<longleftrightarrow> lleno ss k"
  using assms
proof (induction ss arbitrary: ind a)
  case Nil
  have "medios (nat (tot - ind)) a ! nat (k - ind) \<in> set (medios (nat (tot - ind)) a)"
    using Nil by (intro nth_mem) simp
  then show ?case by (auto simp: imp_libres_eq lleno_def)
next
  case (Cons s ss)
  note o = en_orden_seg [OF Cons.prems(1)] and IH = Cons.IH [OF en_orden_Cons [OF Cons.prems(1)]]
  let ?d = "nat (dir_fisica s - ind)" and ?t = "nat (tam_seg s)"
  let ?m = "medios ?d a" and ?r = "marcas (imp_bloques tot ss (paso ind s) (a \<noteq> odd ?d))"
  have m: "marcas (imp_bloques tot (s # ss) ind a) = ?m @ replicate ?t Bloque_Lleno @ ?r"
    by (simp add: imp_bloques_Cons [OF Cons.prems(1)])
  have despues: "dir_fisica s \<le> dir_fisica t" if "t \<in> set ss" for t
    using en_orden_despues [OF Cons.prems(1) that] .
  consider "k < dir_fisica s" | "dir_fisica s \<le> k" "k < paso ind s" | "paso ind s \<le> k"
    by linarith
  then show ?case
  proof cases
    case 1
    then have "nat (k - ind) < ?d" using Cons.prems(2) by linarith
    then have "(?m @ replicate ?t Bloque_Lleno @ ?r) ! nat (k - ind) \<in> set ?m"
      by (simp add: nth_append)
    moreover have "\<not> lleno (s # ss) k" using 1 despues by (force simp: lleno_def)
    ultimately show ?thesis using m by (metis medios_simps(3))
  next
    case 2
    then have "?d \<le> nat (k - ind)" "nat (k - ind) - ?d < ?t" "dir_fisica s \<le> k \<and> k < dir_fisica s + tam_seg s"
      using o Cons.prems(2) by (auto simp: paso_def max_def split: if_splits)
    then show ?thesis using m by (auto simp: nth_append lleno_def)
  next
    case 3
    have "?d + ?t \<le> nat (k - ind)" "nat (k - ind) - ?d - ?t = nat (k - paso ind s)"
      using 3 o by (auto simp: paso_def max_def split: if_splits)
    then have "(?m @ replicate ?t Bloque_Lleno @ ?r) ! nat (k - ind) = ?r ! nat (k - paso ind s)"
      using nth_tras_bloques [of ?m ?t "nat (k - ind)" Bloque_Lleno ?r] by simp
    moreover have "lleno (s # ss) k \<longleftrightarrow> lleno ss k" using 3 o by (auto simp: lleno_def)
    ultimately show ?thesis using m IH [OF 3 Cons.prems(3)] by simp
  qed
qed

text \<open>
  The free bytes alternate over the whole map, however many segments lie between them, when
  no empty segment is left behind.
\<close>

lemma imp_bloques_medios:
  "en_orden tot ind ss \<Longrightarrow>
     filter (\<lambda>p. p \<noteq> Bloque_Lleno) (marcas (imp_bloques tot ss ind a)) = medios (nat (tot - ind - ocupado ss)) a"
proof (induction ss arbitrary: ind a)
  case Nil
  then show ?case by (simp add: imp_libres_eq)
next
  case (Cons s ss)
  note o = en_orden_seg [OF Cons.prems]
  have f: "paso ind s + ocupado ss \<le> tot"
    using final_cotas [OF en_orden_Cons [OF Cons.prems]] by linarith
  have "nat (tot - ind - ocupado (s # ss)) = nat (dir_fisica s - ind) + nat (tot - paso ind s - ocupado ss)"
    using o f by (auto simp: paso_def max_def split: if_splits)
  then show ?case
    using Cons.IH [OF en_orden_Cons [OF Cons.prems]]
    by (simp add: imp_bloques_Cons [OF Cons.prems] medios_add)
qed

text \<open>Reading a map: each number starts a segment at the count of the marks before it.\<close>

fun leer_mapa :: "int \<Rightarrow> pieza list \<Rightarrow> (int \<times> int \<times> int) list" where
  "leer_mapa ind [] = []"
| "leer_mapa ind (p # ps) =
     (case p of
        Num n \<Rightarrow> (n, ind, int (length (takeWhile (\<lambda>q. q = Bloque_Lleno) ps))) # leer_mapa ind ps
      | _ \<Rightarrow> leer_mapa (ind + 1) ps)"

lemma leer_mapa_medios: "leer_mapa ind (medios n a @ ps) = leer_mapa (ind + int n) ps"
  by (induction n arbitrary: ind a) (auto simp: algebra_simps)

lemma leer_mapa_bloques: "leer_mapa ind (replicate n Bloque_Lleno @ ps) = leer_mapa (ind + int n) ps"
  by (induction n arbitrary: ind) (auto simp: algebra_simps)

lemma takeWhile_bloques:
  "takeWhile (\<lambda>q. q = Bloque_Lleno) (replicate n Bloque_Lleno @ ps) = replicate n Bloque_Lleno @ takeWhile (\<lambda>q. q = Bloque_Lleno) ps"
  by (induction n) auto

lemma takeWhile_medios: "takeWhile (\<lambda>q. q = Bloque_Lleno) (medios n a) = []"
  by (cases n) auto

lemma takeWhile_imp_bloques:
  "en_orden tot ind ss \<Longrightarrow> takeWhile (\<lambda>q. q = Bloque_Lleno) (imp_bloques tot ss ind a) = []"
proof (cases ss)
  case Nil
  then show ?thesis by (simp add: imp_libres_eq takeWhile_medios)
next
  case (Cons s ss')
  assume o: "en_orden tot ind ss"
  show ?thesis
    unfolding Cons imp_bloques_Cons [OF o [unfolded Cons]]
    by (cases "nat (dir_fisica s - ind)") auto
qed

lemma leer_mapa_imp_bloques:
  "en_orden tot ind ss \<Longrightarrow> (\<And>s. s \<in> set ss \<Longrightarrow> 0 < tam_seg s) \<Longrightarrow>
     leer_mapa ind (imp_bloques tot ss ind a) = map (\<lambda>s. (id_proc s, dir_fisica s, tam_seg s)) ss"
proof (induction ss arbitrary: ind a)
  case Nil
  then show ?case
    using leer_mapa_medios [of ind "nat (tot - ind)" a "[]"] by (simp add: imp_libres_eq)
next
  case (Cons s ss)
  note o = en_orden_seg [OF Cons.prems(1)] and o' = en_orden_Cons [OF Cons.prems(1)]
  have t: "0 < tam_seg s" by (rule Cons.prems(2)) simp
  then have d: "ind \<le> dir_fisica s" "paso ind s = dir_fisica s + tam_seg s"
    using o(9) by (auto simp: paso_def)
  have IH: "leer_mapa (paso ind s) (imp_bloques tot ss (paso ind s) b)
      = map (\<lambda>s. (id_proc s, dir_fisica s, tam_seg s)) ss" for b
    using Cons.IH [OF o'] Cons.prems(2) by simp
  show ?case
    unfolding imp_bloques_Cons [OF Cons.prems(1)]
    using t d IH by (simp add: leer_mapa_medios leer_mapa_bloques takeWhile_bloques
        takeWhile_imp_bloques [OF o', unfolded d(2)])
qed

text \<open>
  C26. The map that the operator prints has one mark for each byte of the memory. A byte is
  drawn full exactly when it belongs to a segment, and the free ones are drawn as upper and
  lower halves in turn. When no segment is empty the map can be read back: it determines the
  process, the place and the size of every segment.
\<close>

theorem mapa_fiel:
  assumes "umv_inv u" "list_sort_ok e"
  shows "\<exists>ps. fst (imp_mem_prin e u) = en Archivo_Consola
           ([Txt ''Imprimo la memoria principal'', NL, TAB] @ ps @ [NL])
    \<and> length (marcas ps) = nat (tam_mem_total u)
    \<and> (\<forall>k. 0 \<le> k \<and> k < tam_mem_total u \<longrightarrow>
         (marcas ps ! nat k = Bloque_Lleno) = lleno (list_seg u) k)
    \<and> filter (\<lambda>p. p \<noteq> Bloque_Lleno) (marcas ps)
        = medios (nat (tam_mem_total u - ocupado (list_seg u))) False
    \<and> ((\<forall>s \<in> set (list_seg u). 0 < tam_seg s) \<longrightarrow>
         mset (leer_mapa 0 ps) = {# (id_proc s, dir_fisica s, tam_seg s). s \<in># mset (list_seg u) #})"
proof (intro exI conjI allI impI)
  let ?ss = "list_sort e menor_dir_fisica (list_seg u)"
  let ?ps = "imp_bloques (tam_mem_total u) ?ss 0 False"
  note o = umv_inv_en_orden [OF assms]
  have m: "mset ?ss = mset (list_seg u)" using assms(2) by (simp add: list_sort_ok_def)
  show "fst (imp_mem_prin e u) = en Archivo_Consola
      ([Txt ''Imprimo la memoria principal'', NL, TAB] @ ?ps @ [NL])"
    by (simp add: imp_mem_prin_def ordenar_lista_seg_por_dir_fisica_def)
  show "length (marcas ?ps) = nat (tam_mem_total u)" using imp_bloques_length [OF o] by simp
  show "filter (\<lambda>p. p \<noteq> Bloque_Lleno) (marcas ?ps) = medios (nat (tam_mem_total u - ocupado (list_seg u))) False"
    using imp_bloques_medios [OF o] ocupado_mset [OF m] by simp
  show "(marcas ?ps ! nat k = Bloque_Lleno) = lleno (list_seg u) k"
    if "0 \<le> k \<and> k < tam_mem_total u" for k
    using imp_bloques_nth [OF o, of k False] that mset_eq_setD [OF m] by (simp add: lleno_def)
  show "mset (leer_mapa 0 ?ps) = {# (id_proc s, dir_fisica s, tam_seg s). s \<in># mset (list_seg u) #}"
    if "\<forall>s \<in> set (list_seg u). 0 < tam_seg s"
    using leer_mapa_imp_bloques [OF o, of False] that mset_eq_setD [OF m] m
    by (simp flip: m)
qed

theorem mapa_fiel_testigo:
  "\<exists>ps. fst (imp_mem_prin e_ej u_ej) = en Archivo_Consola
       ([Txt ''Imprimo la memoria principal'', NL, TAB] @ ps @ [NL])
    \<and> length (marcas ps) = nat (tam_mem_total u_ej)
    \<and> mset (leer_mapa 0 ps)
        = {# (id_proc s, dir_fisica s, tam_seg s). s \<in># mset (list_seg u_ej) #}"
proof -
  have "\<forall>s \<in> set (list_seg u_ej). 0 < tam_seg s" by (simp add: u_ej_def seg_ej_def)
  with mapa_fiel [OF u_ej_inv list_sort_e_ej] show ?thesis by blast
qed

section \<open>A round of the console is an order\<close>

fun consola_opt :: "entorno \<Rightarrow> orden option \<Rightarrow> umv \<Rightarrow> umv res" where
  "consola_opt e None u = Inr u"
| "consola_opt e (Some ord) u = consola e ord u"

lemma solicitar_sin_efecto:
  assumes "imprimir_memoria_io az i t off n u = Inr w"
  shows "consola e (Solicitar_Memoria i t off n (az_fresco az)) u = Inr u"
  using assms by (auto simp: imprimir_memoria_io_def bindE_eq_Inr split: option.splits)

lemma escribir_memoria_io_orden:
  assumes "escribir_memoria_io i t off n r b u = Inr (w, u')"
  shows "consola e (Escribir_Memoria i t off n b) u = Inr u'"
  using assms by (auto simp: escribir_memoria_io_def bindE_eq_Inr split: option.splits)

lemma operacion_segmentos_io_orden:
  assumes "operacion_segmentos_io az e opcion s u = Inr (w, s', u')"
  shows "\<exists>ord. consola e ord u = Inr u'"
proof (cases "opcion = 49")
  case True
  then obtain i t n where "crear_segmento_io az e i t n u = Inr (w, u')"
    using assms by (auto simp: operacion_segmentos_io_def bindE_eq_Inr split: prod.splits)
  then have "consola e (Crear_Segmento i t n (az_rand az)) u = Inr u'"
    by (auto simp: crear_segmento_io_def bindE_eq_Inr)
  then show ?thesis by blast
next
  case False
  then obtain i where "u' = destruirSegmentos i u"
    using assms by (auto simp: operacion_segmentos_io_def destruir_segmento_io_def split: prod.splits)
  then have "consola e (Destruir_Segmento i) u = Inr u'" by simp
  then show ?thesis by blast
qed

lemma operacion_memoria_io_orden:
  assumes "operacion_memoria_io az opcion s u = Inr (w, s', u')"
  shows "\<exists>ord. consola e ord u = Inr u'"
proof -
  obtain i s1 where 1: "leer_entero 0 s = (i, s1)" by fastforce
  obtain t s2 where 2: "leer_entero 0 s1 = (t, s2)" by fastforce
  obtain off s3 where 3: "leer_entero 0 s2 = (off, s3)" by fastforce
  obtain n s4 where 4: "leer_entero 0 s3 = (n, s4)" by fastforce
  show ?thesis
  proof (cases "opcion = 51")
    case True
    then have "bindE (imprimir_memoria_io az i t off n u) (\<lambda>w. Inr (w, s4, u)) = Inr (w, s', u')"
      using assms by (simp add: operacion_memoria_io_def 1 2 3 4)
    then obtain v where "imprimir_memoria_io az i t off n u = Inr v" "u' = u"
      unfolding bindE_eq_Inr by blast
    then show ?thesis using solicitar_sin_efecto by blast
  next
    case False
    then have "bindE (leer_renglon az n s4) (\<lambda>(renglon, buffer, s5).
        bindE (escribir_memoria_io i t off n renglon buffer u) (\<lambda>(w, u'). Inr (w, s5, u')))
      = Inr (w, s', u')"
      using assms by (simp add: operacion_memoria_io_def 1 2 3 4)
    then obtain r b where "escribir_memoria_io i t off n r b u = Inr (w, u')"
      by (auto simp: bindE_eq_Inr)
    then show ?thesis using escribir_memoria_io_orden by blast
  qed
qed

lemma imprimirDump_orden:
  assumes "imprimirDump az e s u = Inr (w, s', u')"
  shows "u' = u \<or> consola e Imprimir_Mem_Prin u = Inr u'"
proof -
  obtain op s1 where op: "leer_opcion (entre 49 51) (word_of_int (az_basura az)) s = Inr (op, s1)"
    using assms by (auto simp: imprimirDump_def bindE_eq_Inr)
  obtain v s2 where 1: "imp_estructura_mem az s1 u = (v, s2)" by fastforce
  obtain off s3 where 2: "leer_entero (az_basura az) s1 = (off, s3)" by fastforce
  obtain n s4 where 3: "leer_entero (az_basura az) s3 = (n, s4)" by fastforce
  show ?thesis
    using assms by (auto simp: imprimirDump_def op 1 2 3 imp_mem_prin_def Let_def bindE_eq_Inr
        split: if_splits)
qed

lemma atender_opcion_orden:
  assumes "atender_opcion az e opcion s u = Inr (w, s', u')"
  shows "\<exists>ord. consola_opt e ord u = Inr u'"
proof -
  have quieto: "\<exists>ord. consola_opt e ord u = Inr u" by (rule exI [of _ None]) simp
  have una: "\<exists>ord. consola_opt e ord u = Inr v" if "\<exists>ord. consola e ord u = Inr v" for v
    using that by (metis consola_opt.simps(2))
  consider "opcion = 48" | "opcion = 49" | "opcion = 50" | "opcion = 51" | "opcion = 52"
    | "opcion = 53" | "opcion \<notin> {48, 49, 50, 51, 52, 53}" by blast
  then show ?thesis
  proof cases
    case 1
    then obtain n where "u' = cambiar_mem_total (az_fresco az) n u"
      using assms by (auto simp: atender_opcion_def cambiar_mem_total_io_def split: prod.splits)
    then show ?thesis using una [of u'] by (metis consola.simps(1))
  next
    case 2
    then obtain op s1 where "operacion_segmentos_io az e op s1 u = Inr (w, s', u')
        \<or> operacion_memoria_io az op s1 u = Inr (w, s', u')"
      using assms by (auto simp: atender_opcion_def operacion_def bindE_eq_Inr split: if_splits)
    then show ?thesis
      using una operacion_segmentos_io_orden operacion_memoria_io_orden by metis
  next
    case 3
    then have "u' = u \<or> (\<exists>t. u' = cambiarRetardo t u)"
      using assms by (auto simp: atender_opcion_def cambiarRetardo_io_def split: prod.splits if_splits)
    then show ?thesis using quieto una [of u'] by (metis consola.simps(2))
  next
    case 4
    then have "u' = cambiarAlgoritmo u"
      using assms by (simp add: atender_opcion_def cambiarAlgoritmo_io_def)
    then show ?thesis using una [of u'] by (metis consola.simps(3))
  next
    case 5
    then have "consola e Compactar u = Inr u'"
      using assms by (auto simp: atender_opcion_def bindE_eq_Inr)
    then show ?thesis using una by blast
  next
    case 6
    then have "imprimirDump az e s u = Inr (w, s', u')" using assms by (simp add: atender_opcion_def)
    from imprimirDump_orden [OF this] show ?thesis using quieto una by blast
  next
    case 7
    then show ?thesis using assms quieto by (auto simp: atender_opcion_def)
  qed
qed

section \<open>The bytes of the memory\<close>

lemma imp_bytes_ok:
  "0 \<le> i \<Longrightarrow> j \<le> int (length m) \<Longrightarrow>
     imp_bytes m [i .. j - 1] = Inr (concat (map logear_char (take (nat (j - i)) (drop (nat i) m))))"
proof (induction "nat (j - i)" arbitrary: i)
  case 0
  then show ?case by simp
next
  case (Suc k)
  then have k: "k = nat (j - (i + 1))" "nat (j - i) = Suc (nat (j - (i + 1)))" "i < j" by linarith+
  have d: "drop (nat i) m = m ! nat i # drop (nat (i + 1)) m"
    using k(3) Suc.prems Cons_nth_drop_Suc [of "nat i" m] by (simp add: nat_add_distrib)
  have b: "byte_de m i = Inr (m ! nat i)"
    using Suc.prems k(3) by (simp add: byte_de_def mem_simps d)
  have "[i .. j - 1] = i # [i + 1 .. j - 1]" using k(3) by (simp add: upto_rec1)
  then show ?case
    using Suc.hyps(1) [OF k(1)] Suc.prems k(2) by (simp add: b d)
qed

text \<open>
  Printing a range of the memory shows its bytes when the range is inside; a range that
  ends behind the memory is refused; one that starts before the memory is not, and is read.
\<close>

theorem volcado:
  assumes "umv_inv u" "es_i32 offset" "0 < tam" "offset + tam < 2147483648"
  shows "imp_cont_mem_prin offset tam u =
    (if tam_mem_total u < offset + tam
     then Inr (en Archivo_Consola [Txt ''Imprimo contenido de la memoria principal, Offset:'',
       Num offset, Txt '', Cantidad de bytes:'', Num tam, NL, TAB, Txt ''Segmentation Fault'', NL])
     else if offset < 0 then Inl Fuera_de_Rango
     else Inr (en Archivo_Consola ([Txt ''Imprimo contenido de la memoria principal, Offset:'',
       Num offset, Txt '', Cantidad de bytes:'', Num tam, NL, TAB]
       @ concat (map logear_char (take (nat tam) (drop (nat offset) (mem_prin u)))) @ [NL])))"
proof -
  have i: "i32 (tam + offset) = offset + tam" "i32 (offset + tam) = offset + tam"
    using assms by (simp_all add: i32_simps es_i32_def add.commute)
  have l: "int (length (mem_prin u)) = tam_mem_total u" using assms(1) by (simp add: umv_inv_def)
  have neg: "imp_bytes (mem_prin u) [offset .. offset + tam - 1] = Inl Fuera_de_Rango" if "offset < 0"
    using assms(3) that by (simp add: upto_rec1 byte_de_def leer_def)
  show ?thesis
    using imp_bytes_ok [of offset "offset + tam" "mem_prin u"] l neg
    by (auto simp: imp_cont_mem_prin_def i)
qed

theorem volcado_testigo:
  "imp_cont_mem_prin 0 2 u_ej = Inr (en Archivo_Consola
     [Txt ''Imprimo contenido de la memoria principal, Offset:'', Num 0, Txt '', Cantidad de bytes:'',
      Num 2, NL, TAB, Txt [CHR 0x5C, CHR 0x30], Txt ''-'', Num 1, Txt ''-'', NL])
   \<and> imp_cont_mem_prin (-1) 2 u_ej = Inl Fuera_de_Rango"
  using volcado [OF u_ej_inv, of 0 2] volcado [OF u_ej_inv, of "-1" 2]
  by (simp add: es_i32_def u_ej_def logear_char_def eval_nat_numeral)

text \<open>
  At the end of its input the console goes on with the last option, for ever: with the
  change of the algorithm it never ends.
\<close>

lemma consola_sin_entrada: "rondas_consola n az e 51 [] u = None"
  by (induction n arbitrary: az u) (simp_all add: entre_def atender_opcion_def cambiarAlgoritmo_io_def)

lemma consola_sale:
  "rondas_consola (Suc n) az e ant (54 # s) u = Some (Inr ([], s, u))"
  by (simp add: entre_def atender_opcion_def)

end
