(* ===== verification/Candados.thy ===== *)
theory Candados
  imports Main
begin

text \<open>
  Threads that take and release mutexes. The code of a thread is reduced to its rounds: lists
  of lock operations in program order. A thread that is between two rounds may start any of
  them; a lock operation on a taken mutex waits.
\<close>

section \<open>Threads and mutexes\<close>

datatype 'm candado = Toma 'm | Suelta 'm | Intenta 'm

type_synonym 'm guion = "'m candado list"

text \<open>What each thread has left of its round, and who holds each mutex.\<close>

record ('h, 'm) estado_c =
  resto :: "'h \<Rightarrow> 'm guion"
  dueno :: "'m \<rightharpoonup> 'h"

definition inicial_c :: "('h, 'm) estado_c" where
  "inicial_c = \<lparr>resto = (\<lambda>_. []), dueno = Map.empty\<rparr>"

text \<open>
  \<open>Toma\<close> is \<open>pthread_mutex_lock\<close> and \<open>Suelta\<close> is \<open>pthread_mutex_unlock\<close>. \<open>Intenta\<close> is \<open>trylock\<close>: it
  never waits, and a mutex that it gets is released at once.
\<close>

inductive paso_c :: "('h \<Rightarrow> 'm guion set) \<Rightarrow> 'h \<Rightarrow> ('h, 'm) estado_c \<Rightarrow> ('h, 'm) estado_c \<Rightarrow> bool"
  for G h s where
  empieza: "resto s h = [] \<Longrightarrow> g \<in> G h \<Longrightarrow> paso_c G h s (s\<lparr>resto := (resto s)(h := g)\<rparr>)"
| toma: "resto s h = Toma m # r \<Longrightarrow> dueno s m = None \<Longrightarrow>
    paso_c G h s (s\<lparr>resto := (resto s)(h := r), dueno := (dueno s)(m \<mapsto> h)\<rparr>)"
| suelta: "resto s h = Suelta m # r \<Longrightarrow> dueno s m = Some h \<Longrightarrow>
    paso_c G h s (s\<lparr>resto := (resto s)(h := r), dueno := (dueno s)(m := None)\<rparr>)"
| intenta: "resto s h = Intenta m # r \<Longrightarrow> dueno s m = None \<Longrightarrow>
    paso_c G h s (s\<lparr>resto := (resto s)(h := Suelta m # r), dueno := (dueno s)(m \<mapsto> h)\<rparr>)"
| ocupado: "resto s h = Intenta m # r \<Longrightarrow> dueno s m \<noteq> None \<Longrightarrow>
    paso_c G h s (s\<lparr>resto := (resto s)(h := r)\<rparr>)"

inductive_cases paso_cE: "paso_c G h s s'"

inductive alcanza :: "('h \<Rightarrow> 'm guion set) \<Rightarrow> ('h, 'm) estado_c \<Rightarrow> bool" for G where
  inicio: "alcanza G inicial_c"
| sigue: "alcanza G s \<Longrightarrow> paso_c G h s s' \<Longrightarrow> alcanza G s'"

text \<open>
  A schedule: a thread starts a round (\<open>Some g\<close>) or does its next operation (\<open>None\<close>).
\<close>

fun mueve :: "'h \<times> 'm guion option \<Rightarrow> ('h, 'm) estado_c \<Rightarrow> ('h, 'm) estado_c option" where
  "mueve (h, Some g) s = (if resto s h = [] then Some (s\<lparr>resto := (resto s)(h := g)\<rparr>) else None)"
| "mueve (h, None) s = (case resto s h of
      [] \<Rightarrow> None
    | Toma m # r \<Rightarrow> if dueno s m = None
        then Some (s\<lparr>resto := (resto s)(h := r), dueno := (dueno s)(m \<mapsto> h)\<rparr>) else None
    | Suelta m # r \<Rightarrow> if dueno s m = Some h
        then Some (s\<lparr>resto := (resto s)(h := r), dueno := (dueno s)(m := None)\<rparr>) else None
    | Intenta m # r \<Rightarrow> Some (if dueno s m = None
        then s\<lparr>resto := (resto s)(h := Suelta m # r), dueno := (dueno s)(m \<mapsto> h)\<rparr>
        else s\<lparr>resto := (resto s)(h := r)\<rparr>))"

fun corre_c :: "('h \<times> 'm guion option) list \<Rightarrow> ('h, 'm) estado_c \<Rightarrow> ('h, 'm) estado_c option" where
  "corre_c [] s = Some s"
| "corre_c (x # xs) s = (case mueve x s of None \<Rightarrow> None | Some s' \<Rightarrow> corre_c xs s')"

lemma mueve_paso:
  assumes "mueve x s = Some s'" "\<And>g. snd x = Some g \<Longrightarrow> g \<in> G (fst x)"
  shows "paso_c G (fst x) s s'"
  using assms
proof (cases "(x, s)" rule: mueve.cases)
  case (2 h s0)
  then show ?thesis
    using assms by (auto split: list.splits candado.splits if_splits intro: paso_c.intros)
qed (auto split: if_splits intro: paso_c.intros)

lemma corre_alcanza:
  "corre_c xs s = Some s' \<Longrightarrow> alcanza G s \<Longrightarrow> (\<And>h g. (h, Some g) \<in> set xs \<Longrightarrow> g \<in> G h) \<Longrightarrow> alcanza G s'"
proof (induction xs arbitrary: s)
  case (Cons x xs)
  then obtain s1 where s1: "mueve x s = Some s1" "corre_c xs s1 = Some s'" by (auto split: option.splits)
  have "paso_c G (fst x) s s1" by (rule mueve_paso [OF s1(1)]) (use Cons.prems(3) in \<open>cases x; auto\<close>)
  then show ?case using Cons.IH [OF s1(2)] Cons.prems(2,3) alcanza.sigue by fastforce
qed simp

section \<open>Deadlock\<close>

text \<open>Threads that wait for each other.\<close>

definition espera_a :: "('h, 'm) estado_c \<Rightarrow> 'h \<Rightarrow> 'm \<Rightarrow> 'h \<Rightarrow> bool" where
  "espera_a s h m h' \<longleftrightarrow> (\<exists>r. resto s h = Toma m # r) \<and> dueno s m = Some h'"

definition trabado :: "('h, 'm) estado_c \<Rightarrow> 'h set \<Rightarrow> bool" where
  "trabado s H \<longleftrightarrow> H \<noteq> {} \<and> (\<forall>h \<in> H. \<exists>m. \<exists>h' \<in> H. espera_a s h m h')"

text \<open>They wait for ever.\<close>

lemma trabado_quieto:
  assumes "trabado s H" "paso_c G h s s'"
  shows "h \<notin> H" "trabado s' H" "\<forall>x \<in> H. resto s' x = resto s x"
proof -
  show h: "h \<notin> H"
  proof
    assume "h \<in> H"
    then obtain m h' where "espera_a s h m h'" using assms(1) unfolding trabado_def by blast
    with assms(2) show False by (auto simp: espera_a_def elim: paso_cE)
  qed
  from assms(2) h show r: "\<forall>x \<in> H. resto s' x = resto s x" by (auto elim!: paso_cE)
  from assms(2) have d: "dueno s m = Some x \<Longrightarrow> x \<noteq> h \<Longrightarrow> dueno s' m = Some x" for m x
    by (auto elim!: paso_cE)
  show "trabado s' H"
    unfolding trabado_def
  proof (intro conjI ballI)
    fix x assume x: "x \<in> H"
    then obtain m y where "y \<in> H" "espera_a s x m y" using assms(1) unfolding trabado_def by blast
    then have "espera_a s' x m y" using r d x h by (auto simp: espera_a_def)
    with \<open>y \<in> H\<close> show "\<exists>m. \<exists>h' \<in> H. espera_a s' x m h'" by blast
  qed (use assms(1) in \<open>simp add: trabado_def\<close>)
qed

inductive pasos_c :: "('h \<Rightarrow> 'm guion set) \<Rightarrow> ('h, 'm) estado_c \<Rightarrow> ('h, 'm) estado_c \<Rightarrow> bool" for G where
  nada: "pasos_c G s s"
| uno_mas: "pasos_c G s s' \<Longrightarrow> paso_c G h s' s'' \<Longrightarrow> pasos_c G s s''"

lemma trabado_siempre:
  assumes "trabado s H" "pasos_c G s s'"
  shows "trabado s' H \<and> (\<forall>x \<in> H. resto s' x = resto s x)"
  using assms(2,1)
proof (induction rule: pasos_c.induct)
  case (uno_mas s s' h s'')
  then have "trabado s' H" "\<forall>x \<in> H. resto s' x = resto s x" by auto
  with trabado_quieto [OF this(1) uno_mas(2)] show ?case by simp
qed simp

section \<open>Discipline\<close>

text \<open>
  A round that starts with the mutexes \<open>tom\<close> releases only what it holds, takes nothing twice,
  takes a mutex only in the order \<open>ord\<close> behind those it holds, and ends with none.
\<close>

fun bien :: "('m \<Rightarrow> 'm \<Rightarrow> bool) \<Rightarrow> 'm list \<Rightarrow> 'm guion \<Rightarrow> bool" where
  "bien ord tom [] = (tom = [])"
| "bien ord tom (Toma m # r) = (m \<notin> set tom \<and> (\<forall>a \<in> set tom. ord a m) \<and> bien ord (m # tom) r)"
| "bien ord tom (Suelta m # r) = (m \<in> set tom \<and> bien ord (remove1 m tom) r)"
| "bien ord tom (Intenta m # r) = (m \<notin> set tom \<and> bien ord tom r)"

text \<open>\<open>usa G h\<close> are the mutexes that a thread ever takes with \<open>Toma\<close> or \<open>Intenta\<close>.\<close>

definition usa :: "('h \<Rightarrow> 'm guion set) \<Rightarrow> 'h \<Rightarrow> 'm set" where
  "usa G h = {m. \<exists>g \<in> G h. Toma m \<in> set g \<or> Intenta m \<in> set g}"

locale disciplina =
  fixes G :: "'h \<Rightarrow> 'm guion set" and ord :: "'h \<Rightarrow> 'm \<Rightarrow> 'm \<Rightarrow> bool"
  assumes guiones_bien: "g \<in> G h \<Longrightarrow> bien (ord h) [] g"
begin

text \<open>What a thread holds is what its round has taken so far.\<close>

definition en_regla :: "('h, 'm) estado_c \<Rightarrow> 'h \<Rightarrow> bool" where
  "en_regla s h \<longleftrightarrow> (\<exists>tom. distinct tom \<and> set tom = {m. dueno s m = Some h}
     \<and> bien (ord h) tom (resto s h) \<and> set tom \<subseteq> usa G h
     \<and> (\<forall>m. Toma m \<in> set (resto s h) \<or> Intenta m \<in> set (resto s h) \<longrightarrow> m \<in> usa G h))"

lemma en_regla_paso:
  assumes "\<And>x. en_regla s x" "paso_c G h s s'"
  shows "en_regla s' x"
proof (cases "x = h")
  case False
  from assms(2) False have "resto s' x = resto s x" "{m. dueno s' m = Some x} = {m. dueno s m = Some x}"
    by (auto elim!: paso_cE split: if_splits)
  with assms(1) [of x] show ?thesis by (simp add: en_regla_def)
next
  case [simp]: True
  obtain tom where t: "distinct tom" "set tom = {m. dueno s m = Some h}" "bien (ord h) tom (resto s h)"
    "set tom \<subseteq> usa G h" "\<And>m. Toma m \<in> set (resto s h) \<or> Intenta m \<in> set (resto s h) \<Longrightarrow> m \<in> usa G h"
    using assms(1) [of h] by (auto simp: en_regla_def)
  from assms(2) show ?thesis
  proof cases
    case (empieza g)
    then have "tom = []" using t(3) by simp
    moreover have "m \<in> usa G h" if "Toma m \<in> set g \<or> Intenta m \<in> set g" for m
      using empieza that by (auto simp: usa_def)
    ultimately show ?thesis
      using empieza t guiones_bien [of g h] unfolding en_regla_def by (intro exI [of _ "[]"]) simp
  next
    case (toma m r)
    with t show ?thesis unfolding en_regla_def by (intro exI [of _ "m # tom"]) auto
  next
    case (suelta m r)
    with t show ?thesis unfolding en_regla_def by (intro exI [of _ "remove1 m tom"]) auto
  next
    case (intenta m r)
    with t show ?thesis unfolding en_regla_def by (intro exI [of _ "m # tom"]) auto
  next
    case (ocupado m r)
    with t show ?thesis unfolding en_regla_def by (intro exI [of _ tom]) auto
  qed
qed

lemma alcanza_regla: "alcanza G s \<Longrightarrow> en_regla s h"
proof (induction arbitrary: h rule: alcanza.induct)
  case inicio
  show ?case by (simp add: en_regla_def inicial_c_def)
next
  case (sigue s h' s')
  then show ?case using en_regla_paso by blast
qed

lemma suelta_lo_suyo: "alcanza G s \<Longrightarrow> resto s h = Suelta m # r \<Longrightarrow> dueno s m = Some h"
  using alcanza_regla [of s h] by (auto simp: en_regla_def)

lemma no_se_espera: "alcanza G s \<Longrightarrow> resto s h = Toma m # r \<Longrightarrow> dueno s m \<noteq> Some h"
  using alcanza_regla [of s h] by (auto simp: en_regla_def)

lemma nada_entre_vueltas: "alcanza G s \<Longrightarrow> resto s h = [] \<Longrightarrow> dueno s m \<noteq> Some h"
  using alcanza_regla [of s h] by (auto simp: en_regla_def)

lemma pide_en_orden: "alcanza G s \<Longrightarrow> resto s h = Toma m # r \<Longrightarrow> dueno s a = Some h \<Longrightarrow> ord h a m"
  using alcanza_regla [of s h] by (auto simp: en_regla_def)

lemma usa_lo_que_tiene: "alcanza G s \<Longrightarrow> dueno s m = Some h \<Longrightarrow> m \<in> usa G h"
  using alcanza_regla [of s h] by (auto simp: en_regla_def)

lemma usa_lo_que_pide: "alcanza G s \<Longrightarrow> resto s h = Toma m # r \<Longrightarrow> m \<in> usa G h"
  using alcanza_regla [of s h] by (auto simp: en_regla_def)

text \<open>If nothing can move inside a round, the threads that are in one form a deadlock.\<close>

lemma trabado_o_avanza:
  assumes "alcanza G s" "resto s h \<noteq> []"
  shows "trabado s {h. resto s h \<noteq> []} \<or> (\<exists>h' s'. resto s h' \<noteq> [] \<and> paso_c G h' s s')"
proof (rule disjCI)
  assume quieto: "\<not> (\<exists>h' s'. resto s h' \<noteq> [] \<and> paso_c G h' s s')"
  have "\<exists>m. \<exists>h'\<in>{h. resto s h \<noteq> []}. espera_a s x m h'" if x: "resto s x \<noteq> []" for x
  proof (cases "resto s x")
    case (Cons a r)
    show ?thesis
    proof (cases a)
      case (Toma m)
      with Cons quieto x paso_c.toma [of s x m r G] obtain y where y: "dueno s m = Some y" by blast
      moreover from this have "resto s y \<noteq> []" using nada_entre_vueltas [OF assms(1)] by blast
      ultimately show ?thesis using Cons Toma by (auto simp: espera_a_def)
    next
      case (Suelta m)
      with Cons have "dueno s m = Some x" using suelta_lo_suyo [OF assms(1)] by simp
      with Cons Suelta quieto x paso_c.suelta [of s x m r G] show ?thesis by blast
    next
      case (Intenta m)
      with Cons quieto x paso_c.intenta [of s x m r G] paso_c.ocupado [of s x m r G] show ?thesis by blast
    qed
  qed (use x in simp)
  with assms(2) show "trabado s {h. resto s h \<noteq> []}" by (auto simp: trabado_def)
qed

end

text \<open>
  A set of threads that take their shared mutexes in the order of a rank does not deadlock
  among itself.
\<close>

locale jerarquia = disciplina G ord
  for G :: "'h \<Rightarrow> 'm guion set" and ord +
  fixes T :: "'h set" and rango :: "'m \<Rightarrow> nat" and compartido :: "'m \<Rightarrow> bool"
  assumes comparte: "h \<in> T \<Longrightarrow> h' \<in> T \<Longrightarrow> h \<noteq> h' \<Longrightarrow> m \<in> usa G h \<Longrightarrow> m \<in> usa G h' \<Longrightarrow> compartido m"
    and sube: "h \<in> T \<Longrightarrow> ord h a m \<Longrightarrow> compartido a \<Longrightarrow> compartido m \<Longrightarrow> rango a < rango m"
    and acotado: "finite (range rango)"
begin

lemma no_se_traba:
  assumes s: "alcanza G s" and H: "H \<subseteq> T"
  shows "\<not> trabado s H"
proof
  assume t: "trabado s H"
  define R where "R = {rango m | m h h'. h \<in> H \<and> h' \<in> H \<and> espera_a s h m h'}"
  have "finite R" by (rule finite_subset [OF _ acotado]) (auto simp: R_def)
  moreover have "R \<noteq> {}" using t by (auto simp: R_def trabado_def)
  ultimately have "Max R \<in> R" by (rule Max_in)
  then obtain m h h' where m: "Max R = rango m" "h \<in> H" "h' \<in> H" "espera_a s h m h'" by (auto simp: R_def)
  obtain m' h'' where m': "h'' \<in> H" "espera_a s h' m' h''" using t m(3) unfolding trabado_def by blast
  have comp: "compartido n" if "x \<in> H" "y \<in> H" "espera_a s x n y" for x y n
  proof -
    have "x \<noteq> y" using no_se_espera [OF s] that(3) by (auto simp: espera_a_def)
    then show ?thesis
      using comparte [of x y n] that H usa_lo_que_pide [OF s] usa_lo_que_tiene [OF s]
      by (auto simp: espera_a_def)
  qed
  have "ord h' m m'" using pide_en_orden [OF s] m(4) m'(2) by (auto simp: espera_a_def)
  then have "rango m < rango m'" using sube [of h' m m'] comp m m' H by blast
  moreover have "rango m' \<le> Max R" using m' m(3) \<open>finite R\<close> by (intro Max_ge) (auto simp: R_def)
  ultimately show False using m(1) by simp
qed

end

end
