(* ===== verification/UMV_Candados.thy ===== *)
theory UMV_Candados
  imports Candados
begin

text \<open>
  The two mutexes of the memory unit (\<open>UMV/UMV.c\<close>): the table of segments and the main memory.
  One list of lock operations for each way through a function; what happens between them is
  in the theories \<open>UMV_Mem\<close> and \<open>UMV_Server\<close>.
\<close>

datatype mutex_umv = M_List_Seg | M_Mem_Prin

section \<open>The functions\<close>

text \<open>A segment that is not found, or does not fit, and the copy.\<close>

definition u_almacenar_segmento :: "mutex_umv guion list" where
  "u_almacenar_segmento = [[], [Toma M_Mem_Prin, Suelta M_Mem_Prin]]"

definition u_gestionar_alm_seg :: "mutex_umv guion list" where
  "u_gestionar_alm_seg = map (\<lambda>g. [Toma M_List_Seg] @ g @ [Suelta M_List_Seg]) u_almacenar_segmento"

definition u_solicitar_bytes :: "mutex_umv guion list" where
  "u_solicitar_bytes = [[], [Toma M_List_Seg, Suelta M_List_Seg],
     [Toma M_List_Seg, Toma M_Mem_Prin, Suelta M_Mem_Prin, Suelta M_List_Seg]]"

definition u_almacenar_bytes :: "mutex_umv guion list" where
  "u_almacenar_bytes = [[], [Toma M_List_Seg, Suelta M_List_Seg],
     [Toma M_List_Seg, Toma M_Mem_Prin, Suelta M_Mem_Prin, Suelta M_List_Seg]]"

definition u_crearSegmento :: "mutex_umv guion" where
  "u_crearSegmento = [Toma M_List_Seg, Suelta M_List_Seg]"

definition u_destruirSegmentos :: "mutex_umv guion" where
  "u_destruirSegmentos = [Toma M_List_Seg, Suelta M_List_Seg]"

definition u_gestionar_ped_seg :: "mutex_umv guion list" where
  "u_gestionar_ped_seg = [u_crearSegmento, u_crearSegmento @ u_destruirSegmentos]"

definition u_compactar_consola :: "mutex_umv guion" where
  "u_compactar_consola = [Toma M_List_Seg, Suelta M_List_Seg]"

definition u_cambiar_mem_total :: "mutex_umv guion" where
  "u_cambiar_mem_total = [Toma M_Mem_Prin, Suelta M_Mem_Prin]"

definition u_imprimirDump :: "mutex_umv guion list" where
  "u_imprimirDump = [[Toma M_List_Seg, Suelta M_List_Seg], [Toma M_Mem_Prin, Suelta M_Mem_Prin]]"

section \<open>The threads\<close>

text \<open>One thread for the kernel, one for each CPU, and the console.\<close>

datatype hilo_umv = Conec_Kernel | Conec_CPU int | Consola

fun guiones_u :: "hilo_umv \<Rightarrow> mutex_umv guion list" where
  "guiones_u Conec_Kernel = u_gestionar_ped_seg @ u_gestionar_alm_seg @ [u_destruirSegmentos]"
| "guiones_u (Conec_CPU soc) = u_solicitar_bytes @ u_almacenar_bytes"
| "guiones_u Consola = u_solicitar_bytes @ u_almacenar_bytes @ u_imprimirDump
     @ [u_crearSegmento, u_destruirSegmentos, u_compactar_consola, u_cambiar_mem_total]"

definition umv_c :: "hilo_umv \<Rightarrow> mutex_umv guion set" where
  "umv_c h = set (guiones_u h)"

lemmas candados_umv_defs =
  u_almacenar_segmento_def u_gestionar_alm_seg_def u_solicitar_bytes_def u_almacenar_bytes_def
  u_crearSegmento_def u_destruirSegmentos_def u_gestionar_ped_seg_def u_compactar_consola_def
  u_cambiar_mem_total_def u_imprimirDump_def

text \<open>The table comes before the memory.\<close>

definition rango_u :: "mutex_umv \<Rightarrow> nat" where
  "rango_u m = (if m = M_List_Seg then 0 else 1)"

instantiation mutex_umv :: linorder
begin

definition less_eq_mutex_umv :: "mutex_umv \<Rightarrow> mutex_umv \<Rightarrow> bool" where
  "less_eq_mutex_umv a b \<longleftrightarrow> rango_u a \<le> rango_u b"

definition less_mutex_umv :: "mutex_umv \<Rightarrow> mutex_umv \<Rightarrow> bool" where
  "less_mutex_umv a b \<longleftrightarrow> rango_u a < rango_u b"

instance
proof
  fix a b :: mutex_umv
  show "a \<le> b \<Longrightarrow> b \<le> a \<Longrightarrow> a = b"
    by (cases a; cases b) (simp_all add: less_eq_mutex_umv_def rango_u_def)
qed (auto simp: less_eq_mutex_umv_def less_mutex_umv_def)

end

lemma tabla_antes [simp]: "M_List_Seg < M_Mem_Prin"
  by (simp add: less_mutex_umv_def rango_u_def)

lemma guiones_u_bien: "\<forall>g \<in> set (guiones_u h). bien (<) [] g"
  by (cases h) (simp_all add: candados_umv_defs)

interpretation uc: jerarquia umv_c "\<lambda>h. (<)" UNIV rango_u "\<lambda>m. True"
proof (unfold_locales, goal_cases)
  case (1 g h)
  then show ?case using guiones_u_bien by (simp add: umv_c_def)
next
  case 4
  show ?case by (rule finite_subset [of _ "{0, 1}"]) (auto simp: rango_u_def)
qed (simp_all add: less_mutex_umv_def)

section \<open>Property\<close>

text \<open>
  C23. The memory unit never blocks itself: in every interleaving of the threads of the kernel,
  of any number of CPUs and of the console, no set of threads waits for each other, and as long
  as a thread is inside a request, some thread inside a request can go on.
\<close>

theorem umv_no_se_traba:
  assumes "alcanza umv_c s"
  shows "\<not> trabado s H \<and> (resto s h \<noteq> [] \<longrightarrow> (\<exists>h' s'. resto s h' \<noteq> [] \<and> paso_c umv_c h' s s'))"
  using uc.no_se_traba [OF assms] uc.trabado_o_avanza [OF assms, of h] by auto

text \<open>A CPU in the middle of a read, another that waits for the table.\<close>

theorem umv_no_se_traba_testigo:
  "\<exists>s h' s'. corre_c [(Conec_CPU 5, Some [Toma M_List_Seg, Toma M_Mem_Prin, Suelta M_Mem_Prin, Suelta M_List_Seg]),
      (Conec_CPU 5, None), (Conec_CPU 6, Some [Toma M_List_Seg, Suelta M_List_Seg])] inicial_c = Some s
    \<and> \<not> trabado s {Conec_CPU 5, Conec_CPU 6} \<and> paso_c umv_c h' s s'"
proof -
  let ?xs = "[(Conec_CPU 5, Some [Toma M_List_Seg, Toma M_Mem_Prin, Suelta M_Mem_Prin, Suelta M_List_Seg]),
      (Conec_CPU 5, None), (Conec_CPU 6, Some [Toma M_List_Seg, Suelta M_List_Seg])]"
  obtain s where s: "corre_c ?xs inicial_c = Some s" "resto s (Conec_CPU 6) \<noteq> []"
    by (simp add: inicial_c_def)
  have "alcanza umv_c s"
    by (rule corre_alcanza [OF s(1) alcanza.inicio]) (auto simp: umv_c_def candados_umv_defs)
  from umv_no_se_traba [OF this, of "{Conec_CPU 5, Conec_CPU 6}" "Conec_CPU 6"] s show ?thesis by blast
qed

end
