(* ===== verification/Sockets_Prop.thy ===== *)
theory Sockets_Prop
  imports Sockets
begin

text \<open>
  The properties of the message library: the codes tell all messages apart, conversations of
  framed messages arrive whole and in order, and the three places where the library gives
  less than that.
\<close>

text \<open>
  No two message kinds share a code, and every code fits the 32 bits of its field, so a
  receiver that compares codes recognises the kind.
\<close>

theorem codigo_distingue: "(codigo t = codigo t' \<longleftrightarrow> t = t') \<and> es_i32 (codigo t)"
  by (cases t; cases t') (simp_all add: es_i32_def)

text \<open>
  C35. A conversation of common messages: whatever messages (with a size field that tells the
  truth) are sent one after another, the receiver gets the same messages in the same order
  and its stream is empty afterwards, as long as the peek of each receive sees four bytes.
\<close>

theorem conversacion_comun:
  assumes "\<And>m. m \<in> set ms \<Longrightarrow> valido_comun m" "\<not> roto soc" "entrante soc = []"
    "length rs = length ms" "\<And>r. r \<in> set rs \<Longrightarrow> 4 \<le> disponibles r"
  shows "bindE (enviar_todos men_serealizer_comun ms soc) (recibir_todos socket_recv_comun rs)
    = Inr (ms, soc)"
  using comun.conversacion [OF assms] by (simp add: socket_recv_comun_def)

theorem conversacion_comun_testigo:
  "let ms = [\<lparr>tam_dato = 2, tipo = 61, dato = [7, 8]\<rparr>, \<lparr>tam_dato = 0, tipo = 22, dato = []\<rparr>];
       r = \<lparr>disponibles = 9, basura = (\<lambda>_. 0)\<rparr>; soc = \<lparr>entrante = [], roto = False\<rparr> in
   bindE (enviar_todos men_serealizer_comun ms soc) (recibir_todos socket_recv_comun [r, r])
     = Inr (ms, soc)"
  unfolding Let_def by (rule conversacion_comun) (auto simp: valido_comun_def es_i32_def)

text \<open>
  The pcb that the kernel sends arrives at the CPU with its quantum, field by field, and
  so does the one that the CPU sends back.
\<close>

theorem conversacion_quantum_pcb:
  assumes "valido_quantum_pcb m" "\<not> roto soc" "entrante soc = []" "4 \<le> disponibles r"
  shows "\<exists>n soc'. socket_send_quantum_pcb 52 m soc = Inr (n, soc')
    \<and> socket_recv_quantum_pcb r soc' = Inr (m, soc)"
proof -
  obtain bs where bs: "men_serealizer_quantum_pcb m = Inr bs" and l: "length bs = 52"
    by (simp add: men_serealizer_quantum_pcb_def Let_def)
  have "socket_send_quantum_pcb 52 m soc = Inr (52, soc\<lparr>entrante := bs\<rparr>)"
    using bs l assms(3) by (simp add: socket_send_quantum_pcb_def enviar_stream_def)
  moreover have "socket_recv_quantum_pcb r (soc\<lparr>entrante := bs\<rparr>) = Inr (m, soc)"
    using quantum_pcb.recibir_un_mensaje [OF assms(1) bs, of "soc\<lparr>entrante := bs\<rparr>" "[]" r] assms
    by (cases soc) (simp add: socket_recv_quantum_pcb_def)
  ultimately show ?thesis by blast
qed

theorem conversacion_quantum_pcb_testigo:
  "let m = \<lparr>mq_tipo = 68, mq_quantum = 3, mq_pcb = \<lparr>cant_var_cont_actual = 1, dir_cont_actual = 2,
       dir_indice_codigo = 3, dir_indice_etiquetas = 4, dir_seg_codigo = 5, dir_seg_stack = 6,
       pcb_id = 7, program_counter = -8, tam_indice_etiquetas = 9, cant_instrucciones = 10\<rparr>\<rparr>;
       soc = \<lparr>entrante = [], roto = False\<rparr> in
   \<exists>n soc'. socket_send_quantum_pcb 52 m soc = Inr (n, soc')
     \<and> socket_recv_quantum_pcb \<lparr>disponibles = 52, basura = (\<lambda>_. 0)\<rparr> soc' = Inr (m, soc)"
  unfolding Let_def by (rule conversacion_quantum_pcb) (simp_all add: valido_defs es_i32_def)

text \<open>
  The message of a CPU to the memory unit arrives with all its fields, but its buffer is
  filled from the heap behind the sender's buffer up to the announced size: a request to read
  (whose buffer is empty) hands that many foreign bytes of the CPU to the memory unit, and ends
  the CPU when the heap behind the buffer is shorter.
\<close>

theorem pedido_lleva_heap:
  assumes "es_i32 (cu_tipo m)" "es_i32 (cu_base m)" "es_i32 (cu_offset m)" "0 \<le> cu_tam m"
    "cu_tam m \<le> 2147483627" "cu_buffer m = []" "\<not> roto soc" "entrante soc = []" "4 \<le> disponibles r"
  shows "if cu_tam m \<le> int (length heap)
    then \<exists>soc'. socket_send_cpu_umv heap (20 + cu_tam m) m soc = Inr (20 + cu_tam m, soc')
      \<and> socket_recv_cpu_umv r soc' = Inr (m\<lparr>cu_buffer := take (nat (cu_tam m)) heap\<rparr>, soc)
    else socket_send_cpu_umv heap n m soc = Inl Fuera_de_Rango"
proof (cases "cu_tam m \<le> int (length heap)")
  case True
  then have v: "valido_cpu_umv heap m" using assms by (simp add: valido_cpu_umv_def)
  obtain bs where bs: "men_serealizer_cpu_umv heap m = Inr bs" using cpu_umv.ser_Inr [OF v] by blast
  have l: "int (length bs) = 20 + cu_tam m"
    using bs True assms(4-6) length_leer
    by (fastforce simp: men_serealizer_cpu_umv_def i32_id_bounds bindE_eq_Inr)
  have "socket_send_cpu_umv heap (20 + cu_tam m) m soc = Inr (20 + cu_tam m, soc\<lparr>entrante := bs\<rparr>)"
    using bs l assms(4,8) by (auto simp: socket_send_cpu_umv_def enviar_stream_def)
  moreover have "socket_recv_cpu_umv r (soc\<lparr>entrante := bs\<rparr>)
      = Inr (m\<lparr>cu_buffer := take (nat (cu_tam m)) heap\<rparr>, soc)"
    using cpu_umv.recibir_un_mensaje [OF v bs, of "soc\<lparr>entrante := bs\<rparr>" "[]" r] assms
    by (cases soc) (simp add: socket_recv_cpu_umv_def llega_cpu_umv_def)
  ultimately show ?thesis using True by auto
next
  case False
  then show ?thesis
    using assms(4-6) by (simp add: socket_send_cpu_umv_def men_serealizer_cpu_umv_def
        i32_id_bounds leer_def)
qed

theorem pedido_lleva_heap_testigo:
  "\<exists>soc'. socket_send_cpu_umv [65, 66, 67] 22 \<lparr>cu_tipo = 300, cu_base = 100, cu_offset = 0,
       cu_tam = 2, cu_buffer = []\<rparr> \<lparr>entrante = [], roto = False\<rparr> = Inr (22, soc')
     \<and> socket_recv_cpu_umv \<lparr>disponibles = 22, basura = (\<lambda>_. 0)\<rparr> soc' = Inr (\<lparr>cu_tipo = 300,
       cu_base = 100, cu_offset = 0, cu_tam = 2, cu_buffer = [65, 66]\<rparr>, \<lparr>entrante = [], roto = False\<rparr>)"
  using pedido_lleva_heap [of "\<lparr>cu_tipo = 300, cu_base = 100, cu_offset = 0, cu_tam = 2,
      cu_buffer = []\<rparr>" "\<lparr>entrante = [], roto = False\<rparr>" "\<lparr>disponibles = 22, basura = (\<lambda>_. 0)\<rparr>" "[65, 66, 67]"]
  by (simp add: es_i32_def)

text \<open>
  When the peer has closed the connection, the receives of common, CPU and segment
  messages return a \<open>CONEC_CERRADA\<close> message, but the receive of a pcb ends the process: its
  closing message copies through a null pcb.
\<close>

theorem cierre_de_conexion:
  assumes "entrante soc = []" "\<not> roto soc"
  shows "socket_recv_comun r soc = Inr (\<lparr>tam_dato = 0, tipo = codigo CONEC_CERRADA, dato = []\<rparr>, soc)
    \<and> socket_recv_seg r soc = Inr (crear_men_seg (codigo CONEC_CERRADA) 0 0, soc)
    \<and> socket_recv_cpu_umv r soc = Inr (\<lparr>cu_tipo = codigo CONEC_CERRADA, cu_base = 0,
         cu_offset = 0, cu_tam = 0, cu_buffer = []\<rparr>, soc)
    \<and> socket_recv_quantum_pcb r soc = Inl Puntero_Nulo"
  using assms by (simp add: socket_recv_comun_def socket_recv_seg_def socket_recv_cpu_umv_def
      socket_recv_quantum_pcb_def recibir_con_def crear_men_comun_def crear_men_cpu_umv_def
      crear_men_quantum_pcb_def leer_def)

theorem cierre_de_conexion_testigo:
  "socket_recv_quantum_pcb \<lparr>disponibles = 0, basura = (\<lambda>_. 0)\<rparr> \<lparr>entrante = [], roto = False\<rparr>
     = Inl Puntero_Nulo"
  using cierre_de_conexion [of "\<lparr>entrante = [], roto = False\<rparr>" "\<lparr>disponibles = 0, basura = (\<lambda>_. 0)\<rparr>"]
  by simp

text \<open>
  The peek of a receive takes what is there: when only two of the four length bytes have
  arrived, the length comes from them and from what the fresh block held, and the receive ends the
  process although the message that is on its way is valid.
\<close>

theorem longitud_a_medias:
  "\<exists>m bs. valido_comun m \<and> men_serealizer_comun m = Inr bs
     \<and> socket_recv_comun \<lparr>disponibles = 4, basura = (\<lambda>_. 255)\<rparr> \<lparr>entrante = bs, roto = False\<rparr>
         = Inr (m, \<lparr>entrante = [], roto = False\<rparr>)
     \<and> socket_recv_comun \<lparr>disponibles = 2, basura = (\<lambda>_. 255)\<rparr> \<lparr>entrante = bs, roto = False\<rparr>
         = Inl Fuera_de_Rango"
proof -
  let ?m = "\<lparr>tam_dato = 0, tipo = 61, dato = []\<rparr>"
  let ?bs = "[12, 0, 0, 0, 61, 0, 0, 0, 0, 0, 0, 0] :: byte list"
  have v: "valido_comun ?m" by (simp add: valido_comun_def es_i32_def)
  have bs: "men_serealizer_comun ?m = Inr ?bs"
    by (simp add: men_serealizer_comun_def i32_id_bounds leer_def i32_bytes_def)
  have "socket_recv_comun \<lparr>disponibles = 4, basura = (\<lambda>_. 255)\<rparr> \<lparr>entrante = ?bs, roto = False\<rparr>
      = Inr (?m, \<lparr>entrante = [], roto = False\<rparr>)"
    using comun.recibir_un_mensaje [OF v bs, of "\<lparr>entrante = ?bs, roto = False\<rparr>" "[]"
        "\<lparr>disponibles = 4, basura = (\<lambda>_. 255)\<rparr>"] by (simp add: socket_recv_comun_def)
  moreover have "bytes_i32 [12, 0, 255, 255] = -65524"
    by (simp add: bytes_i32_def i32_def)
  then have "socket_recv_comun \<lparr>disponibles = 2, basura = (\<lambda>_. 255)\<rparr> \<lparr>entrante = ?bs, roto = False\<rparr>
      = Inl Fuera_de_Rango"
    by (simp add: socket_recv_comun_def recibir_con_def rellenar_def upt_rec numeral_eq_Suc)
  ultimately show ?thesis using v bs by blast
qed

end
