(* ===== verification/CPU_Datos.thy ===== *)
theory CPU_Datos
  imports Interfaz Cadenas
begin

text \<open>
  The state of a CPU (the globals of \<open>CPU/cpu.c\<close>) and its conversations with the memory unit
  and the kernel. Each definition is the body of the C function of its name; logging is left out.
\<close>

section \<open>What the CPU gets from outside\<close>

text \<open>
  The parser library reads a line and calls the primitives, in an order that can depend on
  their results: a tree of calls. Its other function finds a label in the table of labels (-1
  for none).
\<close>

datatype accion = Fin_Linea
  | Definir_Variable byte "int \<Rightarrow> accion"
  | Obtener_Posicion byte "int \<Rightarrow> accion"
  | Dereferenciar int "int \<Rightarrow> accion"
  | Asignar int int accion
  | Obtener_Compartida "byte list" "int \<Rightarrow> accion"
  | Asignar_Compartida "byte list" int "int \<Rightarrow> accion"
  | Ir_Al_Label "byte list" accion
  | Llamar_Sin_Retorno "byte list" accion
  | Llamar_Con_Retorno "byte list" int accion
  | Finalizar accion
  | Retornar int accion
  | Imprimir int accion
  | Imprimir_Texto "byte list" accion
  | Entrada_Salida "byte list" int accion
  | Wait "byte list" accion
  | Signal "byte list" accion

text \<open>
  \<open>umv_srv\<close> is the memory unit behind \<open>soc_umv\<close>. \<open>tras_clave\<close> are the three heap bytes behind
  the key of a variable, \<open>no_iniciado\<close> is what an uninitialised local holds, and \<open>senal n\<close> says
  whether SIGUSR1 or SIGINT arrives before instruction \<open>n\<close> of a turn.
\<close>

record 'm entorno_cpu =
  umv_srv :: "t_men_cpu_umv \<Rightarrow> 'm \<Rightarrow> (t_men_comun option \<times> 'm) res"
  string_itoa :: "int \<Rightarrow> byte list"
  analizadorLinea :: "byte list option \<Rightarrow> accion"
  metadata_buscar_etiqueta :: "byte list \<Rightarrow> byte list \<Rightarrow> int \<Rightarrow> int"
  tras_clave :: "byte list"
  no_iniciado :: int
  senal :: "int \<Rightarrow> bool"

section \<open>State\<close>

text \<open>
  \<open>umv\<close> is the state of the memory unit. \<open>de_kernel\<close> is what the kernel will send up to the
  end of the connection, \<open>a_kernel\<close> is what it has been sent, and \<open>roto_kernel\<close> says that a send
  to it fails. \<open>pcb\<close> is \<open>None\<close> for the null pointer; the block of the labels is freed at the end
  of a turn and its pointer kept, so a second \<open>free\<close> is possible.
\<close>

datatype bloque = Nulo | Liberado | Bloque "byte list"

definition leer_bloque :: "bloque \<Rightarrow> byte list res" where
  "leer_bloque b = (case b of Nulo \<Rightarrow> Inl Puntero_Nulo | Liberado \<Rightarrow> Inl Fuera_de_Rango | Bloque d \<Rightarrow> Inr d)"

definition liberar_bloque :: "bloque \<Rightarrow> bloque res" where
  "liberar_bloque b = (case b of Nulo \<Rightarrow> Inr Nulo | Liberado \<Rightarrow> Inl Fuera_de_Rango | Bloque d \<Rightarrow> Inr Liberado)"

lemma leer_bloque_Bloque [simp]: "leer_bloque (Bloque d) = Inr d"
  by (simp add: leer_bloque_def)

record 'm cpu =
  dic_Variables :: "byte list \<rightharpoonup> int"
  pcb :: "t_pcb option"
  quantum_actual :: int
  cpu_quantum_max :: int
  cpu_etiquetas :: bloque
  fueFinEjecucion :: bool
  huboSegFault :: bool
  cpu_quit_sistema :: bool
  memoria :: 'm
  de_kernel :: "mensaje list"
  a_kernel :: "mensaje list"
  roto_kernel :: bool

section \<open>Conversations\<close>

text \<open>A request to the memory unit and its answer, and the notice that has none.\<close>

definition conversar_umv ::
  "'m entorno_cpu \<Rightarrow> tipo_datos \<Rightarrow> int \<Rightarrow> int \<Rightarrow> int \<Rightarrow> byte list option \<Rightarrow> 'm cpu
     \<Rightarrow> (t_men_comun \<times> 'm cpu) res" where
  "conversar_umv e t base offset tam buffer s =
     bindE (crear_men_cpu_umv (codigo t) base offset tam buffer) (\<lambda>q.
     bindE (umv_srv e q (memoria s)) (\<lambda>(r, m).
       case r of None \<Rightarrow> Inl Bloqueado | Some resp \<Rightarrow> Inr (resp, s\<lparr>memoria := m\<rparr>)))"

definition cambio_PA :: "'m entorno_cpu \<Rightarrow> int \<Rightarrow> 'm cpu \<Rightarrow> 'm cpu res" where
  "cambio_PA e id_proc s =
     bindE (crear_men_cpu_umv (codigo CAMBIO_PA) id_proc 0 0 None) (\<lambda>q.
     bindE (umv_srv e q (memoria s)) (\<lambda>(_, m). Inr (s\<lparr>memoria := m\<rparr>)))"

definition al_kernel :: "mensaje \<Rightarrow> 'm cpu \<Rightarrow> 'm cpu res" where
  "al_kernel m s = (if roto_kernel s then Inl Salida else Inr (s\<lparr>a_kernel := a_kernel s @ [m]\<rparr>))"

definition enviar_kernel :: "tipo_datos \<Rightarrow> byte list \<Rightarrow> int \<Rightarrow> 'm cpu \<Rightarrow> 'm cpu res" where
  "enviar_kernel t buf tam s =
     bindE (crear_men_comun (codigo t) buf tam) (\<lambda>m. al_kernel (Men_Comun m) s)"

text \<open>A C string with its terminator.\<close>

definition enviar_texto :: "tipo_datos \<Rightarrow> byte list \<Rightarrow> 'm cpu \<Rightarrow> 'm cpu res" where
  "enviar_texto t texto s = enviar_kernel t (texto @ [0]) (int (length texto) + 1) s"

text \<open>
  \<open>socket_recv_comun\<close> on the kernel's socket; after the end of the connection it builds a
  message of its own. The bytes of a pcb are no common message.
\<close>

definition recibir_kernel :: "'m cpu \<Rightarrow> (t_men_comun \<times> 'm cpu) res" where
  "recibir_kernel s = (case de_kernel s of
       [] \<Rightarrow> bindE (crear_men_comun (codigo CONEC_CERRADA) [] 0) (\<lambda>m. Inr (m, s))
     | Men_Comun m # ms \<Rightarrow> Inr (m, s\<lparr>de_kernel := ms\<rparr>)
     | Men_Pcb _ # _ \<Rightarrow> Inl Fuera_de_Rango)"

text \<open>The answer is only waited for: another type is reported on the screen.\<close>

definition recibir_resp_kernel :: "'m cpu \<Rightarrow> 'm cpu res" where
  "recibir_resp_kernel s = bindE (recibir_kernel s) (\<lambda>(_, s'). Inr s')"

definition enviar_pcb_destruir :: "'m cpu \<Rightarrow> 'm cpu res" where
  "enviar_pcb_destruir s =
     bindE (crear_men_quantum_pcb (codigo PCB_Y_QUANTUM) 0 (pcb s)) (\<lambda>m. al_kernel (Men_Pcb m) s)"

text \<open>A loop over an index.\<close>

fun bucle :: "(int \<Rightarrow> 's \<Rightarrow> 's res) \<Rightarrow> int list \<Rightarrow> 's \<Rightarrow> 's res" where
  "bucle f [] s = Inr s"
| "bucle f (i # ns) s = bindE (f i s) (bucle f ns)"

text \<open>The division of C, towards zero.\<close>

definition div_c :: "int \<Rightarrow> int \<Rightarrow> int" where
  "div_c a b = (if a < 0 then - (- a div b) else a div b)"

section \<open>Names of variables\<close>

text \<open>The parser passes the parameters of a function as the bytes 0 to 9.\<close>

definition es_numero_pasar_char :: "byte \<Rightarrow> byte" where
  "es_numero_pasar_char c = (if uint c \<le> 9 then c + 48 else c)"

definition clave_variable :: "byte \<Rightarrow> byte list" where
  "clave_variable c = [es_numero_pasar_char c]"

definition sacar_caracteres_escape :: "byte list \<Rightarrow> byte list" where
  "sacar_caracteres_escape s = rev (dropWhile es_espacio (rev (dropWhile es_espacio s)))"

section \<open>The end of a process\<close>

text \<open>One variable on the console of the program: its name, an equals sign and its value.\<close>

definition imprimir_variable :: "'m entorno_cpu \<Rightarrow> int \<Rightarrow> int \<Rightarrow> 'm cpu \<Rightarrow> 'm cpu res" where
  "imprimir_variable e base i s =
     bindE (conversar_umv e SOL_BYTES base (i32 (5 * i)) 1 None s) (\<lambda>(men_nombre_var, s1).
     bindE (conversar_umv e SOL_BYTES base (i32 (5 * i + 1)) 4 None s1) (\<lambda>(men_cont_var, s2).
     bindE (leer (dato men_cont_var) 0 4) (\<lambda>bs.
     bindE (leer (dato men_nombre_var) 0 1) (\<lambda>nombre.
     bindE (cadena (nombre @ [61] @ string_itoa e (bytes_i32 bs) @ [0])) (\<lambda>texto.
     bindE (enviar_texto IMPRIMIR_TEXTO texto s2) recibir_resp_kernel)))))"

definition titulo_variables :: "byte list" where
  "titulo_variables = map (\<lambda>c. of_nat (of_char c))
     (CHR 0x0A # ''----------Imprimo el estado final de las variable----------'' @ [CHR 0x0A])"

text \<open>
  \<open>tipo_fin\<close> is \<open>SEGMEN_FAULT\<close> or \<open>OK\<close>, which is 0; any other is reported on the screen.
\<close>

definition finalizarContexto :: "'m entorno_cpu \<Rightarrow> int \<Rightarrow> 'm cpu \<Rightarrow> 'm cpu res" where
  "finalizarContexto e tipo_fin s =
     bindE (no_nulo (pcb s)) (\<lambda>p.
     if tipo_fin = codigo SEGMEN_FAULT then
       bindE (enviar_texto SEGMEN_FAULT (string_itoa e (pcb_id p)) s) (\<lambda>s1.
         Inr (s1\<lparr>fueFinEjecucion := True, huboSegFault := True\<rparr>))
     else if tipo_fin = 0 then
       bindE (enviar_texto IMPRIMIR_TEXTO titulo_variables s) (\<lambda>s1.
       bindE (recibir_resp_kernel s1) (\<lambda>s2.
       bindE (bucle (imprimir_variable e (dir_cont_actual p)) [0..cant_var_cont_actual p - 1] s2) (\<lambda>s3.
       bindE (enviar_texto FIN_EJECUCION (string_itoa e (pcb_id p)) s3) (\<lambda>s4.
         Inr (s4\<lparr>fueFinEjecucion := True\<rparr>)))))
     else Inr s)"

section \<open>The dictionary of the variables\<close>

definition regenerar_variable :: "'m entorno_cpu \<Rightarrow> t_pcb \<Rightarrow> int \<Rightarrow> 'm cpu \<Rightarrow> 'm cpu res" where
  "regenerar_variable e p i s =
     (let base = dir_seg_stack p; offset = i32 (i32 (dir_cont_actual p - base) + i32 (i * 5)) in
      bindE (conversar_umv e SOL_BYTES base offset 1 None s) (\<lambda>(men_var, s1).
      bindE (leer (dato men_var) 0 1) (\<lambda>bs.
        Inr (s1\<lparr>dic_Variables := (dic_Variables s1)(clave_variable (hd bs) \<mapsto> i32 (base + offset))\<rparr>))))"

definition regenerar_dicc_var :: "'m entorno_cpu \<Rightarrow> 'm cpu \<Rightarrow> 'm cpu res" where
  "regenerar_dicc_var e s =
     bindE (no_nulo (pcb s)) (\<lambda>p.
       bucle (regenerar_variable e p) [0..cant_var_cont_actual p - 1] (s\<lparr>dic_Variables := Map.empty\<rparr>))"

definition actualizar_pcb :: "int \<Rightarrow> int \<Rightarrow> int \<Rightarrow> 'm cpu \<Rightarrow> 'm cpu res" where
  "actualizar_pcb cant_var pc dir_primer_byte_umv s =
     bindE (no_nulo (pcb s)) (\<lambda>p. Inr (s\<lparr>pcb := Some (p\<lparr>cant_var_cont_actual := cant_var,
       program_counter := pc, dir_cont_actual := dir_primer_byte_umv\<rparr>)\<rparr>))"

end
