(* ===== verification/CPU_Primitivas.thy ===== *)
theory CPU_Primitivas
  imports CPU_Datos
begin

text \<open>
  The AnSISOP primitives of the CPU: variables on the stack in the memory unit, shared
  variables, labels, calls and returns, output, devices and semaphores.
\<close>

text \<open>Where the bytes behind the last variable of the context are, relative to the stack.\<close>

definition fin_contexto :: "t_pcb \<Rightarrow> int" where
  "fin_contexto p = i32 (i32 (dir_cont_actual p - dir_seg_stack p) + i32 (cant_var_cont_actual p * 5))"

section \<open>Variables\<close>

text \<open>
  The five stored bytes are the name, its terminator (the key is a block of two bytes) and the
  three bytes that lie behind the key.
\<close>

definition definirVariable :: "'m entorno_cpu \<Rightarrow> byte \<Rightarrow> 'm cpu \<Rightarrow> (int \<times> 'm cpu) res" where
  "definirVariable e id_var s =
     bindE (no_nulo (pcb s)) (\<lambda>p.
     let base = dir_seg_stack p; offset = fin_contexto p; pos_mem = i32 (base + offset);
         key = clave_variable id_var in
     bindE (conversar_umv e ALM_BYTES base offset 5 (Some (key @ [0] @ tras_clave e)) s) (\<lambda>(r_alm, s1).
     if tipo r_alm = codigo R_ALM_BYTES then
       Inr (pos_mem, s1\<lparr>dic_Variables := (dic_Variables s1)(key \<mapsto> pos_mem),
         pcb := Some (p\<lparr>cant_var_cont_actual := i32 (cant_var_cont_actual p + 1)\<rparr>)\<rparr>)
     else bindE (finalizarContexto e (codigo SEGMEN_FAULT) s1) (\<lambda>s2. Inr (-1, s2))))"

text \<open>The position is read before the null check.\<close>

definition obtenerPosicionVariable :: "byte \<Rightarrow> 'm cpu \<Rightarrow> (int \<times> 'm cpu) res" where
  "obtenerPosicionVariable id_var s =
     bindE (no_nulo (dic_Variables s (clave_variable id_var))) (\<lambda>ret. Inr (ret, s))"

text \<open>
  The answer is copied over the four bytes of a local that is not initialised; after a
  segmentation fault its value is what it held before.
\<close>

definition dereferenciar :: "'m entorno_cpu \<Rightarrow> int \<Rightarrow> 'm cpu \<Rightarrow> (int \<times> 'm cpu) res" where
  "dereferenciar e direccion_variable s =
     bindE (no_nulo (pcb s)) (\<lambda>p.
     let base = dir_seg_stack p; offset = i32 (i32 (direccion_variable - base) + 1) in
     bindE (conversar_umv e SOL_BYTES base offset 4 None s) (\<lambda>(men, s1).
     bindE (if tipo men = codigo R_SOL_BYTES
            then bindE (leer (dato men) 0 (tam_dato men)) (\<lambda>d.
                 if length d \<le> 4 then Inr (bytes_i32 (d @ drop (length d) (i32_bytes (no_iniciado e))))
                 else Inl Fuera_de_Rango)
            else Inr (no_iniciado e)) (\<lambda>valor.
     bindE (if tipo men = codigo SEGMEN_FAULT then finalizarContexto e (codigo SEGMEN_FAULT) s1
            else Inr s1) (\<lambda>s2. Inr (valor, s2)))))"

definition asignar :: "'m entorno_cpu \<Rightarrow> int \<Rightarrow> int \<Rightarrow> 'm cpu \<Rightarrow> 'm cpu res" where
  "asignar e direccion_variable valor s =
     (if huboSegFault s then Inr s else
     bindE (no_nulo (pcb s)) (\<lambda>p.
     let base = dir_seg_stack p; offset = i32 (i32 (direccion_variable - base) + 1) in
     bindE (conversar_umv e ALM_BYTES base offset 4 (Some (i32_bytes valor)) s) (\<lambda>(r_alm, s1).
     if tipo r_alm = codigo SEGMEN_FAULT then finalizarContexto e (codigo SEGMEN_FAULT) s1
     else Inr s1)))"

section \<open>Shared variables\<close>

definition obtenerValorCompartida :: "byte list \<Rightarrow> 'm cpu \<Rightarrow> (int \<times> 'm cpu) res" where
  "obtenerValorCompartida variable s =
     bindE (enviar_texto OBTENER_VALOR variable s) (\<lambda>s1.
     bindE (recibir_kernel s1) (\<lambda>(respuesta, s2).
     if tipo respuesta = codigo VAR_INEX then Inr (0, s2\<lparr>fueFinEjecucion := True\<rparr>)
     else bindE (atoi (dato respuesta)) (\<lambda>valor. Inr (valor, s2))))"

definition asignarValorCompartida ::
  "'m entorno_cpu \<Rightarrow> byte list \<Rightarrow> int \<Rightarrow> 'm cpu \<Rightarrow> (int \<times> 'm cpu) res" where
  "asignarValorCompartida e variable valor s =
     bindE (enviar_texto GRABAR_VALOR variable s) (\<lambda>s1.
     bindE (recibir_kernel s1) (\<lambda>(men_resp, s2).
     if tipo men_resp = codigo VAR_INEX then Inr (-1, s2\<lparr>fueFinEjecucion := True\<rparr>)
     else if tipo men_resp = codigo R_GRABAR_VALOR then
       bindE (enviar_texto VALOR_ASIGNADO (string_itoa e valor) s2) (\<lambda>s3.
       bindE (recibir_kernel s3) (\<lambda>(_, s4). Inr (valor, s4)))
     else Inr (-1, s2)))"

section \<open>Labels, calls and returns\<close>

definition irAlLabel :: "'m entorno_cpu \<Rightarrow> byte list \<Rightarrow> 'm cpu \<Rightarrow> 'm cpu res" where
  "irAlLabel e nombre_etiqueta s =
     bindE (no_nulo (pcb s)) (\<lambda>p.
     bindE (leer_bloque (cpu_etiquetas s)) (\<lambda>etis.
     let pos_etiqueta = metadata_buscar_etiqueta e (sacar_caracteres_escape nombre_etiqueta) etis
           (tam_indice_etiquetas p) in
     if pos_etiqueta \<noteq> -1 then Inr (s\<lparr>pcb := Some (p\<lparr>program_counter := pos_etiqueta\<rparr>)\<rparr>)
     else Inr (s\<lparr>fueFinEjecucion := True\<rparr>)))"

text \<open>The context goes behind the variables: the start of the old one, then the program counter.\<close>

definition preservarContexto :: "'m entorno_cpu \<Rightarrow> 'm cpu \<Rightarrow> 'm cpu res" where
  "preservarContexto e s =
     bindE (no_nulo (pcb s)) (\<lambda>p.
     let base = dir_seg_stack p; offset = fin_contexto p in
     bindE (conversar_umv e ALM_BYTES base offset 4 (Some (i32_bytes (dir_cont_actual p))) s) (\<lambda>(r_con, s1).
     if tipo r_con = codigo R_ALM_BYTES then
       bindE (conversar_umv e ALM_BYTES base (i32 (offset + 4)) 4 (Some (i32_bytes (program_counter p))) s1)
         (\<lambda>(r_proxins, s2).
         if tipo r_proxins = codigo SEGMEN_FAULT then finalizarContexto e (codigo SEGMEN_FAULT) s2
         else Inr s2)
     else if tipo r_con = codigo SEGMEN_FAULT then finalizarContexto e (codigo SEGMEN_FAULT) s1
     else Inr s1))"

text \<open>The label of a call is not checked: -1 becomes the program counter.\<close>

definition saltar_a :: "'m entorno_cpu \<Rightarrow> byte list \<Rightarrow> 'm cpu \<Rightarrow> 'm cpu res" where
  "saltar_a e etiqueta s =
     bindE (no_nulo (pcb s)) (\<lambda>p.
     bindE (leer_bloque (cpu_etiquetas s)) (\<lambda>etis.
       Inr (s\<lparr>pcb := Some (p\<lparr>program_counter :=
         metadata_buscar_etiqueta e etiqueta etis (tam_indice_etiquetas p)\<rparr>)\<rparr>)))"

definition llamarSinRetorno :: "'m entorno_cpu \<Rightarrow> byte list \<Rightarrow> 'm cpu \<Rightarrow> 'm cpu res" where
  "llamarSinRetorno e etiqueta s =
     bindE (preservarContexto e s) (\<lambda>s1.
     bindE (no_nulo (pcb s1)) (\<lambda>p.
     bindE (regenerar_dicc_var e (s1\<lparr>pcb := Some (p\<lparr>
         dir_cont_actual := i32 (i32 (dir_cont_actual p + i32 (5 * cant_var_cont_actual p)) + 8),
         cant_var_cont_actual := 0\<rparr>)\<rparr>)) (saltar_a e etiqueta)))"

definition llamarConRetorno :: "'m entorno_cpu \<Rightarrow> byte list \<Rightarrow> int \<Rightarrow> 'm cpu \<Rightarrow> 'm cpu res" where
  "llamarConRetorno e etiqueta donde_retornar s =
     bindE (preservarContexto e s) (\<lambda>s1.
     bindE (no_nulo (pcb s1)) (\<lambda>p.
     let base = dir_seg_stack p; offset = i32 (fin_contexto p + 8) in
     bindE (conversar_umv e ALM_BYTES base offset 4 (Some (i32_bytes donde_retornar)) s1) (\<lambda>(r_alm, s2).
     if tipo r_alm = codigo R_ALM_BYTES then
       bindE (regenerar_dicc_var e (s2\<lparr>pcb := Some (p\<lparr>
         dir_cont_actual := i32 (i32 (base + offset) + 4), cant_var_cont_actual := 0\<rparr>)\<rparr>)) (saltar_a e etiqueta)
     else if tipo r_alm = codigo SEGMEN_FAULT then finalizarContexto e (codigo SEGMEN_FAULT) s2
     else Inr s2)))"

text \<open>
  The end of a function or of the program. The number of variables of the old context is
  computed from the addresses.
\<close>

definition finalizar :: "'m entorno_cpu \<Rightarrow> 'm cpu \<Rightarrow> 'm cpu res" where
  "finalizar e s =
     bindE (no_nulo (pcb s)) (\<lambda>p.
     if dir_cont_actual p = dir_seg_stack p then finalizarContexto e 0 s else
     let base = dir_seg_stack p; offset = i32 (i32 (dir_cont_actual p - base) - 8) in
     bindE (conversar_umv e SOL_BYTES base offset 8 None s) (\<lambda>(rec_ret, s1).
     if tipo rec_ret = codigo R_SOL_BYTES then
       bindE (leer_i32 (dato rec_ret) 0) (\<lambda>dir_context_ant.
       bindE (leer_i32 (dato rec_ret) 4) (\<lambda>prog_counter.
       let cant_var = div_c (i32 (i32 (dir_cont_actual p - dir_context_ant) - 8)) 5 in
       bindE (actualizar_pcb cant_var prog_counter dir_context_ant s1) (regenerar_dicc_var e)))
     else finalizarContexto e (codigo SEGMEN_FAULT) s1))"

definition retornar :: "'m entorno_cpu \<Rightarrow> int \<Rightarrow> 'm cpu \<Rightarrow> 'm cpu res" where
  "retornar e retorno s =
     bindE (no_nulo (pcb s)) (\<lambda>p.
     let base = dir_seg_stack p; offset = i32 (i32 (dir_cont_actual p - base) - 12) in
     bindE (conversar_umv e SOL_BYTES base offset 12 None s) (\<lambda>(rec_ret, s1).
     if tipo rec_ret = codigo R_SOL_BYTES then
       bindE (leer_i32 (dato rec_ret) 0) (\<lambda>dir_context_ant.
       bindE (leer_i32 (dato rec_ret) 4) (\<lambda>prog_counter.
       bindE (leer_i32 (dato rec_ret) 8) (\<lambda>dir_retorno.
       let cant_var = div_c (i32 (i32 (dir_cont_actual p - dir_context_ant) - 12)) 5 in
       bindE (actualizar_pcb cant_var prog_counter dir_context_ant s1) (\<lambda>s2.
       bindE (regenerar_dicc_var e s2) (\<lambda>s3.
       bindE (conversar_umv e ALM_BYTES base (i32 (i32 (dir_retorno - base) + 1)) 4
           (Some (i32_bytes retorno)) s3) (\<lambda>(_, s4). Inr s4))))))
     else finalizarContexto e (codigo SEGMEN_FAULT) s1))"

section \<open>Output, devices and semaphores\<close>

definition imprimir :: "'m entorno_cpu \<Rightarrow> int \<Rightarrow> 'm cpu \<Rightarrow> 'm cpu res" where
  "imprimir e valor_mostrar s =
     (if huboSegFault s then Inr s
      else bindE (enviar_texto IMPRIMIR_VALOR (string_itoa e valor_mostrar) s) recibir_resp_kernel)"

definition imprimirTexto :: "byte list \<Rightarrow> 'm cpu \<Rightarrow> 'm cpu res" where
  "imprimirTexto texto s =
     bindE (enviar_texto IMPRIMIR_TEXTO (sacar_caracteres_escape texto) s) recibir_resp_kernel"

text \<open>A process that leaves the CPU: its pcb, and whether the CPU goes away with it.\<close>

definition desalojar :: "'m cpu \<Rightarrow> 'm cpu res" where
  "desalojar s =
     bindE (enviar_pcb_destruir s) (\<lambda>s1.
     if cpu_quit_sistema s1 then enviar_kernel WAIT [] 0 s1 else enviar_kernel WAIT [0] 1 s1)"

definition entradaSalida :: "'m entorno_cpu \<Rightarrow> byte list \<Rightarrow> int \<Rightarrow> 'm cpu \<Rightarrow> 'm cpu res" where
  "entradaSalida e dispositivo tiempo s =
     bindE (enviar_texto IO_ID dispositivo s) (\<lambda>s1.
     bindE (enviar_texto IO_CANT_UNIDADES (string_itoa e tiempo) s1) (\<lambda>s2.
     bindE (desalojar s2) (\<lambda>s3. Inr (s3\<lparr>fueFinEjecucion := True\<rparr>))))"

definition wait_cpu :: "byte list \<Rightarrow> 'm cpu \<Rightarrow> 'm cpu res" where
  "wait_cpu identificador_semaforo s =
     bindE (enviar_texto WAIT identificador_semaforo s) (\<lambda>s1.
     bindE (recibir_kernel s1) (\<lambda>(men_resp, s2).
     if tipo men_resp = codigo SEM_BLOQUEADO then desalojar (s2\<lparr>fueFinEjecucion := True\<rparr>)
     else if tipo men_resp = codigo SEM_INEX then Inr (s2\<lparr>fueFinEjecucion := True\<rparr>)
     else Inr s2))"

text \<open>\<open>finalizarContexto\<close> does not know \<open>SEM_INEX\<close>.\<close>

definition mi_signal :: "'m entorno_cpu \<Rightarrow> byte list \<Rightarrow> 'm cpu \<Rightarrow> 'm cpu res" where
  "mi_signal e identificador_semaforo s =
     bindE (enviar_texto SIGNAL identificador_semaforo s) (\<lambda>s1.
     bindE (recibir_kernel s1) (\<lambda>(respuesta, s2).
     if tipo respuesta = codigo SEM_INEX then finalizarContexto e (codigo SEM_INEX) s2 else Inr s2))"

section \<open>One line\<close>

text \<open>The table of primitives that the parser calls.\<close>

primrec ejecutar_linea :: "'m entorno_cpu \<Rightarrow> accion \<Rightarrow> 'm cpu \<Rightarrow> 'm cpu res" where
  "ejecutar_linea e Fin_Linea s = Inr s"
| "ejecutar_linea e (Definir_Variable c k) s = bindE (definirVariable e c s) (\<lambda>(r, s1). ejecutar_linea e (k r) s1)"
| "ejecutar_linea e (Obtener_Posicion c k) s = bindE (obtenerPosicionVariable c s) (\<lambda>(r, s1). ejecutar_linea e (k r) s1)"
| "ejecutar_linea e (Dereferenciar d k) s = bindE (dereferenciar e d s) (\<lambda>(r, s1). ejecutar_linea e (k r) s1)"
| "ejecutar_linea e (Asignar d v k) s = bindE (asignar e d v s) (ejecutar_linea e k)"
| "ejecutar_linea e (Obtener_Compartida x k) s = bindE (obtenerValorCompartida x s) (\<lambda>(r, s1). ejecutar_linea e (k r) s1)"
| "ejecutar_linea e (Asignar_Compartida x v k) s =
     bindE (asignarValorCompartida e x v s) (\<lambda>(r, s1). ejecutar_linea e (k r) s1)"
| "ejecutar_linea e (Ir_Al_Label x k) s = bindE (irAlLabel e x s) (ejecutar_linea e k)"
| "ejecutar_linea e (Llamar_Sin_Retorno x k) s = bindE (llamarSinRetorno e x s) (ejecutar_linea e k)"
| "ejecutar_linea e (Llamar_Con_Retorno x d k) s = bindE (llamarConRetorno e x d s) (ejecutar_linea e k)"
| "ejecutar_linea e (Finalizar k) s = bindE (finalizar e s) (ejecutar_linea e k)"
| "ejecutar_linea e (Retornar v k) s = bindE (retornar e v s) (ejecutar_linea e k)"
| "ejecutar_linea e (Imprimir v k) s = bindE (imprimir e v s) (ejecutar_linea e k)"
| "ejecutar_linea e (Imprimir_Texto x k) s = bindE (imprimirTexto x s) (ejecutar_linea e k)"
| "ejecutar_linea e (Entrada_Salida x n k) s = bindE (entradaSalida e x n s) (ejecutar_linea e k)"
| "ejecutar_linea e (Wait x k) s = bindE (wait_cpu x s) (ejecutar_linea e k)"
| "ejecutar_linea e (Signal x k) s = bindE (mi_signal e x s) (ejecutar_linea e k)"

end
