(* ===== verification/CPU_Ciclo.thy ===== *)
theory CPU_Ciclo
  imports CPU_Primitivas
begin

text \<open>The cycle of a CPU: it takes a process from the kernel, runs its turn and gives it back.\<close>

section \<open>The start of a turn\<close>

text \<open>
  The message with the pcb. A closed connection leaves a null pointer; after a message of
  another type the freed block is used.
\<close>

definition recibirUnPcb :: "'m cpu \<Rightarrow> 'm cpu res" where
  "recibirUnPcb s = (case de_kernel s of
       [] \<Rightarrow> Inr (s\<lparr>pcb := None\<rparr>)
     | Men_Pcb m # ms \<Rightarrow>
         if mq_tipo m = codigo PCB_Y_QUANTUM
         then Inr (s\<lparr>pcb := Some (mq_pcb m), cpu_quantum_max := mq_quantum m, de_kernel := ms\<rparr>)
         else Inl Fuera_de_Rango
     | Men_Comun _ # _ \<Rightarrow> Inl Fuera_de_Rango)"

definition traerIndiceEtiquetas :: "'m entorno_cpu \<Rightarrow> 'm cpu \<Rightarrow> 'm cpu res" where
  "traerIndiceEtiquetas e s =
     bindE (no_nulo (pcb s)) (\<lambda>p.
     bindE (conversar_umv e SOL_BYTES (dir_indice_etiquetas p) 0 (tam_indice_etiquetas p) None s)
       (\<lambda>(rec_etiq, s1).
       if tipo rec_etiq = codigo R_SOL_BYTES then
         bindE (leer (dato rec_etiq) 0 (tam_dato rec_etiq)) (\<lambda>d. Inr (s1\<lparr>cpu_etiquetas := Bloque d\<rparr>))
       else if tipo rec_etiq = codigo SEGMEN_FAULT then finalizarContexto e (codigo SEGMEN_FAULT) s1
       else Inr s1))"

section \<open>One instruction\<close>

text \<open>
  The index of the code holds, for every instruction, its offset and size in the code. The
  answer is read before its type is checked.
\<close>

definition solicitarProxSentenciaAUmv ::
  "'m entorno_cpu \<Rightarrow> 'm cpu \<Rightarrow> (byte list option \<times> 'm cpu) res" where
  "solicitarProxSentenciaAUmv e s =
     bindE (no_nulo (pcb s)) (\<lambda>p.
     bindE (conversar_umv e SOL_BYTES (dir_indice_codigo p) (i32 (program_counter p * 8)) 8 None s)
       (\<lambda>(men_base_offset, s1).
     bindE (leer_i32 (dato men_base_offset) 0) (\<lambda>offset.
     bindE (leer_i32 (dato men_base_offset) 4) (\<lambda>tam.
     bindE (conversar_umv e SOL_BYTES (dir_seg_codigo p) offset tam None s1) (\<lambda>(rec_inst, s2).
     if tipo rec_inst = codigo R_SOL_BYTES then
       bindE (leer (dato rec_inst) 0 tam) (\<lambda>proxInst.
       bindE (cadena (proxInst @ [0])) (\<lambda>linea.
         Inr (Some (sacar_caracteres_escape linea),
           s2\<lparr>pcb := Some (p\<lparr>program_counter := i32 (program_counter p + 1)\<rparr>)\<rparr>)))
     else if tipo rec_inst = codigo SEGMEN_FAULT then
       bindE (finalizarContexto e (codigo SEGMEN_FAULT) s2) (\<lambda>s3. Inr (None, s3))
     else Inr (None, s2))))))"

text \<open>SIGUSR1 and SIGINT: the CPU leaves after the turn (while it waits, at once).\<close>

definition signal_handler :: "'m cpu \<Rightarrow> 'm cpu" where
  "signal_handler s = s\<lparr>cpu_quit_sistema := False\<rparr>"

section \<open>The turn\<close>

text \<open>
  The loop of the turn, \<open>n\<close> iterations at most. The instruction of a process that has ended in
  the same line is not the last call of that line: the parser goes on.
\<close>

fun turno :: "'m entorno_cpu \<Rightarrow> nat \<Rightarrow> 'm cpu \<Rightarrow> 'm cpu res" where
  "turno e 0 s = Inr s"
| "turno e (Suc n) s =
     (if fueFinEjecucion s then Inr s else
      let s0 = (if senal e (quantum_actual s) then signal_handler s else s) in
      bindE (solicitarProxSentenciaAUmv e s0) (\<lambda>(proxInstrucc, s1).
      bindE (ejecutar_linea e (analizadorLinea e proxInstrucc) s1) (\<lambda>s2.
        turno e n (s2\<lparr>quantum_actual := quantum_actual s2 + 1\<rparr>))))"

definition salirPorQuantum :: "'m cpu \<Rightarrow> 'm cpu res" where
  "salirPorQuantum s =
     bindE (if cpu_quit_sistema s then enviar_kernel FIN_QUANTUM [] 0 s else enviar_kernel FIN_QUANTUM [0] 1 s)
       enviar_pcb_destruir"

text \<open>One round of the loop of \<open>main\<close> behind \<open>recibirUnPcb\<close>.\<close>

definition atender_pcb :: "'m entorno_cpu \<Rightarrow> 'm cpu \<Rightarrow> 'm cpu res" where
  "atender_pcb e s =
     bindE (no_nulo (pcb s)) (\<lambda>p.
     bindE (cambio_PA e (pcb_id p) s) (\<lambda>s1.
     bindE (traerIndiceEtiquetas e s1) (\<lambda>s2.
     bindE (regenerar_dicc_var e s2) (\<lambda>s3.
     bindE (turno e (nat (cpu_quantum_max s3)) (s3\<lparr>quantum_actual := 0\<rparr>)) (\<lambda>s4.
     bindE (if fueFinEjecucion s4 then Inr s4 else salirPorQuantum s4) (\<lambda>s5.
     bindE (liberar_bloque (cpu_etiquetas s5)) (\<lambda>b.
     bindE (cambio_PA e 0 (s5\<lparr>cpu_etiquetas := b, pcb := None\<rparr>)) (\<lambda>s6.
       Inr (s6\<lparr>fueFinEjecucion := False, huboSegFault := False\<rparr>)))))))))"

text \<open>
  The loop of \<open>main\<close> with fuel: \<open>None\<close> when the fuel is used up, otherwise the final state.
\<close>

fun ciclo :: "'m entorno_cpu \<Rightarrow> nat \<Rightarrow> 'm cpu \<Rightarrow> 'm cpu option res" where
  "ciclo e 0 s = Inr None"
| "ciclo e (Suc n) s =
     (if \<not> cpu_quit_sistema s then Inr (Some s) else
      bindE (recibirUnPcb s) (\<lambda>s1.
      if pcb s1 = None then Inr (Some s1)
      else bindE (atender_pcb e s1) (ciclo e n)))"

end
