(* ===== verification/CPU_Pila.thy ===== *)
theory CPU_Pila
  imports CPU_Ciclo UMV_Vista
begin

text \<open>
  The stack of a process as the CPU sees it through the contract \<open>memoria_remota\<close>: contexts of
  five bytes per variable, each behind the saved registers of its caller. The lemmas give the
  effect of every primitive on that view.
\<close>

section \<open>The view\<close>

text \<open>
  The process \<open>p\<close> runs, its stack segment holds \<open>bs\<close>, and the variables of its context lie
  inside. Addresses do not leave the range of \<open>int32_t\<close>.
\<close>

definition contexto ::
  "('m \<Rightarrow> bool) \<Rightarrow> ('m \<Rightarrow> int \<Rightarrow> byte list option) \<Rightarrow> 'm cpu \<Rightarrow> t_pcb \<Rightarrow> byte list \<Rightarrow> bool" where
  "contexto ok ve s p bs \<longleftrightarrow> ok (memoria s) \<and> pcb s = Some p
     \<and> ve (memoria s) (dir_seg_stack p) = Some bs
     \<and> 0 \<le> dir_seg_stack p \<and> dir_seg_stack p + int (length bs) < 2147483000
     \<and> dir_seg_stack p \<le> dir_cont_actual p \<and> 0 \<le> cant_var_cont_actual p
     \<and> dir_cont_actual p + 5 * cant_var_cont_actual p \<le> dir_seg_stack p + int (length bs)"

definition inicio_contexto :: "t_pcb \<Rightarrow> int" where
  "inicio_contexto p = dir_cont_actual p - dir_seg_stack p"

definition tope :: "t_pcb \<Rightarrow> int" where
  "tope p = inicio_contexto p + 5 * cant_var_cont_actual p"

lemma fin_contexto_tope: "contexto ok ve s p bs \<Longrightarrow> fin_contexto p = tope p"
  by (simp add: contexto_def fin_contexto_def tope_def inicio_contexto_def i32_id_bounds)

lemma contexto_cotas:
  assumes "contexto ok ve s p bs"
  shows "0 \<le> inicio_contexto p" "inicio_contexto p \<le> tope p" "tope p \<le> int (length bs)"
    "int (length bs) < 2147483000" "0 \<le> dir_seg_stack p" "dir_seg_stack p + int (length bs) < 2147483000"
    "0 \<le> cant_var_cont_actual p"
  using assms by (simp_all add: contexto_def tope_def inicio_contexto_def)

text \<open>The dictionary that the names on the stack determine; later variables hide earlier ones.\<close>

fun variables_de :: "byte list \<Rightarrow> int \<Rightarrow> int \<Rightarrow> nat \<Rightarrow> (byte list \<rightharpoonup> int)" where
  "variables_de bs base ini 0 = Map.empty"
| "variables_de bs base ini (Suc n) = (variables_de bs base ini n)
     (clave_variable (bs ! nat (ini + 5 * int n)) \<mapsto> base + ini + 5 * int n)"

definition dic_de :: "t_pcb \<Rightarrow> byte list \<Rightarrow> (byte list \<rightharpoonup> int)" where
  "dic_de p bs = variables_de bs (dir_seg_stack p) (inicio_contexto p) (nat (cant_var_cont_actual p))"

lemma es_numero_idem [simp]: "es_numero_pasar_char (es_numero_pasar_char c) = es_numero_pasar_char c"
proof (cases "uint c \<le> 9")
  case True
  have "uint (c + 48) = uint c + 48"
    using True by (subst uint_plus_if') simp
  then have "\<not> uint (c + 48) \<le> 9" using uint_nonnegative [of c] by linarith
  then show ?thesis by (simp add: es_numero_pasar_char_def)
qed (simp add: es_numero_pasar_char_def)

lemma clave_nombre [simp]: "clave_variable (es_numero_pasar_char c) = clave_variable c"
  by (simp add: clave_variable_def)

lemma variables_de_cong:
  "(\<And>i. i < n \<Longrightarrow> bs ! nat (ini + 5 * int i) = bs' ! nat (ini + 5 * int i)) \<Longrightarrow>
     variables_de bs base ini n = variables_de bs' base ini n"
  by (induction n) auto

lemma reemplazar_nth:
  "0 \<le> off \<Longrightarrow> off + int (length buf) \<le> int (length bs) \<Longrightarrow> i < nat off \<Longrightarrow> reemplazar bs off buf ! i = bs ! i"
  by (simp add: reemplazar_def nth_append)

lemma bucle_append: "bucle f (xs @ ys) s = bindE (bucle f xs s) (bucle f ys)"
proof (induction xs arbitrary: s)
  case (Cons x xs)
  then show ?case by (cases "f x s") simp_all
qed simp

lemma take_uno: "n < length bs \<Longrightarrow> take 1 (drop n bs) = [bs ! n]"
  by (simp flip: Cons_nth_drop_Suc)

lemma reemplazar_append:
  "0 \<le> off \<Longrightarrow> off + int (length a) + int (length b) \<le> int (length bs) \<Longrightarrow>
     reemplazar (reemplazar bs off a) (off + int (length a)) b = reemplazar bs off (a @ b)"
  by (simp add: reemplazar_def nat_add_distrib ac_simps)

lemma contexto_memoria:
  "contexto ok ve s p bs \<Longrightarrow> ok m \<Longrightarrow> ve m (dir_seg_stack p) = Some bs' \<Longrightarrow> length bs' = length bs \<Longrightarrow>
     contexto ok ve (s\<lparr>memoria := m\<rparr>) p bs'"
  by (simp add: contexto_def)

text \<open>A variable at \<open>d\<close>: its name and its four value bytes lie inside the stack.\<close>

definition variable_en :: "t_pcb \<Rightarrow> byte list \<Rightarrow> int \<Rightarrow> bool" where
  "variable_en p bs d \<longleftrightarrow> dir_seg_stack p \<le> d \<and> d + 5 \<le> dir_seg_stack p + int (length bs)"

lemma variable_offset:
  "contexto ok ve s p bs \<Longrightarrow> variable_en p bs d \<Longrightarrow>
     i32 (i32 (d - dir_seg_stack p) + 1) = d - dir_seg_stack p + 1"
  by (simp add: contexto_def variable_en_def i32_id_bounds)

text \<open>The saved registers of a call: the caller's context and program counter, and the target.\<close>

definition registros :: "t_pcb \<Rightarrow> int \<Rightarrow> byte list" where
  "registros p donde = i32_bytes (dir_cont_actual p) @ i32_bytes (program_counter p) @ i32_bytes donde"

lemma length_registros [simp]: "length (registros p donde) = 12"
  by (simp add: registros_def)

section \<open>One conversation\<close>

context memoria_remota
begin

lemma conversar_sol:
  assumes "umv_srv e = srv" "inv (memoria s)" "vista (memoria s) base = Some bs" "0 \<le> off" "0 \<le> n"
    "off + n \<le> int (length bs)"
  shows "conversar_umv e SOL_BYTES base off n None s =
    Inr (respuesta_bytes (take (nat n) (drop (nat off) bs)), s)"
  using assms sol_ok [where q = "\<lparr>cu_tipo = codigo SOL_BYTES, cu_base = base, cu_offset = off,
      cu_tam = n, cu_buffer = []\<rparr>" and m = "memoria s"]
  by (simp add: conversar_umv_def crear_men_cpu_umv_def)

lemma conversar_sol_mal:
  assumes "umv_srv e = srv" "inv (memoria s)" "vista (memoria s) base = Some bs" "0 \<le> n"
    "off < 0 \<or> int (length bs) < off + n"
  shows "conversar_umv e SOL_BYTES base off n None s = Inr (respuesta_vacia SEGMEN_FAULT, s)"
  using assms sol_mal [where q = "\<lparr>cu_tipo = codigo SOL_BYTES, cu_base = base, cu_offset = off,
      cu_tam = n, cu_buffer = []\<rparr>" and m = "memoria s"]
  by (simp add: conversar_umv_def crear_men_cpu_umv_def)

lemma conversar_alm:
  assumes "umv_srv e = srv" "inv (memoria s)" "vista (memoria s) base = Some bs" "0 \<le> off"
    "n = int (length buf)" "off + n \<le> int (length bs)"
  shows "\<exists>m. conversar_umv e ALM_BYTES base off n (Some buf) s =
      Inr (respuesta_vacia R_ALM_BYTES, s\<lparr>memoria := m\<rparr>) \<and> inv m
    \<and> vista m = (vista (memoria s))(base \<mapsto> reemplazar bs off buf)"
proof -
  obtain m where "srv \<lparr>cu_tipo = codigo ALM_BYTES, cu_base = base, cu_offset = off, cu_tam = n,
      cu_buffer = buf\<rparr> (memoria s) = Inr (Some (respuesta_vacia R_ALM_BYTES), m)" "inv m"
      "vista m = (vista (memoria s))(base \<mapsto> reemplazar bs off buf)"
    using assms alm_ok [where q = "\<lparr>cu_tipo = codigo ALM_BYTES, cu_base = base, cu_offset = off,
      cu_tam = n, cu_buffer = buf\<rparr>" and m = "memoria s"] by auto
  with assms(1,5) show ?thesis
    by (intro exI [of _ m]) (simp add: conversar_umv_def crear_men_cpu_umv_def leer_todo)
qed

lemma conversar_alm_mal:
  assumes "umv_srv e = srv" "inv (memoria s)" "vista (memoria s) base = Some bs"
    "n = int (length buf)" "off < 0 \<or> int (length bs) < off + n"
  shows "conversar_umv e ALM_BYTES base off n (Some buf) s = Inr (respuesta_vacia SEGMEN_FAULT, s)"
  using assms alm_mal [where q = "\<lparr>cu_tipo = codigo ALM_BYTES, cu_base = base, cu_offset = off,
      cu_tam = n, cu_buffer = buf\<rparr>" and m = "memoria s"]
  by (simp add: conversar_umv_def crear_men_cpu_umv_def leer_todo)

text \<open>The dictionary of a context is rebuilt from the stack.\<close>

lemma bucle_regenerar:
  assumes "umv_srv e = srv" "contexto inv vista s p bs" "n \<le> nat (cant_var_cont_actual p)"
  shows "bucle (regenerar_variable e p) [0..int n - 1] (s\<lparr>dic_Variables := Map.empty\<rparr>)
    = Inr (s\<lparr>dic_Variables := variables_de bs (dir_seg_stack p) (inicio_contexto p) n\<rparr>)"
  using assms(3)
proof (induction n)
  case (Suc n)
  let ?b = "dir_seg_stack p" and ?o = "inicio_contexto p + 5 * int n"
  let ?s = "s\<lparr>dic_Variables := variables_de bs ?b (inicio_contexto p) n\<rparr>"
  note c = contexto_cotas [OF assms(2)]
  have n: "int n < cant_var_cont_actual p" using Suc.prems by linarith
  then have o: "0 \<le> ?o" "?o + 1 \<le> int (length bs)" using c(1,3) by (simp_all add: tope_def)
  have off: "i32 (i32 (dir_cont_actual p - ?b) + i32 (int n * 5)) = ?o" "i32 (?b + ?o) = ?b + ?o"
    using n c o by (simp_all add: inicio_contexto_def i32_id_bounds tope_def)
  have "take 1 (drop (nat ?o) bs) = [bs ! nat ?o]"
    using o by (intro take_uno) linarith
  then have "regenerar_variable e p (int n) ?s = Inr (?s\<lparr>dic_Variables :=
      variables_de bs ?b (inicio_contexto p) (Suc n)\<rparr>)"
    using conversar_sol [of e ?s ?b bs ?o 1] assms(1,2) o off
    by (simp add: regenerar_variable_def Let_def contexto_def respuesta_bytes_def leer_def add.assoc)
  moreover have "[0..int (Suc n) - 1] = [0..int n - 1] @ [int n]"
    using upto_rec2 [of 0 "int n"] by simp
  ultimately show ?case using Suc by (simp add: bucle_append fun_upd_def)
qed simp

lemma regenerar_contexto:
  assumes "umv_srv e = srv" "contexto inv vista s p bs"
  shows "regenerar_dicc_var e s = Inr (s\<lparr>dic_Variables := dic_de p bs\<rparr>)"
  using bucle_regenerar [OF assms order_refl] assms(2)
  by (simp add: regenerar_dicc_var_def contexto_def dic_de_def)

section \<open>Variables\<close>

lemma definir_contexto:
  fixes x :: byte
  assumes e: "umv_srv e = srv" "length (tras_clave e) = 3" and c: "contexto inv vista s p bs"
    and hay: "tope p + 5 \<le> int (length bs)"
  defines "p' \<equiv> p\<lparr>cant_var_cont_actual := cant_var_cont_actual p + 1\<rparr>"
    and "bs' \<equiv> reemplazar bs (tope p) (clave_variable x @ [0] @ tras_clave e)"
  obtains m where "definirVariable e x s = Inr (dir_seg_stack p + tope p,
      s\<lparr>memoria := m, dic_Variables := (dic_Variables s)(clave_variable x \<mapsto> dir_seg_stack p + tope p),
        pcb := Some p'\<rparr>)"
    "contexto inv vista (s\<lparr>memoria := m, pcb := Some p'\<rparr>) p' bs'"
    "(dic_de p bs)(clave_variable x \<mapsto> dir_seg_stack p + tope p) = dic_de p' bs'"
proof -
  let ?buf = "clave_variable x @ [0] @ tras_clave e"
  note k = contexto_cotas [OF c]
  have l: "int (length ?buf) = 5" using e(2) by (simp add: clave_variable_def)
  obtain m where m: "conversar_umv e ALM_BYTES (dir_seg_stack p) (tope p) 5 (Some ?buf) s =
      Inr (respuesta_vacia R_ALM_BYTES, s\<lparr>memoria := m\<rparr>)" "inv m"
    "vista m = (vista (memoria s))(dir_seg_stack p \<mapsto> bs')"
    using conversar_alm [of e s "dir_seg_stack p" bs "tope p" 5 ?buf] e(1) c hay k l
    unfolding bs'_def contexto_def by auto
  have i: "i32 (dir_seg_stack p + tope p) = dir_seg_stack p + tope p"
    "i32 (cant_var_cont_actual p + 1) = cant_var_cont_actual p + 1"
    using c k hay by (simp_all add: i32_id_bounds contexto_def)
  have len: "length bs' = length bs" unfolding bs'_def by (rule length_reemplazar) (use l hay k in auto)
  show thesis
  proof (rule that [of m])
    show "definirVariable e x s = Inr (dir_seg_stack p + tope p,
      s\<lparr>memoria := m, dic_Variables := (dic_Variables s)(clave_variable x \<mapsto> dir_seg_stack p + tope p),
        pcb := Some p'\<rparr>)"
      using c m(1) fin_contexto_tope [OF c] i
      by (simp add: definirVariable_def Let_def contexto_def respuesta_vacia_def p'_def)
    show "contexto inv vista (s\<lparr>memoria := m, pcb := Some p'\<rparr>) p' bs'"
      using c m(2,3) len hay by (simp add: contexto_def p'_def tope_def inicio_contexto_def)
    have "bs' ! nat (tope p) = es_numero_pasar_char x"
      using k by (simp add: bs'_def reemplazar_def clave_variable_def nth_append)
    moreover have "bs' ! nat (inicio_contexto p + 5 * int i) = bs ! nat (inicio_contexto p + 5 * int i)"
      if "i < nat (cant_var_cont_actual p)" for i
      unfolding bs'_def using that k hay l by (intro reemplazar_nth) (auto simp: tope_def)
    moreover have "nat (cant_var_cont_actual p + 1) = Suc (nat (cant_var_cont_actual p))" using k by simp
    ultimately show "(dic_de p bs)(clave_variable x \<mapsto> dir_seg_stack p + tope p) = dic_de p' bs'"
      using k(7) variables_de_cong [of "nat (cant_var_cont_actual p)" bs "inicio_contexto p" bs']
      by (simp add: dic_de_def p'_def inicio_contexto_def tope_def add.assoc)
  qed
qed

lemma definir_falla:
  assumes "umv_srv e = srv" "length (tras_clave e) = 3" "contexto inv vista s p bs"
    "int (length bs) < tope p + 5" "\<not> roto_kernel s"
  shows "definirVariable e x s = Inr (-1, s\<lparr>fueFinEjecucion := True, huboSegFault := True,
    a_kernel := a_kernel s @ [Men_Comun \<lparr>tam_dato = int (length (string_itoa e (pcb_id p))) + 1,
      tipo = codigo SEGMEN_FAULT, dato = string_itoa e (pcb_id p) @ [0]\<rparr>]\<rparr>)"
  using assms conversar_alm_mal [of e s "dir_seg_stack p" bs 5
      "clave_variable x @ [0] @ tras_clave e" "tope p"] fin_contexto_tope [OF assms(3)]
  by (simp add: definirVariable_def Let_def contexto_def clave_variable_def respuesta_vacia_def
      finalizarContexto_def enviar_texto_def enviar_kernel_def crear_men_comun_def leer_todo al_kernel_def)

lemma asignar_contexto:
  assumes "umv_srv e = srv" "contexto inv vista s p bs" "variable_en p bs d" "\<not> huboSegFault s"
  obtains m where "asignar e d v s = Inr (s\<lparr>memoria := m\<rparr>)"
    "contexto inv vista (s\<lparr>memoria := m\<rparr>) p (reemplazar bs (d - dir_seg_stack p + 1) (i32_bytes v))"
proof -
  let ?o = "d - dir_seg_stack p + 1"
  have o: "0 \<le> ?o" "?o + 4 \<le> int (length bs)" using assms(3) by (simp_all add: variable_en_def)
  obtain m where m: "conversar_umv e ALM_BYTES (dir_seg_stack p) ?o 4 (Some (i32_bytes v)) s =
      Inr (respuesta_vacia R_ALM_BYTES, s\<lparr>memoria := m\<rparr>)" "inv m"
    "vista m = (vista (memoria s))(dir_seg_stack p \<mapsto> reemplazar bs ?o (i32_bytes v))"
    using conversar_alm [of e s "dir_seg_stack p" bs ?o 4 "i32_bytes v"] assms(1,2) o
    unfolding contexto_def by auto
  have "asignar e d v s = Inr (s\<lparr>memoria := m\<rparr>)"
    using assms(2,4) m(1) variable_offset [OF assms(2,3)]
    by (simp add: asignar_def Let_def contexto_def respuesta_vacia_def)
  moreover have "contexto inv vista (s\<lparr>memoria := m\<rparr>) p (reemplazar bs ?o (i32_bytes v))"
    using m(2,3) o by (intro contexto_memoria [OF assms(2)]) simp_all
  ultimately show thesis using that by blast
qed

lemma dereferenciar_contexto:
  assumes "umv_srv e = srv" "contexto inv vista s p bs" "variable_en p bs d"
  shows "dereferenciar e d s = Inr (bytes_i32 (take 4 (drop (nat (d - dir_seg_stack p + 1)) bs)), s)"
proof -
  let ?o = "d - dir_seg_stack p + 1"
  have o: "0 \<le> ?o" "?o + 4 \<le> int (length bs)" using assms(3) by (simp_all add: variable_en_def)
  have "conversar_umv e SOL_BYTES (dir_seg_stack p) ?o 4 None s =
      Inr (respuesta_bytes (take 4 (drop (nat ?o) bs)), s)"
    using conversar_sol [of e s "dir_seg_stack p" bs ?o 4] assms(1,2) o by (simp add: contexto_def)
  moreover have "length (take 4 (drop (nat ?o) bs)) = 4" using o by auto
  ultimately show ?thesis
    using assms(2) variable_offset [OF assms(2,3)]
    by (simp add: dereferenciar_def Let_def contexto_def respuesta_bytes_def leer_todo)
qed

section \<open>Calls and returns\<close>

text \<open>Two writes behind the last variable, the second next to the first.\<close>

lemma preservar_contexto:
  assumes "umv_srv e = srv" "contexto inv vista s p bs" "tope p + 8 \<le> int (length bs)"
  obtains m where "preservarContexto e s = Inr (s\<lparr>memoria := m\<rparr>)"
    "contexto inv vista (s\<lparr>memoria := m\<rparr>) p
       (reemplazar bs (tope p) (i32_bytes (dir_cont_actual p) @ i32_bytes (program_counter p)))"
proof -
  let ?b = "dir_seg_stack p" and ?a = "i32_bytes (dir_cont_actual p)" and ?pc = "i32_bytes (program_counter p)"
  let ?bs1 = "reemplazar bs (tope p) ?a"
  note k = contexto_cotas [OF assms(2)] and f = fin_contexto_tope [OF assms(2)]
  have l1: "length ?bs1 = length bs" by (rule length_reemplazar) (use k assms(3) in auto)
  obtain m1 where m1: "conversar_umv e ALM_BYTES ?b (tope p) 4 (Some ?a) s =
      Inr (respuesta_vacia R_ALM_BYTES, s\<lparr>memoria := m1\<rparr>)" "inv m1"
    "vista m1 = (vista (memoria s))(?b \<mapsto> ?bs1)"
    using conversar_alm [of e s ?b bs "tope p" 4 ?a] assms k unfolding contexto_def by auto
  obtain m2 where m2: "conversar_umv e ALM_BYTES ?b (tope p + 4) 4 (Some ?pc) (s\<lparr>memoria := m1\<rparr>) =
      Inr (respuesta_vacia R_ALM_BYTES, s\<lparr>memoria := m2\<rparr>)" "inv m2"
    "vista m2 = (vista m1)(?b \<mapsto> reemplazar ?bs1 (tope p + 4) ?pc)"
  proof -
    have "\<exists>m. conversar_umv e ALM_BYTES ?b (tope p + 4) 4 (Some ?pc) (s\<lparr>memoria := m1\<rparr>) =
        Inr (respuesta_vacia R_ALM_BYTES, (s\<lparr>memoria := m1\<rparr>)\<lparr>memoria := m\<rparr>) \<and> inv m
      \<and> vista m = (vista (memoria (s\<lparr>memoria := m1\<rparr>)))(?b \<mapsto> reemplazar ?bs1 (tope p + 4) ?pc)"
      by (rule conversar_alm) (use assms(1,3) m1(2,3) k l1 in simp_all)
    then show thesis using that by auto
  qed
  have r: "reemplazar ?bs1 (tope p + 4) ?pc = reemplazar bs (tope p) (?a @ ?pc)"
    using reemplazar_append [of "tope p" ?a ?pc bs] k assms(3) by simp
  have "i32 (tope p + 4) = tope p + 4" using k assms(3) by (simp add: i32_id_bounds)
  then have "preservarContexto e s = Inr (s\<lparr>memoria := m2\<rparr>)"
    using assms(2) m1(1) m2(1) f by (simp add: preservarContexto_def Let_def contexto_def respuesta_vacia_def)
  moreover have "contexto inv vista (s\<lparr>memoria := m2\<rparr>) p (reemplazar bs (tope p) (?a @ ?pc))"
    using m2(2,3) k assms(3) by (intro contexto_memoria [OF assms(2)]) (simp_all add: r)
  ultimately show thesis using that by blast
qed

lemma llamar_contexto:
  fixes et :: "byte list" and donde :: int
  assumes e: "umv_srv e = srv" and c: "contexto inv vista s p bs" and hay: "tope p + 12 \<le> int (length bs)"
    and etis: "cpu_etiquetas s = Bloque etis"
  defines "p' \<equiv> p\<lparr>dir_cont_actual := dir_seg_stack p + tope p + 12, cant_var_cont_actual := 0,
      program_counter := metadata_buscar_etiqueta e et etis (tam_indice_etiquetas p)\<rparr>"
    and "bs' \<equiv> reemplazar bs (tope p) (registros p donde)"
  obtains m where "llamarConRetorno e et donde s =
      Inr (s\<lparr>memoria := m, dic_Variables := Map.empty, pcb := Some p'\<rparr>)"
    "contexto inv vista (s\<lparr>memoria := m, dic_Variables := Map.empty, pcb := Some p'\<rparr>) p' bs'"
proof -
  let ?b = "dir_seg_stack p" and ?a = "i32_bytes (dir_cont_actual p) @ i32_bytes (program_counter p)"
  let ?bs1 = "reemplazar bs (tope p) ?a"
  note k = contexto_cotas [OF c]
  obtain m1 where m1: "preservarContexto e s = Inr (s\<lparr>memoria := m1\<rparr>)"
    "contexto inv vista (s\<lparr>memoria := m1\<rparr>) p ?bs1"
    using preservar_contexto [OF e c] hay by auto
  have l1: "length ?bs1 = length bs" by (rule length_reemplazar) (use k hay in auto)
  obtain m2 where m2: "conversar_umv e ALM_BYTES ?b (tope p + 8) 4 (Some (i32_bytes donde)) (s\<lparr>memoria := m1\<rparr>) =
      Inr (respuesta_vacia R_ALM_BYTES, s\<lparr>memoria := m2\<rparr>)" "inv m2"
    "vista m2 = (vista m1)(?b \<mapsto> reemplazar ?bs1 (tope p + 8) (i32_bytes donde))"
    using conversar_alm [of e "s\<lparr>memoria := m1\<rparr>" ?b ?bs1 "tope p + 8" 4 "i32_bytes donde"] e m1(2) k l1 hay
    unfolding contexto_def by auto
  have r: "reemplazar ?bs1 (tope p + 8) (i32_bytes donde) = bs'"
    using reemplazar_append [of "tope p" ?a "i32_bytes donde" bs] k hay by (simp add: bs'_def registros_def)
  have i: "i32 (tope p + 8) = tope p + 8" "i32 (i32 (?b + (tope p + 8)) + 4) = ?b + tope p + 12"
    using k hay by (simp_all add: i32_id_bounds)
  let ?p1 = "p\<lparr>dir_cont_actual := ?b + tope p + 12, cant_var_cont_actual := 0\<rparr>"
  let ?s1 = "s\<lparr>memoria := m2, pcb := Some ?p1\<rparr>"
  have c1: "contexto inv vista ?s1 ?p1 bs'"
    using c m2(2,3) r hay k by (auto simp: contexto_def bs'_def)
  have "regenerar_dicc_var e ?s1 = Inr (?s1\<lparr>dic_Variables := Map.empty\<rparr>)"
    using regenerar_contexto [OF e c1] by (simp add: dic_de_def)
  then have "llamarConRetorno e et donde s =
      Inr (s\<lparr>memoria := m2, dic_Variables := Map.empty, pcb := Some p'\<rparr>)"
    using c m1(1) m2(1) i etis fin_contexto_tope [OF c]
    by (simp add: llamarConRetorno_def Let_def contexto_def respuesta_vacia_def saltar_a_def p'_def)
  moreover have "contexto inv vista (s\<lparr>memoria := m2, dic_Variables := Map.empty, pcb := Some p'\<rparr>) p' bs'"
    using c1 by (simp add: contexto_def p'_def)
  ultimately show thesis using that by blast
qed

text \<open>
  The return to the caller \<open>q\<close>, whose registers lie below the context: its context comes back,
  and the result goes to the variable that the call named.
\<close>

lemma retornar_contexto:
  assumes e: "umv_srv e = srv" and c: "contexto inv vista s p bs"
    and q: "dir_seg_stack q = dir_seg_stack p" "dir_cont_actual p = dir_seg_stack p + tope q + 12"
      "dir_seg_stack q \<le> dir_cont_actual q" "0 \<le> cant_var_cont_actual q" "es_i32 (program_counter q)"
    and reg: "take 12 (drop (nat (tope q)) bs) = registros q donde"
    and d: "variable_en p bs donde"
  defines "p' \<equiv> p\<lparr>cant_var_cont_actual := cant_var_cont_actual q, program_counter := program_counter q,
      dir_cont_actual := dir_cont_actual q\<rparr>"
  obtains m where "retornar e v s = Inr (s\<lparr>memoria := m, pcb := Some p', dic_Variables := dic_de p' bs\<rparr>)"
    "contexto inv vista (s\<lparr>memoria := m, pcb := Some p', dic_Variables := dic_de p' bs\<rparr>) p'
       (reemplazar bs (donde - dir_seg_stack p + 1) (i32_bytes v))"
proof -
  let ?b = "dir_seg_stack p" and ?o = "donde - dir_seg_stack p + 1"
  note k = contexto_cotas [OF c]
  have t: "0 \<le> tope q" "tope q + 12 \<le> int (length bs)" "tope q = dir_cont_actual p - ?b - 12"
    using q k by (simp_all add: tope_def inicio_contexto_def)
  have i: "i32 (i32 (dir_cont_actual p - ?b) - 12) = tope q"
    "i32 (i32 (dir_cont_actual p - dir_cont_actual q) - 12) = 5 * cant_var_cont_actual q"
    using t q k by (simp_all add: i32_id_bounds tope_def inicio_contexto_def)
  have regs: "leer_i32 (registros q donde) 0 = Inr (dir_cont_actual q)"
    "leer_i32 (registros q donde) 4 = Inr (program_counter q)" "leer_i32 (registros q donde) 8 = Inr donde"
    using q t k d by (simp_all add: leer_i32_def leer_def registros_def es_i32_def variable_en_def
        tope_def inicio_contexto_def)
  have sol: "conversar_umv e SOL_BYTES ?b (tope q) 12 None s = Inr (respuesta_bytes (registros q donde), s)"
    using conversar_sol [of e s ?b bs "tope q" 12] e c t(1,2) reg by (simp add: contexto_def)
  let ?s1 = "s\<lparr>pcb := Some p'\<rparr>"
  have c1: "contexto inv vista ?s1 p' bs"
    using c q t(2) by (simp add: contexto_def p'_def tope_def inicio_contexto_def)
  have reg1: "regenerar_dicc_var e ?s1 = Inr (?s1\<lparr>dic_Variables := dic_de p' bs\<rparr>)"
    by (rule regenerar_contexto [OF e c1])
  let ?s2 = "?s1\<lparr>dic_Variables := dic_de p' bs\<rparr>"
  have o: "0 \<le> ?o" "?o + 4 \<le> int (length bs)" using d by (simp_all add: variable_en_def)
  obtain m where m: "conversar_umv e ALM_BYTES ?b ?o 4 (Some (i32_bytes v)) ?s2 =
      Inr (respuesta_vacia R_ALM_BYTES, ?s2\<lparr>memoria := m\<rparr>)" "inv m"
    "vista m = (vista (memoria ?s2))(?b \<mapsto> reemplazar bs ?o (i32_bytes v))"
  proof -
    have "\<exists>m. conversar_umv e ALM_BYTES ?b ?o 4 (Some (i32_bytes v)) ?s2 =
        Inr (respuesta_vacia R_ALM_BYTES, ?s2\<lparr>memoria := m\<rparr>) \<and> inv m
      \<and> vista m = (vista (memoria ?s2))(?b \<mapsto> reemplazar bs ?o (i32_bytes v))"
      by (rule conversar_alm) (use e c o in \<open>simp_all add: contexto_def\<close>)
    then show thesis using that by blast
  qed
  have dv: "div_c (5 * cant_var_cont_actual q) 5 = cant_var_cont_actual q" using q(4) by (simp add: div_c_def)
  have "retornar e v s = Inr (s\<lparr>memoria := m, pcb := Some p', dic_Variables := dic_de p' bs\<rparr>)"
    using c sol regs i dv m(1) reg1 variable_offset [OF c d]
    by (simp add: retornar_def Let_def contexto_def respuesta_bytes_def actualizar_pcb_def p'_def)
  moreover have "contexto inv vista (s\<lparr>memoria := m, pcb := Some p', dic_Variables := dic_de p' bs\<rparr>) p'
       (reemplazar bs ?o (i32_bytes v))"
    using c1 m(2,3) o by (simp add: contexto_def p'_def)
  ultimately show thesis using that by blast
qed

end

end
