(* ===== verification/CPU_Termina.thy ===== *)
theory CPU_Termina
  imports CPU_Ciclo
begin

text \<open>
  The main loop of a CPU ends. Every round takes a pcb from the kernel's socket, and nothing
  that a round does puts anything there; so the rounds are bounded by what the kernel sends
  before it closes the connection.
\<close>

named_theorems quedan "what is left of the kernel's messages after an operation"

abbreviation quedan_menos :: "'m cpu \<Rightarrow> 'm cpu \<Rightarrow> bool" where
  "quedan_menos s s' \<equiv> length (de_kernel s') \<le> length (de_kernel s)"

text \<open>The conversations; only a receive changes what is left.\<close>

lemma conversar_quedan [quedan]:
  assumes "conversar_umv e t b off n buf s = Inr (r, s')"
  shows "quedan_menos s s'"
proof -
  obtain o_r m where "(case o_r of None \<Rightarrow> Inl Bloqueado | Some resp \<Rightarrow> Inr (resp, s\<lparr>memoria := m\<rparr>)) = Inr (r, s')"
    using assms unfolding conversar_umv_def bindE_eq_Inr by (metis (no_types, lifting) case_prod_beta)
  then show ?thesis by (cases o_r) auto
qed

lemma cambio_PA_quedan [quedan]: "cambio_PA e i s = Inr s' \<Longrightarrow> quedan_menos s s'"
  by (auto simp: cambio_PA_def bindE_eq_Inr)

lemma al_kernel_quedan: "al_kernel m s = Inr s' \<Longrightarrow> quedan_menos s s'"
  by (auto simp: al_kernel_def split: if_splits)

lemma enviar_quedan [quedan]:
  "enviar_kernel t b n s = Inr s' \<Longrightarrow> quedan_menos s s'" "enviar_texto t x s = Inr s' \<Longrightarrow> quedan_menos s s'"
  "enviar_pcb_destruir s = Inr s' \<Longrightarrow> quedan_menos s s'"
  by (auto simp: enviar_kernel_def enviar_texto_def enviar_pcb_destruir_def bindE_eq_Inr dest: al_kernel_quedan)

lemma recibir_quedan [quedan]:
  "recibir_kernel s = Inr (m, s') \<Longrightarrow> quedan_menos s s'" "recibir_resp_kernel s = Inr s' \<Longrightarrow> quedan_menos s s'"
proof -
  show r: "recibir_kernel s = Inr (m, s') \<Longrightarrow> quedan_menos s s'" for m s'
    by (auto simp: recibir_kernel_def crear_men_comun_def bindE_eq_Inr
        split: list.splits mensaje.splits)
  then show "recibir_resp_kernel s = Inr s' \<Longrightarrow> quedan_menos s s'"
    by (auto simp: recibir_resp_kernel_def bindE_eq_Inr)
qed

lemma bucle_quedan:
  assumes "\<And>i s s'. f i s = Inr s' \<Longrightarrow> quedan_menos s s'"
  shows "bucle f ns s = Inr s' \<Longrightarrow> quedan_menos s s'"
proof (induction ns arbitrary: s)
  case (Cons i ns)
  then obtain s1 where "f i s = Inr s1" "bucle f ns s1 = Inr s'" by (auto simp: bindE_eq_Inr)
  then show ?case using assms Cons.IH le_trans by blast
qed simp

text \<open>The operations.\<close>

lemma imprimir_variable_quedan: "imprimir_variable e b i s = Inr s' \<Longrightarrow> quedan_menos s s'"
  by (auto simp: imprimir_variable_def bindE_eq_Inr dest!: quedan)

lemma bucle_imprimir_quedan [quedan]:
  "bucle (imprimir_variable e b) ns s = Inr s' \<Longrightarrow> quedan_menos s s'"
  by (rule bucle_quedan) (rule imprimir_variable_quedan)

lemma finalizarContexto_quedan [quedan]: "finalizarContexto e t s = Inr s' \<Longrightarrow> quedan_menos s s'"
  by (auto simp: finalizarContexto_def bindE_eq_Inr split: if_splits dest!: quedan)

lemma regenerar_variable_quedan: "regenerar_variable e p i s = Inr s' \<Longrightarrow> quedan_menos s s'"
  by (auto simp: regenerar_variable_def bindE_eq_Inr Let_def dest!: quedan)

lemma bucle_regenerar_quedan:
  "bucle (regenerar_variable e p) ns s = Inr s' \<Longrightarrow> quedan_menos s s'"
  by (rule bucle_quedan) (rule regenerar_variable_quedan)

lemma regenerar_quedan [quedan]: "regenerar_dicc_var e s = Inr s' \<Longrightarrow> quedan_menos s s'"
  by (auto simp: regenerar_dicc_var_def bindE_eq_Inr dest!: bucle_regenerar_quedan)

lemma saltar_quedan [quedan]:
  "saltar_a e et s = Inr s' \<Longrightarrow> quedan_menos s s'" "actualizar_pcb n pc d s = Inr s' \<Longrightarrow> quedan_menos s s'"
  by (auto simp: saltar_a_def actualizar_pcb_def bindE_eq_Inr)

text \<open>The primitives.\<close>

lemma variables_quedan [quedan]:
  "definirVariable e c s = Inr (r, s') \<Longrightarrow> quedan_menos s s'"
  "obtenerPosicionVariable c s = Inr (r, s') \<Longrightarrow> quedan_menos s s'"
  "dereferenciar e d s = Inr (r, s') \<Longrightarrow> quedan_menos s s'"
  "asignar e d v s = Inr s' \<Longrightarrow> quedan_menos s s'"
  by (auto simp: definirVariable_def obtenerPosicionVariable_def dereferenciar_def asignar_def
      bindE_eq_Inr Let_def split: if_splits dest!: quedan)

lemma compartidas_quedan [quedan]:
  "obtenerValorCompartida x s = Inr (r, s') \<Longrightarrow> quedan_menos s s'"
  "asignarValorCompartida e x v s = Inr (r, s') \<Longrightarrow> quedan_menos s s'"
  by (auto simp: obtenerValorCompartida_def asignarValorCompartida_def bindE_eq_Inr
      split: if_splits dest!: quedan)

lemma preservar_quedan [quedan]: "preservarContexto e s = Inr s' \<Longrightarrow> quedan_menos s s'"
  by (auto simp: preservarContexto_def bindE_eq_Inr Let_def split: if_splits dest!: quedan)

lemma llamadas_quedan [quedan]:
  "irAlLabel e x s = Inr s' \<Longrightarrow> quedan_menos s s'"
  "llamarSinRetorno e x s = Inr s' \<Longrightarrow> quedan_menos s s'"
  "llamarConRetorno e x d s = Inr s' \<Longrightarrow> quedan_menos s s'"
  "finalizar e s = Inr s' \<Longrightarrow> quedan_menos s s'"
  "retornar e v s = Inr s' \<Longrightarrow> quedan_menos s s'"
  by (auto simp: irAlLabel_def llamarSinRetorno_def llamarConRetorno_def finalizar_def retornar_def
      bindE_eq_Inr Let_def split: if_splits dest!: quedan)

lemma salidas_quedan [quedan]:
  "imprimir e v s = Inr s' \<Longrightarrow> quedan_menos s s'" "imprimirTexto x s = Inr s' \<Longrightarrow> quedan_menos s s'"
  "desalojar s = Inr s' \<Longrightarrow> quedan_menos s s'"
  by (auto simp: imprimir_def imprimirTexto_def desalojar_def bindE_eq_Inr split: if_splits dest!: quedan)

lemma kernel_quedan [quedan]:
  "entradaSalida e x n s = Inr s' \<Longrightarrow> quedan_menos s s'" "wait_cpu x s = Inr s' \<Longrightarrow> quedan_menos s s'"
  "mi_signal e x s = Inr s' \<Longrightarrow> quedan_menos s s'"
  by (auto simp: entradaSalida_def wait_cpu_def mi_signal_def bindE_eq_Inr split: if_splits dest!: quedan)

lemma linea_quedan [quedan]: "ejecutar_linea e a s = Inr s' \<Longrightarrow> quedan_menos s s'"
proof (induction a arbitrary: s)
qed (fastforce simp: bindE_eq_Inr dest: quedan)+

section \<open>The turn and the cycle\<close>

lemma prox_quedan [quedan]: "solicitarProxSentenciaAUmv e s = Inr (r, s') \<Longrightarrow> quedan_menos s s'"
  by (auto simp: solicitarProxSentenciaAUmv_def bindE_eq_Inr split: if_splits dest!: quedan)

lemma turno_quedan [quedan]: "turno e n s = Inr s' \<Longrightarrow> quedan_menos s s'"
proof (induction n arbitrary: s)
  case (Suc n)
  show ?case
  proof (cases "fueFinEjecucion s")
    case False
    let ?s0 = "if senal e (quantum_actual s) then signal_handler s else s"
    obtain r s1 s2 where t: "solicitarProxSentenciaAUmv e ?s0 = Inr (r, s1)"
      "ejecutar_linea e (analizadorLinea e r) s1 = Inr s2"
      "turno e n (s2\<lparr>quantum_actual := quantum_actual s2 + 1\<rparr>) = Inr s'"
      using Suc.prems False by (auto simp: bindE_eq_Inr Let_def)
    have "quedan_menos s ?s0" by (simp add: signal_handler_def)
    with prox_quedan [OF t(1)] linea_quedan [OF t(2)] Suc.IH [OF t(3)] show ?thesis by simp
  qed (use Suc.prems in simp)
qed simp

lemma salir_quedan [quedan]: "salirPorQuantum s = Inr s' \<Longrightarrow> quedan_menos s s'"
  by (auto simp: salirPorQuantum_def bindE_eq_Inr split: if_splits dest!: quedan)

lemma traer_quedan [quedan]: "traerIndiceEtiquetas e s = Inr s' \<Longrightarrow> quedan_menos s s'"
  by (auto simp: traerIndiceEtiquetas_def bindE_eq_Inr split: if_splits dest!: quedan)

lemma atender_quedan: "atender_pcb e s = Inr s' \<Longrightarrow> quedan_menos s s'"
  by (auto simp: atender_pcb_def bindE_eq_Inr split: if_splits dest!: quedan)

end
