(* ===== verification/CPU_Prop.thy ===== *)
theory CPU_Prop
  imports CPU_Pila CPU_Termina UMV_Corridas
begin

text \<open>
  The properties of the CPU in front of the memory unit of theory \<open>UMV_Server\<close>, which keeps the
  contract of the stack view.
\<close>

section \<open>A concrete CPU\<close>

text \<open>Process 1 with a stack of 40 bytes at address 100, and a label at instruction 7.\<close>

definition e_cpu :: "(int \<times> umv) entorno_cpu" where
  "e_cpu = \<lparr>umv_srv = servir_cpu (\<lambda>_. 0), string_itoa = decimal, analizadorLinea = (\<lambda>_. Fin_Linea),
     metadata_buscar_etiqueta = (\<lambda>_ _ _. 7), tras_clave = [1, 2, 3], no_iniciado = 9, senal = (\<lambda>_. False)\<rparr>"

definition p_cpu :: t_pcb where
  "p_cpu = \<lparr>cant_var_cont_actual = 0, dir_cont_actual = 100, dir_indice_codigo = 7,
     dir_indice_etiquetas = 7, dir_seg_codigo = 7, dir_seg_stack = 100, pcb_id = 1,
     program_counter = 3, tam_indice_etiquetas = 0, cant_instrucciones = 0\<rparr>"

definition u_cpu :: umv where
  "u_cpu = \<lparr>mem_prin = replicate 64 0, tam_mem_total = 64, list_seg = [seg_ej 1 100 8 40],
     alg_actual = 1, umv_retardo = 0, umv_quit = 1\<rparr>"

definition s_cpu :: "(int \<times> umv) cpu" where
  "s_cpu = \<lparr>dic_Variables = Map.empty, pcb = Some p_cpu, quantum_actual = 0, cpu_quantum_max = 3,
     cpu_etiquetas = Bloque [], fueFinEjecucion = False, huboSegFault = False, cpu_quit_sistema = True,
     memoria = (1, u_cpu), de_kernel = [], a_kernel = [], roto_kernel = False\<rparr>"

lemma contexto_s_cpu: "contexto servir_inv servir_vista s_cpu p_cpu (replicate 40 0)"
  by (simp add: contexto_def s_cpu_def p_cpu_def servir_inv_def servir_vista_def umv_inv_def u_cpu_def
      seg_ok_def vista_def bytes_seg_def buscar_segmento_dir_logica_def)

lemma e_cpu_campos [simp]: "umv_srv e_cpu = servir_cpu (\<lambda>_. 0)" "tras_clave e_cpu = [1, 2, 3]"
  "string_itoa e_cpu = decimal" "metadata_buscar_etiqueta e_cpu = (\<lambda>_ _ _. 7)"
  by (simp_all add: e_cpu_def)

lemma s_cpu_campos [simp]:
  "huboSegFault s_cpu = False" "roto_kernel s_cpu = False" "cpu_etiquetas s_cpu = Bloque []"
  "dic_Variables s_cpu = Map.empty" "a_kernel s_cpu = []" "pcb s_cpu = Some p_cpu"
  by (simp_all add: s_cpu_def)

section \<open>Variables\<close>

text \<open>
  C20. A definition gives the program a fresh place behind the variables of its context: the
  name is written to the stack, the position is returned, and afterwards the dictionary is
  again the one that the stack determines, so that a later turn, which rebuilds it from the
  stack, finds the same variables. Without room for the five bytes the process ends with a
  segmentation fault.
\<close>

theorem definir_variable:
  assumes "umv_srv e = servir_cpu fresco" "length (tras_clave e) = 3"
    "contexto servir_inv servir_vista s p bs" "dic_Variables s = dic_de p bs"
    "tope p + 5 \<le> int (length bs)"
  shows "\<exists>s' p' bs'. definirVariable e x s = Inr (dir_seg_stack p + tope p, s')
    \<and> p' = p\<lparr>cant_var_cont_actual := cant_var_cont_actual p + 1\<rparr>
    \<and> contexto servir_inv servir_vista s' p' bs'
    \<and> bs' = reemplazar bs (tope p) (clave_variable x @ [0] @ tras_clave e)
    \<and> dic_Variables s' = dic_de p' bs'
    \<and> obtenerPosicionVariable x s' = Inr (dir_seg_stack p + tope p, s')"
proof -
  let ?p' = "p\<lparr>cant_var_cont_actual := cant_var_cont_actual p + 1\<rparr>"
  let ?bs' = "reemplazar bs (tope p) (clave_variable x @ [0] @ tras_clave e)"
  obtain m where m: "definirVariable e x s = Inr (dir_seg_stack p + tope p,
      s\<lparr>memoria := m, dic_Variables := (dic_Variables s)(clave_variable x \<mapsto> dir_seg_stack p + tope p),
        pcb := Some ?p'\<rparr>)"
    "contexto servir_inv servir_vista (s\<lparr>memoria := m, pcb := Some ?p'\<rparr>) ?p' ?bs'"
    "(dic_de p bs)(clave_variable x \<mapsto> dir_seg_stack p + tope p) = dic_de ?p' ?bs'"
    by (rule umv_cpu.definir_contexto [OF assms(1,2,3,5)])
  have "dic_de ?p' ?bs' (clave_variable x) = Some (dir_seg_stack p + tope p)"
    unfolding m(3) [symmetric] by simp
  with m(2,3) assms(4) show ?thesis
    by - (intro exI conjI, rule m(1), simp_all add: contexto_def obtenerPosicionVariable_def)
qed

theorem definir_variable_testigo:
  "\<exists>s'. definirVariable e_cpu 97 s_cpu = Inr (100, s') \<and> obtenerPosicionVariable 97 s' = Inr (100, s')"
proof -
  have "dic_Variables s_cpu = dic_de p_cpu (replicate 40 0)" by (simp add: dic_de_def p_cpu_def)
  moreover have "tope p_cpu = 0" "dir_seg_stack p_cpu = 100"
    by (simp_all add: tope_def inicio_contexto_def p_cpu_def)
  ultimately show ?thesis
    using definir_variable [OF _ _ contexto_s_cpu, of e_cpu "\<lambda>_. 0" 97] by auto
qed

text \<open>
  C19. What an assignment stores in a variable is what its next use reads, every other
  variable keeps its value, and neither changes the registers of the process.
\<close>

theorem asignar_dereferenciar:
  assumes "umv_srv e = servir_cpu fresco" "contexto servir_inv servir_vista s p bs"
    "variable_en p bs d" "\<not> huboSegFault s" "es_i32 v"
  shows "\<exists>s'. asignar e d v s = Inr s' \<and> pcb s' = pcb s \<and> dereferenciar e d s' = Inr (v, s')
    \<and> (\<forall>d' w. variable_en p bs d' \<longrightarrow> d' + 5 \<le> d \<or> d + 5 \<le> d' \<longrightarrow>
        dereferenciar e d' s = Inr (w, s) \<longrightarrow> dereferenciar e d' s' = Inr (w, s'))"
proof -
  let ?o = "d - dir_seg_stack p + 1" and ?bs' = "reemplazar bs (d - dir_seg_stack p + 1) (i32_bytes v)"
  obtain m where m: "asignar e d v s = Inr (s\<lparr>memoria := m\<rparr>)"
    "contexto servir_inv servir_vista (s\<lparr>memoria := m\<rparr>) p ?bs'"
    by (rule umv_cpu.asignar_contexto [OF assms(1-4)])
  have o: "0 \<le> ?o" "?o + 4 \<le> int (length bs)" using assms(3) by (simp_all add: variable_en_def)
  then have l: "length ?bs' = length bs" by simp
  have der: "dereferenciar e x (s\<lparr>memoria := m\<rparr>)
      = Inr (bytes_i32 (take 4 (drop (nat (x - dir_seg_stack p + 1)) ?bs')), s\<lparr>memoria := m\<rparr>)"
    if "variable_en p bs x" for x
    using umv_cpu.dereferenciar_contexto [OF assms(1) m(2)] that l by (simp add: variable_en_def)
  have "take 4 (drop (nat ?o) ?bs') = i32_bytes v" using reemplazar_mismo [of ?o "i32_bytes v" bs] o by simp
  moreover have "take 4 (drop (nat (d' - dir_seg_stack p + 1)) ?bs') = take 4 (drop (nat (d' - dir_seg_stack p + 1)) bs)"
    if "variable_en p bs d'" "d' + 5 \<le> d \<or> d + 5 \<le> d'" for d'
    using reemplazar_aparte [of ?o "i32_bytes v" bs "d' - dir_seg_stack p + 1" 4] o that
    by (auto simp: variable_en_def)
  ultimately show ?thesis
    using m(1) der assms(3,5) umv_cpu.dereferenciar_contexto [OF assms(1,2)] by auto
qed

theorem asignar_dereferenciar_testigo:
  "\<exists>s'. asignar e_cpu 105 42 s_cpu = Inr s' \<and> dereferenciar e_cpu 105 s' = Inr (42, s')"
proof -
  have "variable_en p_cpu (replicate 40 0) 105" "es_i32 42"
    by (simp_all add: variable_en_def p_cpu_def es_i32_def)
  from asignar_dereferenciar [OF _ contexto_s_cpu this(1) _ this(2), of e_cpu "\<lambda>_. 0"] show ?thesis by auto
qed

section \<open>Calls\<close>

text \<open>
  C3. A call with a result and the matching return, with anything in between that leaves the
  stack below the callee's context alone and returns from that context: the caller gets back
  its context, its program counter and its dictionary, and the result stands in the variable
  that the call named. Nothing else of the stack changes.
\<close>

theorem llamada_y_retorno:
  assumes e: "umv_srv e = servir_cpu fresco" and c: "contexto servir_inv servir_vista s p bs"
    and hay: "tope p + 12 \<le> int (length bs)" and "cpu_etiquetas s = Bloque etis"
    and pc: "es_i32 (program_counter p)" and d: "variable_en p bs donde"
  shows "\<exists>s1 p1 bs1. llamarConRetorno e et donde s = Inr s1 \<and> contexto servir_inv servir_vista s1 p1 bs1
    \<and> dic_Variables s1 = Map.empty \<and> cant_var_cont_actual p1 = 0
    \<and> dir_seg_stack p1 = dir_seg_stack p \<and> length bs1 = length bs
    \<and> program_counter p1 = metadata_buscar_etiqueta e et etis (tam_indice_etiquetas p)
    \<and> (\<forall>s2 p2 bs2. contexto servir_inv servir_vista s2 p2 bs2 \<longrightarrow> length bs2 = length bs
        \<longrightarrow> dir_seg_stack p2 = dir_seg_stack p \<longrightarrow> dir_cont_actual p2 = dir_cont_actual p1
        \<longrightarrow> take (nat (inicio_contexto p1)) bs2 = take (nat (inicio_contexto p1)) bs1
        \<longrightarrow> (\<exists>s3. retornar e v s2 = Inr s3
          \<and> contexto servir_inv servir_vista s3 (p2\<lparr>cant_var_cont_actual := cant_var_cont_actual p,
               program_counter := program_counter p, dir_cont_actual := dir_cont_actual p\<rparr>)
             (reemplazar bs2 (donde - dir_seg_stack p + 1) (i32_bytes v))
          \<and> dic_Variables s3 = dic_de p bs))"
proof -
  define p1 where "p1 = p\<lparr>dir_cont_actual := dir_seg_stack p + tope p + 12, cant_var_cont_actual := 0,
      program_counter := metadata_buscar_etiqueta e et etis (tam_indice_etiquetas p)\<rparr>"
  define bs1 where "bs1 = reemplazar bs (tope p) (registros p donde)"
  obtain m where m: "llamarConRetorno e et donde s = Inr (s\<lparr>memoria := m, dic_Variables := Map.empty, pcb := Some p1\<rparr>)"
    "contexto servir_inv servir_vista (s\<lparr>memoria := m, dic_Variables := Map.empty, pcb := Some p1\<rparr>) p1 bs1"
    unfolding p1_def bs1_def by (rule umv_cpu.llamar_contexto [OF e c hay assms(4)])
  note k = contexto_cotas [OF c]
  have ini: "inicio_contexto p1 = tope p + 12" by (simp add: p1_def inicio_contexto_def)
  have lp: "dir_seg_stack p \<le> dir_cont_actual p" "dir_cont_actual p1 = dir_seg_stack p + tope p + 12"
    using c by (simp_all add: contexto_def p1_def)
  have "\<exists>s3. retornar e v s2 = Inr s3
      \<and> contexto servir_inv servir_vista s3 (p2\<lparr>cant_var_cont_actual := cant_var_cont_actual p,
           program_counter := program_counter p, dir_cont_actual := dir_cont_actual p\<rparr>)
         (reemplazar bs2 (donde - dir_seg_stack p + 1) (i32_bytes v))
      \<and> dic_Variables s3 = dic_de p bs"
    if c2: "contexto servir_inv servir_vista s2 p2 bs2" and l: "length bs2 = length bs"
      and b: "dir_seg_stack p2 = dir_seg_stack p" "dir_cont_actual p2 = dir_cont_actual p1"
      and igual: "take (nat (inicio_contexto p1)) bs2 = take (nat (inicio_contexto p1)) bs1" for s2 p2 bs2
  proof -
    let ?p3 = "p2\<lparr>cant_var_cont_actual := cant_var_cont_actual p, program_counter := program_counter p,
      dir_cont_actual := dir_cont_actual p\<rparr>"
    have n: "nat (tope p + 12) = nat (tope p) + 12" using k by simp
    have "take (nat (tope p) + 12) bs2 = take (nat (tope p) + 12) bs1" using igual by (simp add: ini n)
    then have "drop (nat (tope p)) (take (nat (tope p) + 12) bs2) = drop (nat (tope p)) (take (nat (tope p) + 12) bs1)"
      by simp
    then have "take 12 (drop (nat (tope p)) bs2) = take 12 (drop (nat (tope p)) bs1)" by (simp add: drop_take)
    also have "\<dots> = registros p donde"
      unfolding bs1_def using reemplazar_mismo [of "tope p" "registros p donde" bs] k hay by simp
    finally have reg: "take 12 (drop (nat (tope p)) bs2) = registros p donde" .
    have dv: "variable_en p2 bs2 donde" using d b(1) l by (simp add: variable_en_def)
    obtain m2 where m2: "retornar e v s2 = Inr (s2\<lparr>memoria := m2, pcb := Some ?p3, dic_Variables := dic_de ?p3 bs2\<rparr>)"
      "contexto servir_inv servir_vista (s2\<lparr>memoria := m2, pcb := Some ?p3, dic_Variables := dic_de ?p3 bs2\<rparr>) ?p3
         (reemplazar bs2 (donde - dir_seg_stack p2 + 1) (i32_bytes v))"
      by (rule umv_cpu.retornar_contexto [OF e c2, of p donde v]) (use b lp k(7) pc reg dv in simp_all)
    have "bs2 ! nat (inicio_contexto p + 5 * int i) = bs ! nat (inicio_contexto p + 5 * int i)"
      if i: "i < nat (cant_var_cont_actual p)" for i
    proof -
      let ?i = "nat (inicio_contexto p + 5 * int i)"
      have i2: "?i < nat (tope p)" "?i < nat (inicio_contexto p1)" using i k ini by (auto simp: tope_def)
      have "bs2 ! ?i = take (nat (inicio_contexto p1)) bs2 ! ?i" using i2 by simp
      also have "\<dots> = bs1 ! ?i" using i2 igual by simp
      also have "\<dots> = bs ! ?i" unfolding bs1_def using i2 k hay by (intro reemplazar_nth) auto
      finally show ?thesis .
    qed
    then have "variables_de bs2 (dir_seg_stack p) (inicio_contexto p) (nat (cant_var_cont_actual p))
        = variables_de bs (dir_seg_stack p) (inicio_contexto p) (nat (cant_var_cont_actual p))"
      by (rule variables_de_cong)
    then have "dic_de ?p3 bs2 = dic_de p bs" using b(1) by (simp add: dic_de_def inicio_contexto_def)
    with m2 b(1) show ?thesis by auto
  qed
  moreover have "length bs1 = length bs" unfolding bs1_def by (rule length_reemplazar) (use k hay in auto)
  ultimately show ?thesis using m by (intro exI [of _ "s\<lparr>memoria := m, dic_Variables := Map.empty, pcb := Some p1\<rparr>"]
        exI [of _ p1] exI [of _ bs1]) (simp add: p1_def)
qed

theorem llamada_y_retorno_testigo:
  "\<exists>s1 s3 p3 bs3. llamarConRetorno e_cpu [102] 120 s_cpu = Inr s1 \<and> retornar e_cpu 42 s1 = Inr s3
    \<and> contexto servir_inv servir_vista s3 p3 bs3 \<and> dir_cont_actual p3 = 100 \<and> program_counter p3 = 3"
proof -
  have "tope p_cpu + 12 \<le> int (length (replicate 40 (0::byte)))" "es_i32 (program_counter p_cpu)"
    "variable_en p_cpu (replicate 40 0) 120"
    by (simp_all add: tope_def inicio_contexto_def p_cpu_def es_i32_def variable_en_def)
  from llamada_y_retorno [OF e_cpu_campos(1) contexto_s_cpu this(1) s_cpu_campos(3) this(2,3), of "[102]" 42]
  show ?thesis by (fastforce simp: p_cpu_def)
qed

section \<open>The main loop\<close>

text \<open>
  C22. The main loop of a CPU ends: one round more than the messages that the kernel still sends
  is enough, whatever the programs do, because every round but the last takes a pcb from the
  kernel, no primitive gives one back, and a turn runs at most its quantum.
\<close>

theorem ciclo_termina:
  assumes "length (de_kernel s) < n"
  shows "ciclo e n s \<noteq> Inr None"
  using assms
proof (induction n arbitrary: s)
  case (Suc n)
  show ?case
  proof
    assume c: "ciclo e (Suc n) s = Inr None"
    then obtain s1 s2 where s1: "recibirUnPcb s = Inr s1" "pcb s1 \<noteq> None" "atender_pcb e s1 = Inr s2"
      "ciclo e n s2 = Inr None" by (auto simp: bindE_eq_Inr split: if_splits)
    from s1(1,2) have "length (de_kernel s) = Suc (length (de_kernel s1))"
      by (auto simp: recibirUnPcb_def split: list.splits mensaje.splits if_splits)
    then have "length (de_kernel s2) < n" using Suc.prems atender_quedan [OF s1(3)] by simp
    then show False using Suc.IH s1(4) by blast
  qed
qed simp

theorem ciclo_termina_testigo:
  "ciclo e_cpu 2 (s_cpu\<lparr>de_kernel := [Men_Pcb \<lparr>mq_tipo = 68, mq_quantum = 3, mq_pcb = p_cpu\<rparr>]\<rparr>) \<noteq> Inr None"
  by (rule ciclo_termina) simp

end
