(* ===== verification/Kernel_Datos.thy ===== *)
theory Kernel_Datos
  imports Sockets Cadenas
begin

text \<open>
  The state of the kernel (\<open>kernel/kernel.h\<close>, the globals of \<open>kernel/kernel.c\<close>) and the
  helpers on its queues, its list of CPUs and its processes. A queue holds pointers, so its
  elements are options (\<open>None\<close> is \<open>NULL\<close>). Each definition is the body of the C function of
  its name; the mutexes are the subject of theory \<open>Kernel_Candados\<close>.
\<close>

section \<open>State\<close>

record t_cpu =
  soc_cpu :: int
  soc_prog :: int
  id_prog_exec :: int

record t_pcb_otros =
  po_pcb :: t_pcb
  n_socket :: int
  peso :: int
  tipo_fin_ejecucion :: int

record t_IO_espera =
  id_prog :: int
  unidades :: int

record t_IO =
  io_sleep :: int
  io_procesos :: "t_IO_espera list"
  cont_cant_proc :: nat

record t_semaforo =
  valor :: int
  procesos :: "int list"

type_synonym cola = "t_pcb_otros option list"

text \<open>What the kernel does to its sockets: it sends a message or closes the socket.\<close>

datatype accion_socket = Envia int mensaje | Cierra int

record kernel =
  cola_new :: cola
  cola_ready :: cola
  cola_exec :: cola
  cola_exit :: cola
  cola_block :: cola
  lista_cpu :: "t_cpu list"
  cant_new :: nat
  cant_ready :: nat
  cant_exit :: nat
  cant_multiprog :: nat
  cant_cpu_libres :: nat
  dicc_disp_io :: "byte list \<rightharpoonup> t_IO"
  dicc_var :: "byte list \<rightharpoonup> int"
  dicc_sem :: "byte list \<rightharpoonup> t_semaforo"
  conj_soc_progs :: "int set"
  conj_soc_cpus :: "int set"
  contador_programa :: int
  quantum_max :: int
  retardo :: int
  tamanio_stack :: int
  quit_sistema :: bool
  rotos :: "int set"
  salida :: "accion_socket list"

section \<open>Semaphores and sockets\<close>

text \<open>A counting semaphore: the decrement of a zero waits.\<close>

definition sem_incre :: "nat \<Rightarrow> nat" where
  "sem_incre s = Suc s"

definition sem_decre :: "nat \<Rightarrow> nat res" where
  "sem_decre s = (if s = 0 then Inl Bloqueado else Inr (s - 1))"

text \<open>
  A send to a socket whose peer is gone ends the kernel (\<open>rotos\<close> are these sockets); every
  other send is part of the output.
\<close>

definition enviar :: "int \<Rightarrow> mensaje \<Rightarrow> kernel \<Rightarrow> kernel res" where
  "enviar soc m k = (if soc \<in> rotos k then Inl Salida
     else Inr (k\<lparr>salida := salida k @ [Envia soc m]\<rparr>))"

definition enviar_comun :: "int \<Rightarrow> int \<Rightarrow> byte list \<Rightarrow> int \<Rightarrow> kernel \<Rightarrow> kernel res" where
  "enviar_comun soc t buf tam k =
     bindE (crear_men_comun t buf tam) (\<lambda>m. enviar soc (Men_Comun m) k)"

definition socket_cerrar :: "int \<Rightarrow> kernel \<Rightarrow> kernel" where
  "socket_cerrar soc k = k\<lparr>salida := salida k @ [Cierra soc]\<rparr>"

section \<open>Queues\<close>

text \<open>
  The search that pops the queue and pushes what it does not want, \<open>n\<close> times; it reads every
  popped element, so a null pointer ends the kernel.
\<close>

fun rotar_cola :: "nat \<Rightarrow> (t_pcb_otros \<Rightarrow> bool) \<Rightarrow> cola \<Rightarrow> (t_pcb_otros option \<times> cola) res" where
  "rotar_cola 0 p q = Inr (None, q)"
| "rotar_cola (Suc n) p [] = Inl Puntero_Nulo"
| "rotar_cola (Suc n) p (None # q) = Inl Puntero_Nulo"
| "rotar_cola (Suc n) p (Some x # q) =
     (if p x then Inr (Some x, q) else rotar_cola n p (queue_push q (Some x)))"

definition buscar_pcb :: "cola \<Rightarrow> int \<Rightarrow> (t_pcb_otros option \<times> cola) res" where
  "buscar_pcb q soc = rotar_cola (length q) (\<lambda>p. n_socket p = soc) q"

text \<open>The head of a queue: \<open>None\<close> for an empty queue and for a null pointer in it.\<close>

definition queue_pop_pcb :: "cola \<Rightarrow> t_pcb_otros option \<times> cola" where
  "queue_pop_pcb q = (case queue_pop q of (None, q') \<Rightarrow> (None, q') | (Some x, q') \<Rightarrow> (x, q'))"

definition pid :: "t_pcb_otros \<Rightarrow> int" where
  "pid p = pcb_id (po_pcb p)"

definition get_pcb_otros_exec :: "int \<Rightarrow> kernel \<Rightarrow> (t_pcb_otros option \<times> kernel) res" where
  "get_pcb_otros_exec id_proc k =
     bindE (rotar_cola (length (cola_exec k)) (\<lambda>p. pid p = id_proc) (cola_exec k)) (\<lambda>(r, q).
       Inr (r, k\<lparr>cola_exec := q\<rparr>))"

text \<open>The process of least weight: one round to find the weight, one to take the process.\<close>

fun peso_minimo :: "nat \<Rightarrow> int \<Rightarrow> cola \<Rightarrow> (int \<times> cola) res" where
  "peso_minimo 0 peso_min q = Inr (peso_min, q)"
| "peso_minimo (Suc n) peso_min [] = Inl Puntero_Nulo"
| "peso_minimo (Suc n) peso_min (None # q) = Inl Puntero_Nulo"
| "peso_minimo (Suc n) peso_min (Some x # q) =
     peso_minimo n (if peso_min > peso x then peso x else peso_min) (queue_push q (Some x))"

definition get_peso_min :: "kernel \<Rightarrow> (t_pcb_otros option \<times> kernel) res" where
  "get_peso_min k =
     (let tam_cola = length (cola_new k) in
      bindE (peso_minimo tam_cola 1000000 (cola_new k)) (\<lambda>(peso_min, q).
      bindE (rotar_cola tam_cola (\<lambda>p. peso_min = peso p) q) (\<lambda>(r, q').
        Inr (r, k\<lparr>cola_new := q'\<rparr>))))"

section \<open>CPUs\<close>

definition get_cpu :: "int \<Rightarrow> kernel \<Rightarrow> t_cpu option" where
  "get_cpu soc k = find (\<lambda>c. soc_cpu c = soc) (lista_cpu k)"

definition get_cpu_soc_cpu_remove :: "int \<Rightarrow> kernel \<Rightarrow> t_cpu option \<times> kernel" where
  "get_cpu_soc_cpu_remove soc k =
     (case list_remove_by_condition (\<lambda>c. soc_cpu c = soc) (lista_cpu k) of
        (r, l) \<Rightarrow> (r, k\<lparr>lista_cpu := l\<rparr>))"

definition get_cpu_libre_remove :: "kernel \<Rightarrow> t_cpu option \<times> kernel" where
  "get_cpu_libre_remove k =
     (case list_remove_by_condition (\<lambda>c. id_prog_exec c = 0) (lista_cpu k) of
        (r, l) \<Rightarrow> (r, k\<lparr>lista_cpu := l\<rparr>))"

text \<open>The lines that give a CPU back to the list as free; they stand in four functions.\<close>

definition liberar_cpu :: "t_cpu \<Rightarrow> kernel \<Rightarrow> kernel" where
  "liberar_cpu c k =
     k\<lparr>lista_cpu := lista_cpu k @ [c\<lparr>id_prog_exec := 0, soc_prog := 0\<rparr>],
       cant_cpu_libres := sem_incre (cant_cpu_libres k)\<rparr>"

section \<open>Processes\<close>

definition push_ready :: "t_pcb_otros option \<Rightarrow> kernel \<Rightarrow> kernel" where
  "push_ready p k =
     k\<lparr>cola_ready := queue_push (cola_ready k) p, cant_ready := sem_incre (cant_ready k)\<rparr>"

definition pasar_pcb_exit :: "t_pcb_otros option \<Rightarrow> kernel \<Rightarrow> kernel" where
  "pasar_pcb_exit p k = (case p of None \<Rightarrow> k
     | Some _ \<Rightarrow> k\<lparr>cola_exit := queue_push (cola_exit k) p, cant_exit := sem_incre (cant_exit k),
         cant_multiprog := sem_incre (cant_multiprog k)\<rparr>)"

definition pasar_pcbBlock_ready :: "int \<Rightarrow> kernel \<Rightarrow> kernel res" where
  "pasar_pcbBlock_ready id_p k =
     bindE (rotar_cola (length (cola_block k)) (\<lambda>p. pid p = id_p) (cola_block k)) (\<lambda>(r, q).
       case r of
         None \<Rightarrow> Inr (k\<lparr>cola_block := q\<rparr>)
       | Some x \<Rightarrow> Inr (push_ready (Some x) (k\<lparr>cola_block := q\<rparr>)))"

text \<open>A process whose program closed the connection may be in any queue but exit.\<close>

definition mover_pcb_exit :: "int \<Rightarrow> kernel \<Rightarrow> kernel res" where
  "mover_pcb_exit soc k =
     bindE (buscar_pcb (cola_new k) soc) (\<lambda>(p1, q1).
       let k1 = pasar_pcb_exit p1 (k\<lparr>cola_new := q1\<rparr>) in
     bindE (buscar_pcb (cola_ready k1) soc) (\<lambda>(p2, q2).
       let k2 = pasar_pcb_exit p2 (k1\<lparr>cola_ready := q2\<rparr>) in
     bindE (buscar_pcb (cola_block k2) soc) (\<lambda>(p3, q3).
       let k3 = pasar_pcb_exit p3 (k2\<lparr>cola_block := q3\<rparr>) in
     bindE (buscar_pcb (cola_exec k3) soc) (\<lambda>(p4, q4).
       Inr (pasar_pcb_exit p4 (k3\<lparr>cola_exec := q4\<rparr>))))))"

text \<open>
  The pcb that a CPU sends back replaces three fields of the kernel's copy. The received
  message is the result of \<open>socket_recv_quantum_pcb\<close>.
\<close>

definition recv_actualizar_pcb :: "t_men_quantum_pcb res \<Rightarrow> t_pcb_otros \<Rightarrow> t_pcb_otros res" where
  "recv_actualizar_pcb recibido p =
     bindE recibido (\<lambda>m. Inr (p\<lparr>po_pcb := (po_pcb p)\<lparr>
        cant_var_cont_actual := cant_var_cont_actual (mq_pcb m),
        dir_cont_actual := dir_cont_actual (mq_pcb m),
        program_counter := program_counter (mq_pcb m)\<rparr>\<rparr>))"

definition actualizar_pcb_y_bloq ::
  "t_cpu \<Rightarrow> t_men_quantum_pcb res \<Rightarrow> t_men_comun \<Rightarrow> kernel \<Rightarrow> (int \<times> kernel) res" where
  "actualizar_pcb_y_bloq aux_cpu recibido men_cerrar k =
     bindE (get_pcb_otros_exec (id_prog_exec aux_cpu) k) (\<lambda>(r, k1).
     bindE (no_nulo r) (\<lambda>p.
     bindE (recv_actualizar_pcb recibido p) (\<lambda>p'.
       let k2 = (if tam_dato men_cerrar = 0 then liberar_cpu aux_cpu k1
                 else socket_cerrar (soc_cpu aux_cpu)
                   (k1\<lparr>conj_soc_cpus := conj_soc_cpus k1 - {soc_cpu aux_cpu}\<rparr>)) in
       Inr (pid p', k2\<lparr>cola_block := queue_push (cola_block k2) (Some p')\<rparr>))))"

definition enviar_cpu_pcb :: "int \<Rightarrow> t_pcb \<Rightarrow> kernel \<Rightarrow> kernel res" where
  "enviar_cpu_pcb soc p k =
     bindE (crear_men_quantum_pcb (codigo PCB_Y_QUANTUM) (quantum_max k) (Some p)) (\<lambda>m.
       enviar soc (Men_Pcb m) k)"

end
