(* ===== verification/Kernel_PCP.thy ===== *)
theory Kernel_PCP
  imports Kernel_Datos
begin

text \<open>
  The short-term scheduler of the kernel: the reaction to one message of a CPU. A handler that
  receives further messages from the CPU gets them as arguments: the pcb (\<open>recibido\<close>), the
  message that says whether the CPU closes (\<open>men_cerrar\<close>) and the second common message of a
  request (\<open>men2\<close>).
\<close>

section \<open>Connections\<close>

text \<open>The handshake is answered whatever the first message says.\<close>

definition handshake_cpu :: "int \<Rightarrow> kernel \<Rightarrow> kernel res" where
  "handshake_cpu soc k = enviar_comun soc (codigo HS_KERNEL) [] 0 k"

definition ingresar_new_cpu :: "int \<Rightarrow> kernel \<Rightarrow> kernel res" where
  "ingresar_new_cpu new_soc k =
     bindE (handshake_cpu new_soc k) (\<lambda>k1.
       let k2 = k1\<lparr>conj_soc_cpus := insert new_soc (conj_soc_cpus k1)\<rparr> in
       Inr (k2\<lparr>lista_cpu := lista_cpu k2 @ [\<lparr>soc_cpu = new_soc, soc_prog = 0, id_prog_exec = 0\<rparr>],
         cant_cpu_libres := sem_incre (cant_cpu_libres k2)\<rparr>))"

definition conec_cerrada_cpu :: "int \<Rightarrow> kernel \<Rightarrow> kernel res" where
  "conec_cerrada_cpu soc k =
     (case get_cpu_soc_cpu_remove soc k of (c, k1) \<Rightarrow>
      let k2 = socket_cerrar soc (k1\<lparr>conj_soc_cpus := conj_soc_cpus k1 - {soc}\<rparr>) in
      bindE (no_nulo c) (\<lambda>aux_cpu.
      if id_prog_exec aux_cpu \<noteq> 0
      then bindE (get_pcb_otros_exec (id_prog_exec aux_cpu) k2) (\<lambda>(p, k3). Inr (push_ready p k3))
      else bindE (sem_decre (cant_cpu_libres k2)) (\<lambda>n. Inr (k2\<lparr>cant_cpu_libres := n\<rparr>))))"

section \<open>The end of a turn\<close>

text \<open>
  A message of size 1 announces that the CPU goes away: its process returns to ready as the
  kernel knows it. Otherwise the pcb is updated and the CPU stays.
\<close>

definition fin_quantum :: "int \<Rightarrow> t_men_comun \<Rightarrow> t_men_quantum_pcb res \<Rightarrow> kernel \<Rightarrow> kernel res" where
  "fin_quantum soc men_cpu recibido k =
     (case get_cpu_soc_cpu_remove soc k of (c, k1) \<Rightarrow>
      if tam_dato men_cpu = 1
      then let k2 = socket_cerrar soc (k1\<lparr>conj_soc_cpus := conj_soc_cpus k1 - {soc}\<rparr>) in
        bindE (no_nulo c) (\<lambda>aux_cpu.
        bindE (get_pcb_otros_exec (id_prog_exec aux_cpu) k2) (\<lambda>(p, k3). Inr (push_ready p k3)))
      else bindE (no_nulo c) (\<lambda>aux_cpu.
        bindE (get_pcb_otros_exec (id_prog_exec aux_cpu) k1) (\<lambda>(r, k2).
        bindE (no_nulo r) (\<lambda>p.
        bindE (recv_actualizar_pcb recibido p) (\<lambda>p'.
          Inr (liberar_cpu aux_cpu (push_ready (Some p') k2)))))))"

text \<open>
  \<open>fin_ejecucion\<close> takes the CPU in one critical section and the process in another; the
  program closing its connection can come between the two.
\<close>

definition fin_ejecucion_cpu :: "int \<Rightarrow> kernel \<Rightarrow> t_cpu option \<times> kernel" where
  "fin_ejecucion_cpu soc k = get_cpu_soc_cpu_remove soc k"

definition fin_ejecucion_pcb :: "int \<Rightarrow> t_cpu option \<Rightarrow> kernel \<Rightarrow> kernel res" where
  "fin_ejecucion_pcb t c k =
     bindE (no_nulo c) (\<lambda>aux_cpu.
     bindE (get_pcb_otros_exec (id_prog_exec aux_cpu) k) (\<lambda>(r, k1).
     bindE (no_nulo r) (\<lambda>p.
       Inr (liberar_cpu aux_cpu (pasar_pcb_exit (Some (p\<lparr>tipo_fin_ejecucion := t\<rparr>)) k1)))))"

definition fin_ejecucion :: "int \<Rightarrow> int \<Rightarrow> kernel \<Rightarrow> kernel res" where
  "fin_ejecucion t soc k =
     (case fin_ejecucion_cpu soc k of (c, k1) \<Rightarrow> fin_ejecucion_pcb t c k1)"

text \<open>A request with a name that does not exist ends the process and frees the CPU.\<close>

definition llamada_erronea :: "int \<Rightarrow> int \<Rightarrow> kernel \<Rightarrow> kernel res" where
  "llamada_erronea soc tipo_error k =
     (case get_cpu_soc_cpu_remove soc k of (c, k1) \<Rightarrow>
      bindE (no_nulo c) (\<lambda>aux_cpu.
      bindE (get_pcb_otros_exec (id_prog_exec aux_cpu) k1) (\<lambda>(r, k2).
      bindE (no_nulo r) (\<lambda>p.
      bindE (enviar_comun soc tipo_error []
          0 (pasar_pcb_exit (Some (p\<lparr>tipo_fin_ejecucion := tipo_error\<rparr>)) k2)) (\<lambda>k3.
        Inr (liberar_cpu aux_cpu k3))))))"

section \<open>Semaphores of the programs\<close>

definition wait ::
  "int \<Rightarrow> t_men_comun \<Rightarrow> t_men_quantum_pcb res \<Rightarrow> t_men_comun \<Rightarrow> kernel \<Rightarrow> kernel res" where
  "wait soc men_cpu recibido men_cerrar k =
     bindE (cadena (dato men_cpu)) (\<lambda>key.
     case dicc_sem k key of
       None \<Rightarrow> llamada_erronea soc (codigo SEM_INEX) k
     | Some sem \<Rightarrow>
         let sem1 = sem\<lparr>valor := valor sem - 1\<rparr>; k1 = k\<lparr>dicc_sem := (dicc_sem k)(key \<mapsto> sem1)\<rparr> in
         if valor sem > 0 then enviar_comun soc (codigo SEM_OK) [] 0 k1
         else (case get_cpu_soc_cpu_remove soc k1 of (c, k2) \<Rightarrow>
           bindE (enviar_comun soc (codigo SEM_BLOQUEADO) [] 0 k2) (\<lambda>k3.
           bindE (no_nulo c) (\<lambda>aux_cpu.
           bindE (actualizar_pcb_y_bloq aux_cpu recibido men_cerrar k3) (\<lambda>(id_proc, k4).
             Inr (k4\<lparr>dicc_sem := (dicc_sem k4)
               (key \<mapsto> sem1\<lparr>procesos := queue_push (procesos sem1) id_proc\<rparr>)\<rparr>))))))"

definition signal :: "int \<Rightarrow> t_men_comun \<Rightarrow> kernel \<Rightarrow> kernel res" where
  "signal soc men_cpu k =
     bindE (cadena (dato men_cpu)) (\<lambda>key.
     case dicc_sem k key of
       None \<Rightarrow> llamada_erronea soc (codigo SEM_INEX) k
     | Some sem \<Rightarrow>
         let sem1 = sem\<lparr>valor := valor sem + 1\<rparr> in
         bindE (case queue_pop (procesos sem) of
             (None, _) \<Rightarrow> Inr (k\<lparr>dicc_sem := (dicc_sem k)(key \<mapsto> sem1)\<rparr>)
           | (Some proc_id, q) \<Rightarrow> pasar_pcbBlock_ready proc_id
               (k\<lparr>dicc_sem := (dicc_sem k)(key \<mapsto> sem1\<lparr>procesos := q\<rparr>)\<rparr>)) (\<lambda>k1.
         enviar_comun soc (codigo SEM_OK) [] 0 k1))"

section \<open>Input and output\<close>

definition enviar_IO ::
  "int \<Rightarrow> t_men_comun \<Rightarrow> t_men_comun \<Rightarrow> t_men_quantum_pcb res \<Rightarrow> t_men_comun \<Rightarrow> kernel \<Rightarrow> kernel res"
where
  "enviar_IO soc men_cpu men2 recibido men_cerrar k =
     (case get_cpu_soc_cpu_remove soc k of (c, k1) \<Rightarrow>
      bindE (atoi (dato men2)) (\<lambda>cant_unidades.
      bindE (no_nulo c) (\<lambda>aux_cpu.
      bindE (cadena (dato men_cpu)) (\<lambda>key.
      bindE (no_nulo (dicc_disp_io k1 key)) (\<lambda>aux_IO.
        let espera = \<lparr>id_prog = id_prog_exec aux_cpu, unidades = cant_unidades\<rparr>;
            aux_IO1 = aux_IO\<lparr>io_procesos := queue_push (io_procesos aux_IO) espera\<rparr>;
            k2 = k1\<lparr>dicc_disp_io := (dicc_disp_io k1)(key \<mapsto> aux_IO1)\<rparr> in
        bindE (actualizar_pcb_y_bloq aux_cpu recibido men_cerrar k2) (\<lambda>(_, k3).
          Inr (k3\<lparr>dicc_disp_io := (dicc_disp_io k3)
            (key \<mapsto> aux_IO1\<lparr>cont_cant_proc := sem_incre (cont_cant_proc aux_IO1)\<rparr>)\<rparr>)))))))"

definition imprimir_texto :: "int \<Rightarrow> t_men_comun \<Rightarrow> kernel \<Rightarrow> kernel res" where
  "imprimir_texto soc men k =
     bindE (no_nulo (get_cpu soc k)) (\<lambda>aux_cpu.
     bindE (enviar (soc_prog aux_cpu) (Men_Comun men) k) (\<lambda>k1.
       enviar_comun soc (codigo R_IMPRIMIR) [] 0 k1))"

definition imprimir_valor :: "int \<Rightarrow> t_men_comun \<Rightarrow> kernel \<Rightarrow> kernel res" where
  "imprimir_valor soc men k =
     bindE (no_nulo (get_cpu soc k)) (\<lambda>aux_cpu.
     bindE (enviar (soc_prog aux_cpu) (Men_Comun men) k) (\<lambda>k1.
     bindE (atoi (dato men)) (\<lambda>_.
       enviar_comun soc (codigo R_IMPRIMIR) [] 0 k1)))"

section \<open>Shared variables\<close>

definition obtener_valor_compartida ::
  "(int \<Rightarrow> byte list) \<Rightarrow> int \<Rightarrow> t_men_comun \<Rightarrow> kernel \<Rightarrow> kernel res" where
  "obtener_valor_compartida itoa soc men k =
     bindE (cadena (dato men)) (\<lambda>key.
     case dicc_var k key of
       None \<Rightarrow> llamada_erronea soc (codigo VAR_INEX) k
     | Some v \<Rightarrow> let string_valor = itoa v in
         enviar_comun soc (codigo R_OBTENER_VALOR) (string_valor @ [0])
           (int (length string_valor) + 1) k)"

definition grabar_valor_compartida ::
  "int \<Rightarrow> t_men_comun \<Rightarrow> t_men_comun \<Rightarrow> kernel \<Rightarrow> kernel res" where
  "grabar_valor_compartida soc men men_valor k =
     bindE (cadena (dato men)) (\<lambda>key.
     case dicc_var k key of
       None \<Rightarrow> llamada_erronea soc (codigo VAR_INEX) k
     | Some _ \<Rightarrow>
         bindE (enviar_comun soc (codigo R_GRABAR_VALOR) [] 0 k) (\<lambda>k1.
         bindE (atoi (dato men_valor)) (\<lambda>v.
           enviar_comun soc (codigo R_GRABAR_VALOR) [] 0
             (k1\<lparr>dicc_var := (dicc_var k1)(key \<mapsto> v)\<rparr>))))"

section \<open>One message of a CPU\<close>

definition administrar_men_cpus ::
  "(int \<Rightarrow> byte list) \<Rightarrow> int \<Rightarrow> t_men_comun \<Rightarrow> t_men_comun \<Rightarrow> t_men_quantum_pcb res \<Rightarrow> t_men_comun
     \<Rightarrow> kernel \<Rightarrow> kernel res" where
  "administrar_men_cpus itoa soc men_cpu men2 recibido men_cerrar k =
     (if tipo men_cpu = codigo CONEC_CERRADA then conec_cerrada_cpu soc k
      else if tipo men_cpu = codigo FIN_QUANTUM then fin_quantum soc men_cpu recibido k
      else if tipo men_cpu = codigo FIN_EJECUCION then fin_ejecucion (codigo FIN_EJECUCION) soc k
      else if tipo men_cpu = codigo SEGMEN_FAULT then fin_ejecucion (codigo SEGMEN_FAULT) soc k
      else if tipo men_cpu = codigo IMPRIMIR_TEXTO then imprimir_texto soc men_cpu k
      else if tipo men_cpu = codigo IMPRIMIR_VALOR then imprimir_valor soc men_cpu k
      else if tipo men_cpu = codigo OBTENER_VALOR then obtener_valor_compartida itoa soc men_cpu k
      else if tipo men_cpu = codigo GRABAR_VALOR then grabar_valor_compartida soc men_cpu men2 k
      else if tipo men_cpu = codigo WAIT then wait soc men_cpu recibido men_cerrar k
      else if tipo men_cpu = codigo SIGNAL then signal soc men_cpu k
      else if tipo men_cpu = codigo IO_ID then enviar_IO soc men_cpu men2 recibido men_cerrar k
      else Inr k)"

end
