(* ===== verification/Kernel_PLP.thy ===== *)
theory Kernel_PLP
  imports Kernel_Datos
begin

text \<open>
  The long-term scheduler of the kernel: new programs, the memory that it asks the memory unit
  for, and programs that close their connection. The memory unit is the argument \<open>srv\<close>: the
  reaction to a segment request (and, for \<open>ESCRIBIR_SEG\<close>, to the common message behind it).
  The parser library is the argument \<open>meta\<close>: the metadata of a program text.
\<close>

section \<open>The parser's metadata\<close>

record t_metadata_program =
  instruccion_inicio :: int
  instrucciones_size :: int
  instrucciones_serializado :: "byte list"
  etiquetas_size :: int
  etiquetas :: "byte list"
  cantidad_de_funciones :: int
  cantidad_de_etiquetas :: int

record t_resp_sol_mem =
  rs_dir_seg_codigo :: int
  rs_dir_seg_stack :: int
  rs_dir_indice_codigo :: int
  rs_dir_indice_etiquetas :: int

type_synonym 'u servidor = "t_men_seg \<Rightarrow> t_men_comun \<Rightarrow> 'u \<Rightarrow> (t_men_comun \<times> 'u) res"

definition sin_segundo :: t_men_comun where
  "sin_segundo = \<lparr>tam_dato = 0, tipo = codigo CONEC_CERRADA, dato = []\<rparr>"

definition calcular_peso :: "t_metadata_program \<Rightarrow> int" where
  "calcular_peso m =
     i32 (i32 (5 * cantidad_de_etiquetas m + 3 * cantidad_de_funciones m) + instrucciones_size m)"

section \<open>Asking for memory\<close>

definition gestionar_resp_sol_mem :: "t_men_comun \<Rightarrow> int res" where
  "gestionar_resp_sol_mem resp =
     (if tipo resp = codigo MEM_OVERLOAD then Inr (-1) else atoi (dato resp))"

text \<open>One request: the message and the reading of its answer, -1 for no memory.\<close>

definition pedir_seg :: "'u servidor \<Rightarrow> tipo_datos \<Rightarrow> int \<Rightarrow> int \<Rightarrow> 'u \<Rightarrow> (int \<times> 'u) res" where
  "pedir_seg srv t id_p tam u =
     bindE (srv (crear_men_seg (codigo t) id_p tam) sin_segundo u) (\<lambda>(resp, u').
     bindE (gestionar_resp_sol_mem resp) (\<lambda>r. Inr (r, u')))"

definition solicitar_mem ::
  "'u servidor \<Rightarrow> t_metadata_program \<Rightarrow> int \<Rightarrow> int \<Rightarrow> t_men_comun \<Rightarrow> 'u
     \<Rightarrow> (t_resp_sol_mem option \<times> 'u) res" where
  "solicitar_mem srv m id_p tam_stack men_cod_prog u =
     bindE (pedir_seg srv PED_MEM_SEG_COD id_p (tam_dato men_cod_prog) u) (\<lambda>(cod, u1).
     if cod = -1 then Inr (None, u1) else
     bindE (pedir_seg srv PED_MEM_IND_ETI id_p (etiquetas_size m) u1) (\<lambda>(eti, u2).
     if eti = -1 then Inr (None, u2) else
     bindE (pedir_seg srv PED_MEM_IND_COD id_p (i32 (instrucciones_size m * 8)) u2) (\<lambda>(ind, u3).
     if ind = -1 then Inr (None, u3) else
     bindE (pedir_seg srv PED_MEM_SEG_STACK id_p tam_stack u3) (\<lambda>(sta, u4).
     if sta = -1 then Inr (None, u4) else
     Inr (Some \<lparr>rs_dir_seg_codigo = cod, rs_dir_seg_stack = sta, rs_dir_indice_codigo = ind,
       rs_dir_indice_etiquetas = eti\<rparr>, u4)))))"

section \<open>Writing the segments\<close>

text \<open>The answer is read and, whatever it is, the kernel goes on.\<close>

definition escribir_seg ::
  "'u servidor \<Rightarrow> int \<Rightarrow> tipo_datos \<Rightarrow> byte list \<Rightarrow> int \<Rightarrow> 'u \<Rightarrow> 'u res" where
  "escribir_seg srv id_p t buf tam u =
     bindE (crear_men_comun (codigo t) buf tam) (\<lambda>men.
     bindE (srv (crear_men_seg (codigo ESCRIBIR_SEG) id_p 0) men u) (\<lambda>(_, u'). Inr u'))"

text \<open>The field \<open>cant_instrucciones\<close> is never assigned: it holds what \<open>malloc\<close> left.\<close>

definition crear_pcb_escribir_seg_UMV ::
  "'u servidor \<Rightarrow> t_metadata_program \<Rightarrow> int \<Rightarrow> int \<Rightarrow> t_men_comun \<Rightarrow> t_resp_sol_mem \<Rightarrow> 'u
     \<Rightarrow> (t_pcb \<times> 'u) res" where
  "crear_pcb_escribir_seg_UMV srv m basura_ci id_p men_cod_prog resp_sol u =
     bindE (escribir_seg srv id_p CODIGO_SCRIPT (dato men_cod_prog) (tam_dato men_cod_prog) u) (\<lambda>u1.
     bindE (escribir_seg srv id_p IND_ETI_FUNC (etiquetas m) (etiquetas_size m) u1) (\<lambda>u2.
     bindE (escribir_seg srv id_p IND_COD (instrucciones_serializado m)
         (i32 (instrucciones_size m * 8)) u2) (\<lambda>u3.
     Inr (\<lparr>cant_var_cont_actual = 0, dir_cont_actual = rs_dir_seg_stack resp_sol,
       dir_indice_codigo = rs_dir_indice_codigo resp_sol,
       dir_indice_etiquetas = rs_dir_indice_etiquetas resp_sol,
       dir_seg_codigo = rs_dir_seg_codigo resp_sol, dir_seg_stack = rs_dir_seg_stack resp_sol,
       pcb_id = id_p, program_counter = instruccion_inicio m,
       tam_indice_etiquetas = etiquetas_size m, cant_instrucciones = basura_ci\<rparr>, u3))))"

section \<open>Programs\<close>

definition handshake_prog :: "int \<Rightarrow> kernel \<Rightarrow> kernel res" where
  "handshake_prog soc k = enviar_comun soc (codigo HS_KERNEL) [] 0 k"

definition ingresar_nuevo_programa :: "int \<Rightarrow> kernel \<Rightarrow> kernel res" where
  "ingresar_nuevo_programa new_soc k =
     bindE (handshake_prog new_soc k) (\<lambda>k1.
       Inr (k1\<lparr>conj_soc_progs := insert new_soc (conj_soc_progs k1)\<rparr>))"

definition administrar_prog_cerrado :: "int \<Rightarrow> kernel \<Rightarrow> kernel res" where
  "administrar_prog_cerrado soc k =
     bindE (mover_pcb_exit soc (k\<lparr>conj_soc_progs := conj_soc_progs k - {soc}\<rparr>)) (\<lambda>k1.
     case list_remove_by_condition (\<lambda>c. soc_prog c = soc) (lista_cpu k1) of
       (None, l) \<Rightarrow> Inr (k1\<lparr>lista_cpu := l\<rparr>)
     | (Some c, l) \<Rightarrow> Inr (socket_cerrar (soc_cpu c)
         (k1\<lparr>lista_cpu := l, conj_soc_cpus := conj_soc_cpus k1 - {soc_cpu c}\<rparr>)))"

text \<open>The program without memory gets its number back as text and is disconnected.\<close>

definition administrar_new_script ::
  "(int \<Rightarrow> byte list) \<Rightarrow> 'u servidor \<Rightarrow> (byte list \<Rightarrow> t_metadata_program) \<Rightarrow> int \<Rightarrow> int
     \<Rightarrow> t_men_comun \<Rightarrow> kernel \<times> 'u \<Rightarrow> (kernel \<times> 'u) res" where
  "administrar_new_script itoa srv meta basura_ci soc men_prog s =
     (case s of (k0, u) \<Rightarrow>
      let k = k0\<lparr>contador_programa := i32 (contador_programa k0 + 1)\<rparr>;
          m = meta (dato men_prog) in
      bindE (solicitar_mem srv m (contador_programa k) (tamanio_stack k) men_prog u) (\<lambda>(r, u1).
      case r of
        None \<Rightarrow>
          let s = itoa (contador_programa k);
              k1 = k\<lparr>conj_soc_progs := conj_soc_progs k - {soc}\<rparr> in
          bindE (enviar_comun soc (codigo MEM_OVERLOAD) (s @ [0]) (int (length s) + 1) k1) (\<lambda>k2.
            Inr (socket_cerrar soc k2, u1))
      | Some resp_sol \<Rightarrow>
          bindE (crear_pcb_escribir_seg_UMV srv m basura_ci (contador_programa k) men_prog
              resp_sol u1) (\<lambda>(p, u2).
            let p_o = \<lparr>po_pcb = p, n_socket = soc, peso = calcular_peso m,
                  tipo_fin_ejecucion = -1\<rparr> in
            Inr (k\<lparr>cola_new := queue_push (cola_new k) (Some p_o),
              cant_new := sem_incre (cant_new k)\<rparr>, u2))))"

definition administrar_men_progs ::
  "(int \<Rightarrow> byte list) \<Rightarrow> 'u servidor \<Rightarrow> (byte list \<Rightarrow> t_metadata_program) \<Rightarrow> int \<Rightarrow> int
     \<Rightarrow> t_men_comun \<Rightarrow> kernel \<times> 'u \<Rightarrow> (kernel \<times> 'u) res" where
  "administrar_men_progs itoa srv meta basura_ci soc men_prog s =
     (if tipo men_prog = codigo CONEC_CERRADA then
        bindE (administrar_prog_cerrado soc (fst s)) (\<lambda>k. Inr (k, snd s))
      else if tipo men_prog = codigo CODIGO_SCRIPT then
        administrar_new_script itoa srv meta basura_ci soc men_prog s
      else Inr s)"

text \<open>The destruction of the segments of a finished process; the answer only synchronises.\<close>

definition umv_destrui_pcb :: "'u servidor \<Rightarrow> int \<Rightarrow> 'u \<Rightarrow> 'u res" where
  "umv_destrui_pcb srv id_p u =
     bindE (srv (crear_men_seg (codigo DESTR_SEGS) id_p 0) sin_segundo u) (\<lambda>(_, u'). Inr u')"

end
