(* ===== verification/Kernel_Salida.thy ===== *)
theory Kernel_Salida
  imports Kernel_Datos Terminal
begin

text \<open>
  What the operator of the kernel can print: the queues and the list of CPUs, the shared
  variables and the semaphores. A queue is printed by popping and pushing each of its
  elements, and every element is read, so a null pointer in a queue ends the kernel.
\<close>

definition imp_pcb :: "t_pcb_otros \<Rightarrow> pieza list" where
  "imp_pcb p = [Num (pid p), Txt ''/'', Num (peso p), Txt '' - '']"

fun rotar_imprimir :: "nat \<Rightarrow> cola \<Rightarrow> (pieza list \<times> cola) res" where
  "rotar_imprimir 0 q = Inr ([], q)"
| "rotar_imprimir (Suc n) [] = Inl Puntero_Nulo"
| "rotar_imprimir (Suc n) (None # q) = Inl Puntero_Nulo"
| "rotar_imprimir (Suc n) (Some aux # q) =
     bindE (rotar_imprimir n (queue_push q (Some aux))) (\<lambda>(ps, q'). Inr (imp_pcb aux @ ps, q'))"

definition imprimir_cola :: "cola \<Rightarrow> (pieza list \<times> cola) res" where
  "imprimir_cola q =
     bindE (if q = [] then Inr ([Txt ''*************COLA VACIA********************''], q)
            else rotar_imprimir (length q) q) (\<lambda>(ps, q'). Inr (ps @ [NL], q'))"

definition imprimir_lista_cpu :: "kernel \<Rightarrow> pieza list" where
  "imprimir_lista_cpu k =
     (if lista_cpu k = [] then [Txt ''*****LISTA VACIA*******************'']
      else concat (map (\<lambda>c. [Num (soc_cpu c), Txt ''/'', Num (soc_prog c), Txt ''/'',
             Num (id_prog_exec c), Txt '' - '']) (lista_cpu k))) @ [NL]"

definition titulo_cola :: "string \<Rightarrow> pieza list" where
  "titulo_cola t = [Txt t, NL, Txt ''|PID/PESO= '']"

definition imp_colas :: "kernel \<Rightarrow> (pieza list \<times> kernel) res" where
  "imp_colas k =
     bindE (imprimir_cola (cola_new k)) (\<lambda>(w1, q1).
     bindE (imprimir_cola (cola_ready k)) (\<lambda>(w2, q2).
     bindE (imprimir_cola (cola_block k)) (\<lambda>(w3, q3).
     bindE (imprimir_cola (cola_exec k)) (\<lambda>(w4, q4).
     bindE (imprimir_cola (cola_exit k)) (\<lambda>(w5, q5).
     Inr (titulo_cola ''--COLA-NEW---------------------------------------------------------'' @ w1
        @ titulo_cola ''--COLA-READY-------------------------------------------------------'' @ w2
        @ titulo_cola ''--COLA-BLOCK-------------------------------------------------------'' @ w3
        @ titulo_cola ''--COLA-EXEC--------------------------------------------------------'' @ w4
        @ titulo_cola ''--COLA-EXIT--------------------------------------------------------'' @ w5
        @ [Txt ''--LISTA-CPU--------------------------------------------------------'', NL,
           Txt ''|S_CPU/S_PROG/PID= ''] @ imprimir_lista_cpu k
        @ [Txt ''-------------------------------------------------------------------'', NL],
        k\<lparr>cola_new := q1, cola_ready := q2, cola_block := q3, cola_exec := q4, cola_exit := q5\<rparr>))))))"

text \<open>
  The dictionaries are printed in the order of the commons library's iterator, which the
  argument \<open>claves\<close> gives.
\<close>

definition imp_variables_compartidas :: "byte list list \<Rightarrow> kernel \<Rightarrow> pieza list" where
  "imp_variables_compartidas claves k = concat (map (\<lambda>key. case dicc_var k key of None \<Rightarrow> []
     | Some v \<Rightarrow> [TAB, Txt ''ID:'', Bytes key, Txt '' ,Valor:'', Num v, NL]) claves)"

definition imp_semaforos :: "byte list list \<Rightarrow> kernel \<Rightarrow> pieza list" where
  "imp_semaforos claves k = concat (map (\<lambda>key. case dicc_sem k key of None \<Rightarrow> []
     | Some un_sem \<Rightarrow> [TAB, Txt ''ID:'', Bytes key, Txt '' ,Valor:'', Num (valor un_sem),
         Txt '', Cant de procesos:'', Num (int (length (procesos un_sem))), NL]) claves)"

section \<open>Printing changes nothing\<close>

definition imp_cola :: "cola \<Rightarrow> pieza list" where
  "imp_cola q = (if q = [] then [Txt ''*************COLA VACIA********************'']
     else concat (map (\<lambda>r. case r of None \<Rightarrow> [] | Some p \<Rightarrow> imp_pcb p) q)) @ [NL]"

lemma rotar_imprimir_vuelta:
  "rotar_imprimir (length a) (a @ b) =
     (if None \<in> set a then Inl Puntero_Nulo
      else Inr (concat (map (\<lambda>r. case r of None \<Rightarrow> [] | Some p \<Rightarrow> imp_pcb p) a), b @ a))"
proof (induction a arbitrary: b)
  case Nil
  then show ?case by simp
next
  case (Cons r a)
  show ?case
  proof (cases r)
    case None
    then show ?thesis by simp
  next
    case (Some p)
    then show ?thesis using Cons [of "b @ [Some p]"] by (simp add: queue_push_def)
  qed
qed

lemma imprimir_cola_eq:
  "imprimir_cola q = (if None \<in> set q then Inl Puntero_Nulo else Inr (imp_cola q, q))"
  using rotar_imprimir_vuelta [of q "[]"] by (auto simp: imprimir_cola_def imp_cola_def)

lemma imp_colas_estado: "imp_colas k = Inr (ps, k') \<Longrightarrow> k' = k"
  by (auto simp: imp_colas_def imprimir_cola_eq bindE_eq_Inr split: if_splits)

end
