(* ===== verification/Kernel_Hilos.thy ===== *)
theory Kernel_Hilos
  imports Kernel_PCP Kernel_PLP Kernel_Salida
begin

text \<open>
  The threads of the kernel and their interleaving. A thread stops at each decrement of a
  semaphore, so its loop is cut there: its program counter says how many of the decrements of
  a round it has passed. A step is enabled when the semaphore is positive.
\<close>

record sistema =
  ker :: kernel
  pc_new_ready :: nat
  pc_ready_exec :: nat
  pc_exit :: nat
  io_actual :: "byte list \<rightharpoonup> t_IO_espera"

section \<open>The loops\<close>

text \<open>The critical section of \<open>manejador_new_ready\<close>, and its round.\<close>

definition new_ready :: "kernel \<Rightarrow> kernel res" where
  "new_ready k = bindE (get_peso_min k) (\<lambda>(r, k1).
     case r of None \<Rightarrow> Inr k1 | Some p \<Rightarrow> Inr (push_ready (Some p) k1))"

definition manejador_new_ready :: "sistema \<Rightarrow> sistema res" where
  "manejador_new_ready s =
     (if pc_new_ready s = 0 then
        bindE (sem_decre (cant_new (ker s))) (\<lambda>n.
          Inr (s\<lparr>ker := (ker s)\<lparr>cant_new := n\<rparr>, pc_new_ready := 1\<rparr>))
      else if pc_new_ready s = 1 then
        bindE (sem_decre (cant_multiprog (ker s))) (\<lambda>n.
          Inr (s\<lparr>ker := (ker s)\<lparr>cant_multiprog := n\<rparr>, pc_new_ready := 2\<rparr>))
      else bindE (new_ready (ker s)) (\<lambda>k. Inr (s\<lparr>ker := k, pc_new_ready := 0\<rparr>)))"

text \<open>
  The critical section of \<open>manejador_ready_exec\<close>: the CPU leaves the list before the process
  is looked at, and the error branch does not put it back.
\<close>

definition ready_exec :: "kernel \<Rightarrow> kernel res" where
  "ready_exec k =
     (case get_cpu_libre_remove k of (c, k1) \<Rightarrow>
      case queue_pop_pcb (cola_ready k1) of (r, q) \<Rightarrow>
      let k2 = k1\<lparr>cola_ready := q\<rparr> in
      case r of
        None \<Rightarrow> Inr k2
      | Some p \<Rightarrow>
          bindE (no_nulo c) (\<lambda>aux_cpu.
          bindE (enviar_cpu_pcb (soc_cpu aux_cpu) (po_pcb p) k2) (\<lambda>k3.
            Inr (k3\<lparr>lista_cpu := lista_cpu k3
                @ [aux_cpu\<lparr>id_prog_exec := pid p, soc_prog := n_socket p\<rparr>],
              cola_exec := queue_push (cola_exec k3) (Some p)\<rparr>))))"

definition manejador_ready_exec :: "sistema \<Rightarrow> sistema res" where
  "manejador_ready_exec s =
     (if pc_ready_exec s = 0 then
        bindE (sem_decre (cant_ready (ker s))) (\<lambda>n.
          Inr (s\<lparr>ker := (ker s)\<lparr>cant_ready := n\<rparr>, pc_ready_exec := 1\<rparr>))
      else if pc_ready_exec s = 1 then
        bindE (sem_decre (cant_cpu_libres (ker s))) (\<lambda>n.
          Inr (s\<lparr>ker := (ker s)\<lparr>cant_cpu_libres := n\<rparr>, pc_ready_exec := 2\<rparr>))
      else bindE (ready_exec (ker s)) (\<lambda>k. Inr (s\<lparr>ker := k, pc_ready_exec := 0\<rparr>)))"

text \<open>The round of \<open>manejador_exit\<close> behind its decrement.\<close>

definition sale_exit :: "'u servidor \<Rightarrow> kernel \<times> 'u \<Rightarrow> (kernel \<times> 'u) res" where
  "sale_exit srv s =
     (case s of (k, u) \<Rightarrow>
      case queue_pop_pcb (cola_exit k) of (r, q) \<Rightarrow>
      let k1 = k\<lparr>cola_exit := q\<rparr> in
      case r of
        None \<Rightarrow> Inr (k1, u)
      | Some p \<Rightarrow>
          bindE (if tipo_fin_ejecucion p \<noteq> -1
                 then enviar_comun (n_socket p) (tipo_fin_ejecucion p) [] 0 k1 else Inr k1) (\<lambda>k2.
          bindE (umv_destrui_pcb srv (pid p) u) (\<lambda>u'. Inr (k2, u'))))"

definition manejador_exit :: "'u servidor \<Rightarrow> sistema \<times> 'u \<Rightarrow> (sistema \<times> 'u) res" where
  "manejador_exit srv su =
     (case su of (s, u) \<Rightarrow>
      if pc_exit s = 0 then
        bindE (sem_decre (cant_exit (ker s))) (\<lambda>n.
          Inr (s\<lparr>ker := (ker s)\<lparr>cant_exit := n\<rparr>, pc_exit := 1\<rparr>, u))
      else bindE (sale_exit srv (ker s, u)) (\<lambda>(k, u'). Inr (s\<lparr>ker := k, pc_exit := 0\<rparr>, u')))"

text \<open>
  The thread of one device: it takes the oldest waiting process, sleeps its units (the kernel
  goes on meanwhile), and hands the process to ready.
\<close>

definition manejador_IO :: "byte list \<Rightarrow> sistema \<Rightarrow> sistema res" where
  "manejador_IO key s =
     bindE (no_nulo (dicc_disp_io (ker s) key)) (\<lambda>io.
     case io_actual s key of
       None \<Rightarrow>
         bindE (sem_decre (cont_cant_proc io)) (\<lambda>n.
         case queue_pop (io_procesos io) of (r, q) \<Rightarrow>
         bindE (no_nulo r) (\<lambda>proceso.
           Inr (s\<lparr>ker := (ker s)\<lparr>dicc_disp_io := (dicc_disp_io (ker s))
               (key \<mapsto> io\<lparr>io_procesos := q, cont_cant_proc := n\<rparr>)\<rparr>,
             io_actual := (io_actual s)(key \<mapsto> proceso)\<rparr>)))
     | Some proceso \<Rightarrow>
         bindE (pasar_pcbBlock_ready (id_prog proceso) (ker s)) (\<lambda>k.
           Inr (s\<lparr>ker := k, io_actual := (io_actual s)(key := None)\<rparr>)))"

section \<open>The operator\<close>

text \<open>
  The multiprogramming degree: the current one is read off the queues and the semaphore. The
  loops post or wait on the semaphore as many times as the degrees differ.
\<close>

fun subir :: "nat \<Rightarrow> nat \<Rightarrow> nat" where
  "subir 0 s = s"
| "subir (Suc n) s = subir n (sem_incre s)"

fun bajar :: "nat \<Rightarrow> nat \<Rightarrow> nat res" where
  "bajar 0 s = Inr s"
| "bajar (Suc n) s = bindE (sem_decre s) (bajar n)"

definition cambiar_multiprog :: "int \<Rightarrow> kernel \<Rightarrow> kernel res" where
  "cambiar_multiprog nueva k =
     (let cant_progs = int (length (cola_ready k) + length (cola_block k) + length (cola_exec k));
          valor_sem = int (cant_multiprog k);
          dif = nueva - (cant_progs + valor_sem) in
      if dif > 0 then Inr (k\<lparr>cant_multiprog := subir (nat dif) (cant_multiprog k)\<rparr>)
      else if - dif \<le> valor_sem
      then bindE (bajar (nat (- dif)) (cant_multiprog k)) (\<lambda>n. Inr (k\<lparr>cant_multiprog := n\<rparr>))
      else Inr k)"

datatype orden_kernel =
  Salir | Quantum int | Tam_Stack int | Multiprog int | Retardo int | Colas | Mostrar

fun menu_imp :: "orden_kernel \<Rightarrow> kernel \<Rightarrow> kernel res" where
  "menu_imp Salir k = Inr (k\<lparr>quit_sistema := False\<rparr>)"
| "menu_imp (Quantum n) k = Inr (k\<lparr>quantum_max := n\<rparr>)"
| "menu_imp (Tam_Stack n) k = Inr (k\<lparr>tamanio_stack := n\<rparr>)"
| "menu_imp (Multiprog n) k = cambiar_multiprog n k"
| "menu_imp (Retardo n) k = Inr (k\<lparr>retardo := n\<rparr>)"
| "menu_imp Colas k = bindE (imp_colas k) (\<lambda>(_, k'). Inr k')"
| "menu_imp Mostrar k = Inr k"

section \<open>Start\<close>

text \<open>
  The configuration: the arrays of the file as the configuration library splits them, and the
  numbers as it reads them. A missing partner in the second array of a pair is a null pointer.
\<close>

record config =
  ID_HIO :: "byte list list"
  HIO :: "byte list list"
  SEMAFOROS :: "byte list list"
  VALOR_SEMAFORO :: "byte list list"
  VARIABLES_GLOBALES :: "byte list list"
  QUANTUM :: int
  RETARDO :: int
  TAMANIO_STACK :: int
  MULTIPROGRAMACION :: nat

fun crear_dicc :: "(int \<Rightarrow> 'v) \<Rightarrow> byte list list \<Rightarrow> byte list list \<Rightarrow> (byte list \<rightharpoonup> 'v)
    \<Rightarrow> (byte list \<rightharpoonup> 'v) res" where
  "crear_dicc f [] vs d = Inr d"
| "crear_dicc f (i # ids) [] d = Inl Puntero_Nulo"
| "crear_dicc f (i # ids) (v # vs) d =
     bindE (atoi (v @ [0])) (\<lambda>n. crear_dicc f ids vs (d(i \<mapsto> f n)))"

definition levantar_config :: "config \<Rightarrow> kernel res" where
  "levantar_config c =
     bindE (crear_dicc (\<lambda>n. \<lparr>io_sleep = n, io_procesos = [], cont_cant_proc = 0\<rparr>)
       (ID_HIO c) (HIO c) Map.empty) (\<lambda>ios.
     bindE (crear_dicc (\<lambda>n. \<lparr>valor = n, procesos = []\<rparr>)
       (SEMAFOROS c) (VALOR_SEMAFORO c) Map.empty) (\<lambda>sems.
     Inr \<lparr>cola_new = [], cola_ready = [], cola_exec = [], cola_exit = [], cola_block = [],
       lista_cpu = [], cant_new = 0, cant_ready = 0, cant_exit = 0, cant_multiprog = 0,
       cant_cpu_libres = 0, dicc_disp_io = ios,
       dicc_var = foldl (\<lambda>d x. d(x \<mapsto> 0)) Map.empty (VARIABLES_GLOBALES c), dicc_sem = sems,
       conj_soc_progs = {}, conj_soc_cpus = {}, contador_programa = 0, quantum_max = QUANTUM c,
       retardo = RETARDO c, tamanio_stack = TAMANIO_STACK c, quit_sistema = True,
       rotos = {}, salida = []\<rparr>))"

definition crear_inicializar_estructuras :: "config \<Rightarrow> kernel \<Rightarrow> kernel" where
  "crear_inicializar_estructuras c k =
     k\<lparr>cola_new := [], cola_ready := [], cola_exec := [], cola_exit := [], cola_block := [],
       lista_cpu := [], cant_new := 0, cant_ready := 0, cant_exit := 0, cant_cpu_libres := 0,
       cant_multiprog := MULTIPROGRAMACION c\<rparr>"

section \<open>Events and runs\<close>

text \<open>
  \<open>'u\<close> is the state of the memory unit behind \<open>srv\<close>. A socket may break at any time.
\<close>

datatype evento =
    Hilo_New_Ready
  | Hilo_Ready_Exec
  | Hilo_Exit
  | Hilo_IO "byte list"
  | Conecta_CPU int
  | Conecta_Prog int
  | Men_CPU int t_men_comun t_men_comun "t_men_quantum_pcb res" t_men_comun
  | Men_Prog int int t_men_comun
  | Operador orden_kernel
  | Rompe_Socket int

definition en_kernel :: "(kernel \<Rightarrow> kernel res) \<Rightarrow> sistema \<times> 'u \<Rightarrow> (sistema \<times> 'u) res" where
  "en_kernel f su = (case su of (s, u) \<Rightarrow> bindE (f (ker s)) (\<lambda>k. Inr (s\<lparr>ker := k\<rparr>, u)))"

definition en_sistema :: "(sistema \<Rightarrow> sistema res) \<Rightarrow> sistema \<times> 'u \<Rightarrow> (sistema \<times> 'u) res" where
  "en_sistema f su = (case su of (s, u) \<Rightarrow> bindE (f s) (\<lambda>s'. Inr (s', u)))"

fun paso_kernel ::
  "(int \<Rightarrow> byte list) \<Rightarrow> 'u servidor \<Rightarrow> (byte list \<Rightarrow> t_metadata_program) \<Rightarrow> evento
     \<Rightarrow> sistema \<times> 'u \<Rightarrow> (sistema \<times> 'u) res" where
  "paso_kernel itoa srv meta Hilo_New_Ready su = en_sistema manejador_new_ready su"
| "paso_kernel itoa srv meta Hilo_Ready_Exec su = en_sistema manejador_ready_exec su"
| "paso_kernel itoa srv meta Hilo_Exit su = manejador_exit srv su"
| "paso_kernel itoa srv meta (Hilo_IO key) su = en_sistema (manejador_IO key) su"
| "paso_kernel itoa srv meta (Conecta_CPU soc) su = en_kernel (ingresar_new_cpu soc) su"
| "paso_kernel itoa srv meta (Conecta_Prog soc) su = en_kernel (ingresar_nuevo_programa soc) su"
| "paso_kernel itoa srv meta (Men_CPU soc men men2 recibido cerrar) su =
     en_kernel (administrar_men_cpus itoa soc men men2 recibido cerrar) su"
| "paso_kernel itoa srv meta (Men_Prog basura_ci soc men) su =
     (case su of (s, u) \<Rightarrow>
      bindE (administrar_men_progs itoa srv meta basura_ci soc men (ker s, u)) (\<lambda>(k, u').
        Inr (s\<lparr>ker := k\<rparr>, u')))"
| "paso_kernel itoa srv meta (Operador ord) su = en_kernel (menu_imp ord) su"
| "paso_kernel itoa srv meta (Rompe_Socket soc) su =
     en_kernel (\<lambda>k. Inr (k\<lparr>rotos := insert soc (rotos k)\<rparr>)) su"

definition sistema_inicial :: "kernel \<Rightarrow> sistema" where
  "sistema_inicial k = \<lparr>ker = k, pc_new_ready = 0, pc_ready_exec = 0, pc_exit = 0,
     io_actual = Map.empty\<rparr>"

text \<open>
  The runs: fewer than \<open>2^31\<close> programs, programs on a socket other than 0, a CPU announces its
  own end of a turn only while it runs a process, and the operator keeps the degree of
  multiprogramming (its change is \<open>cambiar_multiprog\<close>, stated on its own).
\<close>

fun admisible :: "evento \<Rightarrow> kernel \<Rightarrow> bool" where
  "admisible (Men_Prog b soc men) k = (soc \<noteq> 0 \<and> contador_programa k < 2147483647)"
| "admisible (Men_CPU soc men men2 recibido cerrar) k =
     (tipo men = codigo FIN_QUANTUM \<longrightarrow> tam_dato men = 1 \<longrightarrow>
       (case get_cpu soc k of None \<Rightarrow> True | Some c \<Rightarrow> id_prog_exec c \<noteq> 0))"
| "admisible (Operador (Multiprog n)) k = False"
| "admisible ev k = True"

inductive corre ::
  "(int \<Rightarrow> byte list) \<Rightarrow> 'u servidor \<Rightarrow> (byte list \<Rightarrow> t_metadata_program) \<Rightarrow> config
     \<Rightarrow> sistema \<times> 'u \<Rightarrow> bool"
  for itoa srv meta c where
  arranca: "levantar_config c = Inr k \<Longrightarrow>
    corre itoa srv meta c (sistema_inicial (crear_inicializar_estructuras c k), u)"
| avanza: "corre itoa srv meta c su \<Longrightarrow> admisible ev (ker (fst su)) \<Longrightarrow>
    paso_kernel itoa srv meta ev su = Inr su' \<Longrightarrow> corre itoa srv meta c su'"

end
