(* ===== verification/Kernel_Inv.thy ===== *)
theory Kernel_Inv
  imports Kernel_Hilos
begin

text \<open>
  What the kernel's handlers conserve: the processes over all queues, the counts that the
  semaphores keep of the queues and of the free CPUs, and the multiprogramming degree.
\<close>

named_theorems nucleo_defs "definitions of the kernel's primitives"

section \<open>Processes of a queue\<close>

fun pcbs :: "cola \<Rightarrow> t_pcb_otros list" where
  "pcbs [] = []"
| "pcbs (None # q) = pcbs q"
| "pcbs (Some x # q) = x # pcbs q"

definition ids :: "cola \<Rightarrow> int multiset" where
  "ids q = image_mset pid (mset (pcbs q))"

definition marca :: "t_pcb_otros option \<Rightarrow> int multiset" where
  "marca r = (case r of None \<Rightarrow> {#} | Some p \<Rightarrow> {#pid p#})"

lemma marca_simps [simp]: "marca None = {#}" "marca (Some p) = {#pid p#}"
  by (simp_all add: marca_def)

lemma ids_Nil [simp]: "ids [] = {#}"
  by (simp add: ids_def)

lemma ids_Cons: "ids (r # q) = marca r + ids q"
  by (cases r) (simp_all add: ids_def)

lemma ids_append [simp]: "ids (q @ q') = ids q + ids q'"
  by (induction q) (simp_all add: ids_Cons)

lemma ids_push [simp]: "ids (queue_push q r) = ids q + marca r"
  by (simp add: queue_push_def ids_Cons)

lemma length_push [simp]: "length (queue_push q x) = Suc (length q)"
  by (simp add: queue_push_def)

lemma rotar_cola_cuenta:
  "rotar_cola n p q = Inr (r, q') \<Longrightarrow> ids q = marca r + ids q'
     \<and> length q = length q' + (case r of None \<Rightarrow> 0 | Some _ \<Rightarrow> 1)
     \<and> (\<forall>x. r = Some x \<longrightarrow> p x)"
proof (induction n p q rule: rotar_cola.induct)
  case (4 n p x q)
  then show ?case by (auto simp: ids_Cons split: if_splits)
qed auto

lemma buscar_pcb_cuenta:
  "buscar_pcb q soc = Inr (r, q') \<Longrightarrow> ids q = marca r + ids q'
     \<and> length q = length q' + (case r of None \<Rightarrow> 0 | Some _ \<Rightarrow> 1)
     \<and> (\<forall>x. r = Some x \<longrightarrow> n_socket x = soc)"
  by (auto simp: buscar_pcb_def dest: rotar_cola_cuenta)

lemma peso_minimo_cuenta:
  "peso_minimo n m q = Inr (m', q') \<Longrightarrow> ids q' = ids q \<and> length q' = length q"
  by (induction n m q rule: peso_minimo.induct) (auto simp: ids_Cons)

lemma queue_pop_pcb_cuenta:
  "queue_pop_pcb q = (r, q') \<Longrightarrow> ids q = marca r + ids q' \<and> length q' = length q - 1
     \<and> (r \<noteq> None \<longrightarrow> q \<noteq> [])"
  by (cases q) (auto simp: queue_pop_pcb_def ids_Cons)

lemma get_pcb_otros_exec_Inr:
  assumes "get_pcb_otros_exec i k = Inr (r, k1)"
  shows "\<exists>q. k1 = k\<lparr>cola_exec := q\<rparr> \<and> ids (cola_exec k) = marca r + ids q \<and> (\<forall>p. r = Some p \<longrightarrow> pid p = i)"
proof -
  obtain q where q: "rotar_cola (length (cola_exec k)) (\<lambda>p. pid p = i) (cola_exec k) = Inr (r, q)"
    "k1 = k\<lparr>cola_exec := q\<rparr>"
    using assms unfolding get_pcb_otros_exec_def bindE_eq_Inr by (auto split: prod.splits)
  from rotar_cola_cuenta [OF q(1)] show ?thesis unfolding q(2) by (intro exI [of _ q]) simp
qed

lemma get_peso_min_Inr:
  assumes "get_peso_min k = Inr (r, k1)"
  shows "\<exists>q. k1 = k\<lparr>cola_new := q\<rparr> \<and> ids (cola_new k) = marca r + ids q
    \<and> length (cola_new k) = length q + (case r of None \<Rightarrow> 0 | Some _ \<Rightarrow> 1)"
proof -
  obtain m q1 q where "peso_minimo (length (cola_new k)) 1000000 (cola_new k) = Inr (m, q1)"
    "rotar_cola (length (cola_new k)) (\<lambda>p. m = peso p) q1 = Inr (r, q)" "k1 = k\<lparr>cola_new := q\<rparr>"
    using assms by (auto simp: get_peso_min_def bindE_eq_Inr Let_def)
  note q = this
  from rotar_cola_cuenta [OF q(2)] peso_minimo_cuenta [OF q(1)]
  show ?thesis unfolding q(3) by (intro exI [of _ q]) simp
qed

section \<open>CPUs\<close>

definition libres :: "kernel \<Rightarrow> nat" where
  "libres k = length (filter (\<lambda>c. id_prog_exec c = 0) (lista_cpu k))"

lemma remove_cuenta:
  "list_remove_by_condition p xs = (r, ys) \<Longrightarrow>
     length (filter f xs) = length (filter f ys) + (case r of Some x \<Rightarrow> if f x then 1 else 0 | None \<Rightarrow> 0)
     \<and> (\<forall>x. r = Some x \<longrightarrow> p x \<and> x \<in> set xs) \<and> set ys \<subseteq> set xs"
  by (induction xs arbitrary: ys) (auto split: if_splits prod.splits)

lemma get_cpu_remove_Inr:
  assumes "get_cpu_soc_cpu_remove soc k = (c, k1)"
  shows "\<exists>l. k1 = k\<lparr>lista_cpu := l\<rparr> \<and> c = get_cpu soc k \<and> set l \<subseteq> set (lista_cpu k)
    \<and> libres k = libres k1 + (case c of Some x \<Rightarrow> if id_prog_exec x = 0 then 1 else 0 | None \<Rightarrow> 0)"
proof -
  obtain l where l: "list_remove_by_condition (\<lambda>c. soc_cpu c = soc) (lista_cpu k) = (c, l)"
    "k1 = k\<lparr>lista_cpu := l\<rparr>"
    using assms by (auto simp: get_cpu_soc_cpu_remove_def split: prod.splits)
  moreover have "c = get_cpu soc k"
    using l(1) remove_find [of "\<lambda>c. soc_cpu c = soc" "lista_cpu k"] by (simp add: get_cpu_def)
  moreover have "libres k = libres k1 + (case c of Some x \<Rightarrow> if id_prog_exec x = 0 then 1 else 0 | None \<Rightarrow> 0)"
    using remove_cuenta [OF l(1), of "\<lambda>c. id_prog_exec c = 0"] l(2)
    by (auto simp: libres_def split: option.splits)
  moreover have "set l \<subseteq> set (lista_cpu k)" using remove_cuenta [OF l(1)] by blast
  ultimately show ?thesis by blast
qed

text \<open>A free CPU serves no program.\<close>

definition cpus_ok :: "kernel \<Rightarrow> bool" where
  "cpus_ok k \<longleftrightarrow> (\<forall>c \<in> set (lista_cpu k). id_prog_exec c = 0 \<longrightarrow> soc_prog c = 0)"

section \<open>What a handler conserves\<close>

definition procs :: "kernel \<Rightarrow> int multiset" where
  "procs k = ids (cola_new k) + ids (cola_ready k) + ids (cola_exec k) + ids (cola_block k)
     + ids (cola_exit k)"

definition activos :: "kernel \<Rightarrow> nat" where
  "activos k = size (ids (cola_ready k)) + size (ids (cola_exec k)) + size (ids (cola_block k))"

text \<open>
  The handlers of the CPUs leave new alone, move processes between the other queues, give one
  unit of multiprogramming back with every process that goes to exit, and count what they
  push and free.
\<close>

definition conserva :: "kernel \<Rightarrow> kernel \<Rightarrow> bool" where
  "conserva k k' \<longleftrightarrow> procs k' = procs k \<and> contador_programa k' = contador_programa k
     \<and> activos k' + cant_multiprog k' = activos k + cant_multiprog k
     \<and> cola_new k' = cola_new k \<and> cant_new k' = cant_new k
     \<and> length (cola_exit k') + cant_exit k = length (cola_exit k) + cant_exit k'
     \<and> length (cola_ready k') + cant_ready k = length (cola_ready k) + cant_ready k'
     \<and> libres k' + cant_cpu_libres k = libres k + cant_cpu_libres k'
     \<and> (cpus_ok k \<longrightarrow> cpus_ok k')"

lemma conserva_refl [simp]: "conserva k k"
  by (simp add: conserva_def)

lemma conserva_trans: "conserva k k' \<Longrightarrow> conserva k' k'' \<Longrightarrow> conserva k k''"
  by (auto simp: conserva_def)

text \<open>Updates that no count sees.\<close>

lemma conserva_marco [simp]:
  "conserva k (k'\<lparr>salida := x1\<rparr>) = conserva k k'"
  "conserva k (k'\<lparr>dicc_sem := x2\<rparr>) = conserva k k'"
  "conserva k (k'\<lparr>dicc_var := x3\<rparr>) = conserva k k'"
  "conserva k (k'\<lparr>dicc_disp_io := x4\<rparr>) = conserva k k'"
  "conserva k (k'\<lparr>conj_soc_cpus := x5\<rparr>) = conserva k k'"
  "conserva k (k'\<lparr>conj_soc_progs := x6\<rparr>) = conserva k k'"
  "conserva k (k'\<lparr>rotos := x7\<rparr>) = conserva k k'"
  "conserva k (k'\<lparr>quit_sistema := x8\<rparr>) = conserva k k'"
  "conserva k (k'\<lparr>quantum_max := x9\<rparr>) = conserva k k'"
  "conserva k (k'\<lparr>retardo := x10\<rparr>) = conserva k k'"
  "conserva k (k'\<lparr>tamanio_stack := x11\<rparr>) = conserva k k'"
  by (simp_all add: conserva_def procs_def activos_def libres_def cpus_ok_def)

lemma enviar_Inr: "enviar soc m k = Inr k' \<Longrightarrow> \<exists>x. k' = k\<lparr>salida := x\<rparr>"
  by (auto simp: enviar_def split: if_splits)

lemma enviar_comun_Inr: "enviar_comun soc t b n k = Inr k' \<Longrightarrow> \<exists>x. k' = k\<lparr>salida := x\<rparr>"
  by (auto simp: enviar_comun_def bindE_eq_Inr dest: enviar_Inr)

lemma recv_actualizar_pid: "recv_actualizar_pcb rec p = Inr p' \<Longrightarrow> pid p' = pid p"
  by (auto simp: recv_actualizar_pcb_def bindE_eq_Inr pid_def)

lemma pid_fin [simp]: "pid (p\<lparr>tipo_fin_ejecucion := t\<rparr>) = pid p"
  by (simp add: pid_def)

lemmas cuentas = conserva_def procs_def activos_def libres_def cpus_ok_def sem_incre_def

section \<open>The handlers of the CPUs\<close>

text \<open>
  A running process returns: the CPU leaves the list, the process leaves exec. The processes'
  numbers are not 0, so the CPU was not free. \<open>conserva_turno\<close> closes such a turn.
\<close>

definition sin_cero :: "kernel \<Rightarrow> bool" where
  "sin_cero k \<longleftrightarrow> 0 \<notin># procs k"

lemma turno:
  assumes "get_cpu_soc_cpu_remove soc k = (Some c, k1)" "sin_cero k"
    "get_pcb_otros_exec (id_prog_exec c) (k1\<lparr>salida := x, dicc_sem := y, dicc_disp_io := w, conj_soc_cpus := z\<rparr>)
      = Inr (Some p, k2)"
  shows "\<exists>l q. k2 = k\<lparr>lista_cpu := l, salida := x, dicc_sem := y, dicc_disp_io := w,
        conj_soc_cpus := z, cola_exec := q\<rparr>
    \<and> ids (cola_exec k) = add_mset (pid p) (ids q) \<and> pid p = id_prog_exec c \<and> id_prog_exec c \<noteq> 0
    \<and> length (filter (\<lambda>c. id_prog_exec c = 0) l) = libres k \<and> set l \<subseteq> set (lista_cpu k)"
proof -
  obtain l where l: "k1 = k\<lparr>lista_cpu := l\<rparr>"
    "libres k = libres k1 + (if id_prog_exec c = 0 then 1 else 0)" "set l \<subseteq> set (lista_cpu k)"
    using get_cpu_remove_Inr [OF assms(1)] by auto
  obtain q where q: "k2 = (k1\<lparr>salida := x, dicc_sem := y, dicc_disp_io := w, conj_soc_cpus := z\<rparr>)\<lparr>cola_exec := q\<rparr>"
    "ids (cola_exec k1) = marca (Some p) + ids q" "pid p = id_prog_exec c"
    using get_pcb_otros_exec_Inr [OF assms(3)] by auto
  then have "pid p \<in># procs k" by (simp add: procs_def l(1))
  then have "id_prog_exec c \<noteq> 0" using assms(2) q(3) by (auto simp: sin_cero_def)
  then show ?thesis
    using l q by (intro exI [of _ l] exI [of _ q]) (simp add: libres_def)
qed

lemma bloquear_conserva:
  assumes "get_cpu_soc_cpu_remove soc k = (Some c, k1)" "sin_cero k"
    "actualizar_pcb_y_bloq c rec cer (k1\<lparr>salida := x, dicc_sem := y, dicc_disp_io := w\<rparr>) = Inr (i, k')"
  shows "conserva k k' \<and> i = id_prog_exec c"
proof -
  obtain p k2 p' where
    "get_pcb_otros_exec (id_prog_exec c) (k1\<lparr>salida := x, dicc_sem := y, dicc_disp_io := w\<rparr>) = Inr (Some p, k2)"
    and p': "recv_actualizar_pcb rec p = Inr p'" and k': "i = pid p'"
      "k' = (if tam_dato cer = 0 then liberar_cpu c k2
         else socket_cerrar (soc_cpu c) (k2\<lparr>conj_soc_cpus := conj_soc_cpus k2 - {soc_cpu c}\<rparr>))
       \<lparr>cola_block := queue_push (cola_block k2) (Some p')\<rparr>"
    using assms(3)
    by (auto simp: actualizar_pcb_y_bloq_def bindE_eq_Inr no_nulo_def Let_def liberar_cpu_def
        socket_cerrar_def split: option.splits if_splits)
  then have "get_pcb_otros_exec (id_prog_exec c)
      (k1\<lparr>salida := x, dicc_sem := y, dicc_disp_io := w, conj_soc_cpus := conj_soc_cpus k1\<rparr>) = Inr (Some p, k2)"
    by simp
  from turno [OF assms(1,2) this] obtain l q where
    "k2 = k\<lparr>lista_cpu := l, salida := x, dicc_sem := y, dicc_disp_io := w,
        conj_soc_cpus := conj_soc_cpus k1, cola_exec := q\<rparr>"
    "ids (cola_exec k) = add_mset (pid p) (ids q)" "pid p = id_prog_exec c"
    "length (filter (\<lambda>c. id_prog_exec c = 0) l) = libres k" "set l \<subseteq> set (lista_cpu k)" by blast
  then show ?thesis
    using k' recv_actualizar_pid [OF p']
    by (auto simp add: cuentas liberar_cpu_def socket_cerrar_def)
qed

lemma fin_ejecucion_conserva:
  assumes "fin_ejecucion t soc k = Inr k'" "sin_cero k"
  shows "conserva k k'"
proof -
  obtain c k1 p k2 where t: "get_cpu_soc_cpu_remove soc k = (Some c, k1)"
    "get_pcb_otros_exec (id_prog_exec c) k1 = Inr (Some p, k2)"
    and k': "k' = liberar_cpu c (pasar_pcb_exit (Some (p\<lparr>tipo_fin_ejecucion := t\<rparr>)) k2)"
    using assms(1)
    by (auto simp: fin_ejecucion_def fin_ejecucion_cpu_def fin_ejecucion_pcb_def bindE_eq_Inr
        no_nulo_def split: prod.splits option.splits)
  from turno [OF t(1) assms(2), where x = "salida k1" and y = "dicc_sem k1" and w = "dicc_disp_io k1"
    and z = "conj_soc_cpus k1"] t(2)
  show ?thesis by (auto simp: k' cuentas liberar_cpu_def pasar_pcb_exit_def)
qed

lemma llamada_erronea_conserva:
  assumes "llamada_erronea soc t k = Inr k'" "sin_cero k"
  shows "conserva k k'"
proof -
  obtain c k1 p k2 k3 where t: "get_cpu_soc_cpu_remove soc k = (Some c, k1)"
    "get_pcb_otros_exec (id_prog_exec c) k1 = Inr (Some p, k2)"
    and k3: "enviar_comun soc t [] 0 (pasar_pcb_exit (Some (p\<lparr>tipo_fin_ejecucion := t\<rparr>)) k2) = Inr k3"
    and k': "k' = liberar_cpu c k3"
    using assms(1)
    by (auto simp: llamada_erronea_def bindE_eq_Inr no_nulo_def split: prod.splits option.splits)
  from turno [OF t(1) assms(2), where x = "salida k1" and y = "dicc_sem k1" and w = "dicc_disp_io k1"
    and z = "conj_soc_cpus k1"] t(2)
  show ?thesis
    using enviar_comun_Inr [OF k3] by (auto simp: k' cuentas liberar_cpu_def pasar_pcb_exit_def)
qed

lemma pasar_block_ready_conserva:
  assumes "pasar_pcbBlock_ready i k = Inr k'"
  shows "conserva k k'"
proof -
  obtain r q where r: "rotar_cola (length (cola_block k)) (\<lambda>p. pid p = i) (cola_block k) = Inr (r, q)"
    "k' = (case r of None \<Rightarrow> k\<lparr>cola_block := q\<rparr> | Some x \<Rightarrow> push_ready (Some x) (k\<lparr>cola_block := q\<rparr>))"
    using assms unfolding pasar_pcbBlock_ready_def bindE_eq_Inr
    by (auto split: prod.splits option.splits)
  with rotar_cola_cuenta [OF r(1)] show ?thesis
    by (cases r) (simp_all add: cuentas push_ready_def)
qed

lemma fin_quantum_conserva:
  assumes q: "fin_quantum soc men rec k = Inr k'" and "sin_cero k"
    and b: "tam_dato men = 1 \<Longrightarrow> case get_cpu soc k of None \<Rightarrow> True | Some c \<Rightarrow> id_prog_exec c \<noteq> 0"
  shows "conserva k k'"
proof -
  obtain c' k1 where c': "get_cpu_soc_cpu_remove soc k = (c', k1)" by fastforce
  obtain c where c: "get_cpu_soc_cpu_remove soc k = (Some c, k1)"
    using q c' by (cases c') (simp_all add: fin_quantum_def Let_def split: if_splits)
  obtain l where l: "k1 = k\<lparr>lista_cpu := l\<rparr>" "get_cpu soc k = Some c"
    "libres k = libres k1 + (if id_prog_exec c = 0 then 1 else 0)" "set l \<subseteq> set (lista_cpu k)"
    using get_cpu_remove_Inr [OF c] by (metis option.simps(5))
  show ?thesis
  proof (cases "tam_dato men = 1")
    case True
    then obtain p k3 where p: "get_pcb_otros_exec (id_prog_exec c)
        (socket_cerrar soc (k1\<lparr>conj_soc_cpus := conj_soc_cpus k1 - {soc}\<rparr>)) = Inr (p, k3)"
      "k' = push_ready p k3"
      using q c True by (auto simp: fin_quantum_def bindE_eq_Inr Let_def)
    have "id_prog_exec c \<noteq> 0" using b [OF True] l(2) by simp
    moreover obtain q where "k3 = socket_cerrar soc (k1\<lparr>conj_soc_cpus := conj_soc_cpus k1 - {soc}\<rparr>)
        \<lparr>cola_exec := q\<rparr>" "ids (cola_exec k) = marca p + ids q"
      using get_pcb_otros_exec_Inr [OF p(1)] l(1) by (auto simp: socket_cerrar_def)
    ultimately show ?thesis
      using l by (auto simp: p(2) cuentas push_ready_def socket_cerrar_def)
  next
    case False
    then obtain p k2 p' where p: "get_pcb_otros_exec (id_prog_exec c) k1 = Inr (Some p, k2)"
      "recv_actualizar_pcb rec p = Inr p'" "k' = liberar_cpu c (push_ready (Some p') k2)"
      using q c False by (auto simp: fin_quantum_def bindE_eq_Inr no_nulo_def split: option.splits)
    from turno [OF c assms(2), where x = "salida k1" and y = "dicc_sem k1" and w = "dicc_disp_io k1"
      and z = "conj_soc_cpus k1"] p(1)
    show ?thesis
      using recv_actualizar_pid [OF p(2)] by (auto simp: p(3) cuentas liberar_cpu_def push_ready_def)
  qed
qed

lemma conec_cerrada_conserva:
  assumes "conec_cerrada_cpu soc k = Inr k'"
  shows "conserva k k'"
proof -
  obtain c' k1 where c': "get_cpu_soc_cpu_remove soc k = (c', k1)" by fastforce
  obtain c where c: "get_cpu_soc_cpu_remove soc k = (Some c, k1)"
    using assms c' by (cases c') (simp_all add: conec_cerrada_cpu_def Let_def)
  obtain l where l: "k1 = k\<lparr>lista_cpu := l\<rparr>" "libres k = libres k1 + (if id_prog_exec c = 0 then 1 else 0)"
    "set l \<subseteq> set (lista_cpu k)"
    using get_cpu_remove_Inr [OF c] by auto
  show ?thesis
  proof (cases "id_prog_exec c = 0")
    case True
    then show ?thesis
      using assms c l by (auto simp: conec_cerrada_cpu_def bindE_eq_Inr cuentas socket_cerrar_def
          sem_decre_def Let_def split: if_splits)
  next
    case False
    then obtain p k3 where p: "get_pcb_otros_exec (id_prog_exec c)
        (socket_cerrar soc (k1\<lparr>conj_soc_cpus := conj_soc_cpus k1 - {soc}\<rparr>)) = Inr (p, k3)"
      "k' = push_ready p k3"
      using assms c by (auto simp: conec_cerrada_cpu_def bindE_eq_Inr Let_def)
    then show ?thesis
      using get_pcb_otros_exec_Inr [OF p(1)] l False
      by (auto simp: p(2) cuentas push_ready_def socket_cerrar_def)
  qed
qed

lemma wait_conserva:
  assumes "wait soc men rec cer k = Inr k'" "sin_cero k"
  shows "conserva k k'"
proof -
  obtain key where key: "cadena (dato men) = Inr key"
    using assms(1) by (auto simp: wait_def bindE_eq_Inr)
  show ?thesis
  proof (cases "dicc_sem k key")
    case None
    then show ?thesis using assms key llamada_erronea_conserva by (simp add: wait_def)
  next
    case (Some sem)
    let ?k1 = "k\<lparr>dicc_sem := (dicc_sem k)(key \<mapsto> sem\<lparr>valor := valor sem - 1\<rparr>)\<rparr>"
    show ?thesis
    proof (cases "valor sem > 0")
      case True
      then have "enviar_comun soc (codigo SEM_OK) [] 0 ?k1 = Inr k'"
        using assms(1) key Some by (simp add: wait_def)
      from enviar_comun_Inr [OF this] show ?thesis by auto
    next
      case False
      obtain c k2 where c: "get_cpu_soc_cpu_remove soc ?k1 = (c, k2)" by fastforce
      then obtain k3 cpu i k4 where w: "enviar_comun soc (codigo SEM_BLOQUEADO) [] 0 k2 = Inr k3"
        "c = Some cpu" "actualizar_pcb_y_bloq cpu rec cer k3 = Inr (i, k4)"
        and k': "k' = k4\<lparr>dicc_sem := (dicc_sem k4)(key \<mapsto> sem\<lparr>valor := valor sem - 1,
          procesos := queue_push (procesos sem) i\<rparr>)\<rparr>"
        using assms(1) key Some False
        by (auto simp: wait_def bindE_eq_Inr Let_def no_nulo_def split: option.splits)
      obtain x where "k3 = k2\<lparr>salida := x\<rparr>" using enviar_comun_Inr [OF w(1)] by blast
      then have "actualizar_pcb_y_bloq cpu rec cer
          (k2\<lparr>salida := x, dicc_sem := dicc_sem k2, dicc_disp_io := dicc_disp_io k2\<rparr>) = Inr (i, k4)"
        using w(3) by simp
      moreover have "sin_cero ?k1" using assms(2) by (simp add: sin_cero_def procs_def)
      ultimately have "conserva ?k1 k4" using bloquear_conserva c w(2) by blast
      then have "conserva k k4" using conserva_trans [of k ?k1 k4] by simp
      then show ?thesis using k' by simp
    qed
  qed
qed

lemma signal_conserva:
  assumes "signal soc men k = Inr k'" "sin_cero k"
  shows "conserva k k'"
proof -
  obtain key where key: "cadena (dato men) = Inr key"
    using assms(1) by (auto simp: signal_def bindE_eq_Inr)
  show ?thesis
  proof (cases "dicc_sem k key")
    case None
    then show ?thesis using assms key llamada_erronea_conserva by (simp add: signal_def)
  next
    case (Some sem)
    let ?k = "\<lambda>s. k\<lparr>dicc_sem := (dicc_sem k)(key \<mapsto> s)\<rparr>"
    obtain k1 where k1: "(case queue_pop (procesos sem) of
        (None, _) \<Rightarrow> Inr (?k (sem\<lparr>valor := valor sem + 1\<rparr>))
      | (Some i, q) \<Rightarrow> pasar_pcbBlock_ready i (?k (sem\<lparr>valor := valor sem + 1, procesos := q\<rparr>))) = Inr k1"
      "enviar_comun soc (codigo SEM_OK) [] 0 k1 = Inr k'"
      using assms(1) key Some by (auto simp: signal_def bindE_eq_Inr Let_def)
    have "conserva k k1"
    proof (cases "procesos sem")
      case Nil
      then show ?thesis using k1(1) by auto
    next
      case (Cons i q)
      then have "conserva (?k (sem\<lparr>valor := valor sem + 1, procesos := q\<rparr>)) k1"
        using k1(1) pasar_block_ready_conserva by simp
      then show ?thesis
        using conserva_trans [of k "?k (sem\<lparr>valor := valor sem + 1, procesos := q\<rparr>)" k1] by simp
    qed
    then show ?thesis using enviar_comun_Inr [OF k1(2)] by auto
  qed
qed

lemma enviar_IO_conserva:
  assumes "enviar_IO soc men men2 rec cer k = Inr k'" "sin_cero k"
  shows "conserva k k'"
proof -
  obtain c' k1 where c': "get_cpu_soc_cpu_remove soc k = (c', k1)" by fastforce
  then obtain n c key io where io: "atoi (dato men2) = Inr n" "c' = Some c"
    "cadena (dato men) = Inr key" "dicc_disp_io k1 key = Some io"
    using assms(1)
    by (auto simp: enviar_IO_def bindE_eq_Inr no_nulo_def split: option.splits)
  obtain d d' i k3 where a: "actualizar_pcb_y_bloq c rec cer (k1\<lparr>dicc_disp_io := d\<rparr>) = Inr (i, k3)"
    "k' = k3\<lparr>dicc_disp_io := d'\<rparr>"
    using assms(1) c' io by (auto simp: enviar_IO_def bindE_eq_Inr Let_def)
  then have "actualizar_pcb_y_bloq c rec cer
      (k1\<lparr>salida := salida k1, dicc_sem := dicc_sem k1, dicc_disp_io := d\<rparr>) = Inr (i, k3)" by simp
  then have "conserva k k3" using bloquear_conserva c' io(2) assms(2) by blast
  then show ?thesis using a(2) by simp
qed

lemma imprimir_conserva:
  "imprimir_texto soc men k = Inr k' \<Longrightarrow> conserva k k'"
  "imprimir_valor soc men k = Inr k' \<Longrightarrow> conserva k k'"
  by (auto simp: imprimir_texto_def imprimir_valor_def bindE_eq_Inr
      dest!: enviar_Inr enviar_comun_Inr)

lemma compartida_conserva:
  assumes "sin_cero k"
  shows "obtener_valor_compartida itoa soc men k = Inr k' \<Longrightarrow> conserva k k'"
    and "grabar_valor_compartida soc men men2 k = Inr k' \<Longrightarrow> conserva k k'"
  using llamada_erronea_conserva [OF _ assms]
  by (auto simp: obtener_valor_compartida_def grabar_valor_compartida_def bindE_eq_Inr Let_def
      dest!: enviar_comun_Inr split: option.splits)

lemma ingresar_new_cpu_conserva: "ingresar_new_cpu soc k = Inr k' \<Longrightarrow> conserva k k'"
  by (auto simp: ingresar_new_cpu_def handshake_cpu_def bindE_eq_Inr cuentas dest!: enviar_comun_Inr)

lemma ingresar_programa_conserva: "ingresar_nuevo_programa soc k = Inr k' \<Longrightarrow> conserva k k'"
  by (auto simp: ingresar_nuevo_programa_def handshake_prog_def bindE_eq_Inr dest!: enviar_comun_Inr)

lemma administrar_men_cpus_conserva:
  assumes "administrar_men_cpus itoa soc men men2 rec cer k = Inr k'" "sin_cero k"
    "admisible (Men_CPU soc men men2 rec cer) k"
  shows "conserva k k'"
proof -
  have "conserva k k'" if "fin_quantum soc men rec k = Inr k'" "tipo men = codigo FIN_QUANTUM"
    using fin_quantum_conserva [OF that(1) assms(2)] assms(3) that(2) by auto
  then show ?thesis
    using assms(1) conec_cerrada_conserva fin_ejecucion_conserva [OF _ assms(2)] imprimir_conserva
      compartida_conserva [OF assms(2)] wait_conserva [OF _ assms(2)] signal_conserva [OF _ assms(2)]
      enviar_IO_conserva [OF _ assms(2)]
    unfolding administrar_men_cpus_def by (auto split: if_splits)
qed

end
