(* ===== verification/Kernel_Corridas.thy ===== *)
theory Kernel_Corridas
  imports Kernel_Inv
begin

text \<open>
  The invariant of the kernel's threads: every process is in one queue, and the semaphores
  count the queues, the free CPUs and the multiprogramming degree.
\<close>

section \<open>The invariant\<close>

definition cupos :: "nat \<Rightarrow> sistema \<Rightarrow> bool" where
  "cupos g s \<longleftrightarrow>
     activos (ker s) + cant_multiprog (ker s) + of_bool (pc_new_ready s = 2) + length (cola_new (ker s))
       = g + cant_new (ker s) + of_bool (1 \<le> pc_new_ready s)"

definition unicos :: "kernel \<Rightarrow> bool" where
  "unicos k \<longleftrightarrow> (\<forall>i. count (procs k) i \<le> 1) \<and> (\<forall>i. i \<in># procs k \<longrightarrow> 1 \<le> i \<and> i \<le> contador_programa k)
     \<and> 0 \<le> contador_programa k"

definition sis_inv :: "nat \<Rightarrow> sistema \<Rightarrow> bool" where
  "sis_inv g s \<longleftrightarrow> unicos (ker s) \<and> cupos g s \<and> cpus_ok (ker s)
     \<and> pc_new_ready s \<le> 2 \<and> pc_ready_exec s \<le> 2 \<and> pc_exit s \<le> 1
     \<and> length (cola_exit (ker s)) = cant_exit (ker s) + pc_exit s
     \<and> length (cola_ready (ker s)) \<le> cant_ready (ker s) + of_bool (1 \<le> pc_ready_exec s)
     \<and> libres (ker s) = cant_cpu_libres (ker s) + of_bool (pc_ready_exec s = 2)"

lemma sis_inv_conserva:
  assumes "sis_inv g s" "conserva (ker s) k"
  shows "sis_inv g (s\<lparr>ker := k\<rparr>)"
proof -
  have c: "procs k = procs (ker s)" "contador_programa k = contador_programa (ker s)"
    "activos k + cant_multiprog k = activos (ker s) + cant_multiprog (ker s)"
    "cola_new k = cola_new (ker s)" "cant_new k = cant_new (ker s)"
    "length (cola_exit k) + cant_exit (ker s) = length (cola_exit (ker s)) + cant_exit k"
    "length (cola_ready k) + cant_ready (ker s) = length (cola_ready (ker s)) + cant_ready k"
    "libres k + cant_cpu_libres (ker s) = libres (ker s) + cant_cpu_libres k"
    "cpus_ok (ker s) \<Longrightarrow> cpus_ok k"
    using assms(2) by (simp_all add: conserva_def)
  have "unicos k" using assms(1) c(1,2) by (simp add: sis_inv_def unicos_def)
  moreover have "cupos g (s\<lparr>ker := k\<rparr>)" using assms(1) c(3-5) by (simp add: sis_inv_def cupos_def)
  ultimately show ?thesis using assms(1) c(4-9) by (simp add: sis_inv_def)
qed

lemma sis_inv_sin_cero: "sis_inv g s \<Longrightarrow> sin_cero (ker s)"
  by (fastforce simp: sis_inv_def unicos_def sin_cero_def)

section \<open>Every step keeps it\<close>

text \<open>The counters and the output are not part of the queues.\<close>

lemma medidas [simp]:
  "procs (k\<lparr>cant_new := n\<rparr>) = procs k" "activos (k\<lparr>cant_new := n\<rparr>) = activos k"
  "libres (k\<lparr>cant_new := n\<rparr>) = libres k" "cpus_ok (k\<lparr>cant_new := n\<rparr>) = cpus_ok k"
  "procs (k\<lparr>cant_ready := n\<rparr>) = procs k" "activos (k\<lparr>cant_ready := n\<rparr>) = activos k"
  "libres (k\<lparr>cant_ready := n\<rparr>) = libres k" "cpus_ok (k\<lparr>cant_ready := n\<rparr>) = cpus_ok k"
  "procs (k\<lparr>cant_exit := n\<rparr>) = procs k" "activos (k\<lparr>cant_exit := n\<rparr>) = activos k"
  "libres (k\<lparr>cant_exit := n\<rparr>) = libres k" "cpus_ok (k\<lparr>cant_exit := n\<rparr>) = cpus_ok k"
  "procs (k\<lparr>cant_multiprog := n\<rparr>) = procs k" "activos (k\<lparr>cant_multiprog := n\<rparr>) = activos k"
  "libres (k\<lparr>cant_multiprog := n\<rparr>) = libres k" "cpus_ok (k\<lparr>cant_multiprog := n\<rparr>) = cpus_ok k"
  "procs (k\<lparr>cant_cpu_libres := n\<rparr>) = procs k" "activos (k\<lparr>cant_cpu_libres := n\<rparr>) = activos k"
  "libres (k\<lparr>cant_cpu_libres := n\<rparr>) = libres k" "cpus_ok (k\<lparr>cant_cpu_libres := n\<rparr>) = cpus_ok k"
  "procs (k\<lparr>salida := x\<rparr>) = procs k" "activos (k\<lparr>salida := x\<rparr>) = activos k"
  "libres (k\<lparr>salida := x\<rparr>) = libres k" "cpus_ok (k\<lparr>salida := x\<rparr>) = cpus_ok k"
  by (simp_all add: procs_def activos_def libres_def cpus_ok_def)

lemma unicos_mset:
  "unicos k \<Longrightarrow> procs k' \<subseteq># procs k \<Longrightarrow> contador_programa k' = contador_programa k \<Longrightarrow> unicos k'"
  unfolding unicos_def by (simp add: mset_subset_eqD) (meson le_trans mset_subset_eq_count)

lemma sem_decre_Inr [simp]: "sem_decre n = Inr m \<longleftrightarrow> n = Suc m"
  by (auto simp: sem_decre_def)

lemma new_ready_Inr:
  assumes "new_ready k = Inr k'"
  obtains (nadie) q where "k' = k\<lparr>cola_new := q\<rparr>" "ids q = ids (cola_new k)" "length q = length (cola_new k)"
  | (uno) p q where "k' = push_ready (Some p) (k\<lparr>cola_new := q\<rparr>)"
      "ids (cola_new k) = add_mset (pid p) (ids q)" "length (cola_new k) = Suc (length q)"
proof -
  obtain r k1 where r: "get_peso_min k = Inr (r, k1)"
    "k' = (case r of None \<Rightarrow> k1 | Some p \<Rightarrow> push_ready (Some p) k1)"
    using assms by (auto simp: new_ready_def bindE_eq_Inr split: option.splits)
  from get_peso_min_Inr [OF r(1)] obtain q where "k1 = k\<lparr>cola_new := q\<rparr>"
    "ids (cola_new k) = marca r + ids q"
    "length (cola_new k) = length q + (case r of None \<Rightarrow> 0 | Some _ \<Rightarrow> 1)" by blast
  with r(2) show thesis using nadie uno by (cases r) auto
qed

lemma manejador_new_ready_inv:
  assumes "sis_inv g s" "manejador_new_ready s = Inr s'"
  shows "sis_inv g s'"
proof -
  consider "pc_new_ready s = 0" | "pc_new_ready s = 1" | "pc_new_ready s = 2"
    using assms(1) by (fastforce simp: sis_inv_def)
  then show ?thesis
  proof cases
    case 1
    then obtain n where "cant_new (ker s) = Suc n" "s' = s\<lparr>ker := (ker s)\<lparr>cant_new := n\<rparr>, pc_new_ready := 1\<rparr>"
      using assms(2) by (auto simp: manejador_new_ready_def bindE_eq_Inr)
    then show ?thesis using assms(1) 1 by (simp add: sis_inv_def unicos_def cupos_def)
  next
    case 2
    then obtain n where "cant_multiprog (ker s) = Suc n"
      "s' = s\<lparr>ker := (ker s)\<lparr>cant_multiprog := n\<rparr>, pc_new_ready := 2\<rparr>"
      using assms(2) by (auto simp: manejador_new_ready_def bindE_eq_Inr)
    then show ?thesis using assms(1) 2 by (simp add: sis_inv_def unicos_def cupos_def)
  next
    case 3
    then obtain k where k: "new_ready (ker s) = Inr k" "s' = s\<lparr>ker := k, pc_new_ready := 0\<rparr>"
      using assms(2) by (auto simp: manejador_new_ready_def bindE_eq_Inr)
    from k(1) show ?thesis
    proof (cases rule: new_ready_Inr)
      case (nadie q)
      then have "procs k = procs (ker s)" "activos k = activos (ker s)" "libres k = libres (ker s)"
        "cpus_ok k = cpus_ok (ker s)" by (simp_all add: procs_def activos_def libres_def cpus_ok_def)
      then show ?thesis
        using assms(1) 3 k(2) nadie by (simp add: sis_inv_def unicos_def cupos_def)
    next
      case (uno p q)
      then have "procs k = procs (ker s)" "activos k = Suc (activos (ker s))" "libres k = libres (ker s)"
        "cpus_ok k = cpus_ok (ker s)"
        by (simp_all add: procs_def activos_def libres_def cpus_ok_def push_ready_def)
      then show ?thesis
        using assms(1) 3 k(2) uno
        by (simp add: sis_inv_def unicos_def cupos_def push_ready_def sem_incre_def)
    qed
  qed
qed

lemma get_cpu_libre_Inr:
  assumes "get_cpu_libre_remove k = (c, k1)"
  shows "\<exists>l. k1 = k\<lparr>lista_cpu := l\<rparr> \<and> set l \<subseteq> set (lista_cpu k)
    \<and> libres k1 = libres k - 1 \<and> (c = None \<longleftrightarrow> libres k = 0)
    \<and> (\<forall>x. c = Some x \<longrightarrow> id_prog_exec x = 0)"
proof -
  let ?p = "\<lambda>c. id_prog_exec c = 0"
  obtain l where l: "list_remove_by_condition ?p (lista_cpu k) = (c, l)" "k1 = k\<lparr>lista_cpu := l\<rparr>"
    using assms by (auto simp: get_cpu_libre_remove_def split: prod.splits)
  have "c = None \<longleftrightarrow> libres k = 0"
    using remove_None_iff [of ?p "lista_cpu k"] l(1) by (simp add: libres_def filter_empty_conv)
  moreover note remove_cuenta [OF l(1), of ?p]
  ultimately show ?thesis using l(2) by (cases c) (auto simp: libres_def)
qed

lemma ready_exec_Inr:
  assumes "ready_exec k = Inr k'"
  shows "procs k' = procs k \<and> contador_programa k' = contador_programa k \<and> activos k' = activos k
    \<and> cant_multiprog k' = cant_multiprog k \<and> cola_new k' = cola_new k \<and> cant_new k' = cant_new k
    \<and> cola_exit k' = cola_exit k \<and> cant_exit k' = cant_exit k \<and> cant_ready k' = cant_ready k
    \<and> length (cola_ready k') = length (cola_ready k) - 1 \<and> cant_cpu_libres k' = cant_cpu_libres k
    \<and> (0 \<notin># procs k \<longrightarrow> libres k' = libres k - 1) \<and> (cpus_ok k \<longrightarrow> 0 \<notin># procs k \<longrightarrow> cpus_ok k')"
proof -
  obtain c k1 where c: "get_cpu_libre_remove k = (c, k1)" by fastforce
  obtain r q where r: "queue_pop_pcb (cola_ready k1) = (r, q)" by fastforce
  obtain l where l: "k1 = k\<lparr>lista_cpu := l\<rparr>" "set l \<subseteq> set (lista_cpu k)" "libres k1 = libres k - 1"
    using get_cpu_libre_Inr [OF c] by blast
  note q = queue_pop_pcb_cuenta [OF r]
  show ?thesis
  proof (cases r)
    case None
    then have "k' = k1\<lparr>cola_ready := q\<rparr>" using assms c r by (simp add: ready_exec_def)
    then show ?thesis
      using l q None by (auto simp: procs_def activos_def libres_def cpus_ok_def)
  next
    case (Some p)
    then obtain cpu k3 where k3: "c = Some cpu"
      "enviar_cpu_pcb (soc_cpu cpu) (po_pcb p) (k1\<lparr>cola_ready := q\<rparr>) = Inr k3"
      "k' = k3\<lparr>lista_cpu := lista_cpu k3 @ [cpu\<lparr>id_prog_exec := pid p, soc_prog := n_socket p\<rparr>],
         cola_exec := queue_push (cola_exec k3) (Some p)\<rparr>"
      using assms c r by (cases c) (auto simp: ready_exec_def bindE_eq_Inr)
    obtain x where x: "k3 = k1\<lparr>cola_ready := q, salida := x\<rparr>"
      using k3(2) by (auto simp: enviar_cpu_pcb_def bindE_eq_Inr dest: enviar_Inr)
    have "pid p \<in># procs k" using q l(1) Some by (simp add: procs_def)
    then have "0 \<notin># procs k \<Longrightarrow> pid p \<noteq> 0" by auto
    then show ?thesis
      using l q Some k3(3) x by (auto simp: procs_def activos_def libres_def cpus_ok_def)
  qed
qed

lemma manejador_ready_exec_inv:
  assumes "sis_inv g s" "manejador_ready_exec s = Inr s'"
  shows "sis_inv g s'"
proof -
  consider "pc_ready_exec s = 0" | "pc_ready_exec s = 1" | "pc_ready_exec s = 2"
    using assms(1) by (fastforce simp: sis_inv_def)
  then show ?thesis
  proof cases
    case 1
    then obtain n where "cant_ready (ker s) = Suc n" "s' = s\<lparr>ker := (ker s)\<lparr>cant_ready := n\<rparr>, pc_ready_exec := 1\<rparr>"
      using assms(2) by (auto simp: manejador_ready_exec_def bindE_eq_Inr)
    then show ?thesis using assms(1) 1 by (simp add: sis_inv_def unicos_def cupos_def)
  next
    case 2
    then obtain n where "cant_cpu_libres (ker s) = Suc n"
      "s' = s\<lparr>ker := (ker s)\<lparr>cant_cpu_libres := n\<rparr>, pc_ready_exec := 2\<rparr>"
      using assms(2) by (auto simp: manejador_ready_exec_def bindE_eq_Inr)
    then show ?thesis using assms(1) 2 by (simp add: sis_inv_def unicos_def cupos_def)
  next
    case 3
    then obtain k where k: "ready_exec (ker s) = Inr k" "s' = s\<lparr>ker := k, pc_ready_exec := 0\<rparr>"
      using assms(2) by (auto simp: manejador_ready_exec_def bindE_eq_Inr)
    have "0 \<notin># procs (ker s)" using sis_inv_sin_cero [OF assms(1)] by (simp add: sin_cero_def)
    with ready_exec_Inr [OF k(1)] show ?thesis
      using assms(1) 3 k(2) by (simp add: sis_inv_def unicos_def cupos_def) linarith
  qed
qed

lemma manejador_exit_inv:
  assumes "sis_inv g s" "manejador_exit srv (s, u) = Inr (s', u')"
  shows "sis_inv g s'"
proof (cases "pc_exit s = 0")
  case True
  then obtain n where "cant_exit (ker s) = Suc n" "s' = s\<lparr>ker := (ker s)\<lparr>cant_exit := n\<rparr>, pc_exit := 1\<rparr>"
    using assms(2) by (auto simp: manejador_exit_def bindE_eq_Inr)
  then show ?thesis using assms(1) True by (simp add: sis_inv_def unicos_def cupos_def)
next
  case False
  then obtain k where k: "sale_exit srv (ker s, u) = Inr (k, u')" "s' = s\<lparr>ker := k, pc_exit := 0\<rparr>"
    using assms(2) by (auto simp: manejador_exit_def bindE_eq_Inr)
  obtain r q where r: "queue_pop_pcb (cola_exit (ker s)) = (r, q)" by fastforce
  obtain x where x: "k = (ker s)\<lparr>cola_exit := q, salida := x\<rparr>"
  proof (cases r)
    case None
    then have "k = (ker s)\<lparr>cola_exit := q, salida := salida (ker s)\<rparr>"
      using k(1) r by (auto simp: sale_exit_def)
    then show thesis by (rule that)
  next
    case (Some p)
    then obtain k2 where "(if tipo_fin_ejecucion p \<noteq> -1
        then enviar_comun (n_socket p) (tipo_fin_ejecucion p) [] 0 ((ker s)\<lparr>cola_exit := q\<rparr>)
        else Inr ((ker s)\<lparr>cola_exit := q\<rparr>)) = Inr k2" "k = k2"
      using k(1) r by (auto simp: sale_exit_def bindE_eq_Inr Let_def)
    then have "\<exists>x. k = (ker s)\<lparr>cola_exit := q, salida := x\<rparr>"
      by (auto dest: enviar_comun_Inr split: if_splits intro: exI [of _ "salida (ker s)"])
    then show thesis using that by blast
  qed
  have "ids (cola_exit (ker s)) = marca r + ids q" "length q = length (cola_exit (ker s)) - 1"
    using queue_pop_pcb_cuenta [OF r] by simp_all
  note q = this
  have "procs (ker s) = marca r + procs k" using q(1) by (simp add: procs_def x)
  then have "procs k \<subseteq># procs (ker s)" by simp
  moreover have "contador_programa k = contador_programa (ker s)" by (simp add: x)
  moreover have "unicos (ker s)" using assms(1) by (simp add: sis_inv_def)
  ultimately have "unicos k" by (metis unicos_mset)
  moreover have "activos k = activos (ker s)" "libres k = libres (ker s)" "cpus_ok k = cpus_ok (ker s)"
    by (simp_all add: x activos_def libres_def cpus_ok_def)
  moreover have "pc_exit s = 1" using assms(1) False by (auto simp: sis_inv_def)
  ultimately show ?thesis using assms(1) k(2) x q(2) by (simp add: sis_inv_def cupos_def)
qed

lemma manejador_IO_inv:
  assumes "sis_inv g s" "manejador_IO key s = Inr s'"
  shows "sis_inv g s'"
proof -
  obtain io where io: "dicc_disp_io (ker s) key = Some io"
    using assms(2) by (cases "dicc_disp_io (ker s) key") (auto simp: manejador_IO_def)
  obtain k x where "conserva (ker s) k" and s': "s' = s\<lparr>ker := k, io_actual := x\<rparr>"
  proof (cases "io_actual s key")
    case None
    then obtain d x where "s' = s\<lparr>ker := (ker s)\<lparr>dicc_disp_io := d\<rparr>, io_actual := x\<rparr>"
      using assms(2) io by (cases "io_procesos io") (auto simp: manejador_IO_def bindE_eq_Inr)
    then show thesis using that [of "(ker s)\<lparr>dicc_disp_io := d\<rparr>" x] by simp
  next
    case (Some pr)
    then obtain k where "pasar_pcbBlock_ready (id_prog pr) (ker s) = Inr k"
      "s' = s\<lparr>ker := k, io_actual := (io_actual s)(key := None)\<rparr>"
      using assms(2) io by (auto simp: manejador_IO_def bindE_eq_Inr)
    then show thesis using that pasar_block_ready_conserva by blast
  qed
  then have "sis_inv g (s\<lparr>ker := k\<rparr>)" using sis_inv_conserva assms(1) by blast
  then show ?thesis by (simp add: s' sis_inv_def cupos_def)
qed

section \<open>Programs\<close>

lemma pasar_pcb_exit_cuenta:
  "procs (pasar_pcb_exit r k) = procs k + marca r \<and> activos (pasar_pcb_exit r k) = activos k
   \<and> cant_multiprog (pasar_pcb_exit r k) = cant_multiprog k + size (marca r)
   \<and> length (cola_exit (pasar_pcb_exit r k)) + cant_exit k = length (cola_exit k) + cant_exit (pasar_pcb_exit r k)
   \<and> cola_new (pasar_pcb_exit r k) = cola_new k \<and> cola_ready (pasar_pcb_exit r k) = cola_ready k
   \<and> cola_block (pasar_pcb_exit r k) = cola_block k \<and> cola_exec (pasar_pcb_exit r k) = cola_exec k
   \<and> lista_cpu (pasar_pcb_exit r k) = lista_cpu k \<and> cant_new (pasar_pcb_exit r k) = cant_new k
   \<and> cant_ready (pasar_pcb_exit r k) = cant_ready k \<and> cant_cpu_libres (pasar_pcb_exit r k) = cant_cpu_libres k
   \<and> contador_programa (pasar_pcb_exit r k) = contador_programa k"
  by (cases r) (simp_all add: pasar_pcb_exit_def procs_def activos_def sem_incre_def)

text \<open>At most one process leaves new; each process that leaves gives one unit back.\<close>

lemma mover_pcb_exit_Inr:
  assumes "mover_pcb_exit soc k = Inr k'"
  shows "procs k' = procs k \<and> contador_programa k' = contador_programa k
    \<and> cant_new k' = cant_new k \<and> cant_ready k' = cant_ready k \<and> lista_cpu k' = lista_cpu k
    \<and> cant_cpu_libres k' = cant_cpu_libres k \<and> length (cola_ready k') \<le> length (cola_ready k)
    \<and> length (cola_exit k') + cant_exit k = length (cola_exit k) + cant_exit k'
    \<and> activos k' + cant_multiprog k' + length (cola_new k') = activos k + cant_multiprog k + length (cola_new k)"
proof -
  obtain p1 q1 where b1: "buscar_pcb (cola_new k) soc = Inr (p1, q1)"
    using assms by (auto simp: mover_pcb_exit_def bindE_eq_Inr)
  define k1 where "k1 = pasar_pcb_exit p1 (k\<lparr>cola_new := q1\<rparr>)"
  obtain p2 q2 where b2: "buscar_pcb (cola_ready k1) soc = Inr (p2, q2)"
    using assms b1 unfolding mover_pcb_exit_def by (auto simp: bindE_eq_Inr Let_def k1_def)
  define k2 where "k2 = pasar_pcb_exit p2 (k1\<lparr>cola_ready := q2\<rparr>)"
  obtain p3 q3 where b3: "buscar_pcb (cola_block k2) soc = Inr (p3, q3)"
    using assms b1 b2 unfolding mover_pcb_exit_def
    by (auto simp: bindE_eq_Inr Let_def k1_def [symmetric] k2_def [symmetric])
  define k3 where "k3 = pasar_pcb_exit p3 (k2\<lparr>cola_block := q3\<rparr>)"
  obtain p4 q4 where b4: "buscar_pcb (cola_exec k3) soc = Inr (p4, q4)"
    and k': "k' = pasar_pcb_exit p4 (k3\<lparr>cola_exec := q4\<rparr>)"
    using assms b1 b2 b3 unfolding mover_pcb_exit_def
    by (auto simp: bindE_eq_Inr Let_def k1_def [symmetric] k2_def [symmetric] k3_def [symmetric])
  note c = buscar_pcb_cuenta [OF b1] buscar_pcb_cuenta [OF b2] buscar_pcb_cuenta [OF b3]
    buscar_pcb_cuenta [OF b4]
  have s: "(case r of None \<Rightarrow> 0 | Some _ \<Rightarrow> 1) = size (marca r)" for r :: "t_pcb_otros option"
    by (cases r) simp_all
  note e1 = pasar_pcb_exit_cuenta [of p1 "k\<lparr>cola_new := q1\<rparr>", folded k1_def]
    and e2 = pasar_pcb_exit_cuenta [of p2 "k1\<lparr>cola_ready := q2\<rparr>", folded k2_def]
    and e3 = pasar_pcb_exit_cuenta [of p3 "k2\<lparr>cola_block := q3\<rparr>", folded k3_def]
    and e4 = pasar_pcb_exit_cuenta [of p4 "k3\<lparr>cola_exec := q4\<rparr>", folded k']
  have "procs k1 = procs k" 
  proof -
    have "procs k = procs (k\<lparr>cola_new := q1\<rparr>) + marca p1"
      using c(1) by (simp add: procs_def)
    then show ?thesis using e1 by simp
  qed
  moreover have "procs k2 = procs k1" 
  proof -
    have "procs k1 = procs (k1\<lparr>cola_ready := q2\<rparr>) + marca p2"
      using c(2) by (simp add: procs_def)
    then show ?thesis using e2 by simp
  qed
  moreover have "procs k3 = procs k2" 
  proof -
    have "procs k2 = procs (k2\<lparr>cola_block := q3\<rparr>) + marca p3"
      using c(3) by (simp add: procs_def)
    then show ?thesis using e3 by simp
  qed
  moreover have "procs k' = procs k3" 
  proof -
    have "procs k3 = procs (k3\<lparr>cola_exec := q4\<rparr>) + marca p4"
      using c(4) by (simp add: procs_def)
    then show ?thesis using e4 by simp
  qed
  moreover have "activos k1 + cant_multiprog k1 + length (cola_new k1) = activos k + cant_multiprog k + length (cola_new k)"
    using e1 c(1) s [of p1] by (simp add: activos_def)
  moreover have "activos k2 + cant_multiprog k2 = activos k1 + cant_multiprog k1" "cola_new k2 = cola_new k1"
    using e2 c(2) by (simp_all add: activos_def)
  moreover have "activos k3 + cant_multiprog k3 = activos k2 + cant_multiprog k2" "cola_new k3 = cola_new k2"
    using e3 c(3) by (simp_all add: activos_def)
  moreover have "activos k' + cant_multiprog k' = activos k3 + cant_multiprog k3" "cola_new k' = cola_new k3"
    using e4 c(4) by (simp_all add: activos_def)
  moreover have "length (cola_ready k') \<le> length (cola_ready k)" using e1 e2 e3 e4 c(2) by simp
  ultimately show ?thesis using e1 e2 e3 e4 by simp
qed

lemma administrar_prog_cerrado_inv:
  assumes "sis_inv g s" "administrar_prog_cerrado soc (ker s) = Inr k" "soc \<noteq> 0"
  shows "sis_inv g (s\<lparr>ker := k\<rparr>)"
proof -
  let ?k = "(ker s)\<lparr>conj_soc_progs := conj_soc_progs (ker s) - {soc}\<rparr>"
  obtain k1 where k1: "mover_pcb_exit soc ?k = Inr k1"
    using assms(2) by (auto simp: administrar_prog_cerrado_def bindE_eq_Inr)
  obtain r l where r: "list_remove_by_condition (\<lambda>c. soc_prog c = soc) (lista_cpu k1) = (r, l)"
    by fastforce
  note m = mover_pcb_exit_Inr [OF k1] and q = remove_cuenta [OF r, of "\<lambda>c. id_prog_exec c = 0"]
  have k: "\<exists>x y. k = k1\<lparr>lista_cpu := l, conj_soc_cpus := x, salida := y\<rparr>"
  proof (cases r)
    case None
    then have "k = k1\<lparr>lista_cpu := l, conj_soc_cpus := conj_soc_cpus k1, salida := salida k1\<rparr>"
      using assms(2) k1 r by (auto simp: administrar_prog_cerrado_def)
    then show ?thesis by blast
  next
    case (Some c)
    then have "k = k1\<lparr>lista_cpu := l, conj_soc_cpus := conj_soc_cpus k1 - {soc_cpu c},
        salida := salida k1 @ [Cierra (soc_cpu c)]\<rparr>"
      using assms(2) k1 r by (simp add: administrar_prog_cerrado_def socket_cerrar_def)
    then show ?thesis by blast
  qed
  have ok: "cpus_ok (ker s)" using assms(1) by (simp add: sis_inv_def)
  have "id_prog_exec c \<noteq> 0" if "r = Some c" for c
    using ok q that assms(3) m by (auto simp: cpus_ok_def)
  then have "length (filter (\<lambda>c. id_prog_exec c = 0) l) = libres (ker s)"
    using q m by (auto simp: libres_def split: option.splits)
  then have "libres k = libres (ker s)" using k by (auto simp: libres_def)
  moreover have "cpus_ok k" using ok k q m by (auto simp: cpus_ok_def)
  moreover have "procs k = procs (ker s)" "activos k = activos k1" using k m by (auto simp: procs_def activos_def)
  moreover have "activos ?k = activos (ker s)" by (simp add: activos_def)
  ultimately show ?thesis
    using assms(1) m k by (auto simp: sis_inv_def unicos_def cupos_def)
qed

lemma administrar_new_script_inv:
  assumes "sis_inv g s" "administrar_new_script itoa srv meta b soc men (ker s, u) = Inr (k, u')"
    "contador_programa (ker s) < 2147483647"
  shows "sis_inv g (s\<lparr>ker := k\<rparr>)"
proof -
  let ?k = "(ker s)\<lparr>contador_programa := i32 (contador_programa (ker s) + 1)\<rparr>"
  have u: "unicos (ker s)" using assms(1) by (simp add: sis_inv_def)
  then have c: "i32 (contador_programa (ker s) + 1) = contador_programa (ker s) + 1"
    using assms(3) by (simp add: unicos_def i32_id_bounds)
  have p: "procs ?k = procs (ker s)" "activos ?k = activos (ker s)" "libres ?k = libres (ker s)"
    "cpus_ok ?k = cpus_ok (ker s)" by (simp_all add: procs_def activos_def libres_def cpus_ok_def)
  obtain r u1 where r: "solicitar_mem srv (meta (dato men)) (contador_programa ?k) (tamanio_stack ?k) men u = Inr (r, u1)"
    using assms(2) by (auto simp: administrar_new_script_def bindE_eq_Inr Let_def)
  show ?thesis
  proof (cases r)
    case None
    then obtain x y where "k = ?k\<lparr>conj_soc_progs := x, salida := y\<rparr>"
      using assms(2) r by (auto simp: administrar_new_script_def bindE_eq_Inr Let_def socket_cerrar_def
          dest!: enviar_comun_Inr)
    then show ?thesis
      using assms(1) u p c by (auto simp: sis_inv_def unicos_def cupos_def procs_def activos_def
          libres_def cpus_ok_def)
  next
    case (Some sol)
    then obtain pc u2 where pc: "crear_pcb_escribir_seg_UMV srv (meta (dato men)) b
        (contador_programa ?k) men sol u1 = Inr (pc, u2)"
      "k = ?k\<lparr>cola_new := queue_push (cola_new ?k) (Some \<lparr>po_pcb = pc, n_socket = soc,
          peso = calcular_peso (meta (dato men)), tipo_fin_ejecucion = -1\<rparr>),
          cant_new := sem_incre (cant_new ?k)\<rparr>"
      using assms(2) r by (auto simp: administrar_new_script_def bindE_eq_Inr Let_def)
    have "pcb_id pc = contador_programa (ker s) + 1"
      using pc(1) c by (auto simp: crear_pcb_escribir_seg_UMV_def bindE_eq_Inr)
    then have k: "procs k = add_mset (contador_programa (ker s) + 1) (procs (ker s))"
      "activos k = activos (ker s)" "libres k = libres (ker s)" "cpus_ok k = cpus_ok (ker s)"
      by (simp_all add: pc(2) procs_def activos_def libres_def cpus_ok_def pid_def)
    have "contador_programa (ker s) + 1 \<notin># procs (ker s)" using u by (fastforce simp: unicos_def)
    then have "unicos k"
      using u k(1) c pc(2) by (fastforce simp: unicos_def not_in_iff)
    then show ?thesis
      using assms(1) k pc(2) by (simp add: sis_inv_def cupos_def sem_incre_def)
  qed
qed

section \<open>All runs\<close>

lemma paso_kernel_inv:
  assumes inv: "sis_inv g (fst su)" and ad: "admisible ev (ker (fst su))"
    and ev: "paso_kernel itoa srv meta ev su = Inr su'"
  shows "sis_inv g (fst su')"
proof -
  obtain s u s' u' where su: "su = (s, u)" "su' = (s', u')" by (metis surj_pair)
  note i = inv [unfolded su fst_conv]
  have cons: "sis_inv g s'" if "en_kernel f su = Inr su'" "\<And>k. f (ker s) = Inr k \<Longrightarrow> conserva (ker s) k" for f
    using that sis_inv_conserva [OF i] by (auto simp: en_kernel_def su bindE_eq_Inr)
  show ?thesis
  proof (cases ev)
    case (Men_CPU soc men men2 rec cer)
    then show ?thesis
      using cons ev ad administrar_men_cpus_conserva [OF _ sis_inv_sin_cero [OF i]] by (simp add: su)
  next
    case (Men_Prog b soc men)
    then obtain k where "administrar_men_progs itoa srv meta b soc men (ker s, u) = Inr (k, u')"
      "s' = s\<lparr>ker := k\<rparr>" using ev by (auto simp: su bindE_eq_Inr)
    then show ?thesis
      using i ad administrar_prog_cerrado_inv [OF i, of soc k]
        administrar_new_script_inv [OF i, of itoa srv meta b soc men u k u'] Men_Prog
      by (simp add: su administrar_men_progs_def bindE_eq_Inr split: if_splits) auto
  next
    case (Operador ord)
    then have "conserva (ker s) k" if "menu_imp ord (ker s) = Inr k" for k
      using that ad by (cases ord) (auto simp: bindE_eq_Inr dest!: imp_colas_estado)
    then show ?thesis using cons ev Operador by (simp add: su)
  next
    case (Conecta_CPU soc)
    then show ?thesis using cons ev ingresar_new_cpu_conserva by (simp add: su)
  next
    case (Conecta_Prog soc)
    then show ?thesis using cons ev ingresar_programa_conserva by (simp add: su)
  next
    case (Rompe_Socket soc)
    then show ?thesis
      using cons [of "\<lambda>k. Inr (k\<lparr>rotos := insert soc (rotos k)\<rparr>)"] ev by (auto simp: su)
  next
    case Hilo_Exit
    then show ?thesis using ev manejador_exit_inv [OF i] by (simp add: su)
  next
    case Hilo_New_Ready
    then show ?thesis
      using ev manejador_new_ready_inv [OF i] by (simp add: su en_sistema_def bindE_eq_Inr)
  next
    case Hilo_Ready_Exec
    then show ?thesis
      using ev manejador_ready_exec_inv [OF i] by (simp add: su en_sistema_def bindE_eq_Inr)
  next
    case (Hilo_IO key)
    then show ?thesis
      using ev manejador_IO_inv [OF i] by (auto simp: su en_sistema_def bindE_eq_Inr)
  qed
qed

lemma corre_inv: "corre itoa srv meta c su \<Longrightarrow> sis_inv (MULTIPROGRAMACION c) (fst su)"
proof (induction rule: corre.induct)
  case (arranca k u)
  then have "contador_programa k = 0" by (auto simp: levantar_config_def bindE_eq_Inr)
  then show ?case
    by (simp add: sistema_inicial_def crear_inicializar_estructuras_def sis_inv_def unicos_def
        procs_def cupos_def activos_def cpus_ok_def libres_def)
next
  case (avanza su ev su')
  then show ?case using paso_kernel_inv by blast
qed

end
