(* ===== verification/Kernel_Prop.thy ===== *)
theory Kernel_Prop
  imports Kernel_Corridas
begin

text \<open>
  The properties of the kernel: the processes and the counts of every run, the choice of the
  next process, the turns of the CPUs, the semaphores of the programs and the degree of
  multiprogramming.
\<close>

section \<open>A concrete kernel\<close>

text \<open>
  One device, one semaphore, one shared variable, degree 1; the memory unit answers every
  request with the address 7, and every program has one instruction.
\<close>

definition c_ej :: config where
  "c_ej = \<lparr>ID_HIO = [[68]], HIO = [[57]], SEMAFOROS = [[83]], VALOR_SEMAFORO = [[48]],
     VARIABLES_GLOBALES = [[86]], QUANTUM = 3, RETARDO = 0, TAMANIO_STACK = 16,
     MULTIPROGRAMACION = 1\<rparr>"

definition srv_ej :: "unit servidor" where
  "srv_ej men aux u = Inr (\<lparr>tam_dato = 2, tipo = ms_tipo men + 50, dato = [55, 0]\<rparr>, u)"

definition meta_ej :: "byte list \<Rightarrow> t_metadata_program" where
  "meta_ej b = \<lparr>instruccion_inicio = 0, instrucciones_size = 1,
     instrucciones_serializado = [0, 0, 0, 0, 1, 0, 0, 0], etiquetas_size = 0, etiquetas = [],
     cantidad_de_funciones = 0, cantidad_de_etiquetas = 0\<rparr>"

definition script_ej :: t_men_comun where
  "script_ej = \<lparr>tam_dato = 1, tipo = 206, dato = [65]\<rparr>"

definition cierre_ej :: t_men_comun where
  "cierre_ej = \<lparr>tam_dato = 0, tipo = 0, dato = []\<rparr>"

definition pcb_ej :: "int \<Rightarrow> int \<Rightarrow> int \<Rightarrow> t_pcb_otros" where
  "pcb_ej i soc pc = \<lparr>po_pcb = \<lparr>cant_var_cont_actual = 0, dir_cont_actual = 7, dir_indice_codigo = 7,
     dir_indice_etiquetas = 7, dir_seg_codigo = 7, dir_seg_stack = 7, pcb_id = i,
     program_counter = pc, tam_indice_etiquetas = 0, cant_instrucciones = 0\<rparr>,
     n_socket = soc, peso = 1, tipo_fin_ejecucion = -1\<rparr>"

definition k_ej :: kernel where
  "k_ej = \<lparr>cola_new = [], cola_ready = [], cola_exec = [], cola_exit = [], cola_block = [],
     lista_cpu = [], cant_new = 0, cant_ready = 0, cant_exit = 0, cant_multiprog = 1,
     cant_cpu_libres = 0, dicc_disp_io = [[68] \<mapsto> \<lparr>io_sleep = 9, io_procesos = [], cont_cant_proc = 0\<rparr>],
     dicc_var = [[86] \<mapsto> 0], dicc_sem = [[83] \<mapsto> \<lparr>valor = 0, procesos = []\<rparr>],
     conj_soc_progs = {}, conj_soc_cpus = {}, contador_programa = 0, quantum_max = 3,
     retardo = 0, tamanio_stack = 16, quit_sistema = True, rotos = {}, salida = []\<rparr>"

lemma pcb_ej_campos [simp]:
  "pid (pcb_ej i soc pc) = i" "n_socket (pcb_ej i soc pc) = soc" "peso (pcb_ej i soc pc) = 1"
  "pcb_id (po_pcb (pcb_ej i soc pc)) = i"
  by (simp_all add: pid_def pcb_ej_def)

lemma k_ej_inicial:
  "\<exists>k. levantar_config c_ej = Inr k \<and> crear_inicializar_estructuras c_ej k = k_ej"
  by (simp add: levantar_config_def c_ej_def k_ej_def atoi_def es_espacio_def es_digito_def
      a_int_def i32_id_bounds crear_inicializar_estructuras_def)

fun pasos :: "evento list \<Rightarrow> sistema \<Rightarrow> sistema res" where
  "pasos [] s = Inr s"
| "pasos (ev # evs) s =
     (if admisible ev (ker s)
      then bindE (paso_kernel decimal srv_ej meta_ej ev (s, ())) (\<lambda>(s', _). pasos evs s')
      else Inl Bloqueado)"

lemma corre_pasos:
  "pasos evs s = Inr s' \<Longrightarrow> corre decimal srv_ej meta_ej c_ej (s, ()) \<Longrightarrow>
     corre decimal srv_ej meta_ej c_ej (s', ())"
proof (induction evs arbitrary: s)
  case (Cons ev evs)
  then obtain s1 where "admisible ev (ker s)" "paso_kernel decimal srv_ej meta_ej ev (s, ()) = Inr (s1, ())"
    "pasos evs s1 = Inr s'" by (auto simp: bindE_eq_Inr split: if_splits)
  moreover from this(1,2) have "corre decimal srv_ej meta_ej c_ej (s1, ())"
    using corre.avanza [OF Cons.prems(2)] by simp
  ultimately show ?case using Cons.IH by blast
qed simp

lemma corre_inicio: "corre decimal srv_ej meta_ej c_ej (sistema_inicial k_ej, ())"
  using k_ej_inicial corre.arranca [of c_ej] by metis

text \<open>Two programs arrive, one CPU connects, and the first program runs on it.\<close>

definition evs_ej :: "evento list" where
  "evs_ej = [Men_Prog 0 4 script_ej, Men_Prog 0 5 script_ej, Hilo_New_Ready, Hilo_New_Ready,
     Hilo_New_Ready, Conecta_CPU 9, Hilo_Ready_Exec, Hilo_Ready_Exec, Hilo_Ready_Exec]"

lemmas evaluar = manejador_new_ready_def new_ready_def manejador_ready_exec_def ready_exec_def
  en_kernel_def en_sistema_def get_peso_min_def get_cpu_libre_remove_def queue_pop_pcb_def
  queue_push_def push_ready_def sem_decre_def sem_incre_def enviar_cpu_pcb_def
  crear_men_quantum_pcb_def enviar_def enviar_comun_def ingresar_new_cpu_def handshake_cpu_def
  crear_men_comun_def leer_def administrar_prog_cerrado_def
  mover_pcb_exit_def buscar_pcb_def pasar_pcb_exit_def socket_cerrar_def

text \<open>What a program does to this kernel when it arrives.\<close>

lemma script_llega:
  assumes "contador_programa k = n" "0 \<le> n" "n < 2147483647"
  shows "administrar_men_progs decimal srv_ej meta_ej 0 soc script_ej (k, u) =
    Inr (k\<lparr>contador_programa := n + 1, cola_new := cola_new k @ [Some (pcb_ej (n + 1) soc 0)],
      cant_new := Suc (cant_new k)\<rparr>, u)"
  using assms
  by (simp add: administrar_men_progs_def script_ej_def administrar_new_script_def meta_ej_def
      srv_ej_def solicitar_mem_def pedir_seg_def crear_men_seg_def gestionar_resp_sol_mem_def
      atoi_def es_espacio_def es_digito_def a_int_def i32_id_bounds crear_pcb_escribir_seg_UMV_def
      escribir_seg_def crear_men_comun_def leer_def calcular_peso_def queue_push_def sem_incre_def
      pcb_ej_def)

lemma cierre_llega:
  "administrar_men_progs decimal srv_ej meta_ej b soc cierre_ej (k, u) =
     bindE (administrar_prog_cerrado soc k) (\<lambda>k. Inr (k, u))"
  by (simp add: administrar_men_progs_def cierre_ej_def)

definition s_corre :: sistema where
  "s_corre = \<lparr>ker = k_ej\<lparr>cola_new := [Some (pcb_ej 2 5 0)], cola_exec := [Some (pcb_ej 1 4 0)],
     lista_cpu := [\<lparr>soc_cpu = 9, soc_prog = 4, id_prog_exec = 1\<rparr>], cant_new := 1,
     cant_multiprog := 0, conj_soc_cpus := {9}, contador_programa := 2,
     salida := [Envia 9 (Men_Comun \<lparr>tam_dato = 0, tipo = 10, dato = []\<rparr>),
       Envia 9 (Men_Pcb \<lparr>mq_tipo = 68, mq_quantum = 3, mq_pcb = po_pcb (pcb_ej 1 4 0)\<rparr>)]\<rparr>,
     pc_new_ready = 0, pc_ready_exec = 0, pc_exit = 0, io_actual = Map.empty\<rparr>"

lemma pasos_corre: "pasos evs_ej (sistema_inicial k_ej) = Inr s_corre"
  by (simp add: evs_ej_def sistema_inicial_def k_ej_def script_llega evaluar s_corre_def)

lemma corre_s_corre: "corre decimal srv_ej meta_ej c_ej (s_corre, ())"
  by (rule corre_pasos [OF pasos_corre corre_inicio])

section \<open>The invariants of every run\<close>






definition evs_antes :: "evento list" where
  "evs_antes = [Men_Prog 0 4 script_ej, Hilo_New_Ready, Hilo_New_Ready,
     Hilo_New_Ready, Conecta_CPU 9, Hilo_Ready_Exec, Hilo_Ready_Exec]"

definition s_antes :: sistema where
  "s_antes = \<lparr>ker = k_ej\<lparr>cola_ready := [Some (pcb_ej 1 4 0)],
     lista_cpu := [\<lparr>soc_cpu = 9, soc_prog = 0, id_prog_exec = 0\<rparr>],
     cant_multiprog := 0, conj_soc_cpus := {9}, contador_programa := 1,
     salida := [Envia 9 (Men_Comun \<lparr>tam_dato = 0, tipo = 10, dato = []\<rparr>)]\<rparr>,
     pc_new_ready = 0, pc_ready_exec = 2, pc_exit = 0, io_actual = Map.empty\<rparr>"

lemma corre_s_antes: "corre decimal srv_ej meta_ej c_ej (s_antes, ())"
proof (rule corre_pasos [OF _ corre_inicio])
  show "pasos evs_antes (sistema_inicial k_ej) = Inr s_antes"
    by (simp add: evs_antes_def sistema_inicial_def k_ej_def script_llega evaluar s_antes_def)
qed


section \<open>The degree of multiprogramming\<close>

text \<open>
  C24. The multiprogramming degree of the configuration is, in every run, the sum of the active
  processes (ready, running or blocked), the free places and the place that the long-term
  scheduler has reserved, plus a surplus: the number of tokens of new that belong to processes
  no longer there. So without such a surplus the active processes never exceed the degree.
\<close>

theorem grado_multiprogramacion:
  assumes "corre itoa srv meta c (s, u)"
  shows "activos (ker s) + cant_multiprog (ker s) + of_bool (pc_new_ready s = 2) + length (cola_new (ker s))
      = MULTIPROGRAMACION c + cant_new (ker s) + of_bool (1 \<le> pc_new_ready s)
    \<and> (length (cola_new (ker s)) = cant_new (ker s) + of_bool (1 \<le> pc_new_ready s) \<longrightarrow>
         activos (ker s) \<le> MULTIPROGRAMACION c)"
  using corre_inv [OF assms] by (simp add: sis_inv_def cupos_def)

theorem grado_multiprogramacion_testigo: "activos (ker s_corre) \<le> 1"
  using grado_multiprogramacion [OF corre_s_corre] by (simp add: s_corre_def k_ej_def c_ej_def)

definition evs_exceso :: "evento list" where
  "evs_exceso = evs_ej @ [Men_Prog 0 6 script_ej, Hilo_New_Ready, Men_Prog 0 5 cierre_ej,
     Hilo_New_Ready, Hilo_New_Ready]"

lemma pasos_append: "pasos (es @ fs) s = bindE (pasos es s) (pasos fs)"
proof (induction es arbitrary: s)
  case (Cons ev es)
  then show ?case by (auto simp: bindE_def split: sum.splits)
qed simp

text \<open>
  The surplus does occur: a program that closes its connection while its process waits in
  new gives back a place that it never took. With degree 1, three programs of which the second
  leaves while it waits end up with two active processes.
\<close>

theorem grado_excedido:
  "\<exists>s. corre decimal srv_ej meta_ej c_ej (s, ()) \<and> MULTIPROGRAMACION c_ej = 1 \<and> activos (ker s) = 2"
proof -
  obtain s where s: "pasos evs_exceso (sistema_inicial k_ej) = Inr s"
    "cola_ready (ker s) = [Some (pcb_ej 3 6 0)]" "cola_exec (ker s) = [Some (pcb_ej 1 4 0)]"
    "cola_block (ker s) = []"
    unfolding evs_exceso_def pasos_append pasos_corre bindE_Inr
    by (simp add: s_corre_def k_ej_def script_llega cierre_llega evaluar)
  then have "activos (ker s) = 2" by (simp add: activos_def ids_Cons)
  then show ?thesis
    using corre_pasos [OF s(1) corre_inicio] by (auto simp: c_ej_def)
qed

section \<open>The choice of the next process\<close>

lemma rotar_cola_Some:
  "(\<And>y. y \<in> set us \<Longrightarrow> \<not> p y) \<Longrightarrow> p x \<Longrightarrow> length us < n \<Longrightarrow>
     rotar_cola n p (map Some us @ Some x # q) = Inr (Some x, q @ map Some us)"
proof (induction us arbitrary: n q)
  case Nil
  then show ?case by (cases n) auto
next
  case (Cons y us)
  then show ?case by (cases n) (auto simp: queue_push_def)
qed

lemma rotar_cola_None:
  "(\<And>y. y \<in> set us \<Longrightarrow> \<not> p y) \<Longrightarrow> rotar_cola (length us) p (map Some us @ q) = Inr (None, q @ map Some us)"
proof (induction us arbitrary: q)
  case (Cons y us)
  then show ?case using Cons.IH [of "q @ [Some y]"] by (simp add: queue_push_def)
qed simp

lemma peso_minimo_eq:
  "peso_minimo (length xs) m (map Some xs @ q) =
     Inr (foldl (\<lambda>m x. if m > peso x then peso x else m) m xs, q @ map Some xs)"
proof (induction xs arbitrary: m q)
  case (Cons y us)
  show ?case using Cons.IH [of "if peso y < m then peso y else m" "q @ [Some y]"] by (simp add: queue_push_def)
qed simp

lemma foldl_peso:
  fixes m :: int
  defines "f \<equiv> \<lambda>m x. if m > peso x then peso x else m"
  shows "foldl f m xs \<le> m \<and> (\<forall>x \<in> set xs. foldl f m xs \<le> peso x)
    \<and> (foldl f m xs = m \<or> (\<exists>x \<in> set xs. foldl f m xs = peso x))"
proof (induction xs arbitrary: m)
  case (Cons y xs)
  have f: "f m y \<le> m" "f m y \<le> peso y" "f m y = m \<or> f m y = peso y" by (auto simp: f_def)
  then show ?case using Cons.IH [of "f m y"] by (simp del: f_def) (metis order_trans)
qed simp

lemma get_peso_min_eq:
  assumes "cola_new k = map Some xs" "xs = us @ p # vs"
    and "foldl (\<lambda>m x. if m > peso x then peso x else m) 1000000 xs = peso p" "\<And>x. x \<in> set us \<Longrightarrow> peso p \<noteq> peso x"
  shows "get_peso_min k = Inr (Some p, k\<lparr>cola_new := map Some (vs @ us)\<rparr>)"
proof -
  have "peso_minimo (length xs) 1000000 (map Some xs) = Inr (peso p, map Some xs)"
    using peso_minimo_eq [of xs 1000000 "[]"] assms(3) by simp
  moreover have "rotar_cola (length xs) (\<lambda>q. peso p = peso q) (map Some xs) = Inr (Some p, map Some (vs @ us))"
    using rotar_cola_Some [of us "\<lambda>q. peso p = peso q" p "length xs" "map Some vs"] assms(2,4) by simp
  ultimately show ?thesis using assms(1) by (simp add: get_peso_min_def)
qed

text \<open>
  C29. The long-term scheduler takes a process of least weight, and of those the oldest. The
  others stay in new, those that were before it now behind those after it. (The weights are
  at most the 1000000 that the search starts with.)
\<close>

theorem sjf:
  assumes "cola_new k = map Some xs" "xs \<noteq> []" "\<And>x. x \<in> set xs \<Longrightarrow> peso x \<le> 1000000"
  shows "\<exists>us p vs. xs = us @ p # vs \<and> (\<forall>x \<in> set xs. peso p \<le> peso x) \<and> (\<forall>x \<in> set us. peso p < peso x)
    \<and> new_ready k = Inr (push_ready (Some p) (k\<lparr>cola_new := map Some (vs @ us)\<rparr>))"
proof -
  define w where "w = foldl (\<lambda>m x. if m > peso x then peso x else m) 1000000 xs"
  note f = foldl_peso [where m = 1000000 and xs = xs, folded w_def]
  have "\<exists>x \<in> set xs. w = peso x"
  proof (cases "w = 1000000")
    case True
    then have "peso (hd xs) = w" using f assms(2,3) by (metis hd_in_set order_antisym)
    then show ?thesis using assms(2) hd_in_set by metis
  qed (use f in blast)
  then have "\<exists>x \<in> set xs. peso x = w" by auto
  then obtain us p vs where p: "xs = us @ p # vs" "peso p = w" "\<forall>x \<in> set us. peso x \<noteq> w"
    using split_list_first_prop [of xs "\<lambda>x. peso x = w"] by blast
  have "get_peso_min k = Inr (Some p, k\<lparr>cola_new := map Some (vs @ us)\<rparr>)"
    using assms(1) p by (intro get_peso_min_eq) (auto simp: w_def)
  then have "new_ready k = Inr (push_ready (Some p) (k\<lparr>cola_new := map Some (vs @ us)\<rparr>))"
    by (simp add: new_ready_def)
  moreover have "peso p < peso x" if "x \<in> set us" for x
  proof -
    have "x \<in> set xs" using p(1) that by simp
    then have "w \<le> peso x" "peso x \<noteq> w" using f p(3) that by blast+
    then show ?thesis using p(2) by linarith
  qed
  moreover have "\<forall>x \<in> set xs. peso p \<le> peso x" using f p(2) by simp
  ultimately show ?thesis using p(1) by (intro exI [of _ us] exI [of _ p] exI [of _ vs]) simp
qed

theorem sjf_testigo:
  "let p = pcb_ej 2 5 0 in
   new_ready (k_ej\<lparr>cola_new := [Some ((pcb_ej 1 4 0)\<lparr>peso := 8\<rparr>), Some p]\<rparr>)
     = Inr (push_ready (Some p) (k_ej\<lparr>cola_new := [Some ((pcb_ej 1 4 0)\<lparr>peso := 8\<rparr>)]\<rparr>))"
proof -
  let ?x = "(pcb_ej 1 4 0)\<lparr>peso := 8\<rparr>" and ?p = "pcb_ej 2 5 0"
  let ?k = "k_ej\<lparr>cola_new := [Some ?x, Some ?p]\<rparr>"
  obtain us p vs where s: "[?x, ?p] = us @ p # vs" "\<forall>x \<in> set [?x, ?p]. peso p \<le> peso x"
    "new_ready ?k = Inr (push_ready (Some p) (?k\<lparr>cola_new := map Some (vs @ us)\<rparr>))"
  proof -
    have "\<exists>us p vs. [?x, ?p] = us @ p # vs \<and> (\<forall>x \<in> set [?x, ?p]. peso p \<le> peso x)
        \<and> (\<forall>x \<in> set us. peso p < peso x)
        \<and> new_ready ?k = Inr (push_ready (Some p) (?k\<lparr>cola_new := map Some (vs @ us)\<rparr>))"
      by (rule sjf) auto
    then show thesis using that by blast
  qed
  have "us = [?x] \<and> p = ?p \<and> vs = []"
    using s(1,2) by (auto simp: Cons_eq_append_conv append_eq_Cons_conv)
  then show ?thesis using s(3) by simp
qed

text \<open>
  When every waiting process weighs more than the 1000000 that the search starts with, the
  scheduler takes none of them, although it has used up a place and a token for it: they wait
  for ever.
\<close>

theorem peso_excesivo:
  assumes "cola_new k = map Some xs" "\<And>x. x \<in> set xs \<Longrightarrow> 1000000 < peso x"
  shows "new_ready k = Inr k"
proof -
  define w where "w = foldl (\<lambda>m x. if m > peso x then peso x else m) 1000000 xs"
  have "w = 1000000" using foldl_peso [where m = 1000000 and xs = xs, folded w_def] assms(2) by force
  then have "peso_minimo (length xs) 1000000 (map Some xs) = Inr (1000000, map Some xs)"
    using peso_minimo_eq [of xs 1000000 "[]"] by (simp add: w_def)
  moreover have "rotar_cola (length xs) (\<lambda>p. 1000000 = peso p) (map Some xs) = Inr (None, map Some xs)"
    using rotar_cola_None [of xs "\<lambda>p. 1000000 = peso p" "[]"] assms(2) by fastforce
  ultimately show ?thesis using assms(1) by (simp add: new_ready_def get_peso_min_def)
qed

theorem peso_excesivo_testigo:
  "let k = k_ej\<lparr>cola_new := [Some ((pcb_ej 1 4 0)\<lparr>peso := 1000001\<rparr>)]\<rparr> in new_ready k = Inr k"
  using peso_excesivo [of "k_ej\<lparr>cola_new := [Some ((pcb_ej 1 4 0)\<lparr>peso := 1000001\<rparr>)]\<rparr>"
      "[(pcb_ej 1 4 0)\<lparr>peso := 1000001\<rparr>]"] by simp

end
