(* ===== verification/Kernel_Turnos.thy ===== *)
theory Kernel_Turnos
  imports Kernel_Prop
begin

text \<open>
  The turns of the CPUs: a process that runs and comes back, ends, blocks or is lost, and the
  shared variables and semaphores that it uses on the way.
\<close>

section \<open>A running process\<close>

text \<open>The CPU \<open>c\<close> behind socket \<open>soc\<close> runs \<open>p\<close>; the lists are split at the first matches.\<close>

definition ejecuta ::
  "kernel \<Rightarrow> int \<Rightarrow> t_cpu list \<Rightarrow> t_cpu \<Rightarrow> t_cpu list \<Rightarrow> t_pcb_otros list \<Rightarrow> t_pcb_otros
     \<Rightarrow> t_pcb_otros list \<Rightarrow> bool" where
  "ejecuta k soc cs c ds us p vs \<longleftrightarrow> lista_cpu k = cs @ c # ds \<and> soc_cpu c = soc
     \<and> (\<forall>x \<in> set cs. soc_cpu x \<noteq> soc) \<and> cola_exec k = map Some us @ Some p # map Some vs
     \<and> pid p = id_prog_exec c \<and> (\<forall>x \<in> set us. pid x \<noteq> id_prog_exec c)"

lemma remove_primero:
  "(\<And>x. x \<in> set xs \<Longrightarrow> \<not> f x) \<Longrightarrow> f y \<Longrightarrow> list_remove_by_condition f (xs @ y # ys) = (Some y, xs @ ys)"
  by (induction xs) auto

lemma ejecuta_cpu:
  "ejecuta k soc cs c ds us p vs \<Longrightarrow>
     get_cpu_soc_cpu_remove soc k = (Some c, k\<lparr>lista_cpu := cs @ ds\<rparr>)"
  by (simp add: ejecuta_def get_cpu_soc_cpu_remove_def remove_primero)

lemma ejecuta_pcb:
  assumes "ejecuta k soc cs c ds us p vs" "cola_exec k' = cola_exec k"
  shows "get_pcb_otros_exec (id_prog_exec c) k' = Inr (Some p, k'\<lparr>cola_exec := map Some (vs @ us)\<rparr>)"
proof -
  have e: "cola_exec k' = map Some us @ Some p # map Some vs" "pid p = id_prog_exec c"
    "\<And>x. x \<in> set us \<Longrightarrow> pid x \<noteq> id_prog_exec c"
    using assms by (auto simp: ejecuta_def)
  have "rotar_cola (length (cola_exec k')) (\<lambda>q. pid q = id_prog_exec c) (cola_exec k')
      = Inr (Some p, map Some vs @ map Some us)"
    unfolding e(1) using e(2,3) by (intro rotar_cola_Some) auto
  then show ?thesis by (simp add: get_pcb_otros_exec_def)
qed

definition k_turno :: kernel where
  "k_turno = k_ej\<lparr>cola_ready := [Some (pcb_ej 2 5 0)], cola_exec := [Some (pcb_ej 1 4 0)],
     lista_cpu := [\<lparr>soc_cpu = 9, soc_prog = 4, id_prog_exec = 1\<rparr>], cant_ready := 1\<rparr>"

lemma ejecuta_k_turno:
  "ejecuta k_turno 9 [] \<lparr>soc_cpu = 9, soc_prog = 4, id_prog_exec = 1\<rparr> [] [] (pcb_ej 1 4 0) []"
  by (simp add: ejecuta_def k_turno_def)

section \<open>Round robin\<close>

text \<open>
  C17. At the end of a turn the process goes to the tail of ready with the context, the stack
  position and the program counter that the CPU sends (the kernel keeps its own copy of the
  other fields), and the CPU goes to the tail of the list as free.
\<close>

theorem round_robin:
  assumes "ejecuta k soc cs c ds us p vs" "tam_dato men \<noteq> 1"
  shows "fin_quantum soc men (Inr m) k = Inr (k\<lparr>
      lista_cpu := cs @ ds @ [c\<lparr>id_prog_exec := 0, soc_prog := 0\<rparr>],
      cant_cpu_libres := Suc (cant_cpu_libres k), cola_exec := map Some (vs @ us),
      cola_ready := cola_ready k @ [Some (p\<lparr>po_pcb := (po_pcb p)\<lparr>
        cant_var_cont_actual := cant_var_cont_actual (mq_pcb m),
        dir_cont_actual := dir_cont_actual (mq_pcb m),
        program_counter := program_counter (mq_pcb m)\<rparr>\<rparr>)],
      cant_ready := Suc (cant_ready k)\<rparr>)"
  using assms ejecuta_cpu [OF assms(1)] ejecuta_pcb [OF assms(1), of "k\<lparr>lista_cpu := cs @ ds\<rparr>"]
  by (simp add: fin_quantum_def recv_actualizar_pcb_def liberar_cpu_def push_ready_def
      queue_push_def sem_incre_def)

theorem round_robin_testigo:
  "\<exists>k'. fin_quantum 9 cierre_ej (Inr \<lparr>mq_tipo = 68, mq_quantum = 0, mq_pcb = po_pcb (pcb_ej 1 4 3)\<rparr>) k_turno
      = Inr k' \<and> cola_ready k' = [Some (pcb_ej 2 5 0), Some (pcb_ej 1 4 3)]"
  using round_robin [OF ejecuta_k_turno, of cierre_ej
      "\<lparr>mq_tipo = 68, mq_quantum = 0, mq_pcb = po_pcb (pcb_ej 1 4 3)\<rparr>"]
  by (simp add: cierre_ej_def k_turno_def pcb_ej_def)

text \<open>
  When the CPU announces that it goes away, its process returns to ready as it was before
  the turn, whatever pcb the CPU sends: the turn is forgotten and its instructions run again.
\<close>

theorem turno_olvidado:
  assumes "ejecuta k soc cs c ds us p vs" "tam_dato men = 1"
  shows "fin_quantum soc men recibido k = Inr (k\<lparr>lista_cpu := cs @ ds,
      conj_soc_cpus := conj_soc_cpus k - {soc}, salida := salida k @ [Cierra soc],
      cola_exec := map Some (vs @ us), cola_ready := cola_ready k @ [Some p],
      cant_ready := Suc (cant_ready k)\<rparr>)"
proof -
  let ?k = "k\<lparr>lista_cpu := cs @ ds, conj_soc_cpus := conj_soc_cpus k - {soc},
    salida := salida k @ [Cierra soc]\<rparr>"
  show ?thesis
    using assms ejecuta_cpu [OF assms(1)] ejecuta_pcb [OF assms(1), of ?k]
    by (simp add: fin_quantum_def push_ready_def queue_push_def sem_incre_def socket_cerrar_def)
qed

theorem turno_olvidado_testigo:
  "\<exists>k'. fin_quantum 9 (cierre_ej\<lparr>tam_dato := 1\<rparr>) (Inr \<lparr>mq_tipo = 68, mq_quantum = 0,
        mq_pcb = po_pcb (pcb_ej 1 4 3)\<rparr>) k_turno = Inr k'
     \<and> cola_ready k' = [Some (pcb_ej 2 5 0), Some (pcb_ej 1 4 0)]"
  using turno_olvidado [OF ejecuta_k_turno, of "cierre_ej\<lparr>tam_dato := 1\<rparr>"
      "Inr \<lparr>mq_tipo = 68, mq_quantum = 0, mq_pcb = po_pcb (pcb_ej 1 4 3)\<rparr>"]
  by (simp add: k_turno_def)

section \<open>The end of a process\<close>



text \<open>
  The end of a process is handled in two critical sections. When its program closes the
  connection between them, the process has gone to exit and the CPU is in no list: the handler
  goes on with a null pointer and the kernel ends.
\<close>

theorem carrera_fin_cierre:
  "\<exists>c k1 k2. fin_ejecucion_cpu 9 k_turno = (Some c, k1) \<and> administrar_prog_cerrado 4 k1 = Inr k2
     \<and> fin_ejecucion_pcb 24 (Some c) k2 = Inl Puntero_Nulo
     \<and> (\<exists>k'. fin_ejecucion 24 9 k_turno = Inr k')"
  by (simp add: k_turno_def k_ej_def evaluar fin_ejecucion_def fin_ejecucion_cpu_def
      fin_ejecucion_pcb_def get_cpu_soc_cpu_remove_def get_pcb_otros_exec_def)

section \<open>CPUs that go away\<close>

text \<open>
  A free CPU that closes its connection blocks the kernel when the dispatcher has already
  reserved the last free CPU: the handler waits on the semaphore of free CPUs while it holds
  the lock of the list that the dispatcher needs next.
\<close>

theorem cierre_cpu_bloquea:
  assumes "corre itoa srv meta conf (s, u)" "pc_ready_exec s = 2" "libres (ker s) = 1"
    "get_cpu soc (ker s) = Some c" "id_prog_exec c = 0"
  shows "conec_cerrada_cpu soc (ker s) = Inl Bloqueado"
proof -
  have "cant_cpu_libres (ker s) = 0" using corre_inv [OF assms(1)] assms(2,3) by (simp add: sis_inv_def)
  moreover obtain c' k1 where c: "get_cpu_soc_cpu_remove soc (ker s) = (c', k1)" by fastforce
  moreover have "c' = Some c" "cant_cpu_libres k1 = cant_cpu_libres (ker s)"
    using get_cpu_remove_Inr [OF c] assms(4) by auto
  ultimately show ?thesis
    using assms(5) by (simp add: conec_cerrada_cpu_def socket_cerrar_def sem_decre_def)
qed

theorem cierre_cpu_bloquea_testigo: "conec_cerrada_cpu 9 (ker s_antes) = Inl Bloqueado"
  by (rule cierre_cpu_bloquea [OF corre_s_antes, where c = "\<lparr>soc_cpu = 9, soc_prog = 0, id_prog_exec = 0\<rparr>"])
     (simp_all add: s_antes_def libres_def get_cpu_def)

text \<open>
  When the process that the dispatcher has a token for has left ready (its program closed
  the connection), the dispatcher takes a free CPU off the list all the same and does not put
  it back: the CPU stays connected and never gets work again.
\<close>

theorem cpu_perdida:
  assumes "cola_ready k = []" "0 < libres k"
  shows "\<exists>cpu k'. ready_exec k = Inr k' \<and> cpu \<in> set (lista_cpu k) \<and> id_prog_exec cpu = 0
    \<and> mset (lista_cpu k) = add_mset cpu (mset (lista_cpu k')) \<and> salida k' = salida k"
proof -
  obtain r l where r: "list_remove_by_condition (\<lambda>c. id_prog_exec c = 0) (lista_cpu k) = (r, l)" by fastforce
  have "r \<noteq> None"
    using remove_None_iff [of "\<lambda>c. id_prog_exec c = 0" "lista_cpu k"] r assms(2)
    by (auto simp: libres_def filter_empty_conv)
  then obtain cpu where cpu: "r = Some cpu" by blast
  have m: "id_prog_exec cpu = 0 \<and> mset (lista_cpu k) = add_mset cpu (mset l)"
    using remove_Some_mset [of "\<lambda>c. id_prog_exec c = 0"] r cpu by simp
  then have "cpu \<in># mset (lista_cpu k)" by simp
  then have "cpu \<in> set (lista_cpu k)" by simp
  moreover note m
  moreover have "ready_exec k = Inr (k\<lparr>lista_cpu := l, cola_ready := []\<rparr>)"
    using assms(1) r by (simp add: ready_exec_def get_cpu_libre_remove_def queue_pop_pcb_def)
  ultimately show ?thesis by (intro exI [of _ cpu] exI [of _ "k\<lparr>lista_cpu := l, cola_ready := []\<rparr>"]) simp
qed

theorem cpu_perdida_testigo:
  "\<exists>k1 k'. administrar_prog_cerrado 4 (ker s_antes) = Inr k1 \<and> ready_exec k1 = Inr k' \<and> lista_cpu k' = []"
proof -
  obtain k1 where k1: "administrar_prog_cerrado 4 (ker s_antes) = Inr k1" "cola_ready k1 = []"
    "lista_cpu k1 = [\<lparr>soc_cpu = 9, soc_prog = 0, id_prog_exec = 0\<rparr>]"
    by (simp add: s_antes_def k_ej_def evaluar)
  then have "0 < libres k1" by (simp add: libres_def)
  from cpu_perdida [OF k1(2) this] k1 show ?thesis by auto
qed

end
