(* ===== verification/Kernel_Semaforos.thy ===== *)
theory Kernel_Semaforos
  imports Kernel_Turnos
begin

text \<open>
  The semaphores that the kernel keeps for the programs: who changes them, and what holds of
  them in every run.
\<close>

section \<open>Who changes the semaphores\<close>

lemma get_pcb_sem: "get_pcb_otros_exec i k = Inr (r, k1) \<Longrightarrow> dicc_sem k1 = dicc_sem k"
  by (auto dest!: get_pcb_otros_exec_Inr)

lemma get_cpu_sem: "get_cpu_soc_cpu_remove soc k = (c, k1) \<Longrightarrow> dicc_sem k1 = dicc_sem k"
  by (auto dest!: get_cpu_remove_Inr)

lemma enviar_sem: "enviar_comun soc t b n k = Inr k' \<Longrightarrow> dicc_sem k' = dicc_sem k"
  by (auto dest!: enviar_comun_Inr)

lemma nucleo_sem [simp]:
  "dicc_sem (push_ready p k) = dicc_sem k" "dicc_sem (pasar_pcb_exit p k) = dicc_sem k"
  "dicc_sem (liberar_cpu c k) = dicc_sem k" "dicc_sem (socket_cerrar soc k) = dicc_sem k"
  by (simp_all add: push_ready_def pasar_pcb_exit_def liberar_cpu_def socket_cerrar_def split: option.splits)

lemma actualizar_sem:
  assumes "actualizar_pcb_y_bloq c rec cer k = Inr (i, k')"
  shows "dicc_sem k' = dicc_sem k"
proof -
  obtain r k1 where g: "get_pcb_otros_exec (id_prog_exec c) k = Inr (r, k1)"
    using assms unfolding actualizar_pcb_y_bloq_def bindE_eq_Inr by auto
  moreover from this obtain p p' where "r = Some p" "recv_actualizar_pcb rec p = Inr p'"
    using assms by (cases r) (auto simp: actualizar_pcb_y_bloq_def bindE_eq_Inr)
  ultimately show ?thesis
    using assms get_pcb_sem [OF g] by (auto simp: actualizar_pcb_y_bloq_def Let_def)
qed

lemma llamada_erronea_sem: "llamada_erronea soc t k = Inr k' \<Longrightarrow> dicc_sem k' = dicc_sem k"
  by (auto simp: llamada_erronea_def bindE_eq_Inr dest!: get_pcb_sem get_cpu_sem enviar_sem
      split: prod.splits)

lemma fin_ejecucion_sem: "fin_ejecucion t soc k = Inr k' \<Longrightarrow> dicc_sem k' = dicc_sem k"
  by (auto simp: fin_ejecucion_def fin_ejecucion_cpu_def fin_ejecucion_pcb_def bindE_eq_Inr
      dest!: get_pcb_sem get_cpu_sem split: prod.splits)

lemma fin_quantum_sem: "fin_quantum soc men rec k = Inr k' \<Longrightarrow> dicc_sem k' = dicc_sem k"
  by (auto simp: fin_quantum_def bindE_eq_Inr Let_def dest!: get_pcb_sem get_cpu_sem
      split: prod.splits if_splits)

lemma conec_cerrada_sem: "conec_cerrada_cpu soc k = Inr k' \<Longrightarrow> dicc_sem k' = dicc_sem k"
  by (auto simp: conec_cerrada_cpu_def bindE_eq_Inr Let_def dest!: get_pcb_sem get_cpu_sem
      split: prod.splits if_splits)

lemma pasar_block_sem: "pasar_pcbBlock_ready i k = Inr k' \<Longrightarrow> dicc_sem k' = dicc_sem k"
  by (auto simp: pasar_pcbBlock_ready_def bindE_eq_Inr split: option.splits)

lemma enviar_IO_sem: "enviar_IO soc men men2 rec cer k = Inr k' \<Longrightarrow> dicc_sem k' = dicc_sem k"
  by (auto simp: enviar_IO_def bindE_eq_Inr Let_def dest!: actualizar_sem get_cpu_sem
      split: prod.splits)

lemma imprimir_sem:
  "imprimir_texto soc men k = Inr k' \<Longrightarrow> dicc_sem k' = dicc_sem k"
  "imprimir_valor soc men k = Inr k' \<Longrightarrow> dicc_sem k' = dicc_sem k"
  by (auto simp: imprimir_texto_def imprimir_valor_def bindE_eq_Inr dest!: enviar_sem enviar_Inr)

lemma compartida_sem:
  "obtener_valor_compartida itoa soc men k = Inr k' \<Longrightarrow> dicc_sem k' = dicc_sem k"
  "grabar_valor_compartida soc men men2 k = Inr k' \<Longrightarrow> dicc_sem k' = dicc_sem k"
  by (auto simp: obtener_valor_compartida_def grabar_valor_compartida_def bindE_eq_Inr Let_def
      dest!: enviar_sem llamada_erronea_sem split: option.splits)

lemma mover_sem: "mover_pcb_exit soc k = Inr k' \<Longrightarrow> dicc_sem k' = dicc_sem k"
  by (auto simp: mover_pcb_exit_def bindE_eq_Inr Let_def)

lemma prog_cerrado_sem:
  assumes "administrar_prog_cerrado soc k = Inr k'"
  shows "dicc_sem k' = dicc_sem k"
proof -
  obtain k1 where k1: "mover_pcb_exit soc (k\<lparr>conj_soc_progs := conj_soc_progs k - {soc}\<rparr>) = Inr k1"
    using assms unfolding administrar_prog_cerrado_def bindE_eq_Inr by blast
  obtain r l where r: "list_remove_by_condition (\<lambda>c. soc_prog c = soc) (lista_cpu k1) = (r, l)" by fastforce
  have "dicc_sem k' = dicc_sem k1"
    using assms k1 r by (cases r) (auto simp: administrar_prog_cerrado_def)
  then show ?thesis using mover_sem [OF k1] by simp
qed

lemma new_script_sem:
  assumes "administrar_new_script itoa srv meta b soc men (k, u) = Inr (k', u')"
  shows "dicc_sem k' = dicc_sem k"
proof -
  let ?k = "k\<lparr>contador_programa := i32 (contador_programa k + 1)\<rparr>"
  obtain r u1 where r: "solicitar_mem srv (meta (dato men)) (contador_programa ?k) (tamanio_stack ?k) men u = Inr (r, u1)"
    using assms by (auto simp: administrar_new_script_def bindE_eq_Inr Let_def)
  show ?thesis
    using assms r by (cases r) (auto simp: administrar_new_script_def bindE_eq_Inr Let_def dest!: enviar_sem)
qed

lemma administrar_men_progs_sem:
  "administrar_men_progs itoa srv meta b soc men (k, u) = Inr (k', u') \<Longrightarrow> dicc_sem k' = dicc_sem k"
  using prog_cerrado_sem new_script_sem
  by (fastforce simp: administrar_men_progs_def bindE_eq_Inr split: if_splits)

section \<open>The waiting processes\<close>

text \<open>A semaphore below zero owes as many processes as wait in its queue.\<close>

definition sem_ok :: "(byte list \<rightharpoonup> t_semaforo) \<Rightarrow> bool" where
  "sem_ok d \<longleftrightarrow> (\<forall>key s. d key = Some s \<longrightarrow> length (procesos s) = nat (- valor s))"

lemma sem_ok_upd: "sem_ok d \<Longrightarrow> length (procesos s) = nat (- valor s) \<Longrightarrow> sem_ok (d(key \<mapsto> s))"
  by (simp add: sem_ok_def)

lemma wait_sem:
  assumes "wait soc men rec cer k = Inr k'" "sem_ok (dicc_sem k)"
  shows "sem_ok (dicc_sem k')"
proof -
  obtain key where key: "cadena (dato men) = Inr key"
    using assms(1) by (auto simp: wait_def bindE_eq_Inr)
  show ?thesis
  proof (cases "dicc_sem k key")
    case None
    then show ?thesis using assms key llamada_erronea_sem by (fastforce simp add: wait_def)
  next
    case (Some sem)
    then have n: "length (procesos sem) = nat (- valor sem)" using assms(2) by (simp add: sem_ok_def)
    let ?k1 = "k\<lparr>dicc_sem := (dicc_sem k)(key \<mapsto> sem\<lparr>valor := valor sem - 1\<rparr>)\<rparr>"
    show ?thesis
    proof (cases "valor sem > 0")
      case True
      then have "enviar_comun soc (codigo SEM_OK) [] 0 ?k1 = Inr k'"
        using assms(1) key Some by (simp add: wait_def)
      from enviar_sem [OF this] show ?thesis using True n assms(2) by (simp add: sem_ok_upd)
    next
      case False
      obtain c k2 where c: "get_cpu_soc_cpu_remove soc ?k1 = (c, k2)" by fastforce
      then obtain k3 cpu i k4 where w: "enviar_comun soc (codigo SEM_BLOQUEADO) [] 0 k2 = Inr k3"
        "actualizar_pcb_y_bloq cpu rec cer k3 = Inr (i, k4)"
        and k': "k' = k4\<lparr>dicc_sem := (dicc_sem k4)(key \<mapsto> sem\<lparr>valor := valor sem - 1,
          procesos := queue_push (procesos sem) i\<rparr>)\<rparr>"
        using assms(1) key Some False
        by (auto simp: wait_def bindE_eq_Inr Let_def no_nulo_def split: option.splits)
      then have "dicc_sem k4 = (dicc_sem k)(key \<mapsto> sem\<lparr>valor := valor sem - 1\<rparr>)"
        using get_cpu_sem [OF c] enviar_sem [OF w(1)] actualizar_sem [OF w(2)] by simp
      then show ?thesis using k' n False assms(2) by (simp add: sem_ok_upd queue_push_def)
    qed
  qed
qed

lemma signal_sem:
  assumes "signal soc men k = Inr k'" "sem_ok (dicc_sem k)"
  shows "sem_ok (dicc_sem k')"
proof -
  obtain key where key: "cadena (dato men) = Inr key"
    using assms(1) by (auto simp: signal_def bindE_eq_Inr)
  show ?thesis
  proof (cases "dicc_sem k key")
    case None
    then show ?thesis using assms key llamada_erronea_sem by (fastforce simp add: signal_def)
  next
    case (Some sem)
    then have n: "length (procesos sem) = nat (- valor sem)" using assms(2) by (simp add: sem_ok_def)
    let ?k = "\<lambda>s. k\<lparr>dicc_sem := (dicc_sem k)(key \<mapsto> s)\<rparr>"
    obtain k1 where k1: "(case queue_pop (procesos sem) of
        (None, _) \<Rightarrow> Inr (?k (sem\<lparr>valor := valor sem + 1\<rparr>))
      | (Some i, q) \<Rightarrow> pasar_pcbBlock_ready i (?k (sem\<lparr>valor := valor sem + 1, procesos := q\<rparr>))) = Inr k1"
      "enviar_comun soc (codigo SEM_OK) [] 0 k1 = Inr k'"
      using assms(1) key Some by (auto simp: signal_def bindE_eq_Inr Let_def)
    have "sem_ok (dicc_sem k1)"
    proof (cases "procesos sem")
      case Nil
      then show ?thesis using k1(1) n assms(2) by (auto intro!: sem_ok_upd)
    next
      case (Cons i q)
      then have "dicc_sem k1 = (dicc_sem k)(key \<mapsto> sem\<lparr>valor := valor sem + 1, procesos := q\<rparr>)"
        using k1(1) by (auto dest: pasar_block_sem)
      moreover have "length q = nat (- (valor sem + 1))" using n Cons by simp
      ultimately show ?thesis using assms(2) by (simp add: sem_ok_upd)
    qed
    then show ?thesis using enviar_sem [OF k1(2)] by simp
  qed
qed

lemma administrar_men_cpus_sem:
  assumes "administrar_men_cpus itoa soc men men2 rec cer k = Inr k'" "sem_ok (dicc_sem k)"
  shows "sem_ok (dicc_sem k')"
proof -
  have "sem_ok (dicc_sem k')" if "dicc_sem k' = dicc_sem k" using that assms(2) by simp
  then show ?thesis
    using assms(1) wait_sem [OF _ assms(2)] signal_sem [OF _ assms(2)] conec_cerrada_sem
      fin_quantum_sem fin_ejecucion_sem imprimir_sem compartida_sem enviar_IO_sem
    unfolding administrar_men_cpus_def by (auto split: if_splits)
qed

section \<open>Every run\<close>

lemma nucleo_hilos_sem:
  "new_ready k = Inr k' \<Longrightarrow> dicc_sem k' = dicc_sem k"
  "ready_exec k = Inr k' \<Longrightarrow> dicc_sem k' = dicc_sem k"
  "sale_exit srv (k, u) = Inr (k', u') \<Longrightarrow> dicc_sem k' = dicc_sem k"
  by (auto simp: new_ready_def get_peso_min_def ready_exec_def get_cpu_libre_remove_def sale_exit_def
      enviar_cpu_pcb_def enviar_def bindE_eq_Inr Let_def dest!: enviar_sem
      split: prod.splits option.splits if_splits)

lemma menu_imp_sem: "menu_imp ord k = Inr k' \<Longrightarrow> dicc_sem k' = dicc_sem k"
  by (cases ord) (auto simp: cambiar_multiprog_def bindE_eq_Inr Let_def dest!: imp_colas_estado split: if_splits)

lemma ingresar_sem:
  "ingresar_new_cpu soc k = Inr k' \<Longrightarrow> dicc_sem k' = dicc_sem k"
  "ingresar_nuevo_programa soc k = Inr k' \<Longrightarrow> dicc_sem k' = dicc_sem k"
  by (auto simp: ingresar_new_cpu_def ingresar_nuevo_programa_def handshake_cpu_def handshake_prog_def
      bindE_eq_Inr Let_def dest!: enviar_sem)

lemma hilos_sem:
  "manejador_new_ready s = Inr s' \<Longrightarrow> dicc_sem (ker s') = dicc_sem (ker s)"
  "manejador_ready_exec s = Inr s' \<Longrightarrow> dicc_sem (ker s') = dicc_sem (ker s)"
  "manejador_exit srv (s, u) = Inr (s', u') \<Longrightarrow> dicc_sem (ker s') = dicc_sem (ker s)"
  by (auto simp: manejador_new_ready_def manejador_ready_exec_def manejador_exit_def
      bindE_eq_Inr dest!: nucleo_hilos_sem split: if_splits)

lemma manejador_IO_sem:
  assumes "manejador_IO key s = Inr s'"
  shows "dicc_sem (ker s') = dicc_sem (ker s)"
proof -
  obtain io where io: "no_nulo (dicc_disp_io (ker s) key) = Inr io"
    using assms by (auto simp: manejador_IO_def bindE_eq_Inr)
  obtain r q where q: "queue_pop (io_procesos io) = (r, q)" by fastforce
  show ?thesis
    using assms io q by (cases "io_actual s key") (auto simp: manejador_IO_def bindE_eq_Inr dest!: pasar_block_sem)
qed

lemma paso_kernel_sem:
  assumes "paso_kernel itoa srv meta ev (s, u) = Inr (s', u')" "sem_ok (dicc_sem (ker s))"
  shows "sem_ok (dicc_sem (ker s'))"
proof (cases ev)
  case (Men_CPU soc men men2 rec cer)
  then show ?thesis
    using assms administrar_men_cpus_sem by (auto simp: en_kernel_def bindE_eq_Inr)
next
  case (Men_Prog b soc men)
  then obtain k where "administrar_men_progs itoa srv meta b soc men (ker s, u) = Inr (k, u')" "ker s' = k"
    using assms(1) by (auto simp: bindE_eq_Inr)
  from administrar_men_progs_sem [OF this(1)] this(2) show ?thesis using assms(2) by simp
qed (use assms in \<open>auto simp: en_kernel_def en_sistema_def bindE_eq_Inr
      dest!: hilos_sem manejador_IO_sem ingresar_sem menu_imp_sem\<close>)

lemma crear_dicc_sem:
  assumes "crear_dicc (\<lambda>n. \<lparr>valor = n, procesos = []\<rparr>) ks vs d = Inr d'" "sem_ok d"
    "\<And>v n. v \<in> set vs \<Longrightarrow> atoi (v @ [0]) = Inr n \<Longrightarrow> 0 \<le> n"
  shows "sem_ok d'"
  using assms
proof (induction ks arbitrary: vs d)
  case (Cons j ks)
  then obtain v ws n where "vs = v # ws" "atoi (v @ [0]) = Inr n"
    "crear_dicc (\<lambda>n. \<lparr>valor = n, procesos = []\<rparr>) ks ws (d(j \<mapsto> \<lparr>valor = n, procesos = []\<rparr>)) = Inr d'"
    by (cases vs) (auto simp: bindE_eq_Inr)
  moreover from this have "0 \<le> n" using Cons.prems(3) [of v n] by simp
  moreover have "\<And>v n. v \<in> set ws \<Longrightarrow> atoi (v @ [0]) = Inr n \<Longrightarrow> 0 \<le> n"
    using Cons.prems(3) \<open>vs = v # ws\<close> by auto
  moreover have "sem_ok (d(j \<mapsto> \<lparr>valor = n, procesos = []\<rparr>))"
    using Cons.prems(2) \<open>0 \<le> n\<close> by (simp add: sem_ok_upd)
  ultimately show ?case using Cons.IH by blast
qed simp

lemma corre_sem:
  assumes "corre itoa srv meta c su"
    "\<And>v n. v \<in> set (VALOR_SEMAFORO c) \<Longrightarrow> atoi (v @ [0]) = Inr n \<Longrightarrow> 0 \<le> n"
  shows "sem_ok (dicc_sem (ker (fst su)))"
  using assms(1)
proof (induction rule: corre.induct)
  case (arranca k u)
  then obtain sems where "crear_dicc (\<lambda>n. \<lparr>valor = n, procesos = []\<rparr>) (SEMAFOROS c) (VALOR_SEMAFORO c) Map.empty
      = Inr sems" "dicc_sem k = sems"
    by (auto simp: levantar_config_def bindE_eq_Inr)
  from crear_dicc_sem [OF this(1) _ assms(2)] this(2)
  show ?case by (simp add: sem_ok_def sistema_inicial_def crear_inicializar_estructuras_def)
next
  case (avanza su ev su')
  then show ?case using paso_kernel_sem [of itoa srv meta ev "fst su" "snd su" "fst su'" "snd su'"] by simp
qed

end
