(* ===== verification/Kernel_Recursos.thy ===== *)
theory Kernel_Recursos
  imports Kernel_Semaforos
begin

text \<open>
  The properties of what the programs share through the kernel: semaphores, variables and the
  degree of multiprogramming.
\<close>

section \<open>Semaphores\<close>


lemma c_ej_sem: "v \<in> set (VALOR_SEMAFORO c_ej) \<Longrightarrow> atoi (v @ [0]) = Inr n \<Longrightarrow> 0 \<le> n"
  by (simp add: c_ej_def atoi_def es_espacio_def es_digito_def a_int_def i32_id_bounds)


text \<open>A process that waits in block, as the search from the head finds it.\<close>

definition espera_en ::
  "kernel \<Rightarrow> t_pcb_otros list \<Rightarrow> t_pcb_otros \<Rightarrow> t_pcb_otros list \<Rightarrow> bool" where
  "espera_en k us p vs \<longleftrightarrow> cola_block k = map Some us @ Some p # map Some vs
     \<and> (\<forall>x \<in> set us. pid x \<noteq> pid p)"

lemma pasar_block_ready_Some:
  assumes "espera_en k us p vs"
  shows "pasar_pcbBlock_ready (pid p) k = Inr (push_ready (Some p) (k\<lparr>cola_block := map Some (vs @ us)\<rparr>))"
proof -
  have b: "cola_block k = map Some us @ Some p # map Some vs" "\<And>x. x \<in> set us \<Longrightarrow> pid x \<noteq> pid p"
    using assms by (auto simp: espera_en_def)
  have "rotar_cola (length (cola_block k)) (\<lambda>q. pid q = pid p) (cola_block k) = Inr (Some p, map Some vs @ map Some us)"
    unfolding b(1) using b(2) by (intro rotar_cola_Some) auto
  then show ?thesis by (simp add: pasar_pcbBlock_ready_def)
qed

lemma pasar_block_ready_None:
  assumes "cola_block k = map Some xs" "\<And>x. x \<in> set xs \<Longrightarrow> pid x \<noteq> i"
  shows "pasar_pcbBlock_ready i k = Inr k"
  using rotar_cola_None [of xs "\<lambda>q. pid q = i" "[]"] assms by (simp add: pasar_pcbBlock_ready_def)

text \<open>
  C30. A signal wakes the process that has waited longest: it leaves block for the tail of
  ready, where the dispatcher's semaphore counts it, and the CPU that signalled goes on.
\<close>

theorem signal_despierta:
  assumes "espera_en k us p vs" "dicc_sem k key = Some sem" "procesos sem = pid p # q"
    "soc \<notin> rotos k" "cadena (dato men) = Inr key"
  shows "signal soc men k = Inr (k\<lparr>
      dicc_sem := (dicc_sem k)(key \<mapsto> \<lparr>valor = valor sem + 1, procesos = q\<rparr>),
      cola_block := map Some (vs @ us), cola_ready := cola_ready k @ [Some p],
      cant_ready := Suc (cant_ready k),
      salida := salida k @ [Envia soc (Men_Comun \<lparr>tam_dato = 0, tipo = codigo SEM_OK, dato = []\<rparr>)]\<rparr>)"
proof -
  let ?sem = "\<lparr>valor = valor sem + 1, procesos = q\<rparr>"
  let ?k = "k\<lparr>dicc_sem := (dicc_sem k)(key \<mapsto> ?sem)\<rparr>"
  have "pasar_pcbBlock_ready (pid p) ?k = Inr (push_ready (Some p) (?k\<lparr>cola_block := map Some (vs @ us)\<rparr>))"
    using assms(1) by (intro pasar_block_ready_Some) (simp add: espera_en_def)
  then show ?thesis
    using assms(2-5)
    by (cases sem) (simp add: signal_def Let_def push_ready_def queue_push_def sem_incre_def enviar_comun_def
        crear_men_comun_def leer_def enviar_def)
qed

definition k_bloq :: kernel where
  "k_bloq = k_ej\<lparr>cola_block := [Some (pcb_ej 1 4 0), Some (pcb_ej 2 5 0)],
     dicc_sem := [[83] \<mapsto> \<lparr>valor = -2, procesos = [2, 1]\<rparr>]\<rparr>"

definition men_sem :: t_men_comun where
  "men_sem = \<lparr>tam_dato = 2, tipo = 72, dato = [83, 0]\<rparr>"

lemma men_sem_clave: "cadena (dato men_sem) = Inr [83]"
  by (simp add: men_sem_def cadena_def)

theorem signal_despierta_testigo:
  "\<exists>k'. signal 9 men_sem k_bloq = Inr k' \<and> cola_ready k' = [Some (pcb_ej 2 5 0)]
     \<and> cola_block k' = [Some (pcb_ej 1 4 0)]"
proof -
  have "espera_en k_bloq [pcb_ej 1 4 0] (pcb_ej 2 5 0) []"
    "dicc_sem k_bloq [83] = Some \<lparr>valor = -2, procesos = [2, 1]\<rparr>" "9 \<notin> rotos k_bloq"
    by (simp_all add: espera_en_def k_bloq_def k_ej_def)
  from signal_despierta [OF this(1,2) _ this(3) men_sem_clave] show ?thesis
    by (simp add: k_bloq_def k_ej_def)
qed

text \<open>
  A signal can be lost: when the process that has waited longest is dead (its program
  closed the connection), the signal uses up the wake-up, and no other process moves although
  they wait for the same semaphore.
\<close>

theorem despertar_perdido:
  assumes "cola_block k = map Some xs" "\<And>x. x \<in> set xs \<Longrightarrow> pid x \<noteq> i"
    "dicc_sem k key = Some sem" "procesos sem = i # q" "soc \<notin> rotos k" "cadena (dato men) = Inr key"
  shows "\<exists>k'. signal soc men k = Inr k' \<and> cola_ready k' = cola_ready k \<and> cola_block k' = cola_block k
    \<and> dicc_sem k' = (dicc_sem k)(key \<mapsto> \<lparr>valor = valor sem + 1, procesos = q\<rparr>)"
proof -
  let ?sem = "\<lparr>valor = valor sem + 1, procesos = q\<rparr>"
  have "pasar_pcbBlock_ready i (k\<lparr>dicc_sem := (dicc_sem k)(key \<mapsto> ?sem)\<rparr>)
      = Inr (k\<lparr>dicc_sem := (dicc_sem k)(key \<mapsto> ?sem)\<rparr>)"
    using assms(1,2) by (intro pasar_block_ready_None) auto
  then show ?thesis
    using assms(3-6)
    by (cases sem) (simp add: signal_def Let_def enviar_comun_def crear_men_comun_def leer_def enviar_def)
qed

text \<open>The program of the oldest waiting process leaves, then a signal comes: process 1 stays blocked.\<close>

theorem despertar_perdido_testigo:
  "\<exists>k1 k2. administrar_prog_cerrado 5 k_bloq = Inr k1 \<and> signal 9 men_sem k1 = Inr k2
     \<and> cola_ready k2 = [] \<and> cola_block k2 = [Some (pcb_ej 1 4 0)]
     \<and> dicc_sem k2 [83] = Some \<lparr>valor = -1, procesos = [1]\<rparr>"
proof -
  obtain k1 where k1: "administrar_prog_cerrado 5 k_bloq = Inr k1" "cola_ready k1 = []" "rotos k1 = {}"
    "cola_block k1 = map Some [pcb_ej 1 4 0]" "dicc_sem k1 [83] = Some \<lparr>valor = -2, procesos = [2, 1]\<rparr>"
    by (simp add: k_bloq_def k_ej_def evaluar)
  have "\<exists>k'. signal 9 men_sem k1 = Inr k' \<and> cola_ready k' = cola_ready k1 \<and> cola_block k' = cola_block k1
    \<and> dicc_sem k' = (dicc_sem k1)([83] \<mapsto> \<lparr>valor = valor \<lparr>valor = -2, procesos = [2, 1]\<rparr> + 1, procesos = [1]\<rparr>)"
    by (rule despertar_perdido [OF k1(4) _ k1(5) _ _ men_sem_clave, where i = 2]) (use k1(3) in auto)
  then show ?thesis using k1 by fastforce
qed

section \<open>Shared variables\<close>

text \<open>
  What one program stores in a shared variable is what any program then reads: the kernel
  answers the read with the decimal text of the stored number, whichever CPUs they run on.
\<close>

theorem compartida_ida_y_vuelta:
  assumes "itoa_ok itoa" "cadena (dato men) = Inr key" "dicc_var k key = Some v0" "es_i32 v"
    "soc \<notin> rotos k" "soc' \<notin> rotos k" "cadena (dato men') = Inr key"
    "dato men_valor = decimal v @ [0]"
  shows "\<exists>k1 k2. grabar_valor_compartida soc men men_valor k = Inr k1
    \<and> obtener_valor_compartida itoa soc' men' k1 = Inr k2
    \<and> dicc_var k2 = (dicc_var k)(key \<mapsto> v)
    \<and> salida k2 = salida k1 @ [Envia soc' (Men_Comun \<lparr>tam_dato = int (length (decimal v)) + 1,
        tipo = codigo R_OBTENER_VALOR, dato = decimal v @ [0]\<rparr>)]"
proof -
  have "itoa v = decimal v" using assms(1,4) by (simp add: itoa_ok_def)
  then show ?thesis
    using assms(2-8) atoi_decimal [of v "[]"]
    by (simp add: grabar_valor_compartida_def obtener_valor_compartida_def enviar_comun_def
        crear_men_comun_def enviar_def leer_def Let_def)
qed

theorem compartida_ida_y_vuelta_testigo:
  "\<exists>k1 k2. grabar_valor_compartida 9 \<lparr>tam_dato = 2, tipo = 0, dato = [86, 0]\<rparr>
      \<lparr>tam_dato = 3, tipo = 0, dato = decimal 42 @ [0]\<rparr> k_ej = Inr k1
    \<and> obtener_valor_compartida decimal 8 \<lparr>tam_dato = 2, tipo = 0, dato = [86, 0]\<rparr> k1 = Inr k2
    \<and> dicc_var k2 [86] = Some 42"
proof -
  let ?men = "\<lparr>tam_dato = 2, tipo = 0, dato = [86, 0]\<rparr>"
  have "itoa_ok decimal" "cadena (dato ?men) = Inr [86]" "dicc_var k_ej [86] = Some 0"
    "es_i32 42" "9 \<notin> rotos k_ej" "8 \<notin> rotos k_ej"
    by (simp_all add: itoa_ok_def cadena_def k_ej_def es_i32_def)
  from compartida_ida_y_vuelta [OF this this(2), of "\<lparr>tam_dato = 3, tipo = 0, dato = decimal 42 @ [0]\<rparr>"]
  show ?thesis by fastforce
qed

section \<open>The degree of multiprogramming\<close>

lemma subir_eq: "subir n s = s + n"
  by (induction n arbitrary: s) (simp_all add: sem_incre_def)

lemma bajar_eq: "n \<le> s \<Longrightarrow> bajar n s = Inr (s - n)"
  by (induction n arbitrary: s) (auto simp: sem_decre_def)


end
