(* ===== verification/Kernel_UMV.thy ===== *)
theory Kernel_UMV
  imports Kernel_Recursos UMV_Corridas
begin

text \<open>
  The kernel and the memory unit together. \<open>gestor_segmentos\<close> is what the kernel relies on when
  it asks for segments, fills and destroys them; the memory unit of theory \<open>UMV_Server\<close> keeps
  that contract.
\<close>

section \<open>The contract\<close>

text \<open>
  \<open>seg_de u p t\<close> is the segment of type \<open>t\<close> of process \<open>p\<close>: its logical address and its bytes.
  A request may move the other segments, and then their bytes are lost: it promises their
  addresses and lengths only.
\<close>

type_synonym segmentos = "int \<Rightarrow> int \<Rightarrow> (int \<times> byte list) option"

definition forma :: "(int \<times> byte list) option \<Rightarrow> (int \<times> nat) option" where
  "forma = map_option (\<lambda>(d, bs). (d, length bs))"

definition misma_forma :: "(int \<Rightarrow> int \<Rightarrow> bool) \<Rightarrow> segmentos \<Rightarrow> segmentos \<Rightarrow> bool" where
  "misma_forma donde s s' \<longleftrightarrow> (\<forall>q t. donde q t \<longrightarrow> forma (s' q t) = forma (s q t))"

definition otorga :: "int \<Rightarrow> int \<Rightarrow> int \<Rightarrow> t_men_comun \<Rightarrow> segmentos \<Rightarrow> segmentos \<Rightarrow> bool" where
  "otorga id_p t tam resp s s' \<longleftrightarrow> tipo resp \<noteq> codigo MEM_OVERLOAD
     \<and> (\<exists>d bs. atoi (dato resp) = Inr d \<and> d \<noteq> -1 \<and> int (length bs) = tam \<and> s' id_p t = Some (d, bs))
     \<and> misma_forma (\<lambda>q t'. q \<noteq> id_p \<or> t' \<noteq> t) s s'"

definition niega :: "int \<Rightarrow> t_men_comun \<Rightarrow> segmentos \<Rightarrow> segmentos \<Rightarrow> bool" where
  "niega id_p resp s s' \<longleftrightarrow> tipo resp = codigo MEM_OVERLOAD \<and> s' id_p = Map.empty
     \<and> misma_forma (\<lambda>q t'. q \<noteq> id_p) s s'"

definition pedidos :: "tipo_datos set" where
  "pedidos = {PED_MEM_SEG_COD, PED_MEM_IND_ETI, PED_MEM_IND_COD, PED_MEM_SEG_STACK}"

locale gestor_segmentos =
  fixes srv :: "'u servidor" and inv :: "'u \<Rightarrow> bool" and seg_de :: "'u \<Rightarrow> segmentos"
  assumes pedir: "inv u \<Longrightarrow> t \<in> pedidos \<Longrightarrow> 1 \<le> id_p \<Longrightarrow> 0 \<le> tam \<Longrightarrow>
      seg_de u id_p (tipo_seg_pedido (codigo t)) = None \<Longrightarrow>
      \<exists>resp u'. srv (crear_men_seg (codigo t) id_p tam) aux u = Inr (resp, u') \<and> inv u'
        \<and> (otorga id_p (tipo_seg_pedido (codigo t)) tam resp (seg_de u) (seg_de u')
           \<or> niega id_p resp (seg_de u) (seg_de u'))"
    and llenar: "inv u \<Longrightarrow> seg_de u id_p (tipo men) = Some (d, bs) \<Longrightarrow>
      tam_dato men = int (length bs) \<Longrightarrow> length (dato men) = length bs \<Longrightarrow>
      \<exists>resp u'. srv (crear_men_seg (codigo ESCRIBIR_SEG) id_p 0) men u = Inr (resp, u') \<and> inv u'
        \<and> seg_de u' = (seg_de u)(id_p := (seg_de u id_p)(tipo men \<mapsto> (d, dato men)))"
    and destruir: "inv u \<Longrightarrow> 1 \<le> id_p \<Longrightarrow>
      \<exists>resp u'. srv (crear_men_seg (codigo DESTR_SEGS) id_p 0) aux u = Inr (resp, u') \<and> inv u'
        \<and> seg_de u' = (seg_de u)(id_p := Map.empty)"

lemma misma_forma_None: "misma_forma donde s s' \<Longrightarrow> donde q t \<Longrightarrow> s q t = None \<Longrightarrow> s' q t = None"
  unfolding misma_forma_def forma_def by (metis map_option_is_None)

lemma misma_forma_Some:
  "misma_forma donde s s' \<Longrightarrow> donde q t \<Longrightarrow> s q t = Some (d, bs) \<Longrightarrow> int (length bs) = n \<Longrightarrow>
     \<exists>bs'. s' q t = Some (d, bs') \<and> int (length bs') = n"
  unfolding misma_forma_def forma_def by (cases "s' q t") force+

lemma misma_forma_trans:
  "misma_forma a s s' \<Longrightarrow> misma_forma b s' s'' \<Longrightarrow> (\<And>q t. c q t \<Longrightarrow> a q t \<and> b q t) \<Longrightarrow> misma_forma c s s''"
  by (simp add: misma_forma_def)

section \<open>What the kernel builds on it\<close>

text \<open>The process owns a segment of type \<open>t\<close> at address \<open>d\<close> with \<open>n\<close> bytes.\<close>

definition tiene :: "segmentos \<Rightarrow> int \<Rightarrow> int \<Rightarrow> int \<Rightarrow> int \<Rightarrow> bool" where
  "tiene s id_p t d n \<longleftrightarrow> (\<exists>bs. s id_p t = Some (d, bs) \<and> int (length bs) = n)"

lemma tiene_misma: "tiene s id_p t d n \<Longrightarrow> misma_forma a s s' \<Longrightarrow> a id_p t \<Longrightarrow> tiene s' id_p t d n"
  unfolding tiene_def by (metis misma_forma_Some)

text \<open>The four segments of a program: type, address and size.\<close>

definition segs_pedidos ::
  "t_metadata_program \<Rightarrow> int \<Rightarrow> int \<Rightarrow> t_resp_sol_mem \<Rightarrow> (int \<times> int \<times> int) list" where
  "segs_pedidos m tam_stack tam_cod r =
     [(codigo IND_STACK, rs_dir_seg_stack r, tam_stack),
      (codigo IND_COD, rs_dir_indice_codigo r, i32 (instrucciones_size m * 8)),
      (codigo IND_ETI_FUNC, rs_dir_indice_etiquetas r, etiquetas_size m),
      (codigo CODIGO_SCRIPT, rs_dir_seg_codigo r, tam_cod)]"

text \<open>
  The two ends of a program's arrival. Either its process waits in new and owns exactly the
  four segments that its pcb points to, filled with the program; or the program is told that
  there is no memory and is disconnected, and nothing of it remains.
\<close>

definition admitido ::
  "t_metadata_program \<Rightarrow> int \<Rightarrow> t_men_comun \<Rightarrow> kernel \<Rightarrow> kernel \<Rightarrow> segmentos \<Rightarrow> bool" where
  "admitido m soc men k k' s \<longleftrightarrow> (\<exists>p pila. int (length pila) = tamanio_stack k
     \<and> k' = k\<lparr>contador_programa := contador_programa k + 1,
         cola_new := cola_new k @ [Some \<lparr>po_pcb = p, n_socket = soc, peso = calcular_peso m,
           tipo_fin_ejecucion = -1\<rparr>], cant_new := Suc (cant_new k)\<rparr>
     \<and> s (contador_programa k + 1) = [codigo CODIGO_SCRIPT \<mapsto> (dir_seg_codigo p, dato men),
         codigo IND_ETI_FUNC \<mapsto> (dir_indice_etiquetas p, etiquetas m),
         codigo IND_COD \<mapsto> (dir_indice_codigo p, instrucciones_serializado m),
         codigo IND_STACK \<mapsto> (dir_seg_stack p, pila)]
     \<and> pcb_id p = contador_programa k + 1 \<and> program_counter p = instruccion_inicio m
     \<and> dir_cont_actual p = dir_seg_stack p \<and> cant_var_cont_actual p = 0
     \<and> tam_indice_etiquetas p = etiquetas_size m)"

definition rechazado :: "byte list \<Rightarrow> int \<Rightarrow> kernel \<Rightarrow> kernel \<Rightarrow> segmentos \<Rightarrow> bool" where
  "rechazado texto soc k k' s \<longleftrightarrow> s (contador_programa k + 1) = Map.empty
     \<and> k' = k\<lparr>contador_programa := contador_programa k + 1, conj_soc_progs := conj_soc_progs k - {soc},
         salida := salida k @ [Envia soc (Men_Comun \<lparr>tam_dato = int (length texto) + 1,
           tipo = codigo MEM_OVERLOAD, dato = texto @ [0]\<rparr>), Cierra soc]\<rparr>"

text \<open>The parser's metadata of a program text: tables of the announced sizes.\<close>

definition meta_ok :: "t_metadata_program \<Rightarrow> bool" where
  "meta_ok m \<longleftrightarrow> etiquetas_size m = int (length (etiquetas m))
     \<and> instrucciones_size m * 8 = int (length (instrucciones_serializado m))
     \<and> instrucciones_size m * 8 < 2147483648"

lemma meta_ok_i32: "meta_ok m \<Longrightarrow> i32 (instrucciones_size m * 8) = int (length (instrucciones_serializado m))"
  by (simp add: meta_ok_def i32_id_bounds)

context gestor_segmentos
begin

text \<open>
  In the middle of the requests: process \<open>id_p\<close> has the segments \<open>l\<close> and no other, and the
  other processes have what they had in \<open>s\<close>. After a refusal it has none.
\<close>

definition parcial :: "segmentos \<Rightarrow> int \<Rightarrow> (int \<times> int \<times> int) list \<Rightarrow> 'u \<Rightarrow> bool" where
  "parcial s id_p l u \<longleftrightarrow> inv u \<and> misma_forma (\<lambda>q t. q \<noteq> id_p) s (seg_de u)
     \<and> (\<forall>(t, d, n) \<in> set l. tiene (seg_de u) id_p t d n)
     \<and> (\<forall>t. t \<notin> fst ` set l \<longrightarrow> seg_de u id_p t = None)"

lemma pedir_parcial:
  assumes "parcial s id_p l u" "t \<in> pedidos" "1 \<le> id_p" "0 \<le> tam"
    "tipo_seg_pedido (codigo t) \<notin> fst ` set l"
  shows "\<exists>d u'. pedir_seg srv t id_p tam u = Inr (d, u')
    \<and> parcial s id_p (if d = -1 then [] else (tipo_seg_pedido (codigo t), d, tam) # l) u'"
proof -
  let ?t = "tipo_seg_pedido (codigo t)"
  have p: "inv u" "misma_forma (\<lambda>q t. q \<noteq> id_p) s (seg_de u)"
    "\<And>t d n. (t, d, n) \<in> set l \<Longrightarrow> tiene (seg_de u) id_p t d n"
    "\<And>t. t \<notin> fst ` set l \<Longrightarrow> seg_de u id_p t = None"
    using assms(1) by (auto simp: parcial_def)
  obtain resp u' where r: "srv (crear_men_seg (codigo t) id_p tam) sin_segundo u = Inr (resp, u')" "inv u'"
    "otorga id_p ?t tam resp (seg_de u) (seg_de u') \<or> niega id_p resp (seg_de u) (seg_de u')"
    using pedir [OF p(1) assms(2-4) p(4) [OF assms(5)], of sin_segundo] by blast
  from r(3) show ?thesis
  proof
    assume "niega id_p resp (seg_de u) (seg_de u')"
    with r(1,2) p(2) show ?thesis
      by (intro exI [of _ "-1"] exI [of _ u']) (auto simp: niega_def pedir_seg_def gestionar_resp_sol_mem_def parcial_def
          elim: misma_forma_trans)
  next
    assume "otorga id_p ?t tam resp (seg_de u) (seg_de u')"
    then obtain d where o: "tipo resp \<noteq> codigo MEM_OVERLOAD" "atoi (dato resp) = Inr d" "d \<noteq> -1"
      "tiene (seg_de u') id_p ?t d tam" "misma_forma (\<lambda>q t'. q \<noteq> id_p \<or> t' \<noteq> ?t) (seg_de u) (seg_de u')"
      by (auto simp: otorga_def tiene_def)
    have "tiene (seg_de u') id_p t' d' n'" if "(t', d', n') \<in> set l" for t' d' n'
      using tiene_misma [OF p(3) [OF that] o(5)] assms(5) that by force
    moreover have "seg_de u' id_p t' = None" if "t' \<notin> fst ` set l" "t' \<noteq> ?t" for t'
      using misma_forma_None [OF o(5)] p(4) that by blast
    moreover have "misma_forma (\<lambda>q t. q \<noteq> id_p) s (seg_de u')"
      by (rule misma_forma_trans [OF p(2) o(5)]) auto
    ultimately have "parcial s id_p ((?t, d, tam) # l) u'" using r(2) o(4) by (auto simp: parcial_def)
    with r(1) o(1-3) show ?thesis
      by (intro exI [of _ d] exI [of _ u']) (simp add: pedir_seg_def gestionar_resp_sol_mem_def)
  qed
qed

text \<open>The four requests: all segments with the sizes of the program, or none.\<close>

lemma solicitar_mem_todo_o_nada:
  assumes "inv u" "1 \<le> id_p" "seg_de u id_p = Map.empty"
    "0 \<le> tam_dato men" "0 \<le> etiquetas_size m" "0 \<le> i32 (instrucciones_size m * 8)" "0 \<le> tam_stack"
  shows "\<exists>r u'. solicitar_mem srv m id_p tam_stack men u = Inr (r, u')
    \<and> (case r of None \<Rightarrow> parcial (seg_de u) id_p [] u'
       | Some a \<Rightarrow> parcial (seg_de u) id_p (segs_pedidos m tam_stack (tam_dato men) a) u')"
proof -
  let ?P = "parcial (seg_de u) id_p"
  note defs [simp] = tipo_seg_pedido_def pedidos_def solicitar_mem_def segs_pedidos_def
  have "?P [] u" using assms(1,3) by (simp add: parcial_def misma_forma_def)
  from pedir_parcial [OF this _ assms(2,4), of PED_MEM_SEG_COD] obtain c u1
    where c: "pedir_seg srv PED_MEM_SEG_COD id_p (tam_dato men) u = Inr (c, u1)"
      "?P (if c = -1 then [] else [(206, c, tam_dato men)]) u1" by (auto cong: if_cong)
  show ?thesis
  proof (cases "c = -1")
    case False
    with c(2) have "?P [(206, c, tam_dato men)] u1" by simp
    from pedir_parcial [OF this _ assms(2,5), of PED_MEM_IND_ETI] obtain e u2
      where e: "pedir_seg srv PED_MEM_IND_ETI id_p (etiquetas_size m) u1 = Inr (e, u2)"
        "?P (if e = -1 then [] else [(207, e, etiquetas_size m), (206, c, tam_dato men)]) u2" by (auto cong: if_cong)
    show ?thesis
    proof (cases "e = -1")
      case False
      let ?n = "i32 (instrucciones_size m * 8)"
      from e(2) False have "?P [(207, e, etiquetas_size m), (206, c, tam_dato men)] u2" by simp
      from pedir_parcial [OF this _ assms(2,6), of PED_MEM_IND_COD] obtain i u3
        where i: "pedir_seg srv PED_MEM_IND_COD id_p ?n u2 = Inr (i, u3)"
          "?P (if i = -1 then [] else [(208, i, ?n), (207, e, etiquetas_size m), (206, c, tam_dato men)]) u3"
        by (auto cong: if_cong)
      show ?thesis
      proof (cases "i = -1")
        case ni: False
        from i(2) ni have "?P [(208, i, ?n), (207, e, etiquetas_size m), (206, c, tam_dato men)] u3" by simp
        from pedir_parcial [OF this _ assms(2,7), of PED_MEM_SEG_STACK]
        show ?thesis using c(1) e(1) i(1) ni False \<open>c \<noteq> -1\<close> by (auto cong: if_cong split: if_splits)
      qed (use c e i False \<open>c \<noteq> -1\<close> in simp)
    qed (use c e False in simp)
  qed (use c in simp)
qed

lemma escribir_seg_ok:
  assumes "inv u" "tiene (seg_de u) id_p (codigo t) d n" "n = int (length buf)"
  shows "\<exists>u'. escribir_seg srv id_p t buf n u = Inr u' \<and> inv u'
    \<and> seg_de u' = (seg_de u)(id_p := (seg_de u id_p)(codigo t \<mapsto> (d, buf)))"
proof -
  let ?men = "\<lparr>tam_dato = n, tipo = codigo t, dato = buf\<rparr>"
  obtain bs where "seg_de u id_p (tipo ?men) = Some (d, bs)" "tam_dato ?men = int (length bs)"
    "length (dato ?men) = length bs"
    using assms(2,3) by (auto simp: tiene_def)
  from llenar [OF assms(1) this] obtain resp u' where
    "srv (crear_men_seg (codigo ESCRIBIR_SEG) id_p 0) ?men u = Inr (resp, u')" "inv u'"
    "seg_de u' = (seg_de u)(id_p := (seg_de u id_p)(codigo t \<mapsto> (d, buf)))" by auto
  then show ?thesis using assms(3) by (auto simp: escribir_seg_def crear_men_comun_todo)
qed

text \<open>A program that got its segments: the pcb points to them and they hold the program.\<close>

lemma crear_pcb_llena:
  assumes "parcial s id_p (segs_pedidos m tam_stack (tam_dato men) a) u"
    "tam_dato men = int (length (dato men))" "etiquetas_size m = int (length (etiquetas m))"
    "i32 (instrucciones_size m * 8) = int (length (instrucciones_serializado m))"
  shows "\<exists>p u' pila. crear_pcb_escribir_seg_UMV srv m b id_p men a u = Inr (p, u') \<and> inv u'
    \<and> misma_forma (\<lambda>q t. q \<noteq> id_p) s (seg_de u') \<and> int (length pila) = tam_stack
    \<and> seg_de u' id_p = [codigo CODIGO_SCRIPT \<mapsto> (dir_seg_codigo p, dato men),
        codigo IND_ETI_FUNC \<mapsto> (dir_indice_etiquetas p, etiquetas m),
        codigo IND_COD \<mapsto> (dir_indice_codigo p, instrucciones_serializado m),
        codigo IND_STACK \<mapsto> (dir_seg_stack p, pila)]
    \<and> pcb_id p = id_p \<and> program_counter p = instruccion_inicio m
    \<and> dir_cont_actual p = dir_seg_stack p \<and> cant_var_cont_actual p = 0
    \<and> tam_indice_etiquetas p = etiquetas_size m"
proof -
  have u: "inv u" "misma_forma (\<lambda>q t. q \<noteq> id_p) s (seg_de u)"
    "tiene (seg_de u) id_p (codigo CODIGO_SCRIPT) (rs_dir_seg_codigo a) (tam_dato men)"
    "tiene (seg_de u) id_p (codigo IND_ETI_FUNC) (rs_dir_indice_etiquetas a) (etiquetas_size m)"
    "tiene (seg_de u) id_p (codigo IND_COD) (rs_dir_indice_codigo a) (i32 (instrucciones_size m * 8))"
    "\<And>t. t \<notin> {206, 207, 208, 209} \<Longrightarrow> seg_de u id_p t = None"
    using assms(1) by (auto simp: parcial_def segs_pedidos_def)
  obtain pila where pila: "seg_de u id_p (codigo IND_STACK) = Some (rs_dir_seg_stack a, pila)"
    "int (length pila) = tam_stack"
    using assms(1) by (auto simp: parcial_def segs_pedidos_def tiene_def)
  obtain u1 where u1: "escribir_seg srv id_p CODIGO_SCRIPT (dato men) (tam_dato men) u = Inr u1" "inv u1"
    "seg_de u1 = (seg_de u)(id_p := (seg_de u id_p)(206 \<mapsto> (rs_dir_seg_codigo a, dato men)))"
    using escribir_seg_ok [OF u(1,3) assms(2)] by auto
  have "tiene (seg_de u1) id_p (codigo IND_ETI_FUNC) (rs_dir_indice_etiquetas a) (etiquetas_size m)"
    using u(4) u1(3) by (simp add: tiene_def)
  from escribir_seg_ok [OF u1(2) this assms(3)] obtain u2 where
    u2: "escribir_seg srv id_p IND_ETI_FUNC (etiquetas m) (etiquetas_size m) u1 = Inr u2" "inv u2"
    "seg_de u2 = (seg_de u1)(id_p := (seg_de u1 id_p)(207 \<mapsto> (rs_dir_indice_etiquetas a, etiquetas m)))"
    by auto
  have "tiene (seg_de u2) id_p (codigo IND_COD) (rs_dir_indice_codigo a) (i32 (instrucciones_size m * 8))"
    using u(5) u1(3) u2(3) by (simp add: tiene_def)
  from escribir_seg_ok [OF u2(2) this assms(4)] obtain u3 where
    u3: "escribir_seg srv id_p IND_COD (instrucciones_serializado m) (i32 (instrucciones_size m * 8)) u2
      = Inr u3" "inv u3"
    "seg_de u3 = (seg_de u2)(id_p := (seg_de u2 id_p)(208 \<mapsto> (rs_dir_indice_codigo a, instrucciones_serializado m)))"
    by auto
  have "seg_de u3 id_p = [206 \<mapsto> (rs_dir_seg_codigo a, dato men), 207 \<mapsto> (rs_dir_indice_etiquetas a, etiquetas m),
      208 \<mapsto> (rs_dir_indice_codigo a, instrucciones_serializado m), 209 \<mapsto> (rs_dir_seg_stack a, pila)]"
    using u(6) pila(1) by (auto simp: u1(3) u2(3) u3(3))
  moreover have "misma_forma (\<lambda>q t. q \<noteq> id_p) s (seg_de u3)"
    using u(2) by (simp add: u1(3) u2(3) u3(3) misma_forma_def)
  ultimately show ?thesis
    using u1(1) u2(1) u3(1,2) pila(2)
    by (auto simp: crear_pcb_escribir_seg_UMV_def intro!: exI [of _ pila])
qed

lemma llegada_de_programa:
  assumes "inv u" "0 \<le> contador_programa k" "contador_programa k < 2147483647"
    "seg_de u (contador_programa k + 1) = Map.empty" "0 \<le> tamanio_stack k" "soc \<notin> rotos k"
    "tam_dato men = int (length (dato men))" "meta_ok (meta (dato men))"
  shows "\<exists>k' u'. administrar_new_script itoa srv meta b soc men (k, u) = Inr (k', u') \<and> inv u'
    \<and> misma_forma (\<lambda>q t. q \<noteq> contador_programa k + 1) (seg_de u) (seg_de u')
    \<and> (admitido (meta (dato men)) soc men k k' (seg_de u')
       \<or> rechazado (itoa (contador_programa k + 1)) soc k k' (seg_de u'))"
proof -
  let ?i = "contador_programa k + 1" and ?m = "meta (dato men)"
  have i: "i32 ?i = ?i" "1 \<le> ?i" using assms(2,3) by (simp_all add: i32_id_bounds)
  have tams: "0 \<le> tam_dato men" "0 \<le> etiquetas_size ?m" "0 \<le> i32 (instrucciones_size ?m * 8)"
    using assms(7,8) meta_ok_i32 [OF assms(8)] by (simp_all add: meta_ok_def)
  obtain r u1 where r: "solicitar_mem srv ?m ?i (tamanio_stack k) men u = Inr (r, u1)"
    "case r of None \<Rightarrow> parcial (seg_de u) ?i [] u1
     | Some a \<Rightarrow> parcial (seg_de u) ?i (segs_pedidos ?m (tamanio_stack k) (tam_dato men) a) u1"
    using solicitar_mem_todo_o_nada [OF assms(1) i(2) assms(4) tams assms(5)] by blast
  show ?thesis
  proof (cases r)
    case None
    then have "inv u1" "misma_forma (\<lambda>q t. q \<noteq> ?i) (seg_de u) (seg_de u1)" "seg_de u1 ?i = Map.empty"
      using r(2) by (auto simp: parcial_def)
    then show ?thesis
      using r(1) None i(1) assms(6)
      by (simp add: administrar_new_script_def Let_def enviar_comun_def crear_men_comun_todo enviar_def
          socket_cerrar_def rechazado_def)
  next
    case (Some a)
    with r(2) have "parcial (seg_de u) ?i (segs_pedidos ?m (tamanio_stack k) (tam_dato men) a) u1" by simp
    from crear_pcb_llena [OF this assms(7) _ meta_ok_i32 [OF assms(8)], of b] assms(8)
    obtain p u2 pila where p: "crear_pcb_escribir_seg_UMV srv ?m b ?i men a u1 = Inr (p, u2)" "inv u2"
      "misma_forma (\<lambda>q t. q \<noteq> ?i) (seg_de u) (seg_de u2)" "int (length pila) = tamanio_stack k"
      "seg_de u2 ?i = [codigo CODIGO_SCRIPT \<mapsto> (dir_seg_codigo p, dato men),
        codigo IND_ETI_FUNC \<mapsto> (dir_indice_etiquetas p, etiquetas ?m),
        codigo IND_COD \<mapsto> (dir_indice_codigo p, instrucciones_serializado ?m),
        codigo IND_STACK \<mapsto> (dir_seg_stack p, pila)]"
      "pcb_id p = ?i \<and> program_counter p = instruccion_inicio ?m
        \<and> dir_cont_actual p = dir_seg_stack p \<and> cant_var_cont_actual p = 0
        \<and> tam_indice_etiquetas p = etiquetas_size ?m"
      by (auto simp: meta_ok_def)
    let ?k' = "k\<lparr>contador_programa := ?i, cola_new := cola_new k @ [Some \<lparr>po_pcb = p, n_socket = soc,
      peso = calcular_peso ?m, tipo_fin_ejecucion = -1\<rparr>], cant_new := Suc (cant_new k)\<rparr>"
    have "administrar_new_script itoa srv meta b soc men (k, u) = Inr (?k', u2)"
      using r(1) Some i(1) p(1)
      by (simp add: administrar_new_script_def Let_def queue_push_def sem_incre_def)
    moreover have "admitido ?m soc men k ?k' (seg_de u2)"
      unfolding admitido_def using p(4-6) by blast
    ultimately show ?thesis using p(2,3) by blast
  qed
qed

end

section \<open>The memory unit keeps the contract\<close>

text \<open>
  The memory unit as the kernel talks to it: one message and its answer. \<open>azar\<close> are the
  successive values of \<open>rand()\<close>, the state counts the requests.
\<close>

definition servidor_umv ::
  "entorno \<Rightarrow> (int \<Rightarrow> byte list) \<Rightarrow> (nat \<Rightarrow> int) \<Rightarrow> (nat \<times> umv) servidor" where
  "servidor_umv e itoa azar men aux s =
     (case s of (n, u) \<Rightarrow>
      bindE (atender_kernel e itoa (azar n) men aux u) (\<lambda>(u', ms).
        case ms of [] \<Rightarrow> Inl Bloqueado | m # _ \<Rightarrow> Inr (m, (Suc n, u'))))"

definition seg_umv :: "nat \<times> umv \<Rightarrow> segmentos" where
  "seg_umv s p t = map_option (\<lambda>g. (dir_logica g, bytes_seg (mem_prin (snd s)) g))
     (buscar_segmento_tipo_seg (snd s) p t)"

definition clave :: "t_seg \<Rightarrow> int \<times> int" where
  "clave g = (id_proc g, tipo_seg g)"

definition sin_repetidos :: "umv \<Rightarrow> bool" where
  "sin_repetidos u \<longleftrightarrow> distinct (map clave (list_seg u))"

definition entorno_ok :: "entorno \<Rightarrow> (int \<Rightarrow> byte list) \<Rightarrow> (nat \<Rightarrow> int) \<Rightarrow> int \<Rightarrow> bool" where
  "entorno_ok e itoa azar tot \<longleftrightarrow> list_sort_ok e \<and> pila_ok e tot \<and> itoa_ok itoa
     \<and> (\<forall>n. 0 \<le> azar n \<and> azar n < 2147483648)"

definition gestor_inv :: "entorno \<Rightarrow> (int \<Rightarrow> byte list) \<Rightarrow> (nat \<Rightarrow> int) \<Rightarrow> nat \<times> umv \<Rightarrow> bool" where
  "gestor_inv e itoa azar s \<longleftrightarrow> umv_inv (snd s) \<and> sin_repetidos (snd s)
     \<and> entorno_ok e itoa azar (tam_mem_total (snd s))"

lemma clave_sin_dir [simp]: "clave (sin_dir g) = clave g"
  by (simp add: clave_def sin_dir_def)

lemma claves_contenido: "mset (map clave (list_seg u)) = image_mset clave (contenido u)"
  by (simp add: contenido_def image_mset.compositionality comp_def)

lemma distinct_cuenta: "distinct xs \<longleftrightarrow> (\<forall>x. count (mset xs) x \<le> 1)"
proof
  assume "\<forall>x. count (mset xs) x \<le> 1"
  then have "count (mset xs) x = (if x \<in> set xs then 1 else 0)" for x
    by (metis One_nat_def count_eq_zero_iff le_Suc_eq le_zero_eq set_mset_mset)
  then show "distinct xs" by (simp add: distinct_count_atmost_1)
qed (simp add: distinct_count_atmost_1)

lemma sin_repetidos_contenido:
  "sin_repetidos u \<longleftrightarrow> (\<forall>x. count (image_mset clave (contenido u)) x \<le> 1)"
  by (simp only: sin_repetidos_def distinct_cuenta claves_contenido)

lemma buscar_tipo_unico:
  assumes "sin_repetidos u"
  shows "buscar_segmento_tipo_seg u p t = Some g \<longleftrightarrow> g \<in> set (list_seg u) \<and> clave g = (p, t)"
proof
  assume "g \<in> set (list_seg u) \<and> clave g = (p, t)"
  moreover from this obtain g' where g': "buscar_segmento_tipo_seg u p t = Some g'"
    by (cases "buscar_segmento_tipo_seg u p t")
      (auto simp: buscar_segmento_tipo_seg_def find_None_iff clave_def)
  then have "g' \<in> set (list_seg u) \<and> clave g' = (p, t)"
    using buscar_tipo_Some [OF g'] by (auto simp: clave_def)
  ultimately have "g' = g" using assms by (metis distinct_map inj_onD sin_repetidos_def)
  with g' show "buscar_segmento_tipo_seg u p t = Some g" by simp
qed (auto dest: buscar_tipo_Some simp: clave_def)

lemma contenido_elim: "g \<in># contenido u \<Longrightarrow> (\<And>h. h \<in> set (list_seg u) \<Longrightarrow> g = sin_dir h \<Longrightarrow> thesis) \<Longrightarrow> thesis"
  by (auto simp: contenido_def)

lemma length_bytes_seg:
  "umv_inv u \<Longrightarrow> g \<in> set (list_seg u) \<Longrightarrow> int (length (bytes_seg (mem_prin u) g)) = tam_seg g"
  by (auto simp: umv_inv_def seg_ok_def bytes_seg_def)

text \<open>The address and length of a segment are read off the table's contents.\<close>

lemma seg_umv_contenido:
  assumes "umv_inv u" "sin_repetidos u" "g \<in># contenido u" "clave g = (p, t)"
  shows "\<exists>bs. seg_umv (n, u) p t = Some (dir_logica g, bs) \<and> int (length bs) = tam_seg g"
proof -
  obtain h where "h \<in> set (list_seg u)" "g = sin_dir h" using contenido_elim [OF assms(3)] .
  moreover from this have "buscar_segmento_tipo_seg u p t = Some h"
    using assms(2,4) by (simp add: buscar_tipo_unico)
  ultimately show ?thesis
    using length_bytes_seg [OF assms(1)] by (auto simp: seg_umv_def sin_dir_def)
qed

lemma seg_umv_None:
  "sin_repetidos u \<Longrightarrow> seg_umv (n, u) p t = None \<longleftrightarrow> (\<forall>g. g \<in># contenido u \<longrightarrow> clave g \<noteq> (p, t))"
  using buscar_tipo_unico [of u p t] unfolding seg_umv_def contenido_def
  by (cases "buscar_segmento_tipo_seg u p t")
    (auto simp: buscar_segmento_tipo_seg_def find_None_iff clave_def sin_dir_def)

lemma forma_contenido:
  assumes "umv_inv u" "sin_repetidos u" "umv_inv u'" "sin_repetidos u'"
    "\<And>g. clave g = (p, t) \<Longrightarrow> g \<in># contenido u' \<longleftrightarrow> g \<in># contenido u"
  shows "forma (seg_umv (n', u') p t) = forma (seg_umv (n, u) p t)"
proof (cases "\<exists>g. g \<in># contenido u \<and> clave g = (p, t)")
  case True
  then obtain g where g: "g \<in># contenido u" "clave g = (p, t)" by blast
  with assms(5) have "g \<in># contenido u'" by blast
  then show ?thesis
    using seg_umv_contenido [OF assms(1,2) g, of n] seg_umv_contenido [OF assms(3,4) _ g(2), of n']
    by (auto simp: forma_def)
next
  case False
  then show ?thesis
    using seg_umv_None [OF assms(2), of n p t] seg_umv_None [OF assms(4), of n' p t] assms(5)
    by (auto simp: forma_def)
qed

text \<open>A request: the new segment is the only change of the table, or the process loses all.\<close>

lemma atender_pedido:
  assumes "t \<in> pedidos"
  obtains r where "codigo r \<noteq> codigo MEM_OVERLOAD"
    "atender_kernel e itoa a (crear_men_seg (codigo t) id_p tam) aux u =
       gestionar_ped_seg e itoa a (crear_men_seg (codigo t) id_p tam) r u"
proof -
  have r: "codigo RESP_MEM_SEG_COD \<noteq> codigo MEM_OVERLOAD" "codigo RESP_MEM_IND_ETI \<noteq> codigo MEM_OVERLOAD"
    "codigo RESP_MEM_IND_COD \<noteq> codigo MEM_OVERLOAD" "codigo RESP_MEM_SEG_STACK \<noteq> codigo MEM_OVERLOAD"
    by simp_all
  consider "t = PED_MEM_SEG_COD" | "t = PED_MEM_IND_ETI" | "t = PED_MEM_IND_COD" | "t = PED_MEM_SEG_STACK"
    using assms by (auto simp: pedidos_def)
  then show thesis
    by cases (rule that [OF r(1)] that [OF r(2)] that [OF r(3)] that [OF r(4)],
      simp add: atender_kernel_def crear_men_seg_def)+
qed

lemma contenido_destruir:
  "p \<noteq> 0 \<Longrightarrow> g \<in># contenido (destruirSegmentos p u) \<longleftrightarrow> g \<in># contenido u \<and> id_proc g \<noteq> p"
  by (auto simp: contenido_def destruirSegmentos_eq sin_dir_def)

lemma sin_repetidos_destruir: "sin_repetidos u \<Longrightarrow> sin_repetidos (destruirSegmentos p u)"
  by (simp add: sin_repetidos_def destruirSegmentos_eq distinct_map_filter)

lemma pedir_umv:
  assumes i: "gestor_inv e itoa azar (n, u)" and t: "t \<in> pedidos" and p: "1 \<le> id_p" "0 \<le> tam"
    and nuevo: "seg_umv (n, u) id_p (tipo_seg_pedido (codigo t)) = None"
  shows "\<exists>resp s'. servidor_umv e itoa azar (crear_men_seg (codigo t) id_p tam) aux (n, u) = Inr (resp, s')
    \<and> gestor_inv e itoa azar s'
    \<and> (otorga id_p (tipo_seg_pedido (codigo t)) tam resp (seg_umv (n, u)) (seg_umv s')
       \<or> niega id_p resp (seg_umv (n, u)) (seg_umv s'))"
proof -
  let ?men = "crear_men_seg (codigo t) id_p tam" and ?t = "tipo_seg_pedido (codigo t)" and ?a = "azar n"
  have u: "umv_inv u" "sin_repetidos u" and e: "list_sort_ok e" "pila_ok e (tam_mem_total u)"
    "itoa_ok itoa" "0 \<le> ?a" "?a < 2147483648"
    using i by (simp_all add: gestor_inv_def entorno_ok_def)
  have a: "es_i32 ?a" "itoa ?a = decimal ?a" using e(3-5) by (simp_all add: itoa_ok_def es_i32_def)
  obtain r where r: "codigo r \<noteq> codigo MEM_OVERLOAD"
    "atender_kernel e itoa ?a ?men aux u = gestionar_ped_seg e itoa ?a ?men r u"
    using atender_pedido [OF t] .
  have ms: "ms_id_prog ?men = id_p" "ms_tam_seg ?men = tam" "ms_tipo ?men = codigo t"
    by (simp_all add: crear_men_seg_def)
  let ?cabe = "tam \<le> tam_mem_total u - ocupado (list_seg u)"
  obtain u1 where c: "crearSegmento e ?a ?men u = Inr (if ?cabe then ?a else -1, u1)"
    and u1: "umv_inv u1" "marco u u1"
      "contenido u1 = contenido u + (if ?cabe then {#seg_nuevo ?a ?men#} else {#})"
    using crear_ok [OF u(1) e(1,2), of ?men ?a] p(2) ms by auto
  have tot: "tam_mem_total u1 = tam_mem_total u" using u1(2) by (simp add: marco_def)
  show ?thesis
  proof (cases ?cabe)
    case True
    let ?g = "seg_nuevo ?a ?men"
    have g: "clave ?g = (id_p, ?t)" "dir_logica ?g = ?a" "tam_seg ?g = tam"
      using ms by (simp_all add: clave_def seg_nuevo_def)
    have "count (image_mset clave (contenido u)) (id_p, ?t) = 0"
      using nuevo seg_umv_None [OF u(2)] by (auto simp: count_eq_zero_iff)
    then have sr: "sin_repetidos u1"
      using u(2) u1(3) True g(1) by (simp add: sin_repetidos_contenido)
    have "misma_forma (\<lambda>q t'. q \<noteq> id_p \<or> t' \<noteq> ?t) (seg_umv (n, u)) (seg_umv (Suc n, u1))"
      using u1(3) g(1) unfolding misma_forma_def
      by (auto intro!: forma_contenido [OF u u1(1) sr] split: if_splits)
    moreover obtain bs where "seg_umv (Suc n, u1) id_p ?t = Some (?a, bs)" "int (length bs) = tam"
      using seg_umv_contenido [OF u1(1) sr _ g(1), of "Suc n"] u1(3) True g(2,3) by auto
    moreover have "atoi (decimal ?a @ [0]) = Inr ?a" using atoi_decimal [OF a(1), of "[]"] .
    ultimately show ?thesis
      using True c r a(2) e(4) i u1(1) sr tot
      by (simp add: servidor_umv_def gestionar_ped_seg_def crear_men_comun_todo Let_def otorga_def gestor_inv_def)
  next
    case False
    let ?u2 = "destruirSegmentos id_p u1"
    have sr: "sin_repetidos u1" using u(2) u1(3) False by (simp add: sin_repetidos_contenido)
    have u2: "umv_inv ?u2" "sin_repetidos ?u2" "tam_mem_total ?u2 = tam_mem_total u"
      using destruirSegmentos_inv [OF u1(1)] sin_repetidos_destruir [OF sr] tot by (auto simp: marco_def)
    have m: "g \<in># contenido ?u2 \<longleftrightarrow> g \<in># contenido u \<and> id_proc g \<noteq> id_p" for g
      using contenido_destruir [of id_p g u1] p(1) u1(3) False by simp
    have "seg_umv (Suc n, ?u2) id_p = Map.empty"
    proof
      fix t' show "seg_umv (Suc n, ?u2) id_p t' = None" using m seg_umv_None [OF u2(2)] by (auto simp: clave_def)
    qed
    moreover have "misma_forma (\<lambda>q t'. q \<noteq> id_p) (seg_umv (n, u)) (seg_umv (Suc n, ?u2))"
      unfolding misma_forma_def by (auto simp: m clave_def intro!: forma_contenido [OF u u2(1,2)])
    ultimately show ?thesis
      using False c r i u2 ms by (simp add: servidor_umv_def gestionar_ped_seg_def niega_def gestor_inv_def)
  qed
qed

text \<open>Filling a segment, and the end of a process.\<close>

lemma llenar_umv:
  assumes i: "gestor_inv e itoa azar (n, u)" and g: "seg_umv (n, u) id_p (tipo men) = Some (d, bs)"
    and l: "tam_dato men = int (length bs)" "length (dato men) = length bs"
  shows "\<exists>resp s'. servidor_umv e itoa azar (crear_men_seg (codigo ESCRIBIR_SEG) id_p 0) men (n, u) = Inr (resp, s')
    \<and> gestor_inv e itoa azar s'
    \<and> seg_umv s' = (seg_umv (n, u))(id_p := (seg_umv (n, u) id_p)(tipo men \<mapsto> (d, dato men)))"
proof -
  have u: "umv_inv u" "sin_repetidos u" using i by (simp_all add: gestor_inv_def)
  obtain h where h: "buscar_segmento_tipo_seg u id_p (tipo men) = Some h" "d = dir_logica h"
    "bs = bytes_seg (mem_prin u) h" using g by (auto simp: seg_umv_def)
  have hs: "h \<in> set (list_seg u)" "clave h = (id_p, tipo men)"
    using h(1) buscar_tipo_unico [OF u(2)] by blast+
  note ok = umv_inv_seg [OF u(1)]
  have t: "int (length (dato men)) = tam_seg h" using length_bytes_seg [OF u(1) hs(1)] l h(3) by simp
  obtain m where m: "escribir (mem_prin u) (dir_fisica h + 0) (dato men) = Inr m"
    using ok [OF hs(1)] t by (auto simp: escribir_def)
  let ?u = "u\<lparr>mem_prin := m\<rparr>"
  have "almacenar_segmento men id_p u = Inr ?u"
    using h(1) t l m by (simp add: almacenar_segmento_def leer_todo)
  moreover from this have "umv_inv ?u" using almacenar_segmento_inv [OF u(1)] by blast
  moreover have "sin_repetidos ?u" using u(2) by (simp add: sin_repetidos_def)
  moreover have propio: "bytes_seg m h = dato men"
    using bytes_seg_escribir [of h "mem_prin u" 0 "dato men" m] ok [OF hs(1)] t m l h(3)
    by (simp add: reemplazar_def)
  moreover have ajeno: "bytes_seg m x = bytes_seg (mem_prin u) x" if "x \<in> set (list_seg u)" "x \<noteq> h" for x
    using bytes_seg_aparte [of h x 0 "dato men" "mem_prin u" m] umv_inv_ajenos [OF u(1) hs(1)] ok that t m
    by auto
  moreover have "seg_umv (Suc n, ?u) = (seg_umv (n, u))(id_p := (seg_umv (n, u) id_p)(tipo men \<mapsto> (d, dato men)))"
  proof (intro ext)
    fix q t
    have q: "buscar_segmento_tipo_seg ?u q t = buscar_segmento_tipo_seg u q t"
      by (simp add: buscar_segmento_tipo_seg_def)
    show "seg_umv (Suc n, ?u) q t
        = ((seg_umv (n, u))(id_p := (seg_umv (n, u) id_p)(tipo men \<mapsto> (d, dato men)))) q t"
    proof (cases "(q, t) = (id_p, tipo men)")
      case True
      then show ?thesis using h(1,2) propio q by (simp add: seg_umv_def)
    next
      case False
      then have "x \<in> set (list_seg u) \<and> x \<noteq> h" if "buscar_segmento_tipo_seg u q t = Some x" for x
        using that buscar_tipo_unico [OF u(2)] hs(2) by auto
      then show ?thesis
        using ajeno q False by (cases "buscar_segmento_tipo_seg u q t") (auto simp: seg_umv_def)
    qed
  qed
  ultimately show ?thesis
    using i by (simp add: servidor_umv_def atender_kernel_def crear_men_seg_def gestionar_alm_seg_def
        crear_men_comun_todo gestor_inv_def)
qed

lemma destruir_umv:
  assumes "gestor_inv e itoa azar (n, u)" "1 \<le> id_p"
  shows "\<exists>resp s'. servidor_umv e itoa azar (crear_men_seg (codigo DESTR_SEGS) id_p 0) aux (n, u) = Inr (resp, s')
    \<and> gestor_inv e itoa azar s' \<and> seg_umv s' = (seg_umv (n, u))(id_p := Map.empty)"
proof -
  have "umv_inv (destruirSegmentos id_p u)" "sin_repetidos (destruirSegmentos id_p u)"
    using assms(1) destruirSegmentos_inv sin_repetidos_destruir by (auto simp: gestor_inv_def)
  moreover have "buscar_segmento_tipo_seg (destruirSegmentos id_p u) q t
      = (if q = id_p then None else buscar_segmento_tipo_seg u q t)" for q t
    using assms(2)
    by (auto simp: destruirSegmentos_eq buscar_segmento_tipo_seg_def find_None_iff intro: find_filtrar)
  ultimately show ?thesis
    using assms by (auto simp: servidor_umv_def atender_kernel_def crear_men_seg_def crear_men_comun_todo
        gestor_inv_def seg_umv_def fun_eq_iff destruirSegmentos_eq)
qed

interpretation ku: gestor_segmentos "servidor_umv e itoa azar" "gestor_inv e itoa azar" seg_umv
  for e itoa azar
proof (unfold_locales, goal_cases)
  case (1 u t id_p tam aux)
  then show ?case using pedir_umv [of e itoa azar "fst u" "snd u" t id_p tam aux] by simp
next
  case (2 u id_p men d bs)
  then show ?case using llenar_umv [of e itoa azar "fst u" "snd u" id_p men d bs] by simp
next
  case (3 u id_p aux)
  then show ?case using destruir_umv [of e itoa azar "fst u" "snd u" id_p aux] by simp
qed

end
