(* ===== verification/Kernel_UMV_Prop.thy ===== *)
theory Kernel_UMV_Prop
  imports Kernel_UMV
begin

text \<open>The properties of the kernel and the memory unit together.\<close>

definition azar_ej :: "nat \<Rightarrow> int" where
  "azar_ej n = 100"

definition u_vacia :: "nat \<times> umv" where
  "u_vacia = (0, umv_inicial (\<lambda>_. 0) 64 1)"

lemma gestor_u_vacia: "gestor_inv e_ej decimal azar_ej u_vacia"
  using list_sort_e_ej pila_e_ej [of 64]
  by (simp add: gestor_inv_def u_vacia_def umv_inv_def umv_inicial_def sin_repetidos_def
      entorno_ok_def itoa_ok_def azar_ej_def)

lemma u_vacia_sin_segmentos: "seg_umv u_vacia p = Map.empty"
  by (auto simp: seg_umv_def u_vacia_def umv_inicial_def buscar_segmento_tipo_seg_def)

lemma meta_ej_ok: "meta_ok (meta_ej b)"
  by (simp add: meta_ok_def meta_ej_def)

text \<open>
  C2. A program that arrives is admitted whole or not at all, with the real memory unit behind
  the kernel. Admitted, its process waits in new under the next number and owns in the memory
  unit exactly four segments, at the addresses its pcb holds: the code with the text of the
  program, the two tables of the parser, and a stack of the configured size. Refused, whichever
  of the four requests failed, no segment of it is left, the program is told, and its
  connection is closed. The segments of the other processes keep their addresses and sizes.
\<close>

theorem admision:
  assumes "gestor_inv e itoa azar u" "0 \<le> contador_programa k" "contador_programa k < 2147483647"
    "seg_umv u (contador_programa k + 1) = Map.empty" "0 \<le> tamanio_stack k" "soc \<notin> rotos k"
    "tam_dato men = int (length (dato men))" "meta_ok (meta (dato men))"
  shows "\<exists>k' u'. administrar_new_script itoa (servidor_umv e itoa azar) meta b soc men (k, u) = Inr (k', u')
    \<and> gestor_inv e itoa azar u'
    \<and> misma_forma (\<lambda>q t. q \<noteq> contador_programa k + 1) (seg_umv u) (seg_umv u')
    \<and> (admitido (meta (dato men)) soc men k k' (seg_umv u')
       \<or> rechazado (itoa (contador_programa k + 1)) soc k k' (seg_umv u'))"
  using assms by (intro ku.llegada_de_programa)

theorem admision_testigo:
  "\<exists>k' u'. administrar_new_script decimal (servidor_umv e_ej decimal azar_ej) meta_ej 0 4 script_ej (k_ej, u_vacia)
      = Inr (k', u')
    \<and> (admitido (meta_ej (dato script_ej)) 4 script_ej k_ej k' (seg_umv u')
       \<or> rechazado (decimal (contador_programa k_ej + 1)) 4 k_ej k' (seg_umv u'))"
proof -
  have "0 \<le> contador_programa k_ej" "contador_programa k_ej < 2147483647" "0 \<le> tamanio_stack k_ej"
    "4 \<notin> rotos k_ej" "tam_dato script_ej = int (length (dato script_ej))"
    by (simp_all add: k_ej_def script_ej_def)
  from admision [where meta = meta_ej, OF gestor_u_vacia this(1,2) u_vacia_sin_segmentos this(3-5) meta_ej_ok]
  show ?thesis by blast
qed

text \<open>
  C31. When the exit thread takes a process, every segment of that process disappears from the
  memory unit, and every other process keeps its segments byte for byte.
\<close>

theorem salida_libera:
  assumes "gestor_inv e itoa azar u" "cola_exit k = Some p # q" "1 \<le> pid p" "n_socket p \<notin> rotos k"
  shows "\<exists>k' u'. sale_exit (servidor_umv e itoa azar) (k, u) = Inr (k', u') \<and> cola_exit k' = q
    \<and> gestor_inv e itoa azar u' \<and> seg_umv u' = (seg_umv u)(pid p := Map.empty)"
proof -
  obtain resp u' where
    "servidor_umv e itoa azar (crear_men_seg (codigo DESTR_SEGS) (pid p) 0) sin_segundo u = Inr (resp, u')"
    "gestor_inv e itoa azar u'" "seg_umv u' = (seg_umv u)(pid p := Map.empty)"
    using ku.destruir [OF assms(1,3), of sin_segundo] by blast
  then show ?thesis
    using assms(2,4)
    by (cases u') (simp add: sale_exit_def Let_def queue_pop_pcb_def umv_destrui_pcb_def
        enviar_comun_def crear_men_comun_todo enviar_def)
qed

theorem salida_libera_testigo:
  "\<exists>k' u'. sale_exit (servidor_umv e_ej decimal azar_ej) (k_ej\<lparr>cola_exit := [Some (pcb_ej 1 4 0)]\<rparr>, u_vacia)
      = Inr (k', u') \<and> cola_exit k' = []"
  using salida_libera [OF gestor_u_vacia, of "k_ej\<lparr>cola_exit := [Some (pcb_ej 1 4 0)]\<rparr>" "pcb_ej 1 4 0" "[]"]
  by (auto simp: k_ej_def)

end
