(* ===== verification/CPU_Kernel.thy ===== *)
theory CPU_Kernel
  imports CPU_Prop Kernel_UMV_Prop
begin

text \<open>
  The CPU and the kernel together: what a CPU sends at the end of a turn, and how the kernel
  reacts to a CPU that reports the end of a process twice.
\<close>

section \<open>A CPU without a process\<close>

text \<open>The CPU behind \<open>soc\<close> is free for the kernel, and no running process has the number 0.\<close>

definition sin_proceso :: "kernel \<Rightarrow> int \<Rightarrow> bool" where
  "sin_proceso k soc \<longleftrightarrow> (\<exists>c. get_cpu soc k = Some c \<and> id_prog_exec c = 0)
     \<and> (\<exists>xs. cola_exec k = map Some xs \<and> (\<forall>x \<in> set xs. pid x \<noteq> 0))"

lemma sin_proceso_busca:
  assumes "sin_proceso k soc"
  shows "\<exists>c k1. get_cpu_soc_cpu_remove soc k = (Some c, k1) \<and> get_pcb_otros_exec (id_prog_exec c) k1 = Inr (None, k1)"
proof -
  obtain c xs where c: "get_cpu soc k = Some c" "id_prog_exec c = 0" "cola_exec k = map Some xs"
    "\<And>x. x \<in> set xs \<Longrightarrow> pid x \<noteq> 0" using assms by (auto simp: sin_proceso_def)
  obtain r l where l: "list_remove_by_condition (\<lambda>c. soc_cpu c = soc) (lista_cpu k) = (r, l)" by fastforce
  then have "r = Some c" using c(1) remove_find [of "\<lambda>c. soc_cpu c = soc" "lista_cpu k"] by (simp add: get_cpu_def)
  moreover have "rotar_cola (length xs) (\<lambda>p. pid p = 0) (map Some xs) = Inr (None, map Some xs)"
    using rotar_cola_None [of xs "\<lambda>p. pid p = 0" "[]"] c(4) by simp
  ultimately show ?thesis
    using l c(2,3) by (simp add: get_cpu_soc_cpu_remove_def get_pcb_otros_exec_def)
qed

text \<open>Any report of an end of execution or of a turn from such a CPU ends the kernel.\<close>

lemma sin_proceso_mata:
  assumes "sin_proceso k soc"
  shows "fin_ejecucion t soc k = Inl Puntero_Nulo"
    "tam_dato men \<noteq> 1 \<Longrightarrow> fin_quantum soc men recibido k = Inl Puntero_Nulo"
  using sin_proceso_busca [OF assms]
  by (auto simp: fin_ejecucion_def fin_ejecucion_cpu_def fin_ejecucion_pcb_def fin_quantum_def)

text \<open>After the end of its process the CPU is free; \<open>ds\<close> has no other entry of its socket.\<close>

definition corre_en :: "kernel \<Rightarrow> int \<Rightarrow> t_pcb_otros \<Rightarrow> bool" where
  "corre_en k soc p \<longleftrightarrow> (\<exists>cs c ds us vs. ejecuta k soc cs c ds us p vs
     \<and> (\<forall>x \<in> set ds. soc_cpu x \<noteq> soc) \<and> (\<forall>x \<in> set us \<union> set vs. pid x \<noteq> 0))"

lemma find_append: "find f (xs @ ys) = (case find f xs of None \<Rightarrow> find f ys | Some x \<Rightarrow> Some x)"
  by (induction xs) auto

lemma liberada_sin_proceso:
  assumes "ejecuta k soc cs c ds us p vs" "\<forall>x \<in> set ds. soc_cpu x \<noteq> soc" "\<forall>x \<in> set us \<union> set vs. pid x \<noteq> 0"
    "lista_cpu k' = cs @ ds @ [c\<lparr>id_prog_exec := 0, soc_prog := 0\<rparr>]" "cola_exec k' = map Some (vs @ us)"
  shows "sin_proceso k' soc"
proof -
  have "find (\<lambda>c. soc_cpu c = soc) (cs @ ds) = None"
    using assms(1,2) by (auto simp: find_None_iff ejecuta_def)
  then have "get_cpu soc k' = Some (c\<lparr>id_prog_exec := 0, soc_prog := 0\<rparr>)"
    using assms(1,4) by (simp add: get_cpu_def find_append ejecuta_def flip: append_assoc)
  then show ?thesis using assms(3,5) by (auto simp: sin_proceso_def intro!: exI [of _ "vs @ us"])
qed

lemma fin_ejecucion_libera:
  assumes "corre_en k soc p"
  obtains k' where "fin_ejecucion t soc k = Inr k'" "sin_proceso k' soc" "rotos k' = rotos k"
proof -
  obtain cs c ds us vs where r: "ejecuta k soc cs c ds us p vs" "\<forall>x \<in> set ds. soc_cpu x \<noteq> soc"
    "\<forall>x \<in> set us \<union> set vs. pid x \<noteq> 0" using assms by (auto simp: corre_en_def)
  let ?k = "k\<lparr>lista_cpu := cs @ ds, cola_exec := map Some (vs @ us)\<rparr>"
  let ?k' = "liberar_cpu c (pasar_pcb_exit (Some (p\<lparr>tipo_fin_ejecucion := t\<rparr>)) ?k)"
  have "fin_ejecucion t soc k = Inr ?k'"
    using ejecuta_cpu [OF r(1)] ejecuta_pcb [OF r(1), of "k\<lparr>lista_cpu := cs @ ds\<rparr>"]
    by (simp add: fin_ejecucion_def fin_ejecucion_cpu_def fin_ejecucion_pcb_def)
  moreover have "sin_proceso ?k' soc"
    by (rule liberada_sin_proceso [OF r]) (simp_all add: liberar_cpu_def pasar_pcb_exit_def)
  ultimately show thesis using that by (simp add: liberar_cpu_def pasar_pcb_exit_def)
qed

section \<open>Two reports\<close>

text \<open>
  C38. A program that defines two variables on a full stack ends the kernel. The CPU reports a
  segmentation fault for each definition of the line (only assignments and printing check that
  there was one already); the first report takes the process off the CPU, and the second looks
  for the process of a CPU that has none.
\<close>

theorem doble_falla:
  assumes "umv_srv e = servir_cpu fresco" "length (tras_clave e) = 3"
    "contexto servir_inv servir_vista s p bs" "int (length bs) < tope p + 5" "\<not> roto_kernel s"
    "corre_en k soc po"
  shows "\<exists>s' m k1. ejecutar_linea e (Definir_Variable x (\<lambda>_. Definir_Variable y (\<lambda>_. Fin_Linea))) s = Inr s'
    \<and> a_kernel s' = a_kernel s @ [Men_Comun m, Men_Comun m]
    \<and> administrar_men_cpus itoa soc m men2 rec cer k = Inr k1
    \<and> administrar_men_cpus itoa soc m men2 rec cer k1 = Inl Puntero_Nulo"
proof -
  let ?m = "\<lparr>tam_dato = int (length (string_itoa e (pcb_id p))) + 1, tipo = codigo SEGMEN_FAULT,
    dato = string_itoa e (pcb_id p) @ [0]\<rparr>"
  let ?s1 = "s\<lparr>fueFinEjecucion := True, huboSegFault := True, a_kernel := a_kernel s @ [Men_Comun ?m]\<rparr>"
  have c1: "contexto servir_inv servir_vista ?s1 p bs" using assms(3) by (simp add: contexto_def)
  have l: "ejecutar_linea e (Definir_Variable x (\<lambda>_. Definir_Variable y (\<lambda>_. Fin_Linea))) s
      = Inr (?s1\<lparr>a_kernel := a_kernel s @ [Men_Comun ?m, Men_Comun ?m]\<rparr>)"
    using umv_cpu.definir_falla [OF assms(1-5)] umv_cpu.definir_falla [OF assms(1,2) c1 assms(4)] assms(5)
    by simp
  obtain k1 where k1: "fin_ejecucion (codigo SEGMEN_FAULT) soc k = Inr k1" "sin_proceso k1 soc"
    by (rule fin_ejecucion_libera [OF assms(6)])
  have "administrar_men_cpus itoa soc ?m men2 rec cer k' = fin_ejecucion (codigo SEGMEN_FAULT) soc k'" for k'
    by (simp add: administrar_men_cpus_def)
  then show ?thesis using l k1 sin_proceso_mata(1) [OF k1(2)] by auto
qed

lemma corre_en_k_turno: "corre_en k_turno 9 (pcb_ej 1 4 0)"
  unfolding corre_en_def using ejecuta_k_turno by fastforce

theorem doble_falla_testigo:
  "\<exists>s' m k1. ejecutar_linea e_cpu (Definir_Variable 97 (\<lambda>_. Definir_Variable 98 (\<lambda>_. Fin_Linea)))
      (s_cpu\<lparr>pcb := Some (p_cpu\<lparr>cant_var_cont_actual := 8\<rparr>)\<rparr>) = Inr s'
    \<and> a_kernel s' = [Men_Comun m, Men_Comun m]
    \<and> administrar_men_cpus decimal 9 m cierre_ej (Inl Salida) cierre_ej k_turno = Inr k1
    \<and> administrar_men_cpus decimal 9 m cierre_ej (Inl Salida) cierre_ej k1 = Inl Puntero_Nulo"
proof -
  let ?p = "p_cpu\<lparr>cant_var_cont_actual := 8\<rparr>"
  let ?s = "s_cpu\<lparr>pcb := Some ?p\<rparr>" and ?bs = "replicate 40 (0::byte)"
  have c: "contexto servir_inv servir_vista ?s ?p ?bs"
    using contexto_s_cpu by (simp add: contexto_def p_cpu_def)
  have t: "int (length ?bs) < tope ?p + 5" by (simp add: tope_def inicio_contexto_def p_cpu_def)
  show ?thesis
    using doble_falla [OF e_cpu_campos(1) _ c t _ corre_en_k_turno, of 97 98 decimal cierre_ej "Inl Salida" cierre_ej]
    by simp
qed

text \<open>
  C39. A signal to a semaphore that does not exist ends the kernel a little later. The kernel
  takes the process off the CPU and answers that the semaphore does not exist; the CPU does not
  end the turn for it, and at the latest the report of the end of the quantum comes from a CPU
  that has no process.
\<close>

theorem signal_inexistente:
  assumes "corre_en k soc po" "soc \<notin> rotos k" "cadena (dato men) = Inr key" "dicc_sem k key = None"
    "\<not> roto_kernel s" "pcb s = Some p" "cpu_quit_sistema s"
    "de_kernel s = [Men_Comun \<lparr>tam_dato = 0, tipo = codigo SEM_INEX, dato = []\<rparr>]"
  shows "\<exists>k1 s1 s2 mq mp. signal soc men k = Inr k1
    \<and> last (salida k1) = Envia soc (Men_Comun \<lparr>tam_dato = 0, tipo = codigo SEM_INEX, dato = []\<rparr>)
    \<and> mi_signal e x s = Inr s1 \<and> fueFinEjecucion s1 = fueFinEjecucion s
    \<and> salirPorQuantum s1 = Inr s2 \<and> a_kernel s2 = a_kernel s1 @ [Men_Comun mq, Men_Pcb mp]
    \<and> administrar_men_cpus itoa soc mq men2 (Inr mp) cer k1 = Inl Puntero_Nulo"
proof -
  obtain cs c ds us vs where r: "ejecuta k soc cs c ds us po vs" "\<forall>x \<in> set ds. soc_cpu x \<noteq> soc"
    "\<forall>x \<in> set us \<union> set vs. pid x \<noteq> 0" using assms(1) by (auto simp: corre_en_def)
  let ?k = "pasar_pcb_exit (Some (po\<lparr>tipo_fin_ejecucion := codigo SEM_INEX\<rparr>))
    (k\<lparr>lista_cpu := cs @ ds, cola_exec := map Some (vs @ us)\<rparr>)"
  let ?men = "\<lparr>tam_dato = 0, tipo = codigo SEM_INEX, dato = []\<rparr>"
  let ?k1 = "liberar_cpu c (?k\<lparr>salida := salida k @ [Envia soc (Men_Comun ?men)]\<rparr>)"
  have "signal soc men k = Inr ?k1"
    using assms(2-4) ejecuta_cpu [OF r(1)] ejecuta_pcb [OF r(1), of "k\<lparr>lista_cpu := cs @ ds\<rparr>"]
    by (simp add: signal_def llamada_erronea_def enviar_comun_def enviar_def pasar_pcb_exit_def)
  moreover have "sin_proceso ?k1 soc"
    by (rule liberada_sin_proceso [OF r]) (simp_all add: liberar_cpu_def pasar_pcb_exit_def)
  then have "fin_quantum soc \<lparr>tam_dato = 0, tipo = codigo FIN_QUANTUM, dato = []\<rparr> (Inr mp) ?k1 = Inl Puntero_Nulo" for mp
    by (rule sin_proceso_mata(2)) simp
  moreover have "last (salida ?k1) = Envia soc (Men_Comun ?men)" by (simp add: liberar_cpu_def)
  ultimately show ?thesis
    using assms(5-8)
    by (auto simp: mi_signal_def enviar_texto_def enviar_kernel_def crear_men_comun_def leer_todo
        al_kernel_def recibir_kernel_def finalizarContexto_def salirPorQuantum_def leer_def
        enviar_pcb_destruir_def crear_men_quantum_pcb_def administrar_men_cpus_def)
qed

theorem signal_inexistente_testigo:
  "\<exists>k1 s1 s2 mq mp. signal 9 \<lparr>tam_dato = 2, tipo = 65, dato = [84, 0]\<rparr> k_turno = Inr k1
    \<and> mi_signal e_cpu [84] (s_cpu\<lparr>de_kernel := [Men_Comun \<lparr>tam_dato = 0, tipo = 70, dato = []\<rparr>]\<rparr>) = Inr s1
    \<and> salirPorQuantum s1 = Inr s2 \<and> a_kernel s2 = a_kernel s1 @ [Men_Comun mq, Men_Pcb mp]
    \<and> administrar_men_cpus decimal 9 mq cierre_ej (Inr mp) cierre_ej k1 = Inl Puntero_Nulo"
proof -
  let ?men = "\<lparr>tam_dato = 2, tipo = 65, dato = [84, 0]\<rparr>"
  let ?s = "s_cpu\<lparr>de_kernel := [Men_Comun \<lparr>tam_dato = 0, tipo = codigo SEM_INEX, dato = []\<rparr>]\<rparr>"
  have k: "9 \<notin> rotos k_turno" "cadena (dato ?men) = Inr [84]" "dicc_sem k_turno [84] = None"
    by (simp_all add: k_turno_def k_ej_def cadena_def)
  have s: "\<not> roto_kernel ?s" "pcb ?s = Some p_cpu" "cpu_quit_sistema ?s"
    "de_kernel ?s = [Men_Comun \<lparr>tam_dato = 0, tipo = codigo SEM_INEX, dato = []\<rparr>]"
    by (simp_all add: s_cpu_def)
  from signal_inexistente [OF corre_en_k_turno k s, of e_cpu "[84]" decimal cierre_ej cierre_ej]
  obtain k1 s1 s2 mq mp where "signal 9 ?men k_turno = Inr k1" "mi_signal e_cpu [84] ?s = Inr s1"
    "salirPorQuantum s1 = Inr s2" "a_kernel s2 = a_kernel s1 @ [Men_Comun mq, Men_Pcb mp]"
    "administrar_men_cpus decimal 9 mq cierre_ej (Inr mp) cierre_ej k1 = Inl Puntero_Nulo" by blast
  then show ?thesis by auto
qed

section \<open>From CPU to CPU\<close>

text \<open>
  C18. A process that has used up its quantum goes on, on whatever CPU, with exactly the
  registers with which it stopped: the CPU reports the end of the turn and its pcb, the kernel
  puts the process at the end of ready (here the only one), the dispatcher sends it to the
  first free CPU of the list, and that CPU starts with the same pcb.
\<close>

theorem relevo:
  assumes "ejecuta k soc cs c ds us po vs" "cola_ready k = []" "rotos k = {}"
    "pcb s = Some p" "\<not> roto_kernel s" "cpu_quit_sistema s"
    "p = (po_pcb po)\<lparr>cant_var_cont_actual := n, dir_cont_actual := d, program_counter := pc\<rparr>"
  shows "\<exists>s' m mp k1 k2 soc2 mp2. salirPorQuantum s = Inr s'
    \<and> a_kernel s' = a_kernel s @ [Men_Comun m, Men_Pcb mp]
    \<and> administrar_men_cpus itoa soc m men2 (Inr mp) cer k = Inr k1
    \<and> ready_exec k1 = Inr k2 \<and> salida k2 = salida k @ [Envia soc2 (Men_Pcb mp2)]
    \<and> (\<forall>s2. de_kernel s2 = [Men_Pcb mp2] \<longrightarrow> (\<exists>s3. recibirUnPcb s2 = Inr s3 \<and> pcb s3 = Some p))"
proof -
  let ?m = "\<lparr>tam_dato = 0, tipo = codigo FIN_QUANTUM, dato = []\<rparr>"
  let ?mp = "\<lparr>mq_tipo = codigo PCB_Y_QUANTUM, mq_quantum = 0, mq_pcb = p\<rparr>"
  have s: "salirPorQuantum s = Inr (s\<lparr>a_kernel := a_kernel s @ [Men_Comun ?m, Men_Pcb ?mp]\<rparr>)"
    using assms(4-6) by (simp add: salirPorQuantum_def enviar_kernel_def al_kernel_def crear_men_comun_def
        leer_def enviar_pcb_destruir_def crear_men_quantum_pcb_def)
  let ?k0 = "k\<lparr>lista_cpu := cs @ ds, cola_exec := map Some (vs @ us)\<rparr>"
  let ?k1 = "liberar_cpu c (push_ready (Some (po\<lparr>po_pcb := p\<rparr>)) ?k0)"
  have "(po_pcb po)\<lparr>cant_var_cont_actual := cant_var_cont_actual p, dir_cont_actual := dir_cont_actual p,
      program_counter := program_counter p\<rparr> = p" by (simp add: assms(7))
  then have k1: "administrar_men_cpus itoa soc ?m men2 (Inr ?mp) cer k = Inr ?k1"
    using ejecuta_cpu [OF assms(1)] ejecuta_pcb [OF assms(1), of "k\<lparr>lista_cpu := cs @ ds\<rparr>"]
    by (simp add: administrar_men_cpus_def fin_quantum_def recv_actualizar_pcb_def)
  obtain c2 k3 where c2: "get_cpu_libre_remove ?k1 = (c2, k3)" by fastforce
  have "libres ?k1 \<noteq> 0" by (simp add: libres_def liberar_cpu_def)
  then obtain cpu l where cpu: "c2 = Some cpu" "k3 = ?k1\<lparr>lista_cpu := l\<rparr>"
    using get_cpu_libre_Inr [OF c2] by (cases c2) auto
  let ?mp2 = "\<lparr>mq_tipo = codigo PCB_Y_QUANTUM, mq_quantum = quantum_max k, mq_pcb = p\<rparr>"
  obtain k2 where k2: "ready_exec ?k1 = Inr k2" "salida k2 = salida k @ [Envia (soc_cpu cpu) (Men_Pcb ?mp2)]"
    using c2 cpu assms(2,3)
    by (simp add: ready_exec_def queue_pop_pcb_def queue_push_def liberar_cpu_def push_ready_def
        enviar_cpu_pcb_def crear_men_quantum_pcb_def enviar_def)
  have "\<forall>s2. de_kernel s2 = [Men_Pcb ?mp2] \<longrightarrow> (\<exists>s3. recibirUnPcb s2 = Inr s3 \<and> pcb s3 = Some p)"
    by (simp add: recibirUnPcb_def)
  with s k1 k2 show ?thesis by fastforce
qed

theorem relevo_testigo:
  "\<exists>s' m mp k1 k2. salirPorQuantum (s_cpu\<lparr>pcb := Some (po_pcb (pcb_ej 1 4 3))\<rparr>) = Inr s'
    \<and> a_kernel s' = [Men_Comun m, Men_Pcb mp]
    \<and> administrar_men_cpus decimal 9 m cierre_ej (Inr mp) cierre_ej (k_turno\<lparr>cola_ready := []\<rparr>) = Inr k1
    \<and> ready_exec k1 = Inr k2"
proof -
  let ?k = "k_turno\<lparr>cola_ready := []\<rparr>" and ?s = "s_cpu\<lparr>pcb := Some (po_pcb (pcb_ej 1 4 3))\<rparr>"
  have k: "ejecuta ?k 9 [] \<lparr>soc_cpu = 9, soc_prog = 4, id_prog_exec = 1\<rparr> [] [] (pcb_ej 1 4 0) []"
    "cola_ready ?k = []" "rotos ?k = {}"
    using ejecuta_k_turno by (simp_all add: ejecuta_def k_turno_def k_ej_def)
  have s: "pcb ?s = Some (po_pcb (pcb_ej 1 4 3))" "\<not> roto_kernel ?s" "cpu_quit_sistema ?s"
    "po_pcb (pcb_ej 1 4 3) = (po_pcb (pcb_ej 1 4 0))\<lparr>cant_var_cont_actual := 0, dir_cont_actual := 7, program_counter := 3\<rparr>"
    by (simp_all add: s_cpu_def pcb_ej_def)
  from relevo [OF k s, of decimal cierre_ej cierre_ej] show ?thesis by (simp, blast)
qed

end
