(* ===== verification/Sistema.thy ===== *)
theory Sistema
  imports CPU_Kernel
begin

text \<open>
  The four programs in one: the script that a program sends is what a CPU executes. The kernel
  stores the script and the parser's index in the memory unit by process and type of segment,
  a CPU reads them by process and logical address.
\<close>

section \<open>The text of an instruction\<close>

text \<open>
  The index \<open>ser\<close> holds for every instruction its offset and size in the script. \<open>l\<close> are the
  bytes of instruction \<open>i\<close>.
\<close>

definition instruccion_de :: "byte list \<Rightarrow> byte list \<Rightarrow> int \<Rightarrow> byte list \<Rightarrow> bool" where
  "instruccion_de ser texto i l \<longleftrightarrow> 0 \<le> i \<and> 8 * i + 8 \<le> int (length ser) \<and>
     (let d = bytes_i32 (take 4 (drop (nat (8 * i)) ser));
          n = bytes_i32 (take 4 (drop (nat (8 * i) + 4) ser)) in
      0 \<le> d \<and> 0 \<le> n \<and> d + n \<le> int (length texto) \<and> l = take (nat n) (drop (nat d) texto))"

lemma cadena_cortada: "cadena (l @ [0]) = Inr (takeWhile (\<lambda>b. b \<noteq> 0) l)"
proof (cases "0 \<in> set l")
  case True
  then have "takeWhile (\<lambda>b. b \<noteq> 0) (l @ [0]) = takeWhile (\<lambda>b. b \<noteq> 0) l"
    by (auto intro: takeWhile_append1)
  then show ?thesis using True by (auto simp: cadena_def)
next
  case False
  then have "takeWhile (\<lambda>b. b \<noteq> 0) l = l" by (intro takeWhile_eq_all_conv [THEN iffD2]) metis
  with cadena_terminada [OF False, of "[]"] show ?thesis by metis
qed

lemma leer_parte:
  "0 \<le> i \<Longrightarrow> i + 4 \<le> int (length bs) \<Longrightarrow> leer_i32 bs i = Inr (bytes_i32 (take 4 (drop (nat i) bs)))"
  by (simp add: leer_i32_def leer_def)

context memoria_remota
begin

lemma etiquetas_contexto:
  assumes "umv_srv e = srv" "inv (memoria s)" "pcb s = Some p"
    "vista (memoria s) (dir_indice_etiquetas p) = Some etis" "tam_indice_etiquetas p = int (length etis)"
  shows "traerIndiceEtiquetas e s = Inr (s\<lparr>cpu_etiquetas := Bloque etis\<rparr>)"
  using conversar_sol [OF assms(1,2,4), of 0 "int (length etis)"] assms(3,5)
  by (simp add: traerIndiceEtiquetas_def respuesta_bytes_def leer_def)

lemma prox_contexto:
  assumes e: "umv_srv e = srv" "inv (memoria s)" "pcb s = Some p"
    and v: "vista (memoria s) (dir_indice_codigo p) = Some ser" "vista (memoria s) (dir_seg_codigo p) = Some texto"
    and i: "instruccion_de ser texto (program_counter p) l" "int (length ser) < 2147483648"
  shows "solicitarProxSentenciaAUmv e s = Inr (Some (sacar_caracteres_escape (takeWhile (\<lambda>b. b \<noteq> 0) l)),
    s\<lparr>pcb := Some (p\<lparr>program_counter := program_counter p + 1\<rparr>)\<rparr>)"
proof -
  let ?i = "program_counter p" and ?x = "take 8 (drop (nat (8 * program_counter p)) ser)"
  obtain d n where d: "0 \<le> ?i" "8 * ?i + 8 \<le> int (length ser)"
    "d = bytes_i32 (take 4 (drop (nat (8 * ?i)) ser))" "n = bytes_i32 (take 4 (drop (nat (8 * ?i) + 4) ser))"
    "0 \<le> d" "0 \<le> n" "d + n \<le> int (length texto)" "l = take (nat n) (drop (nat d) texto)"
    using i(1) by (auto simp: instruccion_de_def Let_def)
  have r: "i32 (?i * 8) = 8 * ?i" "i32 (?i + 1) = ?i + 1" using d(1,2) i(2) by (simp_all add: i32_id_bounds)
  have lx: "length ?x = 8" using d(1,2) by auto
  have x: "leer_i32 ?x 0 = Inr d" "leer_i32 ?x 4 = Inr n"
    using lx d(3,4) by (simp_all add: leer_parte drop_take add.commute)
  have ln: "int (length l) = n" using d(5-8) by auto
  have c1: "conversar_umv e SOL_BYTES (dir_indice_codigo p) (i32 (?i * 8)) 8 None s = Inr (respuesta_bytes ?x, s)"
    using conversar_sol [OF e(1,2) v(1), of "8 * ?i" 8] d(1,2) r(1) by simp
  have c2: "conversar_umv e SOL_BYTES (dir_seg_codigo p) d n None s = Inr (respuesta_bytes l, s)"
    using conversar_sol [OF e(1,2) v(2) d(5-7)] d(8) by simp
  have "leer l 0 n = Inr l" using ln leer_todo [of l] by simp
  then show ?thesis
    using e(3) c1 c2 x r(2) by (simp add: solicitarProxSentenciaAUmv_def respuesta_bytes_def cadena_cortada)
qed

end

section \<open>Two views of the memory unit\<close>

text \<open>
  The kernel finds a segment by its type, a CPU by its logical address. They agree when \<open>rand\<close>
  has given the segments of the process different addresses; \<open>crearSegmento\<close> does not check it.
\<close>

definition bases_propias :: "segmentos \<Rightarrow> int \<Rightarrow> bool" where
  "bases_propias s id_p \<longleftrightarrow> (\<forall>t d bs. s id_p t = Some (d, bs) \<longrightarrow> 0 \<le> d
     \<and> (\<forall>t' bs'. s id_p t' = Some (d, bs') \<longrightarrow> t' = t))"

lemma vista_de_segmento:
  assumes "sin_repetidos (snd u)" "bases_propias (seg_umv u) id_p" "seg_umv u id_p t = Some (d, bs)"
  shows "vista (snd u) id_p d = Some bs"
proof -
  obtain h where h: "buscar_segmento_tipo_seg (snd u) id_p t = Some h" "d = dir_logica h"
    "bs = bytes_seg (mem_prin (snd u)) h" using assms(3) by (auto simp: seg_umv_def)
  have "h \<in> set (list_seg (snd u))" "id_proc h = id_p"
    using buscar_tipo_unico [OF assms(1), of id_p t h] h(1) by (auto simp: clave_def)
  then obtain g where g: "buscar_segmento_dir_logica (snd u) id_p d = Some g"
    using h(2) by (cases "buscar_segmento_dir_logica (snd u) id_p d")
      (auto simp: buscar_segmento_dir_logica_def find_None_iff)
  then have "clave g = (id_p, tipo_seg g)" "g \<in> set (list_seg (snd u))" "dir_logica g = d"
    using buscar_dir_logica_Some [OF g] by (auto simp: clave_def)
  then have "buscar_segmento_tipo_seg (snd u) id_p (tipo_seg g) = Some g"
    using buscar_tipo_unico [OF assms(1)] by blast
  moreover from this have "tipo_seg g = t"
    using assms(2,3) \<open>dir_logica g = d\<close> by (auto simp: bases_propias_def seg_umv_def)
  ultimately have "g = h" using h(1) by simp
  moreover have "0 \<le> d" using assms(2,3) by (auto simp: bases_propias_def)
  ultimately show ?thesis using g h(3) by (simp add: vista_def)
qed

section \<open>The first instruction\<close>

lemma new_ready_uno:
  "cola_new k = [Some x] \<Longrightarrow> peso x \<le> 1000000 \<Longrightarrow>
     new_ready k = Inr (push_ready (Some x) (k\<lparr>cola_new := []\<rparr>))"
  by (simp add: new_ready_def get_peso_min_def queue_push_def)

lemma ready_exec_uno:
  assumes "cola_ready k = [Some x]" "libres k \<noteq> 0" "rotos k = {}"
  shows "\<exists>c k1. ready_exec k = Inr k1 \<and> salida k1 = salida k @ [Envia c (Men_Pcb
    \<lparr>mq_tipo = codigo PCB_Y_QUANTUM, mq_quantum = quantum_max k, mq_pcb = po_pcb x\<rparr>)]"
proof -
  obtain c k1 where c: "get_cpu_libre_remove k = (c, k1)" by fastforce
  then obtain cpu l where "c = Some cpu" "k1 = k\<lparr>lista_cpu := l\<rparr>"
    using get_cpu_libre_Inr [OF c] assms(2) by (cases c) auto
  then show ?thesis
    using c assms(1,3) by (simp add: ready_exec_def queue_pop_pcb_def enviar_cpu_pcb_def
        crear_men_quantum_pcb_def enviar_def)
qed

text \<open>What a CPU does with a fresh process before its first instruction.\<close>

lemma cpu_recibe:
  assumes e: "umv_srv e = servir_cpu fresco" and u: "umv_inv (snd u)" "tam_mem_total (snd u) < 1073741824"
    and s: "de_kernel s = [Men_Pcb m]" "snd (memoria s) = snd u" and t: "mq_tipo m = codigo PCB_Y_QUANTUM"
    and p: "mq_pcb m = p" "cant_var_cont_actual p = 0" "tam_indice_etiquetas p = int (length etis)"
    and v: "vista (snd u) (pcb_id p) (dir_indice_etiquetas p) = Some etis"
      "vista (snd u) (pcb_id p) (dir_indice_codigo p) = Some ser"
      "vista (snd u) (pcb_id p) (dir_seg_codigo p) = Some texto"
    and i: "instruccion_de ser texto (program_counter p) l"
  shows "\<exists>s1 s2 s3 s4 s5. recibirUnPcb s = Inr s1 \<and> cambio_PA e (pcb_id p) s1 = Inr s2
    \<and> traerIndiceEtiquetas e s2 = Inr s3 \<and> cpu_etiquetas s3 = Bloque etis
    \<and> regenerar_dicc_var e s3 = Inr s4 \<and> dic_Variables s4 = Map.empty
    \<and> solicitarProxSentenciaAUmv e s4 = Inr (Some (sacar_caracteres_escape (takeWhile (\<lambda>b. b \<noteq> 0) l)), s5)"
proof -
  let ?s1 = "s\<lparr>pcb := Some p, cpu_quantum_max := mq_quantum m, de_kernel := []\<rparr>"
  let ?s2 = "?s1\<lparr>memoria := (pcb_id p, snd u)\<rparr>"
  let ?s3 = "?s2\<lparr>cpu_etiquetas := Bloque etis\<rparr>"
  let ?s4 = "?s3\<lparr>dic_Variables := Map.empty\<rparr>"
  have s1: "recibirUnPcb s = Inr ?s1" using s(1) t p(1) by (simp add: recibirUnPcb_def)
  have s2: "cambio_PA e (pcb_id p) ?s1 = Inr ?s2"
    using e s(2) by (cases "memoria s")
      (simp add: cambio_PA_def crear_men_cpu_umv_def servir_cpu_def atender_cpu_def)
  have ok: "servir_inv (memoria ?s2)" "servir_vista (memoria ?s2) = vista (snd u) (pcb_id p)"
    using u by (simp_all add: servir_inv_def servir_vista_def)
  have s3: "traerIndiceEtiquetas e ?s2 = Inr ?s3"
    by (rule umv_cpu.etiquetas_contexto [OF e ok(1)]) (use ok(2) v(1) p(3) in simp_all)
  have s4: "regenerar_dicc_var e ?s3 = Inr ?s4" using p(2) by (simp add: regenerar_dicc_var_def)
  have "int (length ser) < 2147483648"
    by (rule vista_Some [OF u(1) v(2)]) (use u(2) in simp)
  with i have "solicitarProxSentenciaAUmv e ?s4 = Inr (Some (sacar_caracteres_escape (takeWhile (\<lambda>b. b \<noteq> 0) l)),
      ?s4\<lparr>pcb := Some (p\<lparr>program_counter := program_counter p + 1\<rparr>)\<rparr>)"
    by (intro umv_cpu.prox_contexto [OF e]) (use ok v in simp_all)
  then show ?thesis using s1 s2 s3 s4 by fastforce
qed

text \<open>
  C4. From the script to the first instruction, through all four programs: a program that the
  kernel has admitted while no other waits goes to ready and to a free CPU. That CPU makes the
  process the active one of the memory unit, gets the labels that the parser made, starts with
  no variables, and the first line that it executes is the line of the script where the
  parser's index says the program starts, without the blanks around it.
\<close>

theorem primera_instruccion:
  assumes "gestor_inv e itoa azar u" "admitido m soc men k k' (seg_umv u)" "meta_ok m"
    "cola_new k = []" "cola_ready k = []" "libres k \<noteq> 0" "rotos k = {}" "calcular_peso m \<le> 1000000"
    "bases_propias (seg_umv u) (contador_programa k + 1)" "tam_mem_total (snd u) < 1073741824"
    "instruccion_de (instrucciones_serializado m) (dato men) (instruccion_inicio m) l"
    "umv_srv ec = servir_cpu fresco"
  shows "\<exists>k2 k3 c mq. new_ready k' = Inr k2 \<and> ready_exec k2 = Inr k3
    \<and> salida k3 = salida k' @ [Envia c (Men_Pcb mq)]
    \<and> (\<forall>s. de_kernel s = [Men_Pcb mq] \<longrightarrow> snd (memoria s) = snd u \<longrightarrow>
        (\<exists>s1 s2 s3 s4 s5. recibirUnPcb s = Inr s1 \<and> cambio_PA ec (contador_programa k + 1) s1 = Inr s2
          \<and> traerIndiceEtiquetas ec s2 = Inr s3 \<and> cpu_etiquetas s3 = Bloque (etiquetas m)
          \<and> regenerar_dicc_var ec s3 = Inr s4 \<and> dic_Variables s4 = Map.empty
          \<and> solicitarProxSentenciaAUmv ec s4 =
              Inr (Some (sacar_caracteres_escape (takeWhile (\<lambda>b. b \<noteq> 0) l)), s5)))"
proof -
  let ?id = "contador_programa k + 1"
  obtain p pila where k': "k' = k\<lparr>contador_programa := ?id, cola_new := [Some \<lparr>po_pcb = p, n_socket = soc,
      peso = calcular_peso m, tipo_fin_ejecucion = -1\<rparr>], cant_new := Suc (cant_new k)\<rparr>"
    and segs: "seg_umv u ?id = [codigo CODIGO_SCRIPT \<mapsto> (dir_seg_codigo p, dato men),
      codigo IND_ETI_FUNC \<mapsto> (dir_indice_etiquetas p, etiquetas m),
      codigo IND_COD \<mapsto> (dir_indice_codigo p, instrucciones_serializado m),
      codigo IND_STACK \<mapsto> (dir_seg_stack p, pila)]"
    and p: "pcb_id p = ?id" "program_counter p = instruccion_inicio m" "cant_var_cont_actual p = 0"
      "tam_indice_etiquetas p = etiquetas_size m"
    using assms(2,4) by (auto simp: admitido_def)
  let ?po = "\<lparr>po_pcb = p, n_socket = soc, peso = calcular_peso m, tipo_fin_ejecucion = -1\<rparr>"
  let ?k2 = "push_ready (Some ?po) (k'\<lparr>cola_new := []\<rparr>)"
  let ?mq = "\<lparr>mq_tipo = codigo PCB_Y_QUANTUM, mq_quantum = quantum_max k, mq_pcb = p\<rparr>"
  have k2: "new_ready k' = Inr ?k2" by (rule new_ready_uno) (use assms(8) in \<open>simp_all add: k'\<close>)
  have "cola_ready ?k2 = [Some ?po]" "libres ?k2 \<noteq> 0" "rotos ?k2 = {}" "quantum_max ?k2 = quantum_max k"
    "salida ?k2 = salida k'"
    using assms(5-7) by (simp_all add: k' push_ready_def queue_push_def libres_def)
  then obtain c k3 where k3: "ready_exec ?k2 = Inr k3" "salida k3 = salida k' @ [Envia c (Men_Pcb ?mq)]"
    using ready_exec_uno [of ?k2 ?po] by auto
  have u: "umv_inv (snd u)" "sin_repetidos (snd u)" using assms(1) by (simp_all add: gestor_inv_def)
  note ver = vista_de_segmento [OF u(2) assms(9)]
  have v: "vista (snd u) (pcb_id p) (dir_indice_etiquetas p) = Some (etiquetas m)"
    "vista (snd u) (pcb_id p) (dir_indice_codigo p) = Some (instrucciones_serializado m)"
    "vista (snd u) (pcb_id p) (dir_seg_codigo p) = Some (dato men)"
    unfolding p(1) using segs by (auto intro!: ver)
  have "tam_indice_etiquetas p = int (length (etiquetas m))" using p(4) assms(3) by (simp add: meta_ok_def)
  from cpu_recibe [OF assms(12) u(1) assms(10) _ _ _ _ p(3) this v] assms(11) k2 k3 p(1,2)
  show ?thesis by fastforce
qed

text \<open>Process 1 of the script \<open>A\<close>: four segments at the addresses 10, 20, 30 and 40.\<close>

definition u_prog :: umv where
  "u_prog = \<lparr>mem_prin = [65, 0, 0, 0, 0, 1, 0, 0, 0] @ replicate 16 0, tam_mem_total = 25,
     list_seg = [\<lparr>id_proc = 1, dir_logica = 10, dir_fisica = 0, tam_seg = 1, tipo_seg = 206\<rparr>,
       \<lparr>id_proc = 1, dir_logica = 20, dir_fisica = 1, tam_seg = 0, tipo_seg = 207\<rparr>,
       \<lparr>id_proc = 1, dir_logica = 30, dir_fisica = 1, tam_seg = 8, tipo_seg = 208\<rparr>,
       \<lparr>id_proc = 1, dir_logica = 40, dir_fisica = 9, tam_seg = 16, tipo_seg = 209\<rparr>],
     alg_actual = 1, umv_retardo = 0, umv_quit = 1\<rparr>"

definition p_prog :: t_pcb where
  "p_prog = \<lparr>cant_var_cont_actual = 0, dir_cont_actual = 40, dir_indice_codigo = 30,
     dir_indice_etiquetas = 20, dir_seg_codigo = 10, dir_seg_stack = 40, pcb_id = 1,
     program_counter = 0, tam_indice_etiquetas = 0, cant_instrucciones = 0\<rparr>"

definition k_cpu :: kernel where
  "k_cpu = k_ej\<lparr>lista_cpu := [\<lparr>soc_cpu = 9, soc_prog = 0, id_prog_exec = 0\<rparr>], cant_cpu_libres := 1\<rparr>"

definition k_prog :: kernel where
  "k_prog = k_cpu\<lparr>contador_programa := 1, cant_new := 1, cola_new := [Some \<lparr>po_pcb = p_prog, n_socket = 4,
     peso = 1, tipo_fin_ejecucion = -1\<rparr>]\<rparr>"

lemma seg_u_prog: "seg_umv (4, u_prog) 1 = [codigo CODIGO_SCRIPT \<mapsto> (10, [65]), codigo IND_ETI_FUNC \<mapsto> (20, []),
    codigo IND_COD \<mapsto> (30, [0, 0, 0, 0, 1, 0, 0, 0]), codigo IND_STACK \<mapsto> (40, replicate 16 0)]"
  by (rule ext) (simp add: seg_umv_def u_prog_def buscar_segmento_tipo_seg_def bytes_seg_def)

lemma gestor_u_prog: "gestor_inv e_ej decimal azar_ej (4, u_prog)"
  using list_sort_e_ej pila_e_ej [of 25]
  by (simp add: gestor_inv_def entorno_ok_def itoa_ok_def azar_ej_def u_prog_def umv_inv_def seg_ok_def
      ajenos_def sin_repetidos_def clave_def)

lemma admitido_k_prog: "admitido (meta_ej [65]) 4 script_ej k_cpu k_prog (seg_umv (4, u_prog))"
  unfolding admitido_def
  by (rule exI [of _ p_prog], rule exI [of _ "replicate 16 0"])
    (simp add: k_cpu_def k_prog_def k_ej_def p_prog_def meta_ej_def script_ej_def calcular_peso_def
      i32_id_bounds seg_u_prog)

theorem primera_instruccion_testigo:
  "\<exists>k2 k3 c mq. new_ready k_prog = Inr k2 \<and> ready_exec k2 = Inr k3
    \<and> salida k3 = salida k_prog @ [Envia c (Men_Pcb mq)]
    \<and> (\<forall>s. de_kernel s = [Men_Pcb mq] \<longrightarrow> snd (memoria s) = snd (4 :: nat, u_prog) \<longrightarrow>
        (\<exists>s1 s2 s3 s4 s5. recibirUnPcb s = Inr s1 \<and> cambio_PA e_cpu 1 s1 = Inr s2
          \<and> traerIndiceEtiquetas e_cpu s2 = Inr s3 \<and> cpu_etiquetas s3 = Bloque (etiquetas (meta_ej [65]))
          \<and> regenerar_dicc_var e_cpu s3 = Inr s4 \<and> dic_Variables s4 = Map.empty
          \<and> solicitarProxSentenciaAUmv e_cpu s4 = Inr (Some [65], s5)))"
proof -
  have k: "cola_new k_cpu = []" "cola_ready k_cpu = []" "libres k_cpu \<noteq> 0" "rotos k_cpu = {}"
    "calcular_peso (meta_ej [65]) \<le> 1000000" "tam_mem_total (snd (4 :: nat, u_prog)) < 1073741824"
    by (simp_all add: k_cpu_def k_ej_def libres_def calcular_peso_def meta_ej_def i32_id_bounds u_prog_def)
  have b: "bases_propias (seg_umv (4, u_prog)) (contador_programa k_cpu + 1)"
    by (auto simp: bases_propias_def k_cpu_def k_ej_def seg_u_prog split: if_splits)
  have i: "instruccion_de (instrucciones_serializado (meta_ej [65])) (dato script_ej)
      (instruccion_inicio (meta_ej [65])) [65]"
    by (simp add: instruccion_de_def meta_ej_def script_ej_def bytes_i32_def i32_id_bounds Let_def)
  have "contador_programa k_cpu + 1 = 1"
    "sacar_caracteres_escape (takeWhile (\<lambda>b. b \<noteq> 0) [65]) = [65]"
    by (simp_all add: k_cpu_def k_ej_def sacar_caracteres_escape_def es_espacio_def)
  then show ?thesis
    using primera_instruccion [OF gestor_u_prog admitido_k_prog meta_ej_ok k(1-5) b k(6) i e_cpu_campos(1)]
    by (simp only:)
qed

end
