(* ===== verification/Programa.thy ===== *)
theory Programa
  imports Sockets Cadenas
begin

text \<open>
  The process of a user's program (\<open>programa/programa.c\<close>): it sends the script to the kernel
  and shows what the kernel sends until the program ends. A conversation is the list of the
  messages that arrive up to the end of the connection.
\<close>

section \<open>The script\<close>

definition tamanioArchivo :: "byte list \<Rightarrow> int" where
  "tamanioArchivo archivo = int (length archivo)"

text \<open>
  The bytes that the loop stores, one after another from the start of the array: the end of
  the file is noticed only by a read that fails, and its result -1 is stored as well.
\<close>

fun leer_script :: "byte list \<Rightarrow> byte list" where
  "leer_script [] = [- 1]"
| "leer_script (c # archivo) = c # leer_script archivo"

text \<open>The array has the size of the file; what is stored behind it is lost for the message.\<close>

definition mensaje_script :: "byte list \<Rightarrow> t_men_comun res" where
  "mensaje_script archivo = (let tamanioScript = tamanioArchivo archivo in
     crear_men_comun (codigo CODIGO_SCRIPT) (take (nat tamanioScript) (leer_script archivo)) tamanioScript)"

section \<open>The messages of the kernel\<close>

datatype linea = Texto "byte list" | Aviso tipo_datos | Numero int

text \<open>What a message shows, and whether it is the last one.\<close>

definition atender_mensaje :: "t_men_comun \<Rightarrow> (linea list \<times> bool) res" where
  "atender_mensaje m =
     (if tipo m = codigo IMPRIMIR_VALOR \<or> tipo m = codigo IMPRIMIR_TEXTO then
        bindE (cadena (dato m)) (\<lambda>t. Inr ([Texto t], False))
      else if tipo m = codigo CPU_DESCONEC then Inr ([Aviso CPU_DESCONEC], True)
      else if tipo m = codigo CONEC_CERRADA then Inr ([Aviso CONEC_CERRADA], True)
      else if tipo m = codigo FIN_EJECUCION then Inr ([Aviso FIN_EJECUCION], True)
      else if tipo m = codigo SEGMEN_FAULT then Inr ([Aviso SEGMEN_FAULT], True)
      else if tipo m = codigo MEM_OVERLOAD then Inr ([Aviso MEM_OVERLOAD], True)
      else if tipo m = codigo VAR_INEX then Inr ([Aviso VAR_INEX], True)
      else if tipo m = codigo SEM_INEX then Inr ([Aviso SEM_INEX], True)
      else Inr ([Numero (tipo m)], True))"

fun esperar_mensajes :: "t_men_comun list \<Rightarrow> linea list res" where
  "esperar_mensajes [] = bindE (crear_men_comun (codigo CONEC_CERRADA) [] 0) (\<lambda>m.
     bindE (atender_mensaje m) (\<lambda>(ls, _). Inr ls))"
| "esperar_mensajes (m # ms) = bindE (atender_mensaje m) (\<lambda>(ls, fin_ejecucion).
     if fin_ejecucion then Inr ls else bindE (esperar_mensajes ms) (\<lambda>ls'. Inr (ls @ ls')))"

text \<open>The handshake takes the first message, whatever it is; another type is only logged.\<close>

definition handshake_kernel :: "t_men_comun list \<Rightarrow> (t_men_comun \<times> t_men_comun list) res" where
  "handshake_kernel de_kernel = bindE (crear_men_comun (codigo HS_PROG) [0] 1) (\<lambda>men_hs. Inr (men_hs, drop 1 de_kernel))"

definition programa :: "byte list \<Rightarrow> t_men_comun list \<Rightarrow> (t_men_comun list \<times> linea list) res" where
  "programa archivo de_kernel =
     bindE (handshake_kernel de_kernel) (\<lambda>(men_hs, resto).
     bindE (mensaje_script archivo) (\<lambda>men_script.
     bindE (esperar_mensajes resto) (\<lambda>ls. Inr ([men_hs, men_script], ls))))"

section \<open>Properties\<close>

lemma leer_script_eq: "leer_script archivo = archivo @ [- 1]"
  by (induction archivo) auto

definition muestra :: "t_men_comun \<Rightarrow> byte list \<Rightarrow> bool" where
  "muestra m t \<longleftrightarrow> (tipo m = codigo IMPRIMIR_VALOR \<or> tipo m = codigo IMPRIMIR_TEXTO) \<and> cadena (dato m) = Inr t"

lemma esperar_append:
  "list_all2 muestra ms ts \<Longrightarrow> esperar_mensajes (ms @ ms') =
     bindE (esperar_mensajes ms') (\<lambda>ls. Inr (map Texto ts @ ls))"
proof (induction ms ts rule: list_all2_induct)
  case Nil
  then show ?case by (cases "esperar_mensajes ms'") auto
next
  case (Cons m ms t ts)
  then show ?case by (cases "esperar_mensajes ms'") (auto simp: atender_mensaje_def muestra_def)
qed



end
