(* ===== verification/Kernel_Candados.thy ===== *)
theory Kernel_Candados
  imports Candados Prelude
begin

text \<open>
  The mutexes of the kernel: the lock operations of every function of \<open>kernel/kernel.c\<close> that has
  any, in the order of its code, one list for each way through it. What a function does between
  two of them is in the theories \<open>Kernel_PCP\<close>, \<open>Kernel_PLP\<close> and \<open>Kernel_Hilos\<close>.
\<close>

datatype mutex = M_New | M_Ready | M_Block | M_Exec | M_Exit | M_Lista_CPU | M_Dicc_Var | M_Dicc_Sem

section \<open>The functions\<close>

definition c_get_pcb_otros_exec :: "mutex guion" where
  "c_get_pcb_otros_exec = [Toma M_Exec, Suelta M_Exec]"

definition c_pasar_pcb_exit :: "mutex guion" where
  "c_pasar_pcb_exit = [Toma M_Exit, Suelta M_Exit]"

definition c_pasar_pcbBlock_ready :: "mutex guion list" where
  "c_pasar_pcbBlock_ready =
     [[Toma M_Block, Toma M_Ready, Suelta M_Ready, Suelta M_Block], [Toma M_Block, Suelta M_Block]]"

text \<open>Each of the four searches may find the process or not.\<close>

definition c_mover_pcb_exit :: "mutex guion list" where
  "c_mover_pcb_exit = map (\<lambda>gs. [Toma M_New, Toma M_Ready, Toma M_Block, Toma M_Exec] @ concat gs
       @ [Suelta M_New, Suelta M_Ready, Suelta M_Block, Suelta M_Exec])
     (product_lists (replicate 4 [[], c_pasar_pcb_exit]))"

definition c_administrar_prog_cerrado :: "mutex guion list" where
  "c_administrar_prog_cerrado = map (\<lambda>g. [Toma M_Lista_CPU] @ g @ [Suelta M_Lista_CPU]) c_mover_pcb_exit"

definition c_administrar_new_script :: "mutex guion list" where
  "c_administrar_new_script = [[], [Toma M_New, Suelta M_New]]"

definition c_ingresar_new_cpu :: "mutex guion" where
  "c_ingresar_new_cpu = [Toma M_Lista_CPU, Suelta M_Lista_CPU]"

definition c_conec_cerrada_cpu :: "mutex guion list" where
  "c_conec_cerrada_cpu =
     [[Toma M_Lista_CPU] @ c_get_pcb_otros_exec @ [Toma M_Ready, Suelta M_Ready] @ [Suelta M_Lista_CPU],
      [Toma M_Lista_CPU, Suelta M_Lista_CPU]]"

definition c_llamada_erronea :: "mutex guion" where
  "c_llamada_erronea = [Toma M_Lista_CPU, Suelta M_Lista_CPU] @ c_get_pcb_otros_exec @ c_pasar_pcb_exit
     @ [Toma M_Lista_CPU, Suelta M_Lista_CPU]"

definition c_wait :: "mutex guion list" where
  "c_wait = map (\<lambda>g. [Toma M_Dicc_Sem] @ g @ [Suelta M_Dicc_Sem])
     [[], [Toma M_Block, Toma M_Lista_CPU] @ c_get_pcb_otros_exec @ [Suelta M_Block, Suelta M_Lista_CPU],
      c_llamada_erronea]"

definition c_signal :: "mutex guion list" where
  "c_signal = map (\<lambda>g. [Toma M_Dicc_Sem] @ g @ [Suelta M_Dicc_Sem])
     ([[], c_llamada_erronea] @ c_pasar_pcbBlock_ready)"

definition c_enviar_IO :: "mutex guion" where
  "c_enviar_IO = [Toma M_Lista_CPU, Toma M_Block] @ c_get_pcb_otros_exec @ [Suelta M_Lista_CPU, Suelta M_Block]"

definition c_fin_quantum :: "mutex guion" where
  "c_fin_quantum = [Toma M_Lista_CPU] @ c_get_pcb_otros_exec @ [Toma M_Ready, Suelta M_Ready]
     @ [Suelta M_Lista_CPU]"

definition c_obtener_valor_compartida :: "mutex guion list" where
  "c_obtener_valor_compartida =
     [[Toma M_Dicc_Var, Suelta M_Dicc_Var], [Toma M_Dicc_Var] @ c_llamada_erronea @ [Suelta M_Dicc_Var]]"

definition c_grabar_valor_compartida :: "mutex guion list" where
  "c_grabar_valor_compartida =
     [[Toma M_Dicc_Var, Suelta M_Dicc_Var], [Toma M_Dicc_Var, Suelta M_Dicc_Var] @ c_llamada_erronea]"

definition c_imprimir :: "mutex guion" where
  "c_imprimir = [Toma M_Lista_CPU, Suelta M_Lista_CPU]"

definition c_fin_ejecucion :: "mutex guion" where
  "c_fin_ejecucion = [Toma M_Lista_CPU, Suelta M_Lista_CPU] @ c_get_pcb_otros_exec @ c_pasar_pcb_exit
     @ [Toma M_Lista_CPU, Suelta M_Lista_CPU]"

definition c_manejador_exit :: "mutex guion" where
  "c_manejador_exit = [Toma M_Exit, Suelta M_Exit]"

definition c_manejador_new_ready :: "mutex guion" where
  "c_manejador_new_ready = [Toma M_New, Toma M_Ready, Suelta M_New, Suelta M_Ready]"

definition c_manejador_ready_exec :: "mutex guion" where
  "c_manejador_ready_exec = [Toma M_Ready, Toma M_Lista_CPU, Suelta M_Ready, Suelta M_Lista_CPU]"

definition lock_todo :: "mutex guion" where
  "lock_todo = map Toma [M_New, M_Ready, M_Block, M_Exec, M_Exit, M_Lista_CPU]"

definition unlock_todo :: "mutex guion" where
  "unlock_todo = map Suelta [M_New, M_Ready, M_Block, M_Exec, M_Exit, M_Lista_CPU]"

definition c_imprimir_sem_blocks :: "mutex guion" where
  "c_imprimir_sem_blocks =
     map Intenta [M_New, M_Ready, M_Block, M_Exec, M_Exit, M_Lista_CPU, M_Dicc_Var, M_Dicc_Sem]"

section \<open>The threads\<close>

datatype hilo = Plp | Pcp | New_Ready | Ready_Exec | Exit | IO "byte list" | Menu

fun guiones_k :: "hilo \<Rightarrow> mutex guion list" where
  "guiones_k Plp = c_administrar_prog_cerrado @ c_administrar_new_script"
| "guiones_k Pcp = [c_ingresar_new_cpu, c_enviar_IO, c_fin_quantum, c_imprimir, c_fin_ejecucion]
     @ c_conec_cerrada_cpu @ c_wait @ c_signal @ c_obtener_valor_compartida @ c_grabar_valor_compartida"
| "guiones_k New_Ready = [c_manejador_new_ready]"
| "guiones_k Ready_Exec = [c_manejador_ready_exec]"
| "guiones_k Exit = [c_manejador_exit]"
| "guiones_k (IO key) = c_pasar_pcbBlock_ready"
| "guiones_k Menu = [lock_todo @ unlock_todo, [Toma M_Dicc_Var, Suelta M_Dicc_Var],
     [Toma M_Dicc_Sem, Suelta M_Dicc_Sem], c_imprimir_sem_blocks]"

definition kernel_c :: "hilo \<Rightarrow> mutex guion set" where
  "kernel_c h = set (guiones_k h)"

lemmas candados_defs =
  c_get_pcb_otros_exec_def c_pasar_pcb_exit_def c_pasar_pcbBlock_ready_def c_mover_pcb_exit_def
  c_administrar_prog_cerrado_def c_administrar_new_script_def c_ingresar_new_cpu_def
  c_conec_cerrada_cpu_def c_llamada_erronea_def c_wait_def c_signal_def c_enviar_IO_def
  c_fin_quantum_def c_obtener_valor_compartida_def c_grabar_valor_compartida_def c_imprimir_def
  c_fin_ejecucion_def c_manejador_exit_def c_manejador_new_ready_def c_manejador_ready_exec_def
  lock_todo_def unlock_todo_def c_imprimir_sem_blocks_def

section \<open>The order of the mutexes\<close>

text \<open>
  The threads without a conflict take their mutexes by this rank. Only the thread of the CPUs
  takes the list of CPUs among them, so it may take it before or behind block.
\<close>

definition sin_conflicto :: "hilo set" where
  "sin_conflicto = {h. h = Pcp \<or> h = New_Ready \<or> h = Exit \<or> (\<exists>key. h = IO key)}"

definition compartido_k :: "mutex \<Rightarrow> bool" where
  "compartido_k m \<longleftrightarrow> m = M_Ready \<or> m = M_Block \<or> m = M_Exit"

definition rango_k :: "mutex \<Rightarrow> nat" where
  "rango_k m = (if m = M_Ready then 1 else 0)"

definition orden_k :: "hilo \<Rightarrow> mutex \<Rightarrow> mutex \<Rightarrow> bool" where
  "orden_k h a m \<longleftrightarrow> (h \<in> sin_conflicto \<longrightarrow> compartido_k a \<longrightarrow> compartido_k m \<longrightarrow> rango_k a < rango_k m)"

lemma guiones_k_bien: "\<forall>g \<in> set (guiones_k h). bien (orden_k h) [] g"
  by (cases h) (simp_all add: candados_defs orden_k_def sin_conflicto_def compartido_k_def rango_k_def
      product_lists_set eval_nat_numeral)

lemma usa_k: "usa kernel_c h = {m. \<exists>g \<in> set (guiones_k h). Toma m \<in> set g \<or> Intenta m \<in> set g}"
  by (simp add: usa_def kernel_c_def)

lemma usa_sin_conflicto:
  "usa kernel_c New_Ready = {M_New, M_Ready}" "usa kernel_c Exit = {M_Exit}"
  "usa kernel_c (IO key) = {M_Block, M_Ready}"
  by (auto simp: usa_k candados_defs)

lemma finite_rango_k: "finite (range rango_k)"
  by (rule finite_subset [of _ "{0, 1}"]) (auto simp: rango_k_def)

interpretation kc: jerarquia kernel_c orden_k sin_conflicto rango_k compartido_k
proof (unfold_locales, goal_cases)
  case (1 g h)
  then show ?case using guiones_k_bien by (simp add: kernel_c_def)
next
  case (2 h h' m)
  have "usa kernel_c x \<subseteq> {M_New, M_Ready, M_Block, M_Exit}" "M_New \<in> usa kernel_c x \<Longrightarrow> x = New_Ready"
    if "x \<in> sin_conflicto" "x \<noteq> Pcp" for x
    using that usa_sin_conflicto by (auto simp: sin_conflicto_def)
  moreover have "M_New \<notin> usa kernel_c Pcp" by (simp add: usa_k candados_defs)
  ultimately show ?case using 2 unfolding compartido_k_def
    by (metis (no_types, opaque_lifting) empty_iff insert_iff subset_iff)
next
  case (3 h a m)
  then show ?case by (simp add: orden_k_def)
next
  case 4
  show ?case by (rule finite_rango_k)
qed

section \<open>Properties\<close>

text \<open>
  C28. The mutexes of the kernel are used with discipline on every path of every thread and in
  every interleaving: a thread releases only what it holds, never waits for a mutex that it
  holds itself, and holds nothing between two rounds.
\<close>

theorem candados_en_regla:
  assumes "alcanza kernel_c s"
  shows "(resto s h = Suelta m # r \<longrightarrow> dueno s m = Some h)
    \<and> (resto s h = Toma m # r \<longrightarrow> dueno s m \<noteq> Some h)
    \<and> (resto s h = [] \<longrightarrow> dueno s m \<noteq> Some h)"
  using kc.suelta_lo_suyo [OF assms] kc.no_se_espera [OF assms] kc.nada_entre_vueltas [OF assms] by blast

text \<open>The dispatcher holds ready and the thread of the CPUs, at the end of a turn, the list of CPUs.\<close>

definition agenda_turno :: "(hilo \<times> mutex guion option) list" where
  "agenda_turno = [(Ready_Exec, Some c_manejador_ready_exec), (Ready_Exec, None),
     (Pcp, Some c_fin_quantum), (Pcp, None), (Pcp, None), (Pcp, None)]"

lemma ejecuta_agenda:
  assumes "\<forall>(h, g) \<in> set xs. \<forall>g'. g = Some g' \<longrightarrow> g' \<in> kernel_c h" "corre_c xs inicial_c = Some s"
  shows "alcanza kernel_c s"
  by (rule corre_alcanza [OF assms(2) alcanza.inicio]) (use assms(1) in fastforce)

theorem candados_en_regla_testigo:
  "\<exists>s. corre_c (take 2 agenda_turno) inicial_c = Some s \<and> dueno s M_Ready = Some Ready_Exec
     \<and> dueno s M_Lista_CPU \<noteq> Some Ready_Exec"
proof -
  obtain s where s: "corre_c (take 2 agenda_turno) inicial_c = Some s" "dueno s M_Ready = Some Ready_Exec"
    "resto s Ready_Exec = Toma M_Lista_CPU # [Suelta M_Ready, Suelta M_Lista_CPU]"
    by (simp add: agenda_turno_def candados_defs inicial_c_def numeral_2_eq_2)
  have "alcanza kernel_c s"
    by (rule ejecuta_agenda [OF _ s(1)]) (simp add: agenda_turno_def kernel_c_def numeral_2_eq_2)
  from candados_en_regla [OF this, of Ready_Exec M_Lista_CPU] s show ?thesis by auto
qed

text \<open>
  C15. Deadlocks need a culprit: whenever threads of the kernel wait for each other in a circle,
  the dispatcher, the thread of the programs or the operator is one of them. The threads of
  the CPUs, of admission, of exit and of the devices alone never block each other.
\<close>

theorem bloqueo_tiene_culpable:
  assumes "alcanza kernel_c s" "trabado s H"
  shows "Ready_Exec \<in> H \<or> Plp \<in> H \<or> Menu \<in> H"
proof (rule ccontr)
  assume "\<not> (Ready_Exec \<in> H \<or> Plp \<in> H \<or> Menu \<in> H)"
  then have "h \<in> sin_conflicto" if "h \<in> H" for h
    using that by (cases h) (auto simp: sin_conflicto_def)
  then show False using kc.no_se_traba [OF assms(1), of H] assms(2) by blast
qed

text \<open>A deadlock of the threads \<open>H\<close> is reachable, and then they stand still for ever.\<close>

definition se_pueden_trabar :: "hilo set \<Rightarrow> bool" where
  "se_pueden_trabar H \<longleftrightarrow> (\<exists>s. alcanza kernel_c s \<and> trabado s H
     \<and> (\<forall>s'. pasos_c kernel_c s s' \<longrightarrow> trabado s' H \<and> (\<forall>h \<in> H. resto s' h = resto s h)))"

lemma se_pueden_trabarI:
  assumes "\<forall>(h, g) \<in> set xs. \<forall>g'. g = Some g' \<longrightarrow> g' \<in> kernel_c h" "corre_c xs inicial_c = Some s"
    "trabado s H"
  shows "se_pueden_trabar H"
  using ejecuta_agenda [OF assms(1,2)] assms(3) trabado_siempre [OF assms(3)]
  unfolding se_pueden_trabar_def by blast

lemma trabado_dos:
  "espera_a s h m h' \<Longrightarrow> espera_a s h' m' h \<Longrightarrow> trabado s {h, h'}"
  by (auto simp: trabado_def)

lemma traba_turno: "se_pueden_trabar {Ready_Exec, Pcp}"
proof -
  obtain s where s: "corre_c agenda_turno inicial_c = Some s"
    "espera_a s Ready_Exec M_Lista_CPU Pcp" "espera_a s Pcp M_Ready Ready_Exec"
    by (simp add: agenda_turno_def candados_defs inicial_c_def espera_a_def)
  show ?thesis
    by (rule se_pueden_trabarI [OF _ s(1) trabado_dos [OF s(2,3)]])
      (simp add: agenda_turno_def kernel_c_def)
qed

text \<open>The longest way through \<open>administrar_prog_cerrado\<close>, and the schedules with it.\<close>

definition cierre_c :: "mutex guion" where
  "cierre_c = [Toma M_Lista_CPU, Toma M_New, Toma M_Ready, Toma M_Block, Toma M_Exec,
     Suelta M_New, Suelta M_Ready, Suelta M_Block, Suelta M_Exec, Suelta M_Lista_CPU]"

lemma cierre_c: "cierre_c \<in> kernel_c Plp"
  by (simp add: kernel_c_def candados_defs cierre_c_def eval_nat_numeral)

lemma traba_cierre_wait: "se_pueden_trabar {Plp, Pcp}"
proof -
  let ?w = "[Toma M_Dicc_Sem, Toma M_Block, Toma M_Lista_CPU, Toma M_Exec, Suelta M_Exec, Suelta M_Block,
    Suelta M_Lista_CPU, Suelta M_Dicc_Sem]"
  let ?xs = "[(Plp, Some cierre_c), (Plp, None), (Plp, None), (Plp, None), (Pcp, Some ?w), (Pcp, None), (Pcp, None)]"
  obtain s where s: "corre_c ?xs inicial_c = Some s" "espera_a s Plp M_Block Pcp" "espera_a s Pcp M_Lista_CPU Plp"
    by (simp add: cierre_c_def inicial_c_def espera_a_def)
  have "?w \<in> kernel_c Pcp" by (simp add: kernel_c_def candados_defs)
  with cierre_c show ?thesis
    by (intro se_pueden_trabarI [OF _ s(1) trabado_dos [OF s(2,3)]]) simp
qed

lemma traba_cierre_IO: "se_pueden_trabar {Plp, IO key}"
proof -
  let ?w = "[Toma M_Block, Toma M_Ready, Suelta M_Ready, Suelta M_Block]"
  let ?xs = "[(Plp, Some cierre_c), (Plp, None), (Plp, None), (Plp, None), (IO key, Some ?w), (IO key, None)]"
  obtain s where s: "corre_c ?xs inicial_c = Some s" "espera_a s Plp M_Block (IO key)" "espera_a s (IO key) M_Ready Plp"
    by (simp add: cierre_c_def inicial_c_def espera_a_def)
  have "?w \<in> kernel_c (IO key)" by (simp add: kernel_c_def candados_defs)
  with cierre_c show ?thesis
    by (intro se_pueden_trabarI [OF _ s(1) trabado_dos [OF s(2,3)]]) simp
qed

lemma traba_menu: "se_pueden_trabar {Menu, Pcp}"
proof -
  let ?xs = "[(Pcp, Some c_fin_quantum), (Pcp, None), (Menu, Some (lock_todo @ unlock_todo)),
    (Menu, None), (Menu, None), (Menu, None), (Menu, None), (Menu, None)]"
  obtain s where s: "corre_c ?xs inicial_c = Some s" "espera_a s Menu M_Lista_CPU Pcp" "espera_a s Pcp M_Exec Menu"
    by (simp add: candados_defs inicial_c_def espera_a_def)
  show ?thesis
    by (rule se_pueden_trabarI [OF _ s(1) trabado_dos [OF s(2,3)]]) (simp add: kernel_c_def)
qed

text \<open>
  C37. Each culprit can block the kernel for ever, because the mutexes are taken in different
  orders: the dispatcher (ready, then the list of CPUs) against the end of a turn (the list,
  then ready); a program that closes (ready, then block, under the list) against a wait (block,
  then the list) and against the return of a process from a device (block, then ready); and
  the operator's look at the queues (the queues, then the list) against any report of a CPU.
  Once they wait for each other, no step of any thread changes it.
\<close>

theorem bloqueos_posibles:
  "se_pueden_trabar {Ready_Exec, Pcp} \<and> se_pueden_trabar {Plp, Pcp} \<and> se_pueden_trabar {Plp, IO key}
   \<and> se_pueden_trabar {Menu, Pcp}"
  using traba_turno traba_cierre_wait traba_cierre_IO traba_menu by blast

theorem bloqueo_tiene_culpable_testigo:
  "\<exists>s. corre_c agenda_turno inicial_c = Some s \<and> trabado s {Ready_Exec, Pcp}
     \<and> (Ready_Exec \<in> {Ready_Exec, Pcp} \<or> Plp \<in> {Ready_Exec, Pcp} \<or> Menu \<in> {Ready_Exec, Pcp})"
proof -
  obtain s where s: "corre_c agenda_turno inicial_c = Some s"
    "espera_a s Ready_Exec M_Lista_CPU Pcp" "espera_a s Pcp M_Ready Ready_Exec"
    by (simp add: agenda_turno_def candados_defs inicial_c_def espera_a_def)
  have "alcanza kernel_c s"
    by (rule ejecuta_agenda [OF _ s(1)]) (simp add: agenda_turno_def kernel_c_def)
  from bloqueo_tiene_culpable [OF this trabado_dos [OF s(2,3)]] trabado_dos [OF s(2,3)] s(1)
  show ?thesis by blast
qed

end
