(* ===== verification/Kernel_Consola.thy ===== *)
theory Kernel_Consola
  imports Kernel_Prop Kernel_Candados
begin

text \<open>
  The operator of the kernel at the keyboard: the loop of \<open>menu_imp\<close> with what it reads and
  prints (\<open>kernel/kernel.c\<close>), and what the printing of the queues does to the kernel.
\<close>

section \<open>What the menu prints\<close>

definition mutexes_imp :: "(mutex \<times> string) list" where
  "mutexes_imp = [(M_New, ''NEW''), (M_Ready, ''READY''), (M_Block, ''BLOCK''), (M_Exec, ''EXEC''),
     (M_Exit, ''EXIT''), (M_Lista_CPU, ''LISTA_CPU''), (M_Dicc_Var, ''DICC_VAR''), (M_Dicc_Sem, ''DICC_SEM'')]"

text \<open>
  The mutexes are tried one after another and given back at once; \<open>tomados\<close> are those that
  another thread holds. The values of the counting semaphores follow.
\<close>

definition imprimir_sem_blocks :: "mutex set \<Rightarrow> kernel \<Rightarrow> pieza list" where
  "imprimir_sem_blocks tomados k =
     concat (map (\<lambda>(m, nombre). if m \<in> tomados
       then [Txt ''semaforo de la cola: '', Txt nombre, Txt '', blockeado'', NL] else []) mutexes_imp)
     @ [Txt ''cant new:'', Num (int (cant_new k)), NL,
        Txt ''cant ready:'', Num (int (cant_ready k)), NL,
        Txt ''cant exit:'', Num (int (cant_exit k)), NL,
        Txt ''cant multiprog:'', Num (int (cant_multiprog k)), NL,
        Txt ''cant cpu libres:'', Num (int (cant_cpu_libres k)), NL]"

definition texto_multiprog :: "int \<Rightarrow> kernel \<Rightarrow> pieza list" where
  "texto_multiprog nueva k =
     (let cant_progs = int (length (cola_ready k) + length (cola_block k) + length (cola_exec k));
          valor_sem = int (cant_multiprog k);
          dif = nueva - (cant_progs + valor_sem) in
      if dif > 0 then concat (replicate (nat dif) [Txt ''incre'', NL])
      else if - dif \<le> valor_sem then []
      else [Txt ''No se a podido bajar el nivel de multiprogramacion'', NL])"

section \<open>The menu\<close>

text \<open>
  What a round gets from outside: the mutexes that other threads hold and the order in which
  the two dictionaries are walked through.
\<close>

record ronda_menu =
  rm_tomados :: "mutex set"
  rm_claves_var :: "byte list list"
  rm_claves_sem :: "byte list list"

text \<open>The options: \<open>e c v s Q k m r M\<close>.\<close>

definition es_opcion_menu :: "byte \<Rightarrow> bool" where
  "es_opcion_menu c \<longleftrightarrow> c \<in> {101, 99, 118, 115, 81, 107, 109, 114, 77}"

text \<open>\<open>un_int\<close> is declared outside the loop: a number that is not read is the one of before.\<close>

definition atender_menu ::
  "ronda_menu \<Rightarrow> byte \<Rightarrow> int \<Rightarrow> byte list \<Rightarrow> kernel \<Rightarrow> (pieza list \<times> int \<times> byte list \<times> kernel) res" where
  "atender_menu rm opcion un_int s k =
     (let (n, s') = leer_entero un_int s in
      if opcion = 77 then Inr (imprimir_sem_blocks (rm_tomados rm) k, un_int, s, k)
      else if opcion = 101 then Inr ([], un_int, s, k\<lparr>quit_sistema := False\<rparr>)
      else if opcion = 99 then bindE (imp_colas k) (\<lambda>(w, k'). Inr (w, un_int, s, k'))
      else if opcion = 118 then
        Inr ([Txt ''Variables compartidas:'', NL] @ imp_variables_compartidas (rm_claves_var rm) k, un_int, s, k)
      else if opcion = 115 then
        Inr ([Txt ''Semaforos:'', NL] @ imp_semaforos (rm_claves_sem rm) k, un_int, s, k)
      else if opcion = 81 then Inr ([], n, s', k\<lparr>quantum_max := n\<rparr>)
      else if opcion = 107 then Inr ([], n, s', k\<lparr>tamanio_stack := n\<rparr>)
      else if opcion = 109 then
        bindE (cambiar_multiprog n k) (\<lambda>k'. Inr (texto_multiprog n k, n, s', k'))
      else if opcion = 114 then Inr ([], n, s', k\<lparr>retardo := n\<rparr>)
      else Inr ([], un_int, s, k))"

text \<open>The loop with a bound on its rounds; \<open>None\<close> when it is still running after them.\<close>

fun rondas_menu ::
  "nat \<Rightarrow> (nat \<Rightarrow> ronda_menu) \<Rightarrow> byte \<Rightarrow> int \<Rightarrow> byte list \<Rightarrow> kernel
     \<Rightarrow> (pieza list \<times> byte list \<times> kernel) res option" where
  "rondas_menu 0 rm ant un_int s k = None"
| "rondas_menu (Suc n) rm ant un_int s k =
     (if \<not> quit_sistema k then Some (Inr ([], s, k)) else
      case leer_opcion es_opcion_menu ant s of
        Inl err \<Rightarrow> Some (Inl err)
      | Inr (opcion, s1) \<Rightarrow>
          (case atender_menu (rm 0) opcion un_int s1 k of
             Inl err \<Rightarrow> Some (Inl err)
           | Inr (w, un_int', s2, k') \<Rightarrow>
               map_option (\<lambda>r. bindE r (\<lambda>(w', s', k''). Inr (w @ w', s', k'')))
                 (rondas_menu n (\<lambda>i. rm (Suc i)) opcion un_int' s2 k')))"

section \<open>A round is an order of the operator\<close>

definition orden_de_menu :: "byte \<Rightarrow> int \<Rightarrow> orden_kernel" where
  "orden_de_menu opcion n =
     (if opcion = 101 then Salir else if opcion = 99 then Colas else if opcion = 81 then Quantum n
      else if opcion = 107 then Tam_Stack n else if opcion = 109 then Multiprog n
      else if opcion = 114 then Retardo n else Mostrar)"

lemma atender_menu_orden:
  "menu_imp (orden_de_menu opcion (fst (leer_entero un_int s))) k
     = bindE (atender_menu rm opcion un_int s k) (\<lambda>(w, n, s', k'). Inr k')"
proof -
  have as: "bindE (bindE r f) g = bindE r (\<lambda>x. bindE (f x) g)" for r :: "'x res" and f :: "'x \<Rightarrow> 'y res"
    and g :: "'y \<Rightarrow> 'z res" by (cases r) simp_all
  have "bindE (cambiar_multiprog n k) Inr = cambiar_multiprog n k" for n
    by (cases "cambiar_multiprog n k") simp_all
  moreover have "bindE r (\<lambda>(w, k'). Inr k') = bindE r (\<lambda>x. Inr (snd x))" for r :: "(pieza list \<times> kernel) res"
    by (cases r) auto
  ultimately show ?thesis
    by (cases "leer_entero un_int s") (simp add: atender_menu_def orden_de_menu_def as case_prod_beta)
qed

section \<open>Printing the queues\<close>

definition con_nulo :: "kernel \<Rightarrow> bool" where
  "con_nulo k \<longleftrightarrow> None \<in> set (cola_new k) \<union> set (cola_ready k) \<union> set (cola_block k)
     \<union> set (cola_exec k) \<union> set (cola_exit k)"

text \<open>The text: what every queue holds, and the CPUs.\<close>

definition texto_colas :: "kernel \<Rightarrow> pieza list" where
  "texto_colas k =
     titulo_cola ''--COLA-NEW---------------------------------------------------------'' @ imp_cola (cola_new k)
     @ titulo_cola ''--COLA-READY-------------------------------------------------------'' @ imp_cola (cola_ready k)
     @ titulo_cola ''--COLA-BLOCK-------------------------------------------------------'' @ imp_cola (cola_block k)
     @ titulo_cola ''--COLA-EXEC--------------------------------------------------------'' @ imp_cola (cola_exec k)
     @ titulo_cola ''--COLA-EXIT--------------------------------------------------------'' @ imp_cola (cola_exit k)
     @ [Txt ''--LISTA-CPU--------------------------------------------------------'', NL,
        Txt ''|S_CPU/S_PROG/PID= ''] @ imprimir_lista_cpu k
     @ [Txt ''-------------------------------------------------------------------'', NL]"

text \<open>
  C27. The operator asks for the queues: all five and the list of CPUs are printed in order, each
  process once, and the kernel, whose queues are emptied and filled again for it, is as before;
  a null pointer in a queue ends the kernel.
\<close>

theorem colas_impresas:
  "imp_colas k = (if con_nulo k then Inl Puntero_Nulo else Inr (texto_colas k, k))"
  by (auto simp: con_nulo_def imp_colas_def imprimir_cola_eq texto_colas_def)

lemma rotar_cola_no_esta:
  "None \<notin> set (a @ b) \<Longrightarrow> (\<And>p. Some p \<in> set (a @ b) \<Longrightarrow> \<not> P p) \<Longrightarrow>
     rotar_cola (length a) P (a @ b) = Inr (None, b @ a)"
proof (induction a arbitrary: b)
  case (Cons r a)
  then obtain p where p: "r = Some p" "\<not> P p" by (cases r) auto
  have "rotar_cola (length a) P (a @ b @ [r]) = Inr (None, (b @ [r]) @ a)"
    using Cons.IH [of "b @ [r]"] Cons.prems by auto
  then show ?case using p by (simp add: queue_push_def)
qed simp

text \<open>
  How a null pointer gets into ready: a CPU that has lost its process (the kernel ended it,
  and the CPU goes on) leaves after its turn; the search in exec finds nothing, the null result
  is queued all the same, and the next time the operator asks for the queues the kernel ends.
\<close>

theorem partida_sin_proceso:
  assumes "list_remove_by_condition (\<lambda>c. soc_cpu c = soc) (lista_cpu k) = (Some c, l)"
    "tam_dato men = 1" "None \<notin> set (cola_exec k)"
    "\<And>p. Some p \<in> set (cola_exec k) \<Longrightarrow> pid p \<noteq> id_prog_exec c"
  shows "\<exists>k'. fin_quantum soc men recibido k = Inr k' \<and> cola_ready k' = cola_ready k @ [None]
    \<and> menu_imp Colas k' = Inl Puntero_Nulo"
proof -
  have "rotar_cola (length (cola_exec k)) (\<lambda>p. pid p = id_prog_exec c) (cola_exec k) = Inr (None, cola_exec k)"
    using rotar_cola_no_esta [of "cola_exec k" "[]" "\<lambda>p. pid p = id_prog_exec c"] assms(3,4) by simp
  then obtain k' where k': "fin_quantum soc men recibido k = Inr k'" "cola_ready k' = cola_ready k @ [None]"
    using assms(1,2) by (auto simp: fin_quantum_def get_cpu_soc_cpu_remove_def get_pcb_otros_exec_def
        socket_cerrar_def push_ready_def queue_push_def)
  have "imp_colas k' = Inl Puntero_Nulo"
    using k'(2) by (auto simp: imp_colas_def imprimir_cola_eq)
  then show ?thesis using k' by auto
qed

theorem partida_sin_proceso_testigo:
  "\<exists>k'. fin_quantum 9 \<lparr>tam_dato = 1, tipo = 20, dato = [0]\<rparr> (Inl Salida)
       (k_ej\<lparr>lista_cpu := [\<lparr>soc_cpu = 9, soc_prog = 0, id_prog_exec = 0\<rparr>]\<rparr>) = Inr k'
     \<and> menu_imp Colas k' = Inl Puntero_Nulo"
  using partida_sin_proceso [of 9 "k_ej\<lparr>lista_cpu := [\<lparr>soc_cpu = 9, soc_prog = 0, id_prog_exec = 0\<rparr>]\<rparr>"
      "\<lparr>soc_cpu = 9, soc_prog = 0, id_prog_exec = 0\<rparr>" "[]" "\<lparr>tam_dato = 1, tipo = 20, dato = [0]\<rparr>" "Inl Salida"]
  by (auto simp: k_ej_def)

end
