(* ===== verification/Tipado.thy ===== *)
theory Tipado
  imports Sockets Cadenas
begin

text \<open>
  What the types of the daemons at run time are proved with: the relation \<open>sigue\<close> between two
  computations, its rules for the library functions, and the form of a message.
\<close>

named_theorems tipos "an operation keeps the types"

section \<open>Two runs side by side\<close>

text \<open>
  \<open>sigue r r' Q\<close>: when the first of two computations does not fail, the second one has the same
  result, which satisfies \<open>Q\<close>. A rule for an operation gives what is known behind it, for
  every \<open>Q\<close>. The two computations are those of a CPU whose requests travel over a channel and
  of one that calls the memory unit directly; with the same environment twice the relation says
  only that \<open>Q\<close> holds of the result.
\<close>

definition sigue :: "'a res \<Rightarrow> 'a res \<Rightarrow> ('a \<Rightarrow> bool) \<Rightarrow> bool" where
  "sigue r r' Q \<longleftrightarrow> (\<forall>x. r = Inr x \<longrightarrow> r' = Inr x \<and> Q x)"

lemma sigue_simps [simp]: "sigue (Inr x) (Inr x) Q = Q x" "sigue (Inl err) r' Q"
  by (auto simp: sigue_def)

lemma sigue_bind [tipos]:
  "sigue r r' (\<lambda>x. sigue (f x) (f' x) Q) \<Longrightarrow> sigue (bindE r f) (bindE r' f') Q"
  by (auto simp: sigue_def bindE_eq_Inr)

lemma sigue_mono: "sigue r r' P \<Longrightarrow> (\<And>x. P x \<Longrightarrow> Q x) \<Longrightarrow> sigue r r' Q"
  by (auto simp: sigue_def)

lemma sigue_no_nulo: "(\<And>x. r = Some x \<Longrightarrow> Q x) \<Longrightarrow> sigue (no_nulo r) (no_nulo r) Q"
  by (cases r) simp_all

lemma sigue_leer [tipos]:
  "(\<And>d. 0 \<le> n \<Longrightarrow> int (length d) = n \<Longrightarrow> Q d) \<Longrightarrow> sigue (leer m p n) (leer m p n) Q"
  by (auto simp: sigue_def leer_Inr_iff)

lemma sigue_leer_i32 [tipos]: "(\<And>v. es_i32 v \<Longrightarrow> Q v) \<Longrightarrow> sigue (leer_i32 m p) (leer_i32 m p) Q"
  by (auto simp: sigue_def leer_i32_def bindE_eq_Inr es_i32_bytes_i32)

lemma sigue_crear [tipos]:
  "(\<And>d. int (length d) = n \<Longrightarrow> Q \<lparr>tam_dato = n, tipo = t, dato = d\<rparr>) \<Longrightarrow>
     sigue (crear_men_comun t b n) (crear_men_comun t b n) Q"
  unfolding crear_men_comun_def by (auto intro!: sigue_bind sigue_leer)

lemma sigue_crear_pcb [tipos]:
  "(\<And>x. p = Some x \<Longrightarrow> Q \<lparr>mq_tipo = t, mq_quantum = q, mq_pcb = x\<rparr>) \<Longrightarrow>
     sigue (crear_men_quantum_pcb t q p) (crear_men_quantum_pcb t q p) Q"
  unfolding crear_men_quantum_pcb_def by (auto intro!: sigue_bind sigue_no_nulo)

lemma sigue_cadena [tipos]: "(\<And>t. length t < length b \<Longrightarrow> Q t) \<Longrightarrow> sigue (cadena b) (cadena b) Q"
proof -
  have "length (takeWhile (\<lambda>x. x \<noteq> 0) b) < length b" if "0 \<in> set b"
    using that by (induction b) auto
  then show "(\<And>t. length t < length b \<Longrightarrow> Q t) \<Longrightarrow> sigue (cadena b) (cadena b) Q"
    by (auto simp: sigue_def cadena_def)
qed

lemma sigue_atoi [tipos]: "(\<And>v. es_i32 v \<Longrightarrow> Q v) \<Longrightarrow> sigue (atoi b) (atoi b) Q"
  by (auto simp: sigue_def atoi_def a_int_def bindE_eq_Inr es_i32_i32 split: list.splits if_splits)

lemma es_i32_numeros [simp]:
  "es_i32 (numeral k) \<longleftrightarrow> (numeral k :: int) < 2147483648" "es_i32 0" "es_i32 1" "es_i32 (-1)"
  by (simp_all add: es_i32_def)

lemma es_i32_codigo [simp]: "es_i32 (codigo t)"
  by (cases t) simp_all

declare es_i32_i32 [simp] es_i32_bytes_i32 [simp]

section \<open>Messages\<close>

text \<open>The messages that the library carries unchanged.\<close>

fun valido_mensaje :: "mensaje \<Rightarrow> bool" where
  "valido_mensaje (Men_Comun m) = valido_comun m"
| "valido_mensaje (Men_Pcb m) = valido_quantum_pcb m"

end
