(* ===== verification/CPU_Tipos.thy ===== *)
theory CPU_Tipos
  imports CPU_Ciclo Tipado
begin

text \<open>
  The types of a CPU at run time. Every integer of its state stays in 32 bits, every key of its
  dictionary is one character, and every message that it sends has a size field that tells
  the truth and fits the frame, so that the message library carries it; all of it for every
  program that the parser can hand over, whatever the memory unit and the kernel answer as
  long as their messages have the same form.
\<close>

lemma sigue_leer_bloque [tipos]: "(\<And>d. Q d) \<Longrightarrow> sigue (leer_bloque b) (leer_bloque b) Q"
  by (simp add: sigue_def)

lemma es_i32_div_c [simp]: "es_i32 a \<Longrightarrow> es_i32 (div_c a 5)"
proof -
  assume "es_i32 a"
  moreover have "- a div 5 \<le> 429496730 \<and> 0 \<le> - a div 5" if "a < 0" "- 2147483648 \<le> a"
    using that by linarith
  ultimately show ?thesis by (auto simp: div_c_def es_i32_def)
qed

section \<open>Typed states, programs and environments\<close>

text \<open>A request to the memory unit as the CPU builds it: a write carries its bytes.\<close>

definition pedido_ok :: "t_men_cpu_umv \<Rightarrow> bool" where
  "pedido_ok q \<longleftrightarrow> es_i32 (cu_tipo q) \<and> es_i32 (cu_base q) \<and> es_i32 (cu_offset q) \<and> es_i32 (cu_tam q)
     \<and> (cu_tipo q = codigo ALM_BYTES \<longrightarrow> int (length (cu_buffer q)) = cu_tam q)"

definition texto_ok :: "byte list \<Rightarrow> bool" where
  "texto_ok x \<longleftrightarrow> int (length x) < 2147483635"

text \<open>
  The calls of a line: their integers are of 32 bits and their texts fit a message, whatever
  integers of 32 bits the calls before them return.
\<close>

primrec accion_ok :: "accion \<Rightarrow> bool" where
  "accion_ok Fin_Linea = True"
| "accion_ok (Definir_Variable c k) = (\<forall>r. es_i32 r \<longrightarrow> accion_ok (k r))"
| "accion_ok (Obtener_Posicion c k) = (\<forall>r. es_i32 r \<longrightarrow> accion_ok (k r))"
| "accion_ok (Dereferenciar d k) = (es_i32 d \<and> (\<forall>r. es_i32 r \<longrightarrow> accion_ok (k r)))"
| "accion_ok (Asignar d v k) = (es_i32 d \<and> es_i32 v \<and> accion_ok k)"
| "accion_ok (Obtener_Compartida x k) = (texto_ok x \<and> (\<forall>r. es_i32 r \<longrightarrow> accion_ok (k r)))"
| "accion_ok (Asignar_Compartida x v k) = (texto_ok x \<and> es_i32 v \<and> (\<forall>r. es_i32 r \<longrightarrow> accion_ok (k r)))"
| "accion_ok (Ir_Al_Label x k) = accion_ok k"
| "accion_ok (Llamar_Sin_Retorno x k) = accion_ok k"
| "accion_ok (Llamar_Con_Retorno x d k) = (es_i32 d \<and> accion_ok k)"
| "accion_ok (Finalizar k) = accion_ok k"
| "accion_ok (Retornar v k) = (es_i32 v \<and> accion_ok k)"
| "accion_ok (Imprimir v k) = (es_i32 v \<and> accion_ok k)"
| "accion_ok (Imprimir_Texto x k) = (texto_ok x \<and> accion_ok k)"
| "accion_ok (Entrada_Salida x n k) = (texto_ok x \<and> es_i32 n \<and> accion_ok k)"
| "accion_ok (Wait x k) = (texto_ok x \<and> accion_ok k)"
| "accion_ok (Signal x k) = (texto_ok x \<and> accion_ok k)"

text \<open>The libraries behind the CPU: decimal texts, lines, labels, and an uninitialised local.\<close>

definition entorno_ok :: "'m entorno_cpu \<Rightarrow> bool" where
  "entorno_ok e \<longleftrightarrow> (\<forall>n. es_i32 n \<longrightarrow> length (string_itoa e n) \<le> 11)
     \<and> (\<forall>linea. accion_ok (analizadorLinea e linea))
     \<and> (\<forall>x d n. es_i32 (metadata_buscar_etiqueta e x d n)) \<and> es_i32 (no_iniciado e)"

text \<open>\<open>ok\<close> is what the memory unit keeps of its state; \<open>qa\<close> and \<open>qm\<close> are the two counters.\<close>

definition tipada :: "('m \<Rightarrow> bool) \<Rightarrow> int \<Rightarrow> int \<Rightarrow> 'm cpu \<Rightarrow> bool" where
  "tipada ok qa qm s \<longleftrightarrow> ok (memoria s) \<and> quantum_actual s = qa \<and> cpu_quantum_max s = qm
     \<and> (\<forall>p. pcb s = Some p \<longrightarrow> valido_pcb p)
     \<and> (\<forall>c v. dic_Variables s c = Some v \<longrightarrow> es_i32 v \<and> length c = 1)
     \<and> (\<forall>m \<in> set (de_kernel s). valido_mensaje m) \<and> (\<forall>m \<in> set (a_kernel s). valido_mensaje m)"

lemma tipada_pcb: "tipada ok qa qm s \<Longrightarrow> pcb s = Some p \<Longrightarrow> valido_pcb p"
  by (simp add: tipada_def)

lemma valido_pcb_cambios:
  "valido_pcb p \<Longrightarrow> es_i32 n \<Longrightarrow> valido_pcb (p\<lparr>cant_var_cont_actual := n\<rparr>)"
  "valido_pcb p \<Longrightarrow> es_i32 n \<Longrightarrow> valido_pcb (p\<lparr>program_counter := n\<rparr>)"
  "valido_pcb p \<Longrightarrow> es_i32 n \<Longrightarrow> valido_pcb (p\<lparr>dir_cont_actual := n\<rparr>)"
  by (simp_all add: valido_pcb_def)

lemma valido_pcb_campos [simp]:
  assumes "valido_pcb p"
  shows "es_i32 (cant_var_cont_actual p)" "es_i32 (dir_cont_actual p)" "es_i32 (dir_indice_codigo p)"
    "es_i32 (dir_indice_etiquetas p)" "es_i32 (dir_seg_codigo p)" "es_i32 (dir_seg_stack p)"
    "es_i32 (pcb_id p)" "es_i32 (program_counter p)" "es_i32 (tam_indice_etiquetas p)"
  using assms by (simp_all add: valido_pcb_def)

lemma tipada_campos [simp]:
  "tipada ok qa qm (s\<lparr>fueFinEjecucion := b\<rparr>) = tipada ok qa qm s"
  "tipada ok qa qm (s\<lparr>huboSegFault := b\<rparr>) = tipada ok qa qm s"
  "tipada ok qa qm (s\<lparr>cpu_quit_sistema := b\<rparr>) = tipada ok qa qm s"
  "tipada ok qa qm (s\<lparr>cpu_etiquetas := et\<rparr>) = tipada ok qa qm s"
  by (simp_all add: tipada_def)

lemma tipada_cambios:
  "tipada ok qa qm s \<Longrightarrow> ok m \<Longrightarrow> tipada ok qa qm (s\<lparr>memoria := m\<rparr>)"
  "tipada ok qa qm s \<Longrightarrow> valido_mensaje x \<Longrightarrow> tipada ok qa qm (s\<lparr>a_kernel := a_kernel s @ [x]\<rparr>)"
  "tipada ok qa qm s \<Longrightarrow> de_kernel s = x # ms \<Longrightarrow> tipada ok qa qm (s\<lparr>de_kernel := ms\<rparr>)"
  "tipada ok qa qm s \<Longrightarrow> valido_pcb p \<Longrightarrow> tipada ok qa qm (s\<lparr>pcb := Some p\<rparr>)"
  "tipada ok qa qm s \<Longrightarrow> tipada ok qa qm (s\<lparr>pcb := None\<rparr>)"
  "tipada ok qa qm s \<Longrightarrow> tipada ok qa qm (s\<lparr>dic_Variables := Map.empty\<rparr>)"
  "tipada ok qa qm s \<Longrightarrow> es_i32 v \<Longrightarrow>
     tipada ok qa qm (s\<lparr>dic_Variables := (dic_Variables s)(clave_variable c \<mapsto> v)\<rparr>)"
  by (auto simp: tipada_def clave_variable_def)


section \<open>The contract of a typed memory unit\<close>

text \<open>
  What a CPU needs of the memory unit for its types: to a request of the CPU's form it answers,
  if at all, with a message that can be framed, and its own condition stays.
\<close>

locale servidor_tipado =
  fixes srv :: "t_men_cpu_umv \<Rightarrow> 'm \<Rightarrow> (t_men_comun option \<times> 'm) res"
    and ok :: "'m \<Rightarrow> bool"
  assumes srv_ok: "ok m \<Longrightarrow> pedido_ok q \<Longrightarrow> srv q m = Inr (r, m') \<Longrightarrow>
    ok m' \<and> (\<forall>resp. r = Some resp \<longrightarrow> valido_comun resp)"

text \<open>A second memory unit that answers the same whenever the first one answers.\<close>

locale mismo_servidor = servidor_tipado srv ok
  for srv :: "t_men_cpu_umv \<Rightarrow> 'm \<Rightarrow> (t_men_comun option \<times> 'm) res" and ok :: "'m \<Rightarrow> bool" +
  fixes srv' :: "t_men_cpu_umv \<Rightarrow> 'm \<Rightarrow> (t_men_comun option \<times> 'm) res"
  assumes mismo: "ok m \<Longrightarrow> pedido_ok q \<Longrightarrow> srv q m = Inr y \<Longrightarrow> srv' q m = Inr y"

text \<open>\<open>qa\<close> and \<open>qm\<close> are the values of the two counters, which only the loop of the turn changes.\<close>

locale cpu_tipada = mismo_servidor srv ok srv'
  for srv :: "t_men_cpu_umv \<Rightarrow> 'm \<Rightarrow> (t_men_comun option \<times> 'm) res" and ok :: "'m \<Rightarrow> bool"
    and srv' :: "t_men_cpu_umv \<Rightarrow> 'm \<Rightarrow> (t_men_comun option \<times> 'm) res" +
  fixes e :: "'m entorno_cpu" and qa :: int and qm :: int
  assumes e_srv: "umv_srv e = srv" and e_ok: "entorno_ok e"
begin

abbreviation directo :: "'m entorno_cpu" where
  "directo \<equiv> e\<lparr>umv_srv := srv'\<rparr>"

abbreviation tip :: "'m cpu \<Rightarrow> bool" where
  "tip \<equiv> tipada ok qa qm"

subsection \<open>Conversations\<close>

lemma pedido_valido:
  assumes "es_i32 b" "es_i32 off" "es_i32 n" "t = ALM_BYTES \<longrightarrow> buf \<noteq> None"
    and Q: "\<And>q. pedido_ok q \<Longrightarrow> Q q"
  shows "sigue (crear_men_cpu_umv (codigo t) b off n buf) (crear_men_cpu_umv (codigo t) b off n buf) Q"
proof (cases buf)
  case None
  then have "codigo t \<noteq> codigo ALM_BYTES" using assms(4) by (cases t) simp_all
  then show ?thesis using None assms(1-3) by (auto simp: crear_men_cpu_umv_def pedido_ok_def intro!: Q)
next
  case (Some x)
  have "Q \<lparr>cu_tipo = codigo t, cu_base = b, cu_offset = off, cu_tam = n, cu_buffer = d\<rparr>"
    if "int (length d) = n" for d
    using assms(1-3) that by (intro Q) (simp add: pedido_ok_def)
  then show ?thesis using Some by (auto simp: crear_men_cpu_umv_def intro!: sigue_bind sigue_leer)
qed

lemma srv_sigue:
  "ok m \<Longrightarrow> pedido_ok q \<Longrightarrow> (\<And>r m'. ok m' \<Longrightarrow> (\<And>resp. r = Some resp \<Longrightarrow> valido_comun resp) \<Longrightarrow> Q (r, m')) \<Longrightarrow>
     sigue (umv_srv e q m) (umv_srv directo q m) Q"
  using srv_ok mismo by (fastforce simp: sigue_def e_srv)

lemma tip_memoria: "tip s \<Longrightarrow> ok (memoria s)"
  by (simp add: tipada_def)

lemma conversar_tip [tipos]:
  assumes "tip s" "es_i32 b" "es_i32 off" "es_i32 n" "t = ALM_BYTES \<longrightarrow> buf \<noteq> None"
    and Q: "\<And>r s'. tip s' \<Longrightarrow> valido_comun r \<Longrightarrow> Q (r, s')"
  shows "sigue (conversar_umv e t b off n buf s) (conversar_umv directo t b off n buf s) Q"
  unfolding conversar_umv_def
proof (rule sigue_bind, rule pedido_valido [OF assms(2-5)], rule sigue_bind,
    rule srv_sigue [OF tip_memoria [OF assms(1)]], assumption)
  fix r m assume "ok m" "\<And>resp. r = Some resp \<Longrightarrow> valido_comun resp"
  then show "sigue (case (r, m) of (r, m) \<Rightarrow> case r of None \<Rightarrow> Inl Bloqueado
      | Some resp \<Rightarrow> Inr (resp, s\<lparr>memoria := m\<rparr>)) (case (r, m) of (r, m) \<Rightarrow> case r of None \<Rightarrow> Inl Bloqueado
      | Some resp \<Rightarrow> Inr (resp, s\<lparr>memoria := m\<rparr>)) Q"
    using Q tipada_cambios(1) [OF assms(1)] by (cases r) simp_all
qed

lemma cambio_PA_tip [tipos]:
  assumes "tip s" "es_i32 i" "\<And>s'. tip s' \<Longrightarrow> Q s'"
  shows "sigue (cambio_PA e i s) (cambio_PA directo i s) Q"
  unfolding cambio_PA_def
  by (rule sigue_bind, rule pedido_valido [OF assms(2)], simp, simp, simp,
      rule sigue_bind, rule srv_sigue [OF tip_memoria [OF assms(1)]])
    (simp_all add: assms tipada_cambios)

lemma al_kernel_tip: "tip s \<Longrightarrow> valido_mensaje m \<Longrightarrow> (\<And>s'. tip s' \<Longrightarrow> Q s') \<Longrightarrow>
     sigue (al_kernel m s) (al_kernel m s) Q"
  by (auto simp: al_kernel_def intro: tipada_cambios)

lemma enviar_tip [tipos]:
  "tip s \<Longrightarrow> n \<le> 2147483635 \<Longrightarrow> (\<And>s'. tip s' \<Longrightarrow> Q s') \<Longrightarrow>
     sigue (enviar_kernel t b n s) (enviar_kernel t b n s) Q"
  by (auto simp: enviar_kernel_def valido_comun_def intro!: sigue_bind sigue_crear al_kernel_tip)

lemma enviar_texto_tip [tipos]:
  "tip s \<Longrightarrow> texto_ok x \<Longrightarrow> (\<And>s'. tip s' \<Longrightarrow> Q s') \<Longrightarrow>
     sigue (enviar_texto t x s) (enviar_texto t x s) Q"
  unfolding enviar_texto_def by (rule enviar_tip) (simp_all add: texto_ok_def)

lemma enviar_pcb_tip [tipos]:
  "tip s \<Longrightarrow> (\<And>s'. tip s' \<Longrightarrow> Q s') \<Longrightarrow>
     sigue (enviar_pcb_destruir s) (enviar_pcb_destruir s) Q"
  by (auto simp: enviar_pcb_destruir_def valido_quantum_pcb_def
      intro!: sigue_bind sigue_crear_pcb al_kernel_tip intro: tipada_pcb)

lemma recibir_tip [tipos]:
  assumes "tip s" "\<And>m s'. tip s' \<Longrightarrow> valido_comun m \<Longrightarrow> Q (m, s')"
  shows "sigue (recibir_kernel s) (recibir_kernel s) Q"
proof (cases "de_kernel s")
  case Nil
  then show ?thesis
    using assms by (auto simp: recibir_kernel_def valido_comun_def intro!: sigue_bind sigue_crear)
next
  case (Cons x ms)
  then have "valido_mensaje x" "tip (s\<lparr>de_kernel := ms\<rparr>)" using assms(1) by (auto simp: tipada_def)
  then show ?thesis using assms(2) Cons by (cases x) (auto simp: recibir_kernel_def)
qed

lemma recibir_resp_tip [tipos]:
  "tip s \<Longrightarrow> (\<And>s'. tip s' \<Longrightarrow> Q s') \<Longrightarrow>
     sigue (recibir_resp_kernel s) (recibir_resp_kernel s) Q"
  by (auto simp: recibir_resp_kernel_def intro!: sigue_bind recibir_tip)

lemma bucle_tip:
  assumes "\<And>i s. tip s \<Longrightarrow> sigue (f i s) (f' i s) tip"
  shows "tip s \<Longrightarrow> (\<And>s'. tip s' \<Longrightarrow> Q s') \<Longrightarrow> sigue (bucle f ns s) (bucle f' ns s) Q"
proof (induction ns arbitrary: s)
  case (Cons i ns)
  have "sigue (f i s) (f' i s) tip" using assms Cons.prems(1) by blast
  then show ?case using Cons by (auto intro!: sigue_bind elim: sigue_mono)
qed simp

text \<open>Side conditions: the fields of a typed pcb, and texts that \<open>string_itoa\<close> makes.\<close>

lemma itoa_texto [tipos]: "es_i32 n \<Longrightarrow> texto_ok (string_itoa e n)"
  using e_ok by (auto simp: entorno_ok_def texto_ok_def dest!: spec [of _ n])

lemma itoa_corto: "es_i32 n \<Longrightarrow> length (string_itoa e n) \<le> 11"
  using e_ok by (simp add: entorno_ok_def)

lemma titulo_texto [tipos]: "texto_ok titulo_variables"
  by (simp add: texto_ok_def titulo_variables_def)

lemma sigue_pcb [tipos]:
  "tip s \<Longrightarrow> (\<And>p. pcb s = Some p \<Longrightarrow> valido_pcb p \<Longrightarrow> Q p) \<Longrightarrow>
     sigue (no_nulo (pcb s)) (no_nulo (pcb s)) Q"
  by (rule sigue_no_nulo) (simp add: tipada_def)

subsection \<open>The end of a process and the dictionary\<close>

lemma imprimir_variable_tip [tipos]:
  assumes "tip s" "es_i32 base" "\<And>s'. tip s' \<Longrightarrow> Q s'"
  shows "sigue (imprimir_variable e base i s) (imprimir_variable directo base i s) Q"
proof -
  have i: "length (string_itoa e (bytes_i32 bs)) \<le> 11" for bs by (rule itoa_corto) simp
  have "texto_ok t" if "length t < length (nombre @ [61] @ string_itoa e (bytes_i32 bs) @ [0])"
    "int (length nombre) = 1" for t nombre bs
    using that i [of bs] by (simp add: texto_ok_def)
  with assms show ?thesis unfolding imprimir_variable_def by (auto intro!: tipos)
qed

lemma bucle_imprimir_tip [tipos]:
  "tip s \<Longrightarrow> es_i32 base \<Longrightarrow> (\<And>s'. tip s' \<Longrightarrow> Q s') \<Longrightarrow>
     sigue (bucle (imprimir_variable e base) ns s) (bucle (imprimir_variable directo base) ns s) Q"
  by (rule bucle_tip) (auto intro: imprimir_variable_tip)

lemma finalizarContexto_tip [tipos]:
  "tip s \<Longrightarrow> (\<And>s'. tip s' \<Longrightarrow> Q s') \<Longrightarrow>
     sigue (finalizarContexto e t s) (finalizarContexto directo t s) Q"
  unfolding finalizarContexto_def by (auto intro!: tipos)

lemma regenerar_variable_tip [tipos]:
  assumes "tip s" "valido_pcb p" "\<And>s'. tip s' \<Longrightarrow> Q s'"
  shows "sigue (regenerar_variable e p i s) (regenerar_variable directo p i s) Q"
  using assms unfolding regenerar_variable_def Let_def
  by (auto intro!: tipos assms(3) tipada_cambios)

lemma regenerar_tip [tipos]:
  assumes "tip s" "\<And>s'. tip s' \<Longrightarrow> Q s'"
  shows "sigue (regenerar_dicc_var e s) (regenerar_dicc_var directo s) Q"
  unfolding regenerar_dicc_var_def
proof (rule sigue_bind, rule sigue_pcb [OF assms(1)])
  fix p assume p: "valido_pcb p"
  show "sigue (bucle (regenerar_variable e p) [0..cant_var_cont_actual p - 1]
      (s\<lparr>dic_Variables := Map.empty\<rparr>)) (bucle (regenerar_variable directo p) [0..cant_var_cont_actual p - 1]
      (s\<lparr>dic_Variables := Map.empty\<rparr>)) Q"
    by (intro bucle_tip) (use assms p in \<open>auto intro!: tipos tipada_cambios\<close>)
qed

lemma actualizar_tip [tipos]:
  assumes "tip s" "es_i32 n" "es_i32 pc" "es_i32 d" "\<And>s'. tip s' \<Longrightarrow> Q s'"
  shows "sigue (actualizar_pcb n pc d s) (actualizar_pcb n pc d s) Q"
  using assms(1-4) unfolding actualizar_pcb_def
  by (auto intro!: tipos assms(5) tipada_cambios valido_pcb_cambios)

subsection \<open>The primitives\<close>

lemma fin_contexto_i32 [simp]: "es_i32 (fin_contexto p)"
  by (simp add: fin_contexto_def)

lemma no_iniciado_i32 [simp]: "es_i32 (no_iniciado e)" "es_i32 (metadata_buscar_etiqueta e x d n)"
  using e_ok by (simp_all add: entorno_ok_def)

lemma tip_pcb_dic:
  "tip s \<Longrightarrow> valido_pcb p \<Longrightarrow> es_i32 v \<Longrightarrow> tip (s\<lparr>dic_Variables := (dic_Variables s)(clave_variable c \<mapsto> v), pcb := Some p\<rparr>)"
  by (auto simp: tipada_def clave_variable_def)

lemma definir_tip [tipos]:
  assumes "tip s" "\<And>r s'. es_i32 r \<Longrightarrow> tip s' \<Longrightarrow> Q (r, s')"
  shows "sigue (definirVariable e c s) (definirVariable directo c s) Q"
  using assms unfolding definirVariable_def Let_def
  by (auto intro!: tipos tip_pcb_dic assms(2) valido_pcb_cambios)

lemma obtener_tip [tipos]:
  assumes "tip s" "\<And>r s'. es_i32 r \<Longrightarrow> tip s' \<Longrightarrow> Q (r, s')"
  shows "sigue (obtenerPosicionVariable c s) (obtenerPosicionVariable c s) Q"
proof -
  have "es_i32 v" if "dic_Variables s (clave_variable c) = Some v" for v
    using assms(1) that by (simp add: tipada_def)
  then show ?thesis using assms unfolding obtenerPosicionVariable_def by (auto intro!: sigue_bind sigue_no_nulo)
qed

lemma dereferenciar_tip [tipos]:
  assumes "tip s" "\<And>r s'. es_i32 r \<Longrightarrow> tip s' \<Longrightarrow> Q (r, s')"
  shows "sigue (dereferenciar e d s) (dereferenciar directo d s) Q"
  using assms unfolding dereferenciar_def Let_def by (auto intro!: tipos)

lemma asignar_tip [tipos]:
  assumes "tip s" "\<And>s'. tip s' \<Longrightarrow> Q s'"
  shows "sigue (asignar e d v s) (asignar directo d v s) Q"
  using assms unfolding asignar_def Let_def by (auto intro!: tipos)

lemma compartidas_tip [tipos]:
  assumes "tip s" "texto_ok x" "\<And>r s'. es_i32 r \<Longrightarrow> tip s' \<Longrightarrow> Q (r, s')"
  shows "sigue (obtenerValorCompartida x s) (obtenerValorCompartida x s) Q" "es_i32 v \<Longrightarrow>
     sigue (asignarValorCompartida e x v s) (asignarValorCompartida directo x v s) Q"
  using assms unfolding obtenerValorCompartida_def asignarValorCompartida_def
  by (auto intro!: tipos)

lemma preservar_tip [tipos]:
  assumes "tip s" "\<And>s'. tip s' \<Longrightarrow> Q s'"
  shows "sigue (preservarContexto e s) (preservarContexto directo s) Q"
  using assms unfolding preservarContexto_def Let_def by (auto intro!: tipos)

lemma saltar_tip [tipos]:
  assumes "tip s" "\<And>s'. tip s' \<Longrightarrow> Q s'"
  shows "sigue (saltar_a e et s) (saltar_a directo et s) Q" "sigue (irAlLabel e et s) (irAlLabel directo et s) Q"
  using assms unfolding saltar_a_def irAlLabel_def Let_def
  by (auto intro!: tipos tipada_cambios assms(2) valido_pcb_cambios)

lemma llamar_tip [tipos]:
  assumes "tip s" "\<And>s'. tip s' \<Longrightarrow> Q s'"
  shows "sigue (llamarSinRetorno e et s) (llamarSinRetorno directo et s) Q" "sigue (llamarConRetorno e et d s) (llamarConRetorno directo et d s) Q"
  using assms unfolding llamarSinRetorno_def llamarConRetorno_def Let_def
  by (auto intro!: tipos tipada_cambios valido_pcb_cambios)

lemma volver_tip [tipos]:
  assumes "tip s" "\<And>s'. tip s' \<Longrightarrow> Q s'"
  shows "sigue (finalizar e s) (finalizar directo s) Q" "sigue (retornar e v s) (retornar directo v s) Q"
  using assms unfolding finalizar_def retornar_def Let_def
  by (auto intro!: tipos)

lemma escape_texto [tipos]: "texto_ok x \<Longrightarrow> texto_ok (sacar_caracteres_escape x)"
  using length_dropWhile_le [of es_espacio x] length_dropWhile_le [of es_espacio "rev (dropWhile es_espacio x)"]
  by (simp add: texto_ok_def sacar_caracteres_escape_def)

lemma salidas_tip [tipos]:
  assumes "tip s" "\<And>s'. tip s' \<Longrightarrow> Q s'"
  shows "es_i32 v \<Longrightarrow> sigue (imprimir e v s) (imprimir directo v s) Q" "texto_ok x \<Longrightarrow>
     sigue (imprimirTexto x s) (imprimirTexto x s) Q"
    "sigue (desalojar s) (desalojar s) Q" "sigue (salirPorQuantum s) (salirPorQuantum s) Q"
  using assms unfolding imprimir_def imprimirTexto_def desalojar_def salirPorQuantum_def
  by (auto intro!: tipos)

lemma kernel_tip [tipos]:
  assumes "tip s" "texto_ok x" "\<And>s'. tip s' \<Longrightarrow> Q s'"
  shows "es_i32 n \<Longrightarrow>
     sigue (entradaSalida e x n s) (entradaSalida directo x n s) Q" "sigue (wait_cpu x s) (wait_cpu x s) Q" "sigue (mi_signal e x s) (mi_signal directo x s) Q"
  using assms unfolding entradaSalida_def wait_cpu_def mi_signal_def
  by (auto intro!: tipos)

subsection \<open>Lines and the fetch\<close>

lemma linea_tip [tipos]:
  "tip s \<Longrightarrow> accion_ok a \<Longrightarrow> (\<And>s'. tip s' \<Longrightarrow> Q s') \<Longrightarrow>
     sigue (ejecutar_linea e a s) (ejecutar_linea directo a s) Q"
  by (induction a arbitrary: s) (auto intro!: tipos)

lemma prox_tip [tipos]:
  assumes "tip s" "\<And>r s'. tip s' \<Longrightarrow> Q (r, s')"
  shows "sigue (solicitarProxSentenciaAUmv e s) (solicitarProxSentenciaAUmv directo s) Q"
  using assms unfolding solicitarProxSentenciaAUmv_def
  by (auto intro!: tipos tipada_cambios assms(2) valido_pcb_cambios)

lemma traer_tip [tipos]:
  assumes "tip s" "\<And>s'. tip s' \<Longrightarrow> Q s'"
  shows "sigue (traerIndiceEtiquetas e s) (traerIndiceEtiquetas directo s) Q"
  using assms unfolding traerIndiceEtiquetas_def by (auto intro!: tipos)

end

subsection \<open>Turns and the cycle\<close>

text \<open>The counter of the turn stays below the quantum, so it never leaves 32 bits.\<close>

lemma tipada_tic:
  "tipada ok qa qm s \<Longrightarrow> tipada ok q qm (s\<lparr>quantum_actual := q\<rparr>)"
  "tipada ok qa qm s \<Longrightarrow> quantum_actual s = qa \<and> cpu_quantum_max s = qm"
  by (simp_all add: tipada_def)

lemma directo_campos:
  "senal (e\<lparr>umv_srv := f\<rparr>) = senal e" "analizadorLinea (e\<lparr>umv_srv := f\<rparr>) = analizadorLinea e"
  by simp_all

lemma turno_tip:
  assumes c: "cpu_tipada srv ok srv' e"
  shows "tipada ok qa qm s \<Longrightarrow> 0 \<le> qa \<Longrightarrow> qa + int n \<le> max 0 qm \<Longrightarrow>
    sigue (turno e n s) (turno (e\<lparr>umv_srv := srv'\<rparr>) n s)
      (\<lambda>s'. \<exists>q. 0 \<le> q \<and> q \<le> max 0 qm \<and> tipada ok q qm s')"
proof (induction n arbitrary: s qa)
  case 0
  then show ?case by auto
next
  case (Suc n)
  show ?case
  proof (cases "fueFinEjecucion s")
    case True
    then show ?thesis using Suc.prems by auto
  next
    case False
    have senales: "tipada ok qa qm (if senal e (quantum_actual s) then signal_handler s else s)"
      using Suc.prems(1) by (simp add: signal_handler_def)
    have linea: "accion_ok (analizadorLinea e r)" for r
      using cpu_tipada.e_ok [OF c] by (simp add: entorno_ok_def)
    have resto: "sigue (turno e n (s2\<lparr>quantum_actual := quantum_actual s2 + 1\<rparr>))
        (turno (e\<lparr>umv_srv := srv'\<rparr>) n (s2\<lparr>quantum_actual := quantum_actual s2 + 1\<rparr>))
        (\<lambda>s'. \<exists>q. 0 \<le> q \<and> q \<le> max 0 qm \<and> tipada ok q qm s')" if "tipada ok qa qm s2" for s2
      using Suc.IH [OF tipada_tic(1) [OF that, of "qa + 1"]] tipada_tic(2) [OF that] Suc.prems(2,3)
      by simp
    show ?thesis
      unfolding turno.simps Let_def if_not_P [OF False] directo_campos
      by (rule sigue_bind, rule cpu_tipada.prox_tip [OF c senales], unfold prod.case,
          rule sigue_bind, rule cpu_tipada.linea_tip [OF c _ linea], assumption, rule resto)
  qed
qed

text \<open>The end of a round, from the check of \<open>fueFinEjecucion\<close> on.\<close>

definition cierre_turno :: "'m entorno_cpu \<Rightarrow> 'm cpu \<Rightarrow> 'm cpu res" where
  "cierre_turno e s4 =
     bindE (if fueFinEjecucion s4 then Inr s4 else salirPorQuantum s4) (\<lambda>s5.
     bindE (liberar_bloque (cpu_etiquetas s5)) (\<lambda>b.
     bindE (cambio_PA e 0 (s5\<lparr>cpu_etiquetas := b, pcb := None\<rparr>)) (\<lambda>s6.
       Inr (s6\<lparr>fueFinEjecucion := False, huboSegFault := False\<rparr>))))"

lemma cierre_tip:
  assumes c: "cpu_tipada srv ok srv' e" and s: "tipada ok q qm s"
  shows "sigue (cierre_turno e s) (cierre_turno (e\<lparr>umv_srv := srv'\<rparr>) s) (tipada ok q qm)"
proof -
  have PA: "sigue (cambio_PA e 0 (s5\<lparr>cpu_etiquetas := b, pcb := None\<rparr>))
      (cambio_PA (e\<lparr>umv_srv := srv'\<rparr>) 0 (s5\<lparr>cpu_etiquetas := b, pcb := None\<rparr>)) (tipada ok q qm)"
    if "tipada ok q qm s5" for s5 b
    by (rule cpu_tipada.cambio_PA_tip [OF c]) (use that in \<open>auto intro: tipada_cambios\<close>)
  have salir: "sigue (if fueFinEjecucion s then Inr s else salirPorQuantum s)
      (if fueFinEjecucion s then Inr s else salirPorQuantum s) (tipada ok q qm)"
    using s by (auto intro: cpu_tipada.salidas_tip(4) [OF c s])
  show ?thesis
    unfolding cierre_turno_def
  proof (rule sigue_bind, rule sigue_mono [OF salir], rule sigue_bind)
    fix s5 assume s5: "tipada ok q qm s5"
    show "sigue (liberar_bloque (cpu_etiquetas s5)) (liberar_bloque (cpu_etiquetas s5)) (\<lambda>b.
      sigue (bindE (cambio_PA e 0 (s5\<lparr>cpu_etiquetas := b, pcb := None\<rparr>)) (\<lambda>s6.
          Inr (s6\<lparr>fueFinEjecucion := False, huboSegFault := False\<rparr>)))
        (bindE (cambio_PA (e\<lparr>umv_srv := srv'\<rparr>) 0 (s5\<lparr>cpu_etiquetas := b, pcb := None\<rparr>)) (\<lambda>s6.
          Inr (s6\<lparr>fueFinEjecucion := False, huboSegFault := False\<rparr>))) (tipada ok q qm))"
      using PA [OF s5] by (auto simp: sigue_def bindE_eq_Inr)
  qed
qed

lemma atender_tip:
  assumes c: "cpu_tipada srv ok srv' e" and s: "tipada ok qa qm s" and qm: "es_i32 qm"
  shows "sigue (atender_pcb e s) (atender_pcb (e\<lparr>umv_srv := srv'\<rparr>) s)
    (\<lambda>s'. \<exists>q. es_i32 q \<and> tipada ok q qm s')"
  unfolding atender_pcb_def cierre_turno_def [symmetric]
proof (rule sigue_bind, rule cpu_tipada.sigue_pcb [OF c s],
    rule sigue_bind, rule cpu_tipada.cambio_PA_tip [OF c s], simp,
    rule sigue_bind, rule cpu_tipada.traer_tip [OF c], assumption,
    rule sigue_bind, rule cpu_tipada.regenerar_tip [OF c], assumption, rule sigue_bind, goal_cases)
  case (1 p s1 s2 s3)
  have s3: "tipada ok 0 qm (s3\<lparr>quantum_actual := 0\<rparr>)" "cpu_quantum_max s3 = qm"
    using 1 by (simp_all add: tipada_def)
  have t: "sigue (turno e (nat (cpu_quantum_max s3)) (s3\<lparr>quantum_actual := 0\<rparr>))
      (turno (e\<lparr>umv_srv := srv'\<rparr>) (nat (cpu_quantum_max s3)) (s3\<lparr>quantum_actual := 0\<rparr>))
      (\<lambda>s'. \<exists>q. 0 \<le> q \<and> q \<le> max 0 qm \<and> tipada ok q qm s')"
    by (rule turno_tip [OF c s3(1)]) (simp_all add: s3(2))
  show ?case
  proof (rule sigue_mono [OF t])
    fix s4 assume "\<exists>q. 0 \<le> q \<and> q \<le> max 0 qm \<and> tipada ok q qm s4"
    then obtain q where q0: "0 \<le> q" "q \<le> max 0 qm" "tipada ok q qm s4" by blast
    then have q: "es_i32 q" "tipada ok q qm s4"
      using qm by (auto simp: es_i32_def max_def split: if_splits)
    show "sigue (cierre_turno e s4) (cierre_turno (e\<lparr>umv_srv := srv'\<rparr>) s4)
        (\<lambda>s'. \<exists>q. es_i32 q \<and> tipada ok q qm s')"
      by (rule sigue_mono [OF cierre_tip [OF c q(2)]]) (use q(1) in blast)
  qed
qed

lemma recibir_pcb_tip:
  assumes "tipada ok qa qm s" "es_i32 qm" "recibirUnPcb s = Inr s1"
  shows "\<exists>qm. es_i32 qm \<and> tipada ok qa qm s1"
proof (cases "de_kernel s")
  case Nil
  then show ?thesis using assms by (auto simp: recibirUnPcb_def intro: tipada_cambios)
next
  case (Cons x ms)
  then show ?thesis
    using assms by (cases x) (auto simp: recibirUnPcb_def tipada_def valido_quantum_pcb_def split: if_splits)
qed

lemma ciclo_tip:
  assumes c: "cpu_tipada srv ok srv' e"
  shows "\<exists>qa qm. es_i32 qa \<and> es_i32 qm \<and> tipada ok qa qm s \<Longrightarrow>
    sigue (ciclo e n s) (ciclo (e\<lparr>umv_srv := srv'\<rparr>) n s)
      (\<lambda>r. \<forall>s'. r = Some s' \<longrightarrow> (\<exists>qa qm. es_i32 qa \<and> es_i32 qm \<and> tipada ok qa qm s'))"
    (is "_ \<Longrightarrow> sigue _ _ ?Q")
proof (induction n arbitrary: s)
  case (Suc n)
  then obtain qa qm where t: "es_i32 qa" "es_i32 qm" "tipada ok qa qm s" by blast
  have "sigue (recibirUnPcb s) (recibirUnPcb s) (\<lambda>s1. \<exists>qm. es_i32 qm \<and> tipada ok qa qm s1)"
    using recibir_pcb_tip [OF t(3,2)] by (simp add: sigue_def)
  then have "sigue (recibirUnPcb s) (recibirUnPcb s) (\<lambda>s1.
      sigue (if pcb s1 = None then Inr (Some s1) else bindE (atender_pcb e s1) (ciclo e n))
        (if pcb s1 = None then Inr (Some s1)
         else bindE (atender_pcb (e\<lparr>umv_srv := srv'\<rparr>) s1) (ciclo (e\<lparr>umv_srv := srv'\<rparr>) n)) ?Q)"
  proof (rule sigue_mono)
    fix s1 assume "\<exists>qm. es_i32 qm \<and> tipada ok qa qm s1"
    then obtain qm1 where s1: "es_i32 qm1" "tipada ok qa qm1 s1" by blast
    have "sigue (bindE (atender_pcb e s1) (ciclo e n))
        (bindE (atender_pcb (e\<lparr>umv_srv := srv'\<rparr>) s1) (ciclo (e\<lparr>umv_srv := srv'\<rparr>) n)) ?Q"
      by (rule sigue_bind, rule sigue_mono [OF atender_tip [OF c s1(2,1)]], rule Suc.IH)
        (use s1(1) in blast)
    then show "sigue (if pcb s1 = None then Inr (Some s1) else bindE (atender_pcb e s1) (ciclo e n))
        (if pcb s1 = None then Inr (Some s1)
         else bindE (atender_pcb (e\<lparr>umv_srv := srv'\<rparr>) s1) (ciclo (e\<lparr>umv_srv := srv'\<rparr>) n)) ?Q"
      using s1 t(1) by (cases "pcb s1 = None") auto
  qed
  then show ?case
    using t by (cases "cpu_quit_sistema s") (auto intro!: sigue_bind)
qed (simp add: sigue_def)

end
