(* ===== verification/CPU_Tipos_Prop.thy ===== *)
theory CPU_Tipos_Prop
  imports CPU_Tipos CPU_Prop
begin

text \<open>The types of a CPU in front of the model of the memory unit.\<close>

section \<open>The memory unit answers with messages that can be framed\<close>

lemma solicitud_valida:
  assumes "tam_mem_total u < 1073741824" "gestionar_solicitud_bytes fresco q pa u = Inr m"
  shows "valido_comun m"
proof -
  obtain r where r: "solicitar_bytes fresco u pa (cu_base q) (cu_offset q) (cu_tam q) = Inr r"
    using assms(2) by (auto simp: gestionar_solicitud_bytes_def bindE_eq_Inr)
  show ?thesis
  proof (cases r)
    case None
    then show ?thesis using assms(2) r by (auto simp: gestionar_solicitud_bytes_def valido_comun_def)
  next
    case (Some b)
    then have "cu_tam q \<le> tam_mem_total u" using r by (auto simp: solicitar_bytes_def split: if_splits)
    then show ?thesis
      using assms r Some by (auto simp: gestionar_solicitud_bytes_def crear_men_comun_def valido_comun_def
          bindE_eq_Inr leer_Inr_iff)
  qed
qed

lemma almacenamiento_valido:
  assumes "gestionar_almacenamiento_bytes q pa u = Inr (m, u')"
  shows "valido_comun m"
proof -
  obtain resp v where r: "almacenar_bytes pa (cu_base q) (cu_offset q) (cu_tam q) (cu_buffer q) u = Inr (resp, v)"
    and m: "m = \<lparr>tam_dato = 0, tipo = resp, dato = []\<rparr>"
    using assms by (auto simp: gestionar_almacenamiento_bytes_def bindE_eq_Inr)
  have "resp = codigo SEGMEN_FAULT \<or> resp = codigo R_ALM_BYTES"
    using r by (auto simp: almacenar_bytes_def bindE_eq_Inr Let_def split: if_splits)
  then show ?thesis using m by (auto simp: valido_comun_def)
qed

lemma servir_valido:
  assumes "servir_inv m" "servir_cpu fresco q m = Inr (r, m')"
  shows "servir_inv m' \<and> (\<forall>resp. r = Some resp \<longrightarrow> valido_comun resp)"
proof -
  obtain pa u where m: "m = (pa, u)" by fastforce
  obtain pa' u' sigue where a: "atender_cpu fresco q pa u = Inr (r, pa', u', sigue)" "m' = (pa', u')"
    using assms(2) by (auto simp: servir_cpu_def m bindE_eq_Inr)
  have "umv_inv u" "tam_mem_total u < 1073741824" using assms(1) by (simp_all add: servir_inv_def m)
  then have "servir_inv m'" using atender_cpu_inv [OF _ a(1)] a(2) by (simp add: servir_inv_def)
  moreover have "valido_comun resp" if "r = Some resp" for resp
    using a(1) that solicitud_valida [OF \<open>tam_mem_total u < 1073741824\<close>] almacenamiento_valido
    by (auto simp: atender_cpu_def bindE_eq_Inr split: if_splits)
  ultimately show ?thesis by blast
qed

interpretation umv_tipada: mismo_servidor "servir_cpu fresco" servir_inv "servir_cpu fresco" for fresco
  by unfold_locales (use servir_valido in auto)

section \<open>The types of a CPU\<close>

definition cpu_bien :: "(int \<times> umv) cpu \<Rightarrow> bool" where
  "cpu_bien s \<longleftrightarrow> es_i32 (quantum_actual s) \<and> es_i32 (cpu_quantum_max s)
     \<and> tipada servir_inv (quantum_actual s) (cpu_quantum_max s) s"

lemma cpu_bien_iff:
  "cpu_bien s \<longleftrightarrow> (\<exists>qa qm. es_i32 qa \<and> es_i32 qm \<and> tipada servir_inv qa qm s)"
  unfolding cpu_bien_def using tipada_tic(2) by metis

text \<open>A CPU whose lines define a variable, assign to it and print it.\<close>

definition e_tip :: "(int \<times> umv) entorno_cpu" where
  "e_tip = e_cpu\<lparr>analizadorLinea := (\<lambda>_. Definir_Variable 97 (\<lambda>d. Asignar d 5 (Imprimir 5 Fin_Linea)))\<rparr>"

lemma cifras_cortas: "n < 10 ^ k \<Longrightarrow> 0 < k \<Longrightarrow> length (cifras n) \<le> k"
proof (induction n arbitrary: k rule: cifras.induct)
  case (1 n)
  show ?case
  proof (cases "n < 10")
    case True
    then show ?thesis using 1(3) by (subst cifras.simps) simp
  next
    case False
    then obtain j where j: "k = Suc j" "0 < j" using 1(2,3) by (cases k; cases "k = 1") auto
    then have "n div 10 < 10 ^ j" using 1(2) by (simp add: div_less_iff_less_mult mult.commute)
    then have "length (cifras (n div 10)) \<le> j" using 1(1) False j(2) by blast
    then show ?thesis using False j(1) by (subst cifras.simps) simp
  qed
qed

lemma decimal_corto: "es_i32 n \<Longrightarrow> length (decimal n) \<le> 11"
proof -
  assume n: "es_i32 n"
  have "length (cifras m) \<le> 10" if "m < 10 ^ 10" for m using cifras_cortas [OF that] by simp
  then have "length (cifras (nat n)) \<le> 10" "length (cifras (nat (- n))) \<le> 10"
    using n by (auto simp: es_i32_def)
  then show ?thesis by (simp add: decimal_def)
qed

lemma e_tip_campos: "entorno_ok e_tip" "umv_srv e_tip = servir_cpu (\<lambda>_. 0)"
  using decimal_corto by (auto simp: e_tip_def entorno_ok_def) (simp add: e_cpu_def)

interpretation cpu_tip: cpu_tipada "servir_cpu (\<lambda>_. 0)" servir_inv "servir_cpu (\<lambda>_. 0)" e_tip qa qm
  for qa qm
  by unfold_locales (rule e_tip_campos)+



definition s_tip :: "(int \<times> umv) cpu" where
  "s_tip = s_cpu\<lparr>de_kernel := [Men_Pcb \<lparr>mq_tipo = 68, mq_quantum = 1, mq_pcb = p_cpu\<rparr>,
     Men_Comun \<lparr>tam_dato = 0, tipo = 50, dato = []\<rparr>]\<rparr>"

lemma s_tip_bien: "cpu_bien s_tip"
proof -
  have p: "valido_pcb p_cpu" by (simp add: valido_pcb_def p_cpu_def del: valido_pcb_campos)
  have "servir_inv (memoria s_tip)" using contexto_s_cpu by (simp add: contexto_def s_tip_def)
  with p show ?thesis
    by (simp add: cpu_bien_def tipada_def s_tip_def s_cpu_def valido_quantum_pcb_def valido_comun_def)
qed

lemma s_tip_corre: "\<exists>s'. ciclo e_tip 2 s_tip = Inr (Some s') \<and> length (a_kernel s') = 3"
proof -
  have "case ciclo e_tip 2 s_tip of Inr (Some s') \<Rightarrow> length (a_kernel s') = 3 | _ \<Rightarrow> False"
    by code_simp
  then show ?thesis by (auto split: sum.splits option.splits)
qed


end
