(* ===== verification/Transporte.thy ===== *)
theory Transporte
  imports CPU_Tipos_Prop
begin

text \<open>
  The conversations of a CPU and the memory unit over the byte streams of their sockets. The
  models of the two daemons hand messages over directly; here each request and each answer
  is framed, sent, received and taken apart by the library, and nothing changes.
\<close>

section \<open>The same conversation over the byte streams\<close>

text \<open>
  A request and its answer over the sockets: the CPU sends the framed request, the memory unit
  receives and serves it and sends the framed answer, the CPU receives it. \<open>heap q\<close> is what lies
  behind the buffer of the request, and the two environments say what the receives find.
\<close>

definition canal :: socket where
  "canal = \<lparr>entrante = [], roto = False\<rparr>"

definition servir_por_cable ::
  "(t_men_cpu_umv \<Rightarrow> byte list) \<Rightarrow> red \<Rightarrow> red \<Rightarrow> (nat \<Rightarrow> byte) \<Rightarrow> t_men_cpu_umv \<Rightarrow> int \<times> umv
     \<Rightarrow> (t_men_comun option \<times> (int \<times> umv)) res" where
  "servir_por_cable heap r1 r2 fresco q m = (case m of (pa, u) \<Rightarrow>
     bindE (socket_send_cpu_umv (heap q) (20 + cu_tam q) q canal) (\<lambda>(_, ida).
     bindE (socket_recv_cpu_umv r1 ida) (\<lambda>(q', _).
     bindE (atender_cpu fresco q' pa u) (\<lambda>(r, pa', u', _).
     case r of
       None \<Rightarrow> Inr (None, (pa', u'))
     | Some resp \<Rightarrow>
         bindE (socket_send_comun (12 + tam_dato resp) resp canal) (\<lambda>(_, vuelta).
         bindE (socket_recv_comun r2 vuelta) (\<lambda>(resp', _). Inr (Some resp', (pa', u'))))))))"

lemma i32_da_la_vuelta: "2147483648 \<le> x \<Longrightarrow> x < 6442450944 \<Longrightarrow> i32 x = x - 4294967296"
  using minus_mod_self2 [of "x + 2147483648" 4294967296, symmetric]
  by (simp add: i32_def mod_pos_pos_trivial)

lemma cable_ida:
  assumes "es_i32 (cu_tipo q)" "es_i32 (cu_base q)" "es_i32 (cu_offset q)" "es_i32 (cu_tam q)"
    "4 \<le> disponibles r" "socket_send_cpu_umv h (20 + cu_tam q) q canal = Inr (n, c)"
  shows "socket_recv_cpu_umv r c = Inr (llega_cpu_umv h q, canal)"
proof -
  obtain bs where bs: "men_serealizer_cpu_umv h q = Inr bs"
    and c: "enviar_stream (20 + cu_tam q) bs canal = Inr (n, c)"
    using assms(6) by (auto simp: socket_send_cpu_umv_def bindE_eq_Inr)
  obtain d where d: "leer (cu_buffer q @ h) 0 (cu_tam q) = Inr d" "0 \<le> i32 (20 + cu_tam q)"
    "bs = i32_bytes (i32 (20 + cu_tam q)) @ i32_bytes (cu_tipo q) @ i32_bytes (cu_base q)
          @ i32_bytes (cu_offset q) @ i32_bytes (cu_tam q) @ d"
    using bs by (auto simp: men_serealizer_cpu_umv_def Let_def bindE_eq_Inr split: if_splits)
  have t: "0 \<le> cu_tam q" "cu_tam q \<le> int (length (cu_buffer q @ h))" "int (length d) = cu_tam q"
    using d(1) length_leer [OF d(1)] by (auto simp: leer_Inr_iff)
  have "cu_tam q \<le> 2147483627"
  proof (rule ccontr)
    assume "\<not> cu_tam q \<le> 2147483627"
    then have "2147483648 \<le> 20 + cu_tam q" "20 + cu_tam q < 6442450944"
      using assms(4) by (simp_all add: es_i32_def)
    then show False using d(2) i32_da_la_vuelta [of "20 + cu_tam q"] assms(4) by (simp add: es_i32_def)
  qed
  then have v: "valido_cpu_umv h q" using assms(1-3) t by (simp add: valido_cpu_umv_def)
  have "length bs = nat (20 + cu_tam q)" using d(3) t(1,3) by simp
  then have c': "c = \<lparr>entrante = bs, roto = False\<rparr>"
    using c t(1) by (auto simp: enviar_stream_def canal_def split: if_splits)
  show ?thesis
    using cpu_umv.recibir_un_mensaje [OF v bs, of c "[]" r] assms(5)
    by (simp add: c' socket_recv_cpu_umv_def canal_def)
qed

lemma cable_vuelta:
  assumes "valido_comun m" "4 \<le> disponibles r" "socket_send_comun (12 + tam_dato m) m canal = Inr (n, c)"
  shows "socket_recv_comun r c = Inr (m, canal)"
proof -
  obtain bs where bs: "men_serealizer_comun m = Inr bs"
    and c: "enviar_stream (12 + tam_dato m) bs canal = Inr (n, c)"
    using assms(3) by (auto simp: socket_send_comun_def bindE_eq_Inr)
  have "length bs = nat (12 + tam_dato m)" "0 \<le> tam_dato m"
    using bs by (auto simp: men_serealizer_comun_def Let_def bindE_eq_Inr leer_Inr_iff split: if_splits)
  then have c': "c = \<lparr>entrante = bs, roto = False\<rparr>"
    using c by (auto simp: enviar_stream_def canal_def split: if_splits)
  show ?thesis
    using comun.recibir_un_mensaje [OF assms(1) bs, of c "[]" r] assms(2)
    by (simp add: c' socket_recv_comun_def canal_def)
qed

text \<open>What the memory unit finds in the buffer of a request that is no write does not matter.\<close>

lemma atender_llega:
  assumes "pedido_ok q"
  shows "atender_cpu fresco (llega_cpu_umv h q) pa u = atender_cpu fresco q pa u"
proof (cases "cu_tipo q = codigo ALM_BYTES")
  case True
  then have "int (length (cu_buffer q)) = cu_tam q" using assms by (simp add: pedido_ok_def)
  then have "take (nat (cu_tam q)) (cu_buffer q @ h) = cu_buffer q" by (simp flip: \<open>_ = cu_tam q\<close>)
  then show ?thesis by (simp add: llega_cpu_umv_def)
next
  case False
  then show ?thesis
    by (simp add: llega_cpu_umv_def atender_cpu_def gestionar_solicitud_bytes_def cong: option.case_cong)
qed

lemma cable_directo:
  assumes "servir_inv m" "pedido_ok q" "4 \<le> disponibles r1" "4 \<le> disponibles r2"
    and "servir_por_cable heap r1 r2 fresco q m = Inr y"
  shows "servir_cpu fresco q m = Inr y"
proof -
  obtain pa u where m: "m = (pa, u)" by fastforce
  obtain n ida where ida: "socket_send_cpu_umv (heap q) (20 + cu_tam q) q canal = Inr (n, ida)"
    using assms(5) by (auto simp: servir_por_cable_def m bindE_eq_Inr)
  then have "socket_recv_cpu_umv r1 ida = Inr (llega_cpu_umv (heap q) q, canal)"
    using assms(2,3) by (intro cable_ida) (simp_all add: pedido_ok_def)
  then obtain r pa' u' sigue where a: "atender_cpu fresco q pa u = Inr (r, pa', u', sigue)"
    and y: "(case r of None \<Rightarrow> Inr (None, (pa', u'))
      | Some resp \<Rightarrow> bindE (socket_send_comun (12 + tam_dato resp) resp canal) (\<lambda>(_, vuelta).
          bindE (socket_recv_comun r2 vuelta) (\<lambda>(resp', _). Inr (Some resp', (pa', u'))))) = Inr y"
    using assms(5) ida unfolding servir_por_cable_def m
    by (auto simp: atender_llega [OF assms(2)] bindE_eq_Inr [of "atender_cpu fresco q pa u"])
  have s: "servir_cpu fresco q m = Inr (r, (pa', u'))" using a by (simp add: servir_cpu_def m)
  show ?thesis
  proof (cases r)
    case None
    then show ?thesis using s y by simp
  next
    case (Some resp)
    then obtain n2 vuelta where v: "socket_send_comun (12 + tam_dato resp) resp canal = Inr (n2, vuelta)"
      "bindE (socket_recv_comun r2 vuelta) (\<lambda>(resp', _). Inr (Some resp', (pa', u'))) = Inr y"
      using y by (auto simp: bindE_eq_Inr [of "socket_send_comun _ _ _"])
    have "valido_comun resp" using servir_valido [OF assms(1) s] Some by blast
    from cable_vuelta [OF this assms(4) v(1)] show ?thesis using v(2) s Some by simp
  qed
qed

text \<open>A receive whose peek sees the whole length word.\<close>

definition red_con :: "nat \<Rightarrow> (nat \<Rightarrow> byte) \<Rightarrow> red" where
  "red_con d b = \<lparr>disponibles = d + 4, basura = b\<rparr>"

lemma red_con_iff: "4 \<le> disponibles r \<Longrightarrow> r = red_con (disponibles r - 4) (basura r)"
  by (cases r) (simp add: red_con_def)

interpretation cable: mismo_servidor "servir_por_cable heap (red_con d1 b1) (red_con d2 b2) fresco"
  servir_inv "servir_cpu fresco" for heap d1 b1 d2 b2 fresco
proof (unfold_locales, goal_cases)
  case (1 m q r m')
  then have "servir_cpu fresco q m = Inr (r, m')" by (intro cable_directo) (simp_all add: red_con_def)
  then show ?case using servir_valido 1(1) by blast
next
  case (2 m q y)
  then show ?case by (intro cable_directo) (simp_all add: red_con_def)
qed

section \<open>The whole CPU over its socket\<close>

text \<open>
  C5. The transport: a CPU whose every request travels framed over the byte stream of its socket
  to the memory unit, and every answer back, does exactly what it does when the memory unit is
  called directly, whatever heap bytes the requests carry along; in any run of its main loop, as
  long as nothing fails on the way and each receive peeks at a whole length word. So what is
  proved of the direct calls holds of the daemons that talk over sockets.
\<close>

theorem transporte_fiel:
  assumes "umv_srv e = servir_por_cable heap r1 r2 fresco" "4 \<le> disponibles r1" "4 \<le> disponibles r2"
    "entorno_ok e" "cpu_bien s" "ciclo e n s = Inr r"
  shows "ciclo (e\<lparr>umv_srv := servir_cpu fresco\<rparr>) n s = Inr r"
proof -
  note c = cable.mismo_servidor_axioms [of heap "disponibles r1 - 4" "basura r1" "disponibles r2 - 4"
      "basura r2" fresco, folded red_con_iff [OF assms(2)] red_con_iff [OF assms(3)]]
  have "cpu_tipada (servir_por_cable heap r1 r2 fresco) servir_inv (servir_cpu fresco) e"
    using c assms(1,4) by (simp add: cpu_tipada_def cpu_tipada_axioms_def)
  from ciclo_tip [OF this, of s n] show ?thesis
    using assms(5,6) unfolding cpu_bien_iff sigue_def by blast
qed

definition e_cable :: "(int \<times> umv) entorno_cpu" where
  "e_cable = e_tip\<lparr>umv_srv := servir_por_cable (\<lambda>_. replicate 64 7) (red_con 0 (\<lambda>_. 0)) (red_con 0 (\<lambda>_. 0)) (\<lambda>_. 0)\<rparr>"

theorem transporte_fiel_testigo:
  "\<exists>s'. ciclo e_cable 2 s_tip = Inr (Some s') \<and> length (a_kernel s') = 3
     \<and> ciclo (e_cable\<lparr>umv_srv := servir_cpu (\<lambda>_. 0)\<rparr>) 2 s_tip = Inr (Some s')"
proof -
  have "case ciclo e_cable 2 s_tip of Inr (Some s') \<Rightarrow> length (a_kernel s') = 3 | _ \<Rightarrow> False"
    by code_simp
  then obtain s' where s': "ciclo e_cable 2 s_tip = Inr (Some s')" "length (a_kernel s') = 3"
    by (auto split: sum.splits option.splits)
  have e: "umv_srv e_cable = servir_por_cable (\<lambda>_. replicate 64 7) (red_con 0 (\<lambda>_. 0)) (red_con 0 (\<lambda>_. 0)) (\<lambda>_. 0)"
    "entorno_ok e_cable"
    using e_tip_campos(1) by (simp_all add: e_cable_def entorno_ok_def)
  from transporte_fiel [OF e(1) _ _ e(2) s_tip_bien s'(1)] s' show ?thesis by (simp add: red_con_def)
qed

end
