(* ===== verification/Kernel_Tipos.thy ===== *)
theory Kernel_Tipos
  imports Kernel_Hilos Tipado
begin

text \<open>
  The types of the kernel at run time. Every number that it keeps in a process, in its list of
  CPUs, in a shared variable or behind a device stays in 32 bits, and every message that it
  sends has a size field that tells the truth and fits the frame. A request to the memory unit
  has this form too, so that the runs do not depend on which of two memory units answers, as
  long as they answer such requests alike.
\<close>

section \<open>Typed states and events\<close>

definition pcb_bien :: "t_pcb_otros \<Rightarrow> bool" where
  "pcb_bien p \<longleftrightarrow> valido_pcb (po_pcb p) \<and> es_i32 (n_socket p) \<and> es_i32 (peso p)
     \<and> es_i32 (tipo_fin_ejecucion p)"

definition cola_bien :: "cola \<Rightarrow> bool" where
  "cola_bien q \<longleftrightarrow> (\<forall>p. Some p \<in> set q \<longrightarrow> pcb_bien p)"

definition cpu_en_lista :: "t_cpu \<Rightarrow> bool" where
  "cpu_en_lista c \<longleftrightarrow> es_i32 (soc_cpu c) \<and> es_i32 (soc_prog c) \<and> es_i32 (id_prog_exec c)"

definition espera_bien :: "t_IO_espera \<Rightarrow> bool" where
  "espera_bien w \<longleftrightarrow> es_i32 (id_prog w) \<and> es_i32 (unidades w)"

definition io_bien :: "t_IO \<Rightarrow> bool" where
  "io_bien io \<longleftrightarrow> es_i32 (io_sleep io) \<and> (\<forall>w \<in> set (io_procesos io). espera_bien w)"

fun accion_bien :: "accion_socket \<Rightarrow> bool" where
  "accion_bien (Envia soc m) = (es_i32 soc \<and> valido_mensaje m)"
| "accion_bien (Cierra soc) = es_i32 soc"

text \<open>
  The value of a semaphore is the exception: nothing keeps a program from signalling it as
  often as it likes.
\<close>

definition kernel_bien :: "kernel \<Rightarrow> bool" where
  "kernel_bien k \<longleftrightarrow> cola_bien (cola_new k) \<and> cola_bien (cola_ready k) \<and> cola_bien (cola_exec k)
     \<and> cola_bien (cola_exit k) \<and> cola_bien (cola_block k) \<and> (\<forall>c \<in> set (lista_cpu k). cpu_en_lista c)
     \<and> (\<forall>key io. dicc_disp_io k key = Some io \<longrightarrow> io_bien io)
     \<and> (\<forall>key v. dicc_var k key = Some v \<longrightarrow> es_i32 v)
     \<and> (\<forall>key s. dicc_sem k key = Some s \<longrightarrow> (\<forall>i \<in> set (procesos s). es_i32 i))
     \<and> es_i32 (contador_programa k) \<and> es_i32 (quantum_max k) \<and> es_i32 (retardo k)
     \<and> es_i32 (tamanio_stack k) \<and> (\<forall>a \<in> set (salida k). accion_bien a)"

definition sistema_bien :: "sistema \<Rightarrow> bool" where
  "sistema_bien s \<longleftrightarrow> kernel_bien (ker s) \<and> (\<forall>key w. io_actual s key = Some w \<longrightarrow> espera_bien w)"

text \<open>What arrives from outside: typed messages, descriptors and numbers of 32 bits.\<close>

fun orden_bien :: "orden_kernel \<Rightarrow> bool" where
  "orden_bien (Quantum n) = es_i32 n"
| "orden_bien (Tam_Stack n) = es_i32 n"
| "orden_bien (Retardo n) = es_i32 n"
| "orden_bien ord = True"

fun evento_bien :: "evento \<Rightarrow> bool" where
  "evento_bien (Conecta_CPU soc) = es_i32 soc"
| "evento_bien (Conecta_Prog soc) = es_i32 soc"
| "evento_bien (Men_CPU soc men men2 recibido cerrar) =
     (es_i32 soc \<and> valido_comun men \<and> (\<forall>m. recibido = Inr m \<longrightarrow> valido_quantum_pcb m))"
| "evento_bien (Men_Prog basura_ci soc men) = (es_i32 basura_ci \<and> es_i32 soc \<and> valido_comun men)"
| "evento_bien (Operador ord) = orden_bien ord"
| "evento_bien ev = True"

text \<open>The libraries: decimal texts are short, and the numbers of the parser are of 32 bits.\<close>

definition itoa_corta :: "(int \<Rightarrow> byte list) \<Rightarrow> bool" where
  "itoa_corta itoa \<longleftrightarrow> (\<forall>n. es_i32 n \<longrightarrow> length (itoa n) \<le> 11)"

definition meta_bien :: "(byte list \<Rightarrow> t_metadata_program) \<Rightarrow> bool" where
  "meta_bien meta \<longleftrightarrow> (\<forall>b. es_i32 (instruccion_inicio (meta b)) \<and> es_i32 (etiquetas_size (meta b)))"

text \<open>A common message to the memory unit.\<close>

definition segundo_ok :: "t_men_comun \<Rightarrow> bool" where
  "segundo_ok m \<longleftrightarrow> es_i32 (tipo m) \<and> es_i32 (tam_dato m) \<and> int (length (dato m)) = tam_dato m"

definition config_bien :: "config \<Rightarrow> bool" where
  "config_bien c \<longleftrightarrow> es_i32 (QUANTUM c) \<and> es_i32 (RETARDO c) \<and> es_i32 (TAMANIO_STACK c)"

section \<open>Parts of the state\<close>

lemma cola_bien_simps [simp]:
  "cola_bien []" "cola_bien (None # q) = cola_bien q" "cola_bien (Some p # q) = (pcb_bien p \<and> cola_bien q)"
  "cola_bien (a @ b) = (cola_bien a \<and> cola_bien b)"
  by (auto simp: cola_bien_def)

lemma cola_bien_push [simp]: "cola_bien (queue_push q r) = (cola_bien q \<and> (\<forall>p. r = Some p \<longrightarrow> pcb_bien p))"
  by (cases r) (auto simp: queue_push_def)

lemma cola_bien_resto: "cola_bien (r # q) \<Longrightarrow> cola_bien q"
  by (cases r) simp_all

lemma kernel_bien_libres [simp]:
  "kernel_bien (k\<lparr>cant_new := n\<rparr>) = kernel_bien k" "kernel_bien (k\<lparr>cant_ready := n\<rparr>) = kernel_bien k"
  "kernel_bien (k\<lparr>cant_exit := n\<rparr>) = kernel_bien k" "kernel_bien (k\<lparr>cant_multiprog := n\<rparr>) = kernel_bien k"
  "kernel_bien (k\<lparr>cant_cpu_libres := n\<rparr>) = kernel_bien k" "kernel_bien (k\<lparr>conj_soc_progs := x\<rparr>) = kernel_bien k"
  "kernel_bien (k\<lparr>conj_soc_cpus := x\<rparr>) = kernel_bien k" "kernel_bien (k\<lparr>quit_sistema := b\<rparr>) = kernel_bien k"
  "kernel_bien (k\<lparr>rotos := x\<rparr>) = kernel_bien k"
  by (simp_all add: kernel_bien_def)

lemma kernel_bien_cambios:
  assumes "kernel_bien k"
  shows "cola_bien q \<Longrightarrow> kernel_bien (k\<lparr>cola_new := q\<rparr>)" "cola_bien q \<Longrightarrow> kernel_bien (k\<lparr>cola_ready := q\<rparr>)"
    "cola_bien q \<Longrightarrow> kernel_bien (k\<lparr>cola_exec := q\<rparr>)" "cola_bien q \<Longrightarrow> kernel_bien (k\<lparr>cola_exit := q\<rparr>)"
    "cola_bien q \<Longrightarrow> kernel_bien (k\<lparr>cola_block := q\<rparr>)"
    "(\<And>c. c \<in> set l \<Longrightarrow> cpu_en_lista c) \<Longrightarrow> kernel_bien (k\<lparr>lista_cpu := l\<rparr>)"
    "io_bien io \<Longrightarrow> kernel_bien (k\<lparr>dicc_disp_io := (dicc_disp_io k)(key \<mapsto> io)\<rparr>)"
    "es_i32 v \<Longrightarrow> kernel_bien (k\<lparr>dicc_var := (dicc_var k)(key \<mapsto> v)\<rparr>)"
    "(\<And>i. i \<in> set (procesos s) \<Longrightarrow> es_i32 i) \<Longrightarrow> kernel_bien (k\<lparr>dicc_sem := (dicc_sem k)(key \<mapsto> s)\<rparr>)"
    "accion_bien a \<Longrightarrow> kernel_bien (k\<lparr>salida := salida k @ [a]\<rparr>)"
    "es_i32 n \<Longrightarrow> kernel_bien (k\<lparr>contador_programa := n\<rparr>)" "es_i32 n \<Longrightarrow> kernel_bien (k\<lparr>quantum_max := n\<rparr>)"
    "es_i32 n \<Longrightarrow> kernel_bien (k\<lparr>retardo := n\<rparr>)" "es_i32 n \<Longrightarrow> kernel_bien (k\<lparr>tamanio_stack := n\<rparr>)"
  using assms by (simp_all add: kernel_bien_def)

lemma kernel_bien_partes:
  assumes "kernel_bien k"
  shows "cola_bien (cola_new k)" "cola_bien (cola_ready k)" "cola_bien (cola_exec k)"
    "cola_bien (cola_exit k)" "cola_bien (cola_block k)" "c \<in> set (lista_cpu k) \<Longrightarrow> cpu_en_lista c"
    "dicc_disp_io k key = Some io \<Longrightarrow> io_bien io" "dicc_var k key = Some v \<Longrightarrow> es_i32 v"
    "dicc_sem k key = Some s \<Longrightarrow> i \<in> set (procesos s) \<Longrightarrow> es_i32 i"
    "es_i32 (contador_programa k)" "es_i32 (quantum_max k)" "es_i32 (tamanio_stack k)"
  using assms by (auto simp: kernel_bien_def)

section \<open>The operations\<close>

named_theorems tipos_k "an operation of the kernel keeps the types"

lemmas tipos_base = sigue_bind sigue_atoi sigue_cadena

lemma rotar_cola_tip [tipos_k]:
  "cola_bien q \<Longrightarrow> (\<And>r q'. cola_bien q' \<Longrightarrow> (\<And>p. r = Some p \<Longrightarrow> pcb_bien p) \<Longrightarrow> Q (r, q')) \<Longrightarrow>
     sigue (rotar_cola n P q) (rotar_cola n P q) Q"
  by (induction n P q rule: rotar_cola.induct) auto

lemma peso_minimo_tip [tipos_k]:
  "cola_bien q \<Longrightarrow> (\<And>m q'. cola_bien q' \<Longrightarrow> Q (m, q')) \<Longrightarrow>
     sigue (peso_minimo n m q) (peso_minimo n m q) Q"
  by (induction n m q rule: peso_minimo.induct) auto

lemma get_exec_tip [tipos_k]:
  assumes "kernel_bien k" "\<And>r k'. kernel_bien k' \<Longrightarrow> (\<And>p. r = Some p \<Longrightarrow> pcb_bien p) \<Longrightarrow> Q (r, k')"
  shows "sigue (get_pcb_otros_exec i k) (get_pcb_otros_exec i k) Q"
  using assms unfolding get_pcb_otros_exec_def
  by (auto intro!: sigue_bind rotar_cola_tip assms(2) kernel_bien_cambios kernel_bien_partes)

lemma get_peso_tip [tipos_k]:
  assumes "kernel_bien k" "\<And>r k'. kernel_bien k' \<Longrightarrow> (\<And>p. r = Some p \<Longrightarrow> pcb_bien p) \<Longrightarrow> Q (r, k')"
  shows "sigue (get_peso_min k) (get_peso_min k) Q"
  using assms unfolding get_peso_min_def Let_def
  by (auto intro!: sigue_bind rotar_cola_tip peso_minimo_tip assms(2) kernel_bien_cambios kernel_bien_partes)

lemma quitar_tipos: "list_remove_by_condition P l = (r, l') \<Longrightarrow> set l' \<subseteq> set l \<and> (\<forall>c. r = Some c \<longrightarrow> c \<in> set l)"
  by (induction l arbitrary: r l') (fastforce split: if_splits prod.splits)+

lemma get_cpu_tip:
  assumes "kernel_bien k"
  shows "get_cpu_soc_cpu_remove soc k = (c, k1) \<Longrightarrow> kernel_bien k1 \<and> (\<forall>x. c = Some x \<longrightarrow> cpu_en_lista x)"
    "get_cpu_libre_remove k = (c, k1) \<Longrightarrow> kernel_bien k1 \<and> (\<forall>x. c = Some x \<longrightarrow> cpu_en_lista x)"
    "get_cpu soc k = Some x \<Longrightarrow> cpu_en_lista x"
  using assms unfolding get_cpu_soc_cpu_remove_def get_cpu_libre_remove_def get_cpu_def
  by (auto split: prod.splits dest!: quitar_tipos simp: find_Some_iff
      intro!: kernel_bien_cambios intro: kernel_bien_partes)

lemma enviar_comun_tip [tipos_k]:
  assumes "kernel_bien k" "es_i32 soc" "es_i32 t" "n \<le> 2147483635" "\<And>k'. kernel_bien k' \<Longrightarrow> Q k'"
  shows "sigue (enviar_comun soc t b n k) (enviar_comun soc t b n k) Q"
  using assms unfolding enviar_comun_def enviar_def
  by (auto intro!: sigue_bind sigue_crear assms(5) kernel_bien_cambios simp: valido_comun_def)

lemma enviar_tip_k [tipos_k]:
  assumes "kernel_bien k" "es_i32 soc" "valido_mensaje m" "\<And>k'. kernel_bien k' \<Longrightarrow> Q k'"
  shows "sigue (enviar soc m k) (enviar soc m k) Q"
  using assms unfolding enviar_def by (auto intro!: assms(4) kernel_bien_cambios)

lemma partes_tip [simp]:
  "kernel_bien k \<Longrightarrow> cpu_en_lista c \<Longrightarrow> kernel_bien (liberar_cpu c k)"
  "kernel_bien k \<Longrightarrow> \<forall>p. r = Some p \<longrightarrow> pcb_bien p \<Longrightarrow> kernel_bien (push_ready r k)"
  "kernel_bien k \<Longrightarrow> \<forall>p. r = Some p \<longrightarrow> pcb_bien p \<Longrightarrow> kernel_bien (pasar_pcb_exit r k)"
  "kernel_bien k \<Longrightarrow> es_i32 soc \<Longrightarrow> kernel_bien (socket_cerrar soc k)"
  by (auto simp: liberar_cpu_def push_ready_def pasar_pcb_exit_def socket_cerrar_def kernel_bien_def
      cpu_en_lista_def split: option.splits)

lemma recv_actualizar_tip [tipos_k]:
  assumes "pcb_bien p" "\<And>m. rec = Inr m \<Longrightarrow> valido_quantum_pcb m" "\<And>p'. pcb_bien p' \<Longrightarrow> Q p'"
  shows "sigue (recv_actualizar_pcb rec p) (recv_actualizar_pcb rec p) Q"
proof (cases rec)
  case (Inr m)
  then show ?thesis
    using assms by (auto simp: recv_actualizar_pcb_def pcb_bien_def valido_quantum_pcb_def valido_pcb_def)
qed (simp add: recv_actualizar_pcb_def)

lemma pcb_bien_pid: "pcb_bien p \<Longrightarrow> es_i32 (pid p)"
  by (simp add: pcb_bien_def pid_def valido_pcb_def)

lemma actualizar_bloq_tip [tipos_k]:
  assumes "kernel_bien k" "cpu_en_lista c" "\<And>m. rec = Inr m \<Longrightarrow> valido_quantum_pcb m"
    "\<And>i k'. kernel_bien k' \<Longrightarrow> es_i32 i \<Longrightarrow> Q (i, k')"
  shows "sigue (actualizar_pcb_y_bloq c rec cer k) (actualizar_pcb_y_bloq c rec cer k) Q"
proof -
  have "es_i32 (soc_cpu c)" using assms(2) by (simp add: cpu_en_lista_def)
  then show ?thesis using assms unfolding actualizar_pcb_y_bloq_def Let_def
    by (auto intro!: sigue_bind get_exec_tip sigue_no_nulo recv_actualizar_tip assms(4) kernel_bien_cambios
        pcb_bien_pid kernel_bien_partes)
qed

lemmas tipos_hechos = kernel_bien_cambios kernel_bien_partes pcb_bien_pid

lemma cpu_en_lista_campos [simp]:
  "cpu_en_lista c \<Longrightarrow> es_i32 (soc_cpu c)" "cpu_en_lista c \<Longrightarrow> es_i32 (soc_prog c)"
  "cpu_en_lista c \<Longrightarrow> es_i32 (id_prog_exec c)"
  by (simp_all add: cpu_en_lista_def)

subsection \<open>Messages of the CPUs\<close>

lemma ingresar_cpu_tip [tipos_k]:
  assumes "kernel_bien k" "es_i32 soc" "\<And>k'. kernel_bien k' \<Longrightarrow> Q k'"
  shows "sigue (ingresar_new_cpu soc k) (ingresar_new_cpu soc k) Q"
proof -
  have "cpu_en_lista \<lparr>soc_cpu = soc, soc_prog = 0, id_prog_exec = 0\<rparr>"
    using assms(2) by (simp add: cpu_en_lista_def)
  then show ?thesis
    using assms unfolding ingresar_new_cpu_def handshake_cpu_def Let_def
    by (auto intro!: sigue_bind enviar_comun_tip assms(3) simp: kernel_bien_def)
qed

lemma conec_cerrada_tip [tipos_k]:
  assumes "kernel_bien k" "es_i32 soc" "\<And>k'. kernel_bien k' \<Longrightarrow> Q k'"
  shows "sigue (conec_cerrada_cpu soc k) (conec_cerrada_cpu soc k) Q"
proof -
  obtain c k1 where c: "get_cpu_soc_cpu_remove soc k = (c, k1)" by fastforce
  from get_cpu_tip(1) [OF assms(1) c] show ?thesis
    using assms(2) unfolding conec_cerrada_cpu_def c Let_def
    by (auto intro!: sigue_bind sigue_no_nulo get_exec_tip assms(3) simp: sem_decre_def)
qed

lemma fin_quantum_tip [tipos_k]:
  assumes "kernel_bien k" "es_i32 soc" "\<And>m. rec = Inr m \<Longrightarrow> valido_quantum_pcb m"
    "\<And>k'. kernel_bien k' \<Longrightarrow> Q k'"
  shows "sigue (fin_quantum soc men rec k) (fin_quantum soc men rec k) Q"
proof -
  obtain c k1 where c: "get_cpu_soc_cpu_remove soc k = (c, k1)" by fastforce
  from get_cpu_tip(1) [OF assms(1) c] show ?thesis
    using assms(2,3) unfolding fin_quantum_def c Let_def
    by (auto intro!: sigue_bind sigue_no_nulo get_exec_tip recv_actualizar_tip partes_tip assms(4))
qed

lemma tipo_fin_bien: "pcb_bien p \<Longrightarrow> es_i32 t \<Longrightarrow> pcb_bien (p\<lparr>tipo_fin_ejecucion := t\<rparr>)"
  by (simp add: pcb_bien_def)

lemma fin_ejecucion_tip [tipos_k]:
  assumes "kernel_bien k" "es_i32 t" "\<And>k'. kernel_bien k' \<Longrightarrow> Q k'"
  shows "sigue (fin_ejecucion t soc k) (fin_ejecucion t soc k) Q"
proof -
  obtain c k1 where c: "get_cpu_soc_cpu_remove soc k = (c, k1)" by fastforce
  from get_cpu_tip(1) [OF assms(1) c] show ?thesis
    using assms(2) unfolding fin_ejecucion_def fin_ejecucion_cpu_def c fin_ejecucion_pcb_def
    by (auto intro!: sigue_bind sigue_no_nulo get_exec_tip tipo_fin_bien partes_tip assms(3))
qed

lemma llamada_tip [tipos_k]:
  assumes "kernel_bien k" "es_i32 soc" "es_i32 t" "\<And>k'. kernel_bien k' \<Longrightarrow> Q k'"
  shows "sigue (llamada_erronea soc t k) (llamada_erronea soc t k) Q"
proof -
  obtain c k1 where c: "get_cpu_soc_cpu_remove soc k = (c, k1)" by fastforce
  from get_cpu_tip(1) [OF assms(1) c] show ?thesis
    using assms(2,3) unfolding llamada_erronea_def c
    by (auto intro!: sigue_bind sigue_no_nulo get_exec_tip enviar_comun_tip tipo_fin_bien partes_tip assms(4))
qed

lemma pasar_block_tip [tipos_k]:
  assumes "kernel_bien k" "\<And>k'. kernel_bien k' \<Longrightarrow> Q k'"
  shows "sigue (pasar_pcbBlock_ready i k) (pasar_pcbBlock_ready i k) Q"
  using assms(1) unfolding pasar_pcbBlock_ready_def
  by (auto intro!: sigue_bind rotar_cola_tip assms(2) partes_tip tipos_hechos split: option.split)

lemma wait_tip [tipos_k]:
  assumes "kernel_bien k" "es_i32 soc" "\<And>m. rec = Inr m \<Longrightarrow> valido_quantum_pcb m"
    "\<And>k'. kernel_bien k' \<Longrightarrow> Q k'"
  shows "sigue (wait soc men rec cer k) (wait soc men rec cer k) Q"
  unfolding wait_def
proof (rule sigue_bind, rule sigue_cadena, goal_cases)
  case (1 key)
  show ?case
  proof (cases "dicc_sem k key")
    case None
    then show ?thesis using assms by (auto intro!: llamada_tip)
  next
    case (Some sem)
    let ?k1 = "k\<lparr>dicc_sem := (dicc_sem k)(key \<mapsto> sem\<lparr>valor := valor sem - 1\<rparr>)\<rparr>"
    have s: "\<And>i. i \<in> set (procesos sem) \<Longrightarrow> es_i32 i" and k1: "kernel_bien ?k1"
      using assms(1) Some by (auto intro!: kernel_bien_cambios intro: kernel_bien_partes)
    obtain c k2 where c: "get_cpu_soc_cpu_remove soc ?k1 = (c, k2)" by fastforce
    note g = get_cpu_tip(1) [OF k1 c]
    then show ?thesis using Some c k1 s assms(2,3)
      by (auto simp: Let_def queue_push_def intro!: sigue_bind enviar_comun_tip sigue_no_nulo
          actualizar_bloq_tip assms(4) kernel_bien_cambios)
  qed
qed

lemma signal_tip [tipos_k]:
  assumes "kernel_bien k" "es_i32 soc" "\<And>k'. kernel_bien k' \<Longrightarrow> Q k'"
  shows "sigue (signal soc men k) (signal soc men k) Q"
  unfolding signal_def
proof (rule sigue_bind, rule sigue_cadena, goal_cases)
  case (1 key)
  show ?case
  proof (cases "dicc_sem k key")
    case None
    then show ?thesis using assms by (auto intro!: llamada_tip)
  next
    case (Some sem)
    then have s: "\<And>i. i \<in> set (procesos sem) \<Longrightarrow> es_i32 i"
      using assms(1) by (auto intro: kernel_bien_partes)
    show ?thesis
    proof (cases "procesos sem")
      case Nil
      then show ?thesis using Some assms(1,2)
        by (auto simp: Let_def intro!: sigue_bind enviar_comun_tip assms(3) kernel_bien_cambios)
    next
      case (Cons i q)
      then show ?thesis using Some s assms(1,2)
        by (auto simp: Let_def intro!: sigue_bind pasar_block_tip enviar_comun_tip assms(3) kernel_bien_cambios)
    qed
  qed
qed

lemma enviar_IO_tip [tipos_k]:
  assumes "kernel_bien k" "es_i32 soc" "\<And>m. rec = Inr m \<Longrightarrow> valido_quantum_pcb m"
    "\<And>k'. kernel_bien k' \<Longrightarrow> Q k'"
  shows "sigue (enviar_IO soc men men2 rec cer k) (enviar_IO soc men men2 rec cer k) Q"
proof -
  obtain c k1 where c: "get_cpu_soc_cpu_remove soc k = (c, k1)" by fastforce
  have g: "kernel_bien k1" "\<And>x. c = Some x \<Longrightarrow> cpu_en_lista x" using get_cpu_tip(1) [OF assms(1) c] by auto
  have io: "io_bien io" if "dicc_disp_io k1 key = Some io" for key io
    using g(1) that by (rule kernel_bien_partes)
  have "io_bien (io\<lparr>io_procesos := queue_push (io_procesos io) w\<rparr>)"
    "io_bien (io\<lparr>io_procesos := queue_push (io_procesos io) w, cont_cant_proc := n\<rparr>)"
    if "io_bien io" "espera_bien w" for io w n
    using that by (auto simp: io_bien_def queue_push_def)
  then show ?thesis using g assms(2,3) unfolding enviar_IO_def c Let_def
    by (auto intro!: sigue_bind sigue_atoi sigue_cadena sigue_no_nulo actualizar_bloq_tip assms(4) kernel_bien_cambios
        dest!: io simp: espera_bien_def)
qed

lemma imprimir_tip [tipos_k]:
  assumes "kernel_bien k" "es_i32 soc" "valido_comun men" "\<And>k'. kernel_bien k' \<Longrightarrow> Q k'"
  shows "sigue (imprimir_texto soc men k) (imprimir_texto soc men k) Q"
    "sigue (imprimir_valor soc men k) (imprimir_valor soc men k) Q"
  using assms(1-3) unfolding imprimir_texto_def imprimir_valor_def
  by (auto intro!: sigue_bind sigue_no_nulo sigue_atoi enviar_tip_k enviar_comun_tip assms(4)
      dest!: get_cpu_tip(3) [OF assms(1)])

lemma compartida_tip [tipos_k]:
  assumes "kernel_bien k" "es_i32 soc" "itoa_corta itoa" "\<And>k'. kernel_bien k' \<Longrightarrow> Q k'"
  shows "sigue (obtener_valor_compartida itoa soc men k) (obtener_valor_compartida itoa soc men k) Q"
    "sigue (grabar_valor_compartida soc men men2 k) (grabar_valor_compartida soc men men2 k) Q"
proof -
  have v: "length (itoa v) \<le> 11" if "dicc_var k key = Some v" for key v
    using assms(3) kernel_bien_partes(8) [OF assms(1) that] by (simp add: itoa_corta_def)
  show "sigue (obtener_valor_compartida itoa soc men k) (obtener_valor_compartida itoa soc men k) Q"
    using assms(1,2) unfolding obtener_valor_compartida_def Let_def
    by (auto intro!: sigue_bind sigue_cadena enviar_comun_tip llamada_tip assms(4) dest!: v split: option.split)
  show "sigue (grabar_valor_compartida soc men men2 k) (grabar_valor_compartida soc men men2 k) Q"
    using assms(1,2) unfolding grabar_valor_compartida_def
    by (auto intro!: sigue_bind sigue_cadena sigue_atoi enviar_comun_tip llamada_tip assms(4) kernel_bien_cambios
        split: option.split)
qed

lemma administrar_cpus_tip [tipos_k]:
  assumes "kernel_bien k" "es_i32 soc" "itoa_corta itoa" "valido_comun men"
    "\<And>m. rec = Inr m \<Longrightarrow> valido_quantum_pcb m" "\<And>k'. kernel_bien k' \<Longrightarrow> Q k'"
  shows "sigue (administrar_men_cpus itoa soc men men2 rec cer k) (administrar_men_cpus itoa soc men men2 rec cer k) Q"
  using assms unfolding administrar_men_cpus_def by (simp add: tipos_k)

subsection \<open>Programs and the memory unit\<close>

text \<open>Two memory units of which the second answers a well-formed request whenever the first does.\<close>

locale mismo_gestor =
  fixes srv srv' :: "'u servidor"
  assumes mismo: "valido_seg q \<Longrightarrow> segundo_ok m \<Longrightarrow> srv q m u = Inr y \<Longrightarrow> srv' q m u = Inr y"
begin

lemma srv_tip:
  assumes "valido_seg q" "segundo_ok m" "\<And>y. Q y"
  shows "sigue (srv q m u) (srv' q m u) Q"
  using mismo [OF assms(1,2)] assms(3) by (simp add: sigue_def)

lemma sin_segundo_ok [simp]: "segundo_ok sin_segundo"
  by (simp add: segundo_ok_def sin_segundo_def)

lemma crear_seg_valido [simp]:
  "es_i32 t \<Longrightarrow> es_i32 i \<Longrightarrow> es_i32 n \<Longrightarrow> valido_seg (crear_men_seg t i n)"
  by (simp add: valido_seg_def crear_men_seg_def)

lemma pedir_tip:
  assumes "es_i32 id_p" "es_i32 tam" "\<And>r u'. es_i32 r \<Longrightarrow> Q (r, u')"
  shows "sigue (pedir_seg srv t id_p tam u) (pedir_seg srv' t id_p tam u) Q"
  using assms(1,2) unfolding pedir_seg_def gestionar_resp_sol_mem_def
  by (auto intro!: sigue_bind srv_tip sigue_atoi assms(3))

lemma solicitar_tip:
  assumes "es_i32 id_p" "es_i32 tam_stack" "es_i32 (tam_dato men)" "es_i32 (etiquetas_size m)"
    "\<And>u'. Q (None, u')"
    "\<And>c s i e u'. es_i32 c \<Longrightarrow> es_i32 s \<Longrightarrow> es_i32 i \<Longrightarrow> es_i32 e \<Longrightarrow>
       Q (Some \<lparr>rs_dir_seg_codigo = c, rs_dir_seg_stack = s, rs_dir_indice_codigo = i, rs_dir_indice_etiquetas = e\<rparr>, u')"
  shows "sigue (solicitar_mem srv m id_p tam_stack men u) (solicitar_mem srv' m id_p tam_stack men u) Q"
  using assms(1-4) unfolding solicitar_mem_def
  by (auto intro!: sigue_bind pedir_tip assms(5,6))

lemma escribir_tip:
  assumes "es_i32 id_p" "es_i32 tam" "\<And>u'. Q u'"
  shows "sigue (escribir_seg srv id_p t buf tam u) (escribir_seg srv' id_p t buf tam u) Q"
  using assms(1,2) unfolding escribir_seg_def
  by (auto intro!: sigue_bind sigue_crear srv_tip assms(3) simp: segundo_ok_def)

lemma destrui_tip:
  assumes "es_i32 id_p" "\<And>u'. Q u'"
  shows "sigue (umv_destrui_pcb srv id_p u) (umv_destrui_pcb srv' id_p u) Q"
  using assms(1) unfolding umv_destrui_pcb_def by (auto intro!: sigue_bind srv_tip assms(2))

lemma crear_pcb_tip:
  assumes "es_i32 b" "es_i32 id_p" "es_i32 (tam_dato men)" "es_i32 (etiquetas_size m)" "es_i32 (instruccion_inicio m)"
    "es_i32 (rs_dir_seg_codigo r)" "es_i32 (rs_dir_seg_stack r)" "es_i32 (rs_dir_indice_codigo r)"
    "es_i32 (rs_dir_indice_etiquetas r)" "\<And>p u'. valido_pcb p \<Longrightarrow> Q (p, u')"
  shows "sigue (crear_pcb_escribir_seg_UMV srv m b id_p men r u) (crear_pcb_escribir_seg_UMV srv' m b id_p men r u) Q"
  using assms(1-9) unfolding crear_pcb_escribir_seg_UMV_def
  by (auto intro!: sigue_bind escribir_tip assms(10) simp: valido_pcb_def)

lemma mover_tip:
  assumes "kernel_bien k" "\<And>k'. kernel_bien k' \<Longrightarrow> Q k'"
  shows "sigue (mover_pcb_exit soc k) (mover_pcb_exit soc k) Q"
  using assms(1) unfolding mover_pcb_exit_def buscar_pcb_def Let_def
  by (auto intro!: sigue_bind rotar_cola_tip assms(2) partes_tip tipos_hechos)

lemma prog_cerrado_tip:
  assumes "kernel_bien k" "\<And>k'. kernel_bien k' \<Longrightarrow> Q k'"
  shows "sigue (administrar_prog_cerrado soc k) (administrar_prog_cerrado soc k) Q"
  unfolding administrar_prog_cerrado_def
proof (rule sigue_bind, rule mover_tip, use assms(1) in simp, goal_cases)
  case (1 k')
  obtain r l where l: "list_remove_by_condition (\<lambda>c. soc_prog c = soc) (lista_cpu k') = (r, l)" by fastforce
  from quitar_tipos [OF l] have q: "set l \<subseteq> set (lista_cpu k')" "\<And>c. r = Some c \<Longrightarrow> c \<in> set (lista_cpu k')"
    by blast+
  from 1 have c: "\<And>c. c \<in> set (lista_cpu k') \<Longrightarrow> cpu_en_lista c" by (rule kernel_bien_partes(6))
  have l': "kernel_bien (k'\<lparr>lista_cpu := l\<rparr>)" "\<And>c. r = Some c \<Longrightarrow> es_i32 (soc_cpu c)"
    using q c by (auto intro: kernel_bien_cambios(6) [OF 1])
  show ?case
  proof (cases r)
    case None
    then show ?thesis using l'(1) by (simp add: l assms(2))
  next
    case (Some c)
    have "kernel_bien (k'\<lparr>lista_cpu := l, conj_soc_cpus := conj_soc_cpus k' - {soc_cpu c}\<rparr>)"
      using l'(1) by (simp add: kernel_bien_def)
    from partes_tip(4) [OF this l'(2) [OF Some]] show ?thesis using Some by (simp add: l assms(2))
  qed
qed

lemma nuevo_programa_tip:
  assumes "kernel_bien k" "es_i32 soc" "\<And>k'. kernel_bien k' \<Longrightarrow> Q k'"
  shows "sigue (ingresar_nuevo_programa soc k) (ingresar_nuevo_programa soc k) Q"
  using assms(1,2) unfolding ingresar_nuevo_programa_def handshake_prog_def
  by (auto intro!: sigue_bind enviar_comun_tip assms(3))

lemma new_script_tip:
  assumes "kernel_bien k" "es_i32 soc" "es_i32 b" "valido_comun men" "itoa_corta itoa" "meta_bien meta"
    "\<And>k' u'. kernel_bien k' \<Longrightarrow> Q (k', u')"
  shows "sigue (administrar_new_script itoa srv meta b soc men (k, u))
    (administrar_new_script itoa srv' meta b soc men (k, u)) Q"
proof -
  let ?k = "k\<lparr>contador_programa := i32 (contador_programa k + 1)\<rparr>"
  have k: "kernel_bien ?k" using assms(1) by (auto intro: kernel_bien_cambios)
  have i: "length (itoa (i32 n)) \<le> 11" for n using assms(5) by (simp add: itoa_corta_def)
  have m: "es_i32 (etiquetas_size (meta d))" "es_i32 (instruccion_inicio (meta d))" for d
    using assms(6) by (simp_all add: meta_bien_def)
  have t: "es_i32 (tam_dato men)" using assms(4) by (simp add: valido_comun_def es_i32_def)
  have p: "pcb_bien \<lparr>po_pcb = p, n_socket = soc, peso = calcular_peso x, tipo_fin_ejecucion = -1\<rparr>"
    if "valido_pcb p" for p x using that assms(2) by (simp add: pcb_bien_def calcular_peso_def)
  have c: "cola_bien (cola_new k)" "es_i32 (tamanio_stack k)" using assms(1) by (auto intro: kernel_bien_partes)
  show ?thesis
    unfolding administrar_new_script_def prod.case Let_def
  proof (rule sigue_bind, rule solicitar_tip, goal_cases)
    case 5
    then show ?case using k assms(2) i [of "contador_programa k + 1"]
      by (auto intro!: sigue_bind enviar_comun_tip partes_tip assms(7))
  next
    case (6 co st ic ie u')
    then show ?case using k assms(2,3) m t c
      by (auto intro!: sigue_bind crear_pcb_tip assms(7) p kernel_bien_cambios)
  qed (use m t c in auto)
qed

lemma administrar_progs_tip:
  assumes "kernel_bien k" "es_i32 soc" "es_i32 b" "valido_comun men" "itoa_corta itoa" "meta_bien meta"
    "\<And>k' u'. kernel_bien k' \<Longrightarrow> Q (k', u')"
  shows "sigue (administrar_men_progs itoa srv meta b soc men (k, u))
    (administrar_men_progs itoa srv' meta b soc men (k, u)) Q"
  using assms unfolding administrar_men_progs_def
  by (auto intro!: sigue_bind prog_cerrado_tip new_script_tip)

subsection \<open>Threads, the operator and events\<close>

lemma sale_exit_tip:
  assumes "kernel_bien k" "\<And>k' u'. kernel_bien k' \<Longrightarrow> Q (k', u')"
  shows "sigue (sale_exit srv (k, u)) (sale_exit srv' (k, u)) Q"
proof (cases "cola_exit k")
  case Nil
  then show ?thesis using assms by (auto simp: sale_exit_def queue_pop_pcb_def intro!: assms(2) kernel_bien_cambios)
next
  case (Cons r q)
  have q: "cola_bien (r # q)" using kernel_bien_partes(4) [OF assms(1)] Cons by simp
  then have k: "kernel_bien (k\<lparr>cola_exit := q\<rparr>)"
    using assms(1) by (cases r) (auto intro!: kernel_bien_cambios)
  show ?thesis
  proof (cases r)
    case None
    then show ?thesis using Cons k assms(2) by (simp add: sale_exit_def queue_pop_pcb_def)
  next
    case (Some p)
    then have p: "es_i32 (pid p)" "es_i32 (n_socket p)" "es_i32 (tipo_fin_ejecucion p)"
      using q pcb_bien_pid by (auto simp: pcb_bien_def)
    then show ?thesis
      using Cons Some k assms(2) unfolding sale_exit_def queue_pop_pcb_def Let_def
      by (auto intro!: sigue_bind enviar_comun_tip destrui_tip)
  qed
qed

lemma new_ready_tip:
  assumes "kernel_bien k" "\<And>k'. kernel_bien k' \<Longrightarrow> Q k'"
  shows "sigue (new_ready k) (new_ready k) Q"
  using assms(1) unfolding new_ready_def
  by (auto intro!: sigue_bind get_peso_tip assms(2) partes_tip split: option.split)

lemma ready_exec_tip:
  assumes "kernel_bien k" "\<And>k'. kernel_bien k' \<Longrightarrow> Q k'"
  shows "sigue (ready_exec k) (ready_exec k) Q"
proof -
  obtain c k1 where c: "get_cpu_libre_remove k = (c, k1)" by fastforce
  note g = get_cpu_tip(2) [OF assms(1) c]
  obtain r q where q: "queue_pop_pcb (cola_ready k1) = (r, q)" by fastforce
  have b: "cola_bien (cola_ready k1)" using g by (auto intro: kernel_bien_partes)
  then have qr: "cola_bien q" "\<And>p. r = Some p \<Longrightarrow> pcb_bien p"
    using q by (auto simp: queue_pop_pcb_def split: list.splits prod.splits option.splits
        elim!: queue_pop.elims intro: cola_bien_resto)
  have k2: "kernel_bien (k1\<lparr>cola_ready := q\<rparr>)" using g qr(1) by (auto intro: kernel_bien_cambios)
  show ?thesis
  proof (cases r)
    case None
    then show ?thesis using k2 c q assms(2) by (simp add: ready_exec_def)
  next
    case (Some p)
    have p: "pcb_bien p" by (rule qr(2) [OF Some])
    have "kernel_bien (k3\<lparr>lista_cpu := lista_cpu k3 @ [x\<lparr>id_prog_exec := pid p, soc_prog := n_socket p\<rparr>],
        cola_exec := queue_push (cola_exec k3) (Some p)\<rparr>)" if "kernel_bien k3" "cpu_en_lista x" for k3 x
    proof -
      have "cpu_en_lista (x\<lparr>id_prog_exec := pid p, soc_prog := n_socket p\<rparr>)"
        using that(2) p pcb_bien_pid [OF p] by (simp add: cpu_en_lista_def pcb_bien_def del: cpu_en_lista_campos)
      then show ?thesis using that(1) p by (simp add: kernel_bien_def)
    qed
    moreover have "es_i32 (quantum_max k1)" using k2 by (simp add: kernel_bien_def)
    ultimately show ?thesis using Some k2 p g
      by (auto simp: ready_exec_def c q enviar_cpu_pcb_def valido_quantum_pcb_def pcb_bien_def
          intro!: sigue_bind sigue_no_nulo sigue_crear_pcb enviar_tip_k assms(2))
  qed
qed

lemma manejadores_tip:
  assumes "sistema_bien s"
  shows "sigue (manejador_new_ready s) (manejador_new_ready s) sistema_bien"
    "sigue (manejador_ready_exec s) (manejador_ready_exec s) sistema_bien"
    "sigue (manejador_exit srv (s, u)) (manejador_exit srv' (s, u)) (\<lambda>su. sistema_bien (fst su))"
  using assms unfolding manejador_new_ready_def manejador_ready_exec_def manejador_exit_def sistema_bien_def
  by (auto intro!: sigue_bind new_ready_tip ready_exec_tip sale_exit_tip simp: sem_decre_def)

lemma manejador_IO_tip:
  assumes "sistema_bien s"
  shows "sigue (manejador_IO key s) (manejador_IO key s) sistema_bien"
proof -
  have k: "kernel_bien (ker s)" and a: "\<And>key w. io_actual s key = Some w \<Longrightarrow> espera_bien w"
    using assms by (auto simp: sistema_bien_def)
  show ?thesis
    unfolding manejador_IO_def
  proof (rule sigue_bind, rule sigue_no_nulo, goal_cases)
    case (1 io)
    have io: "io_bien io" using kernel_bien_partes(7) [OF k 1] .
    show ?case
    proof (cases "io_actual s key")
      case (Some w)
      then show ?thesis using k a
        by (auto intro!: sigue_bind pasar_block_tip simp: sistema_bien_def split: if_splits)
    next
      case None
      show ?thesis
      proof (cases "io_procesos io")
        case Nil
        then show ?thesis using None by (auto intro!: sigue_bind simp: sem_decre_def)
      next
        case (Cons w q)
        then have "espera_bien w" "\<And>n. io_bien (io\<lparr>io_procesos := q, cont_cant_proc := n\<rparr>)"
          using io by (simp_all add: io_bien_def)
        then show ?thesis using None Cons k a
          by (auto intro!: sigue_bind kernel_bien_cambios simp: sem_decre_def sistema_bien_def split: if_splits)
      qed
    qed
  qed
qed

lemma menu_tip:
  assumes "kernel_bien k" "orden_bien ord"
  shows "sigue (menu_imp ord k) (menu_imp ord k) kernel_bien"
proof (cases ord)
  case (Multiprog n)
  have "sigue (cambiar_multiprog n k) (cambiar_multiprog n k) kernel_bien"
    using assms(1) by (auto simp: cambiar_multiprog_def Let_def sigue_def bindE_eq_Inr)
  then show ?thesis using Multiprog by simp
next
  case Colas
  then show ?thesis using assms by (auto simp: sigue_def bindE_eq_Inr dest: imp_colas_estado)
qed (use assms in \<open>auto intro: kernel_bien_cambios\<close>)

lemma paso_tip:
  assumes "sistema_bien (fst su)" "evento_bien ev" "itoa_corta itoa" "meta_bien meta"
  shows "sigue (paso_kernel itoa srv meta ev su) (paso_kernel itoa srv' meta ev su) (\<lambda>su'. sistema_bien (fst su'))"
proof -
  obtain s u where su: "su = (s, u)" by fastforce
  have k: "kernel_bien (ker s)" and e: "\<And>k. kernel_bien k \<Longrightarrow> sistema_bien (s\<lparr>ker := k\<rparr>)"
    using assms(1) by (auto simp: sistema_bien_def su)
  have en: "sigue (en_kernel f su) (en_kernel f su) (\<lambda>su'. sistema_bien (fst su'))"
    if "sigue (f (ker s)) (f (ker s)) kernel_bien" for f
    using that unfolding en_kernel_def su by (auto intro!: sigue_bind elim!: sigue_mono intro: e)
  have es: "sigue (en_sistema f su) (en_sistema f su) (\<lambda>su'. sistema_bien (fst su'))"
    if "sigue (f s) (f s) sistema_bien" for f
    using that unfolding en_sistema_def su by (auto intro!: sigue_bind elim!: sigue_mono)
  have s: "sistema_bien s" using assms(1) by (simp add: su)
  show ?thesis
  proof (cases ev)
    case (Men_Prog b soc men)
    then show ?thesis using assms k
      by (auto simp: su intro!: sigue_bind administrar_progs_tip e)
  next
    case Hilo_Exit
    then show ?thesis using manejadores_tip(3) [OF s] by (simp add: su)
  next
    case (Men_CPU soc men men2 rec cer)
    then show ?thesis using assms(2,3) k by (auto intro!: en administrar_cpus_tip)
  next
    case (Operador ord)
    then show ?thesis using assms(2) k by (auto intro!: en menu_tip)
  qed (use assms(2) k s in \<open>auto intro!: en es manejadores_tip(1,2) manejador_IO_tip ingresar_cpu_tip nuevo_programa_tip\<close>)
qed

end

section \<open>The first state\<close>

lemma crear_dicc_tip:
  "crear_dicc f ids vs d = Inr d' \<Longrightarrow> (\<And>n. es_i32 n \<Longrightarrow> P (f n)) \<Longrightarrow> (\<And>key v. d key = Some v \<Longrightarrow> P v) \<Longrightarrow>
     d' key = Some v \<Longrightarrow> P v"
proof (induction f ids vs d arbitrary: d' rule: crear_dicc.induct)
  case (3 f i ids w vs d)
  from 3(2) obtain n where n: "atoi (w @ [0]) = Inr n" "crear_dicc f ids vs (d(i \<mapsto> f n)) = Inr d'"
    by (auto simp: bindE_eq_Inr)
  have "es_i32 n" using n(1) sigue_atoi [of es_i32 "w @ [0]"] by (simp add: sigue_def)
  then have "P v" if "(d(i \<mapsto> f n)) key = Some v" for key v
    using that "3.prems"(2,3) by (auto split: if_splits)
  then show ?case using "3.IH" [OF n] "3.prems"(2,4) by blast
qed auto

lemma inicial_tip:
  assumes "levantar_config c = Inr k" "config_bien c"
  shows "sistema_bien (sistema_inicial (crear_inicializar_estructuras c k))"
proof -
  obtain ios sems where d: "crear_dicc (\<lambda>n. \<lparr>io_sleep = n, io_procesos = [], cont_cant_proc = 0\<rparr>)
      (ID_HIO c) (HIO c) Map.empty = Inr ios"
    "crear_dicc (\<lambda>n. \<lparr>valor = n, procesos = []\<rparr>) (SEMAFOROS c) (VALOR_SEMAFORO c) Map.empty = Inr sems"
    and k: "k = \<lparr>cola_new = [], cola_ready = [], cola_exec = [], cola_exit = [], cola_block = [],
       lista_cpu = [], cant_new = 0, cant_ready = 0, cant_exit = 0, cant_multiprog = 0,
       cant_cpu_libres = 0, dicc_disp_io = ios,
       dicc_var = foldl (\<lambda>d x. d(x \<mapsto> 0)) Map.empty (VARIABLES_GLOBALES c), dicc_sem = sems,
       conj_soc_progs = {}, conj_soc_cpus = {}, contador_programa = 0, quantum_max = QUANTUM c,
       retardo = RETARDO c, tamanio_stack = TAMANIO_STACK c, quit_sistema = True,
       rotos = {}, salida = []\<rparr>"
    using assms(1) by (auto simp: levantar_config_def bindE_eq_Inr)
  have ceros: "es_i32 v" if "foldl (\<lambda>d x. d(x \<mapsto> 0)) m xs key = Some v" "\<And>key v. m key = Some v \<Longrightarrow> es_i32 v"
    for m :: "byte list \<rightharpoonup> int" and xs key v
    using that
  proof (induction xs arbitrary: m)
    case (Cons x xs)
    show ?case by (rule Cons.IH [of "m(x \<mapsto> 0)"]) (use Cons.prems in \<open>auto split: if_splits\<close>)
  qed simp
  have "io_bien io" if "ios key = Some io" for key io
    by (rule crear_dicc_tip [OF d(1) _ _ that]) (simp_all add: io_bien_def)
  moreover have "procesos s = []" if "sems key = Some s" for key s
    by (rule crear_dicc_tip [OF d(2) _ _ that]) simp_all
  moreover have "es_i32 v" if "dicc_var k key = Some v" for key v
    using ceros [of Map.empty] that by (simp add: k)
  ultimately show ?thesis
    using assms(2) by (auto simp: k sistema_bien_def sistema_inicial_def crear_inicializar_estructuras_def
        kernel_bien_def config_bien_def)
qed

end
