(* ===== verification/Kernel_Select.thy ===== *)
theory Kernel_Select
  imports Kernel_Prop
begin

text \<open>
  The loops of the threads \<open>plp\<close> and \<open>pcp\<close> over the sockets that \<open>select\<close> found ready: from
  descriptor 3 to the largest one, which grows when a connection is accepted on the way.
\<close>

section \<open>A round over the ready descriptors\<close>

text \<open>
  \<open>listo\<close> is the set \<open>read_fds\<close> after \<open>select\<close>; \<open>nuevo\<close> accepts a connection and returns its
  descriptor, \<open>atender\<close> serves the message on a descriptor. The result is the new \<open>fdmax\<close>.
\<close>

function ronda_select ::
  "int \<Rightarrow> (int \<Rightarrow> bool) \<Rightarrow> ('s \<Rightarrow> (int \<times> 's) res) \<Rightarrow> (int \<Rightarrow> 's \<Rightarrow> 's res) \<Rightarrow> int \<Rightarrow> int \<Rightarrow> 's
     \<Rightarrow> (int \<times> 's) res" where
  "ronda_select listener listo nuevo atender num_fd fdmax s =
     (if num_fd \<le> fdmax then
        if listo num_fd then
          if num_fd = listener
          then bindE (nuevo s) (\<lambda>(n, s').
                 ronda_select listener listo nuevo atender (num_fd + 1)
                   (if n > fdmax then n else fdmax) s')
          else bindE (atender num_fd s) (\<lambda>s'.
                 ronda_select listener listo nuevo atender (num_fd + 1) fdmax s')
        else ronda_select listener listo nuevo atender (num_fd + 1) fdmax s
      else Inr (fdmax, s))"
  by pat_completeness auto
termination
  by (relation "measures [\<lambda>(listener, _, _, _, num_fd, _, _). if num_fd \<le> listener then 1 else 0,
      \<lambda>(_, _, _, _, num_fd, fdmax, _). nat (fdmax + 1 - num_fd)]") auto

declare ronda_select.simps [simp del]

text \<open>What the loop should do: serve each descriptor of a list in turn.\<close>

fun servir_lista ::
  "int \<Rightarrow> ('s \<Rightarrow> (int \<times> 's) res) \<Rightarrow> (int \<Rightarrow> 's \<Rightarrow> 's res) \<Rightarrow> int list \<Rightarrow> int \<Rightarrow> 's \<Rightarrow> (int \<times> 's) res" where
  "servir_lista listener nuevo atender [] fdmax s = Inr (fdmax, s)"
| "servir_lista listener nuevo atender (fd # fds) fdmax s =
     (if fd = listener
      then bindE (nuevo s) (\<lambda>(n, s'). servir_lista listener nuevo atender fds (max fdmax n) s')
      else bindE (atender fd s) (\<lambda>s'. servir_lista listener nuevo atender fds fdmax s'))"

lemma ronda_select_sin_listos:
  "(\<And>fd. num_fd \<le> fd \<Longrightarrow> \<not> listo fd) \<Longrightarrow>
     ronda_select listener listo nuevo atender num_fd fdmax s = Inr (fdmax, s)"
proof (induction "nat (fdmax + 1 - num_fd)" arbitrary: num_fd)
  case 0
  then show ?case by (subst ronda_select.simps) simp
next
  case (Suc k)
  then have "ronda_select listener listo nuevo atender (num_fd + 1) fdmax s = Inr (fdmax, s)" by simp
  then show ?case using Suc.prems [of num_fd] by (subst ronda_select.simps) simp
qed

text \<open>\<open>tope\<close> bounds the descriptors that \<open>select\<close> looked at.\<close>

lemma ronda_select_lista:
  assumes "\<And>fd. listo fd \<Longrightarrow> fd \<le> tope"
  shows "tope \<le> fdmax \<Longrightarrow> ronda_select listener listo nuevo atender num_fd fdmax s
    = servir_lista listener nuevo atender (filter listo [num_fd .. tope]) fdmax s"
proof (induction "nat (tope + 1 - num_fd)" arbitrary: num_fd fdmax s)
  case 0
  then have n: "\<not> listo fd" if "num_fd \<le> fd" for fd using assms [of fd] that by linarith
  have "ronda_select listener listo nuevo atender num_fd fdmax s = Inr (fdmax, s)"
    by (rule ronda_select_sin_listos) (rule n)
  then show ?case using 0(1) by simp
next
  case (Suc k)
  then have k: "k = nat (tope + 1 - (num_fd + 1))" "num_fd \<le> tope" by linarith+
  have IH: "ronda_select listener listo nuevo atender (num_fd + 1) m t
      = servir_lista listener nuevo atender (filter listo [num_fd + 1 .. tope]) m t"
    if "tope \<le> m" for m t using Suc.hyps(1) [OF k(1) that] .
  have u: "[num_fd .. tope] = num_fd # [num_fd + 1 .. tope]" using k(2) by (simp add: upto_rec1)
  have m: "(if n > fdmax then n else fdmax) = max fdmax n" for n by simp
  have e1: "(\<lambda>(n, s'). ronda_select listener listo nuevo atender (num_fd + 1) (max fdmax n) s')
      = (\<lambda>(n, s'). servir_lista listener nuevo atender (filter listo [num_fd + 1 .. tope]) (max fdmax n) s')"
    using IH Suc.prems by (auto simp: fun_eq_iff)
  have e2: "(\<lambda>s'. ronda_select listener listo nuevo atender (num_fd + 1) fdmax s')
      = (\<lambda>s'. servir_lista listener nuevo atender (filter listo [num_fd + 1 .. tope]) fdmax s')"
    using IH Suc.prems by (auto simp: fun_eq_iff)
  show ?case
    unfolding ronda_select.simps [of listener listo nuevo atender num_fd fdmax s] m e1 e2
    using IH Suc.prems k(2) by (simp add: u)
qed

section \<open>The two threads\<close>

text \<open>
  A round of \<open>plp\<close>: \<open>new_soc\<close> is what \<open>accept\<close> returns, \<open>men soc\<close> the message that waits on
  a socket, \<open>ci soc\<close> what a fresh pcb holds.
\<close>

definition plp_ronda ::
  "(int \<Rightarrow> byte list) \<Rightarrow> 'u servidor \<Rightarrow> (byte list \<Rightarrow> t_metadata_program) \<Rightarrow> int \<Rightarrow> (int \<Rightarrow> bool)
     \<Rightarrow> int \<Rightarrow> (int \<Rightarrow> t_men_comun) \<Rightarrow> (int \<Rightarrow> int) \<Rightarrow> int \<Rightarrow> sistema \<times> 'u \<Rightarrow> (int \<times> sistema \<times> 'u) res" where
  "plp_ronda itoa srv meta listener_prog read_fds new_soc men ci fdmax su =
     ronda_select listener_prog read_fds
       (\<lambda>su. bindE (en_kernel (ingresar_nuevo_programa new_soc) su) (\<lambda>su'. Inr (new_soc, su')))
       (\<lambda>num_fd (s, u). bindE (administrar_men_progs itoa srv meta (ci num_fd) num_fd (men num_fd) (ker s, u))
          (\<lambda>(k, u'). Inr (s\<lparr>ker := k\<rparr>, u')))
       3 fdmax su"

text \<open>A message of a CPU with what the handler receives after it.\<close>

record de_cpu =
  dc_men :: t_men_comun
  dc_men2 :: t_men_comun
  dc_pcb :: "t_men_quantum_pcb res"
  dc_cerrar :: t_men_comun

definition pcp_ronda ::
  "(int \<Rightarrow> byte list) \<Rightarrow> int \<Rightarrow> (int \<Rightarrow> bool) \<Rightarrow> int \<Rightarrow> (int \<Rightarrow> de_cpu) \<Rightarrow> int \<Rightarrow> sistema \<times> 'u
     \<Rightarrow> (int \<times> sistema \<times> 'u) res" where
  "pcp_ronda itoa listener_cpu read_fds new_soc men fdmax su =
     ronda_select listener_cpu read_fds
       (\<lambda>su. bindE (en_kernel (ingresar_new_cpu new_soc) su) (\<lambda>su'. Inr (new_soc, su')))
       (\<lambda>num_fd. en_kernel (administrar_men_cpus itoa num_fd (dc_men (men num_fd)) (dc_men2 (men num_fd))
          (dc_pcb (men num_fd)) (dc_cerrar (men num_fd))))
       3 fdmax su"

section \<open>Rounds are runs of events\<close>

fun eventos ::
  "(int \<Rightarrow> byte list) \<Rightarrow> 'u servidor \<Rightarrow> (byte list \<Rightarrow> t_metadata_program) \<Rightarrow> evento list
     \<Rightarrow> sistema \<times> 'u \<Rightarrow> (sistema \<times> 'u) res" where
  "eventos itoa srv meta [] su = Inr su"
| "eventos itoa srv meta (ev # evs) su = bindE (paso_kernel itoa srv meta ev su) (eventos itoa srv meta evs)"

definition fd_tras :: "int \<Rightarrow> int \<Rightarrow> int list \<Rightarrow> int \<Rightarrow> int" where
  "fd_tras listener new_soc fds fdmax = (if listener \<in> set fds then max fdmax new_soc else fdmax)"

lemma bindE_assoc: "bindE (bindE r f) g = bindE r (\<lambda>x. bindE (f x) g)"
  by (cases r) simp_all

lemma servir_lista_eventos:
  assumes n: "\<And>su. paso_kernel itoa srv meta conecta su = f su"
    and a: "\<And>fd su. paso_kernel itoa srv meta (mensaje fd) su = at fd su" and d: "distinct fds"
  shows "servir_lista listener (\<lambda>su. bindE (f su) (\<lambda>su'. Inr (new_soc, su'))) at fds fdmax su
    = bindE (eventos itoa srv meta (map (\<lambda>fd. if fd = listener then conecta else mensaje fd) fds) su)
        (\<lambda>su'. Inr (fd_tras listener new_soc fds fdmax, su'))"
  using d
proof (induction fds arbitrary: su fdmax)
  case Nil
  then show ?case by (simp add: fd_tras_def)
next
  case (Cons fd fds)
  then show ?case
    by (auto simp: n a bindE_assoc fd_tras_def intro!: arg_cong [of _ _ "bindE _"])
qed

text \<open>
  C25. A round of the thread of the programs is a run of events of the model: one for each ready
  socket, each socket once and in ascending order, a connection for the listening socket and a
  message for every other; sockets accepted during the round wait for the next one. The new
  \<open>fdmax\<close> is the largest descriptor.
\<close>

theorem plp_ronda_eventos:
  assumes "\<And>fd. read_fds fd \<Longrightarrow> fd \<le> fdmax"
  shows "plp_ronda itoa srv meta listener_prog read_fds new_soc men ci fdmax su =
    bindE (eventos itoa srv meta (map (\<lambda>fd. if fd = listener_prog then Conecta_Prog new_soc
        else Men_Prog (ci fd) fd (men fd)) (filter read_fds [3 .. fdmax])) su)
      (\<lambda>su'. Inr (fd_tras listener_prog new_soc (filter read_fds [3 .. fdmax]) fdmax, su'))"
  unfolding plp_ronda_def
  by (subst ronda_select_lista [of _ fdmax, OF assms], assumption, simp)
    (rule servir_lista_eventos, simp_all)

theorem plp_ronda_eventos_testigo:
  "\<exists>su'. plp_ronda decimal srv_ej meta_ej 3 (\<lambda>fd. fd = 3 \<or> fd = 4) 6 (\<lambda>_. script_ej) (\<lambda>_. 0) 4
      (sistema_inicial k_ej, ()) = Inr (6, su')
    \<and> eventos decimal srv_ej meta_ej [Conecta_Prog 6, Men_Prog 0 4 script_ej] (sistema_inicial k_ej, ()) = Inr su'"
proof -
  let ?r = "\<lambda>fd :: int. fd = 3 \<or> fd = 4"
  have f: "filter ?r [3 .. 4] = [3, 4]" by (simp add: upto_rec1)
  have "\<exists>su'. eventos decimal srv_ej meta_ej [Conecta_Prog 6, Men_Prog 0 4 script_ej]
      (sistema_inicial k_ej, ()) = Inr su'"
    by (simp add: sistema_inicial_def k_ej_def script_llega evaluar ingresar_nuevo_programa_def handshake_prog_def)
  moreover have "\<And>fd. ?r fd \<Longrightarrow> fd \<le> 4" by auto
  from plp_ronda_eventos [of ?r 4 decimal srv_ej meta_ej 3 6 "\<lambda>_. script_ej" "\<lambda>_. 0" "(sistema_inicial k_ej, ())", OF this]
  have "plp_ronda decimal srv_ej meta_ej 3 ?r 6 (\<lambda>_. script_ej) (\<lambda>_. 0) 4 (sistema_inicial k_ej, ())
      = bindE (eventos decimal srv_ej meta_ej [Conecta_Prog 6, Men_Prog 0 4 script_ej] (sistema_inicial k_ej, ()))
          (\<lambda>su'. Inr (6, su'))"
    unfolding f by (simp add: fd_tras_def)
  ultimately show ?thesis by auto
qed

lemma pcp_ronda_eventos:
  assumes "\<And>fd. read_fds fd \<Longrightarrow> fd \<le> fdmax"
  shows "pcp_ronda itoa listener_cpu read_fds new_soc men fdmax su =
    bindE (eventos itoa srv meta (map (\<lambda>fd. if fd = listener_cpu then Conecta_CPU new_soc
        else Men_CPU fd (dc_men (men fd)) (dc_men2 (men fd)) (dc_pcb (men fd)) (dc_cerrar (men fd)))
        (filter read_fds [3 .. fdmax])) su)
      (\<lambda>su'. Inr (fd_tras listener_cpu new_soc (filter read_fds [3 .. fdmax]) fdmax, su'))"
  unfolding pcp_ronda_def
  by (subst ronda_select_lista [of _ fdmax, OF assms], assumption, simp)
    (rule servir_lista_eventos, simp_all)

text \<open>So a round keeps the system among the runs of theory \<open>Kernel_Hilos\<close>.\<close>

fun admisibles ::
  "(int \<Rightarrow> byte list) \<Rightarrow> 'u servidor \<Rightarrow> (byte list \<Rightarrow> t_metadata_program) \<Rightarrow> evento list
     \<Rightarrow> sistema \<times> 'u \<Rightarrow> bool" where
  "admisibles itoa srv meta [] su = True"
| "admisibles itoa srv meta (ev # evs) su =
     (admisible ev (ker (fst su)) \<and> (case paso_kernel itoa srv meta ev su of Inl _ \<Rightarrow> True
        | Inr su' \<Rightarrow> admisibles itoa srv meta evs su'))"

lemma eventos_corre:
  "corre itoa srv meta c su \<Longrightarrow> admisibles itoa srv meta evs su \<Longrightarrow>
     eventos itoa srv meta evs su = Inr su' \<Longrightarrow> corre itoa srv meta c su'"
proof (induction evs arbitrary: su)
  case (Cons ev evs)
  from Cons.prems(3) obtain su1 where p: "paso_kernel itoa srv meta ev su = Inr su1"
    "eventos itoa srv meta evs su1 = Inr su'" by (auto simp: bindE_eq_Inr)
  have "corre itoa srv meta c su1"
    by (rule avanza [OF Cons.prems(1) _ p(1)]) (use Cons.prems(2) in simp)
  moreover have "admisibles itoa srv meta evs su1" using Cons.prems(2) p(1) by simp
  ultimately show ?case using Cons.IH p(2) by blast
qed simp

end
