(* ===== verification/Kernel_Tipos_Prop.thy ===== *)
theory Kernel_Tipos_Prop
  imports Kernel_Tipos Kernel_Select CPU_Tipos_Prop
begin

text \<open>The types of the kernel in its runs, and how they fit those of a CPU.\<close>

section \<open>Runs\<close>

context mismo_gestor
begin

lemma eventos_tip:
  assumes "sistema_bien (fst x)" "\<forall>ev \<in> set evs. evento_bien ev" "itoa_corta itoa" "meta_bien meta"
  shows "sigue (eventos itoa srv meta evs x) (eventos itoa srv' meta evs x) (\<lambda>y. sistema_bien (fst y))"
  using assms(1,2)
proof (induction evs arbitrary: x)
  case (Cons ev evs)
  have "sigue (paso_kernel itoa srv meta ev x) (paso_kernel itoa srv' meta ev x) (\<lambda>y. sistema_bien (fst y))"
    using paso_tip Cons.prems assms(3,4) by simp
  then show ?case using Cons by (auto intro!: sigue_bind elim!: sigue_mono)
qed simp

end

interpretation un_gestor: mismo_gestor srv srv for srv
  by unfold_locales

lemma corrida_bien:
  assumes "levantar_config c = Inr k" "config_bien c" "itoa_corta itoa" "meta_bien meta"
    "\<forall>ev \<in> set evs. evento_bien ev"
    "eventos itoa srv meta evs (sistema_inicial (crear_inicializar_estructuras c k), u) = Inr (s', u')"
  shows "sistema_bien s'"
  using un_gestor.eventos_tip [of "(sistema_inicial (crear_inicializar_estructuras c k), u)" evs itoa meta srv]
    inicial_tip [OF assms(1,2)] assms(3-6) by (simp add: sigue_def)

text \<open>Two programs arrive and the first one runs.\<close>

lemma meta_ej_bien: "meta_bien meta_ej"
  by (simp add: meta_bien_def meta_ej_def)

lemma evs_ej_bien: "\<forall>ev \<in> set evs_ej. evento_bien ev"
  by (simp add: evs_ej_def script_ej_def valido_comun_def)

lemma config_ej_bien: "config_bien c_ej"
  by (simp add: config_bien_def c_ej_def)

lemma decimal_bien: "itoa_corta decimal"
  by (simp add: itoa_corta_def decimal_corto)

lemma sistema_ej_bien: "sistema_bien (sistema_inicial k_ej)"
  using k_ej_inicial inicial_tip [OF _ config_ej_bien] by auto

lemma pasos_eventos: "pasos evs s = Inr s' \<Longrightarrow> eventos decimal srv_ej meta_ej evs (s, ()) = Inr (s', ())"
  by (induction evs arbitrary: s) (auto simp: bindE_eq_Inr split: if_splits)

lemma eventos_ej: "eventos decimal srv_ej meta_ej evs_ej (sistema_inicial k_ej, ()) = Inr (s_corre, ())"
  by (rule pasos_eventos [OF pasos_corre])



section \<open>The two sides of the socket of a CPU\<close>


text \<open>The first process runs three lines and goes back to the kernel.\<close>

definition s_encaja :: "(int \<times> umv) cpu" where
  "s_encaja = s_tip\<lparr>memoria := (1, u_cpu\<lparr>list_seg := [seg_ej 1 7 8 40]\<rparr>),
     de_kernel := [Men_Pcb \<lparr>mq_tipo = 68, mq_quantum = 3, mq_pcb = po_pcb (pcb_ej 1 4 0)\<rparr>]\<rparr>"

definition fin_turno_ej :: t_men_comun where
  "fin_turno_ej = \<lparr>tam_dato = 0, tipo = 20, dato = []\<rparr>"

definition pcb_tras :: t_men_quantum_pcb where
  "pcb_tras = \<lparr>mq_tipo = 68, mq_quantum = 0,
     mq_pcb = (po_pcb (pcb_ej 1 4 0))\<lparr>cant_var_cont_actual := 3, program_counter := 3\<rparr>\<rparr>"

lemma s_encaja_corre:
  "\<exists>t. ciclo e_tip 2 s_encaja = Inr (Some t) \<and> Men_Comun fin_turno_ej \<in> set (a_kernel t)
     \<and> Men_Pcb pcb_tras \<in> set (a_kernel t)"
proof -
  have "case ciclo e_tip 2 s_encaja of
      Inr (Some t) \<Rightarrow> drop 3 (a_kernel t) = [Men_Comun fin_turno_ej, Men_Pcb pcb_tras] | _ \<Rightarrow> False"
    by code_simp
  then obtain t where "ciclo e_tip 2 s_encaja = Inr (Some t)"
    "drop 3 (a_kernel t) = [Men_Comun fin_turno_ej, Men_Pcb pcb_tras]"
    by (auto split: sum.splits option.splits)
  moreover have "set (drop 3 (a_kernel t)) \<subseteq> set (a_kernel t)" by (rule set_drop_subset)
  ultimately show ?thesis by auto
qed

lemma s_encaja_bien: "cpu_bien (s_encaja\<lparr>de_kernel := []\<rparr>)"
  using s_tip_bien by (simp add: cpu_bien_def tipada_def s_encaja_def servir_inv_def umv_inv_def u_cpu_def seg_ok_def)


end
