(* ===== verification/Kernel_Transporte.thy ===== *)
theory Kernel_Transporte
  imports Transporte Kernel_Tipos_Prop Kernel_UMV
begin

text \<open>
  The conversations of the kernel and the memory unit over the byte streams of their sockets,
  as theory \<open>Transporte\<close> has them for a CPU.
\<close>

section \<open>The same conversation over the byte streams\<close>

text \<open>
  A request for \<open>ESCRIBIR_SEG\<close> is followed by a common message on the same stream; the memory
  unit reads both before it answers.
\<close>

definition gestor_por_cable :: "red \<Rightarrow> red \<Rightarrow> red \<Rightarrow> 'u servidor \<Rightarrow> 'u servidor" where
  "gestor_por_cable r1 r2 r3 srv q m u =
     bindE (socket_send_seg 16 q canal) (\<lambda>(_, c).
     bindE (if ms_tipo q = codigo ESCRIBIR_SEG then socket_send_comun (12 + tam_dato m) m c
            else Inr (0, c)) (\<lambda>(_, ida).
     bindE (socket_recv_seg r1 ida) (\<lambda>(q', resto).
     bindE (if ms_tipo q' = codigo ESCRIBIR_SEG then socket_recv_comun r2 resto
            else Inr (sin_segundo, resto)) (\<lambda>(m', _).
     bindE (srv q' m' u) (\<lambda>(resp, u').
     bindE (socket_send_comun (12 + tam_dato resp) resp canal) (\<lambda>(_, vuelta).
     bindE (socket_recv_comun r3 vuelta) (\<lambda>(resp', _). Inr (resp', u'))))))))"

lemma seg_viaja:
  assumes "valido_seg q" "socket_send_seg 16 q canal = Inr (n, c)"
  obtains bs where "c = canal\<lparr>entrante := bs\<rparr>" "\<And>r resto. 4 \<le> disponibles r \<Longrightarrow>
      socket_recv_seg r (canal\<lparr>entrante := bs @ resto\<rparr>) = Inr (q, canal\<lparr>entrante := resto\<rparr>)"
proof -
  obtain bs where bs: "men_serealizer_seg q = Inr bs" "enviar_stream 16 bs canal = Inr (n, c)"
    using assms(2) by (auto simp: socket_send_seg_def bindE_eq_Inr)
  then have "length bs = 16" by (auto simp: men_serealizer_seg_def)
  then have "c = canal\<lparr>entrante := bs\<rparr>" using bs(2) by (auto simp: enviar_stream_def canal_def)
  moreover have "socket_recv_seg r (canal\<lparr>entrante := bs @ resto\<rparr>) = Inr (q, canal\<lparr>entrante := resto\<rparr>)"
    if "4 \<le> disponibles r" for r resto
    using seg.recibir_un_mensaje [OF assms(1) bs(1), of "canal\<lparr>entrante := bs @ resto\<rparr>" resto r] that
    by (simp add: socket_recv_seg_def canal_def)
  ultimately show thesis using that by blast
qed

lemma comun_viaja:
  assumes "segundo_ok m" "socket_send_comun (12 + tam_dato m) m (canal\<lparr>entrante := pre\<rparr>) = Inr (n, c)"
  obtains bs where "c = canal\<lparr>entrante := pre @ bs\<rparr>" "\<And>r. 4 \<le> disponibles r \<Longrightarrow>
      socket_recv_comun r (canal\<lparr>entrante := bs\<rparr>) = Inr (m, canal)"
proof -
  obtain bs where bs: "men_serealizer_comun m = Inr bs"
    and c: "enviar_stream (12 + tam_dato m) bs (canal\<lparr>entrante := pre\<rparr>) = Inr (n, c)"
    using assms(2) by (auto simp: socket_send_comun_def bindE_eq_Inr)
  have t: "0 \<le> tam_dato m" "0 \<le> i32 (12 + tam_dato m)" "es_i32 (tam_dato m)"
    using bs assms(1) by (auto simp: men_serealizer_comun_def Let_def bindE_eq_Inr leer_Inr_iff segundo_ok_def
        split: if_splits)
  have "tam_dato m \<le> 2147483635"
  proof (rule ccontr)
    assume "\<not> tam_dato m \<le> 2147483635"
    then show False using t i32_da_la_vuelta [of "12 + tam_dato m"] by (simp add: es_i32_def)
  qed
  then have v: "valido_comun m" using assms(1) by (simp add: segundo_ok_def valido_comun_def)
  have "length bs = nat (12 + tam_dato m)"
    using bs t(1) by (auto simp: men_serealizer_comun_def Let_def bindE_eq_Inr leer_Inr_iff split: if_splits)
  then have "c = canal\<lparr>entrante := pre @ bs\<rparr>" using c t(1) by (auto simp: enviar_stream_def split: if_splits)
  moreover have "socket_recv_comun r (canal\<lparr>entrante := bs\<rparr>) = Inr (m, canal)" if "4 \<le> disponibles r" for r
    using comun.recibir_un_mensaje [OF v bs, of "canal\<lparr>entrante := bs\<rparr>" "[]" r] that
    by (simp add: socket_recv_comun_def canal_def)
  ultimately show thesis using that by blast
qed

section \<open>The memory unit\<close>

lemma crearSegmento_dir: "crearSegmento e a q u = Inr (d, u') \<Longrightarrow> d = -1 \<or> d = a"
  by (auto simp: crearSegmento_def Let_def bindE_eq_Inr split: prod.splits if_splits)

lemma segundo_vacio [simp]: "segundo_ok \<lparr>tam_dato = 0, tipo = t, dato = []\<rparr> = es_i32 t"
  by (simp add: segundo_ok_def)

lemma crear_segundo: "crear_men_comun t b n = Inr m \<Longrightarrow> es_i32 t \<Longrightarrow> es_i32 n \<Longrightarrow> segundo_ok m"
  by (auto simp: crear_men_comun_def bindE_eq_Inr leer_Inr_iff segundo_ok_def)

lemma ped_seg_segundo:
  assumes "itoa_corta itoa" "es_i32 a" "gestionar_ped_seg e itoa a q t u = Inr (u', ms)" "m \<in> set ms"
  shows "segundo_ok m"
proof -
  obtain d u1 where d: "crearSegmento e a q u = Inr (d, u1)"
    using assms(3) by (auto simp: gestionar_ped_seg_def bindE_eq_Inr)
  then have "es_i32 d" using assms(2) crearSegmento_dir [OF d] by auto
  then have "length (itoa d) \<le> 11" using assms(1) by (simp add: itoa_corta_def)
  then have "es_i32 (int (length (itoa d)) + 1)" by (simp add: es_i32_def)
  then show ?thesis using assms(3,4) d
    by (auto simp: gestionar_ped_seg_def bindE_eq_Inr Let_def elim!: crear_segundo split: if_splits)
qed

lemma servidor_segundo:
  assumes "itoa_corta itoa" "\<And>n. es_i32 (azar n)" "servidor_umv e itoa azar q m u = Inr (resp, u')"
  shows "segundo_ok resp"
proof -
  obtain n v where u: "u = (n, v)" by fastforce
  obtain v' ms where a: "atender_kernel e itoa (azar n) q m v = Inr (v', resp # ms)"
    using assms(3) by (fastforce simp: servidor_umv_def u bindE_eq_Inr neq_Nil_conv split: list.splits)
  then show ?thesis using ped_seg_segundo [OF assms(1,2), of _ n]
    by (auto simp: atender_kernel_def gestionar_alm_seg_def bindE_eq_Inr elim!: crear_segundo
        split: if_splits)
qed

lemma servidor_sin_segundo:
  assumes "ms_tipo q \<noteq> codigo ESCRIBIR_SEG"
  shows "servidor_umv e itoa azar q m u = servidor_umv e itoa azar q sin_segundo u"
proof -
  have "atender_kernel e itoa a q m v = atender_kernel e itoa a q sin_segundo v" for a v
    using assms unfolding atender_kernel_def by presburger
  then show ?thesis by (simp only: servidor_umv_def)
qed

lemma gestor_directo:
  assumes "itoa_corta itoa" "\<And>n. es_i32 (azar n)" "4 \<le> disponibles r1" "4 \<le> disponibles r2" "4 \<le> disponibles r3"
    and "valido_seg q" "segundo_ok m"
    and "gestor_por_cable r1 r2 r3 (servidor_umv e itoa azar) q m u = Inr y"
  shows "servidor_umv e itoa azar q m u = Inr y"
proof -
  let ?w = "ms_tipo q = codigo ESCRIBIR_SEG"
  obtain n c where c: "socket_send_seg 16 q canal = Inr (n, c)"
    using assms(8) by (auto simp: gestor_por_cable_def bindE_eq_Inr)
  obtain bs where bs: "c = canal\<lparr>entrante := bs\<rparr>" "\<And>r resto. 4 \<le> disponibles r \<Longrightarrow>
      socket_recv_seg r (canal\<lparr>entrante := bs @ resto\<rparr>) = Inr (q, canal\<lparr>entrante := resto\<rparr>)"
    using seg_viaja [OF assms(6) c] by metis
  obtain n' ida where ida: "(if ?w then socket_send_comun (12 + tam_dato m) m c else Inr (0, c)) = Inr (n', ida)"
    using assms(8) c by (auto simp: gestor_por_cable_def bindE_eq_Inr)
  obtain ds where ds: "ida = canal\<lparr>entrante := bs @ ds\<rparr>"
    "?w \<Longrightarrow> socket_recv_comun r2 (canal\<lparr>entrante := ds\<rparr>) = Inr (m, canal)"
  proof (cases ?w)
    case True
    then have "socket_send_comun (12 + tam_dato m) m (canal\<lparr>entrante := bs\<rparr>) = Inr (n', ida)"
      using ida bs(1) by simp
    with assms(7) show thesis using that assms(4) by (auto elim: comun_viaja)
  next
    case False
    then show thesis using that [of "[]"] ida bs(1) by simp
  qed
  let ?m = "if ?w then m else sin_segundo"
  obtain resp u' where s: "servidor_umv e itoa azar q ?m u = Inr (resp, u')"
    and y: "bindE (socket_send_comun (12 + tam_dato resp) resp canal) (\<lambda>(_, vuelta).
      bindE (socket_recv_comun r3 vuelta) (\<lambda>(resp', _). Inr (resp', u'))) = Inr y"
    using assms(8) c ida ds bs(2) [OF assms(3)]
    by (cases ?w) (auto simp: gestor_por_cable_def bindE_eq_Inr [of "servidor_umv _ _ _ _ _ _"])
  obtain n2 v where v: "socket_send_comun (12 + tam_dato resp) resp (canal\<lparr>entrante := []\<rparr>) = Inr (n2, v)"
    using y by (auto simp: canal_def bindE_eq_Inr)
  obtain vs where "v = canal\<lparr>entrante := [] @ vs\<rparr>"
    "\<And>r. 4 \<le> disponibles r \<Longrightarrow> socket_recv_comun r (canal\<lparr>entrante := vs\<rparr>) = Inr (resp, canal)"
    using comun_viaja [OF servidor_segundo [OF assms(1,2) s] v] by metis
  then have "y = (resp, u')" using y v assms(5) by (simp add: canal_def)
  then show ?thesis using s servidor_sin_segundo [of q e itoa azar m u] by (cases ?w) auto
qed

section \<open>The whole kernel over its socket\<close>

interpretation cable_k: mismo_gestor
  "gestor_por_cable (red_con d1 b1) (red_con d2 b2) (red_con d3 b3) (servidor_umv e decimal (\<lambda>n. i32 (azar n)))"
  "servidor_umv e decimal (\<lambda>n. i32 (azar n))" for d1 b1 d2 b2 d3 b3 e azar
proof (unfold_locales, rule gestor_directo)
  show "itoa_corta decimal" by (simp add: itoa_corta_def decimal_corto)
qed (simp_all add: red_con_def)

text \<open>
  C7. The kernel over its socket: a kernel whose every request to the memory unit, and every
  segment it writes, travels framed over the byte stream of its socket, and every answer back,
  does exactly what it does when the memory unit is called directly; for every sequence of
  events, as long as the messages that arrive have the form of the library, nothing fails on the
  way, and each receive peeks at a whole length word.
\<close>

theorem kernel_por_cable:
  assumes "itoa_corta itoa" "\<forall>n. es_i32 (azar n)" "4 \<le> disponibles r1" "4 \<le> disponibles r2" "4 \<le> disponibles r3"
    and "meta_bien meta" "sistema_bien (fst x)" "\<forall>ev \<in> set evs. evento_bien ev"
    and "eventos itoa (gestor_por_cable r1 r2 r3 (servidor_umv e itoa azar)) meta evs x = Inr y"
  shows "eventos itoa (servidor_umv e itoa azar) meta evs x = Inr y"
proof -
  have "mismo_gestor (gestor_por_cable r1 r2 r3 (servidor_umv e itoa azar)) (servidor_umv e itoa azar)"
    by (unfold_locales, rule gestor_directo [OF assms(1) _ assms(3-5)]) (use assms(2) in auto)
  from mismo_gestor.eventos_tip [OF this assms(7,8,1,6)] show ?thesis using assms(9) by (simp add: sigue_def)
qed

theorem kernel_por_cable_testigo:
  "\<exists>s' u'. eventos decimal (gestor_por_cable (red_con 0 (\<lambda>_. 0)) (red_con 0 (\<lambda>_. 0)) (red_con 0 (\<lambda>_. 0))
        (servidor_umv e_ej decimal (\<lambda>_. 100))) meta_ej evs_ej (sistema_inicial k_ej, (0, umv_inicial (\<lambda>_. 0) 64 1))
      = Inr (s', u') \<and> length (cola_exec (ker s')) = 1
    \<and> eventos decimal (servidor_umv e_ej decimal (\<lambda>_. 100)) meta_ej evs_ej
        (sistema_inicial k_ej, (0, umv_inicial (\<lambda>_. 0) 64 1)) = Inr (s', u')"
proof -
  let ?srv = "gestor_por_cable (red_con 0 (\<lambda>_. 0)) (red_con 0 (\<lambda>_. 0)) (red_con 0 (\<lambda>_. 0))
        (servidor_umv e_ej decimal (\<lambda>_. 100))"
  have "case eventos decimal ?srv meta_ej evs_ej (sistema_inicial k_ej, (0, umv_inicial (\<lambda>_. 0) 64 1)) of
      Inr (s', u') \<Rightarrow> length (cola_exec (ker s')) = 1 | _ \<Rightarrow> False"
    by code_simp
  then obtain s' u' where s': "eventos decimal ?srv meta_ej evs_ej (sistema_inicial k_ej, (0, umv_inicial (\<lambda>_. 0) 64 1))
      = Inr (s', u')" "length (cola_exec (ker s')) = 1"
    by (auto split: sum.splits)
  have d: "itoa_corta decimal" by (simp add: itoa_corta_def decimal_corto)
  from kernel_por_cable [OF d _ _ _ _ meta_ej_bien _ evs_ej_bien s'(1)] sistema_ej_bien s' show ?thesis
    by (simp add: red_con_def)
qed

end
