(* ===== verification/Arranque.thy ===== *)
theory Arranque
  imports UMV_Consola Kernel_Consola CPU_Ciclo Programa
begin

text \<open>
  The start of the daemons: the handshakes between them, their first states, and the \<open>main\<close> of
  the memory unit and of a CPU from the configuration to the end. A socket is the list of the
  messages that the peer will send.
\<close>

section \<open>Handshakes\<close>

text \<open>The first message on a new connection; a closed one gives a message of its own.\<close>

definition primero :: "t_men_comun list \<Rightarrow> (t_men_comun \<times> t_men_comun list) res" where
  "primero ms = (case ms of
       [] \<Rightarrow> bindE (crear_men_comun (codigo CONEC_CERRADA) [] 0) (\<lambda>m. Inr (m, []))
     | m # ms' \<Rightarrow> Inr (m, ms'))"

text \<open>A wrong answer is written down and nothing else happens.\<close>

definition handshake_umv_cpu ::
  "t_men_comun list \<Rightarrow> (t_men_comun \<times> escrito \<times> t_men_comun list) res" where
  "handshake_umv_cpu de_umv =
     bindE (crear_men_comun (codigo HS_CPU) [] 0) (\<lambda>hs.
     bindE (primero de_umv) (\<lambda>(mensaje_inicial, resto).
       Inr (hs, if tipo mensaje_inicial = codigo HS_UMV
         then en Archivo_Log [Txt ''UMV conectada '', NL] @ en Pantalla [Txt ''UMV conectada'', NL]
         else en Archivo_Log [Txt ''ERROR HANDSHAKE UMV'', NL]
           @ en Pantalla [TAB, Txt ''ERROR HANDSHAKE'', NL], resto)))"

definition handshake_kernel_cpu ::
  "t_men_comun list \<Rightarrow> (t_men_comun \<times> escrito \<times> t_men_comun list) res" where
  "handshake_kernel_cpu del_kernel =
     bindE (crear_men_comun (codigo HS_CPU) [] 0) (\<lambda>hs.
     bindE (primero del_kernel) (\<lambda>(mensaje_inicial, resto).
       Inr (hs, if tipo mensaje_inicial = codigo HS_KERNEL
         then en Archivo_Log [Txt ''Kernel conectado'', NL] @ en Pantalla [Txt ''Kernel conectado'', NL]
         else en Archivo_Log [Txt ''ERROR HANDSHAKE KERNEL '', NL]
           @ en Pantalla [TAB, Txt ''ERROR HANDSHAKE'', NL], resto)))"

text \<open>The kernel reports the memory unit as connected after an error too.\<close>

definition handshake_umv_kernel ::
  "t_men_comun list \<Rightarrow> (t_men_comun \<times> escrito \<times> t_men_comun list) res" where
  "handshake_umv_kernel de_umv =
     bindE (crear_men_comun (codigo HS_KERNEL) [] 0) (\<lambda>hs.
     bindE (primero de_umv) (\<lambda>(men_hs, resto).
       Inr (hs, (if tipo men_hs \<noteq> codigo HS_UMV
           then en Pantalla [Txt ''ERROR HANDSHAKE'']
             @ en Archivo_Log [Txt ''Error en el handshake con la UMV '', NL] else [])
         @ en Pantalla [Txt ''UMV conectada'', NL] @ en Archivo_Log [Txt ''Conectado a la UMV '', NL], resto)))"

section \<open>The memory unit\<close>

record config_umv =
  cu_tamanio :: int
  cu_modo :: int
  cu_modo_texto :: "byte list"
  cu_puerto :: "byte list"

definition encabezado :: "int \<Rightarrow> config_umv \<Rightarrow> pieza list" where
  "encabezado byte c =
     [Txt ''----** UMV: Unidad de Memoria Virtual **----'', NL,
      Txt ''Puerto: '', Bytes (cu_puerto c), NL,
      Txt ''Operando en modo: '', Bytes (cu_modo_texto c), NL,
      Txt ''Espacio reservado: '', Num byte, Txt '' bytes'', NL,
      Txt ''--------------------------------'', NL]"

text \<open>
  \<open>main\<close> with what it and the console write, and the operator alone at work (the connections are the events of theory
  \<open>UMV_Server\<close>). A negative size gives no memory at all, and every access to it fails. At the
  end the segment table and the memory are freed.
\<close>

definition umv_main ::
  "nat \<Rightarrow> (nat \<Rightarrow> azar) \<Rightarrow> entorno \<Rightarrow> (nat \<Rightarrow> byte) \<Rightarrow> config_umv \<Rightarrow> byte list \<Rightarrow> escrito res option" where
  "umv_main n az e fresco c s =
     map_option (\<lambda>r. bindE r (\<lambda>(w, s', u).
        Inr (en Archivo_Log [Txt ''---------Nueva ejecucion--------'', NL]
          @ en Pantalla (encabezado (cu_tamanio c) c)
          @ en Archivo_Log [Txt ''Creo la memoria principal'', NL, Txt ''Creo la lista de segmentos'', NL]
          @ w
          @ en Archivo_Log [Txt ''Destruyo la lista de segmentos'', NL, Txt ''Libero la memoria principal'', NL,
              Txt ''----------Fin ejecucion---------'', NL])))
        (crearConsola n az e s (umv_inicial fresco (cu_tamanio c) (cu_modo c)))"

section \<open>The kernel\<close>

record texto_config =
  tc_puerto_prog :: "byte list"
  tc_puerto_cpu :: "byte list"
  tc_ip_umv :: "byte list"
  tc_puerto_umv :: "byte list"

text \<open>
  What \<open>levantar_config\<close> prints behind the configuration it has read; the dictionaries come in
  the order of their iterators (\<open>claves_io\<close> and \<open>rm\<close>).
\<close>

definition imp_disp :: "byte list list \<Rightarrow> kernel \<Rightarrow> pieza list" where
  "imp_disp claves k = concat (map (\<lambda>key. case dicc_disp_io k key of None \<Rightarrow> []
     | Some io \<Rightarrow> [TAB, Txt ''ID:'', Bytes key, Txt '' ,Sleep:'', Num (io_sleep io), NL]) claves)"

definition imprimir_config :: "config \<Rightarrow> texto_config \<Rightarrow> byte list list \<Rightarrow> ronda_menu \<Rightarrow> kernel \<Rightarrow> pieza list" where
  "imprimir_config c t claves_io rm k =
     [Txt ''------Archivo Config------------'', NL,
      Txt ''Puerto Proc-Prog = '', Bytes (tc_puerto_prog t), NL,
      Txt ''Puerto CPU = '', Bytes (tc_puerto_cpu t), NL,
      Txt ''UMV'', NL,
      TAB, Txt ''IP     = '', Bytes (tc_ip_umv t), NL,
      TAB, Txt ''Puerto = '', Bytes (tc_puerto_umv t), NL,
      Txt ''Entrada/Salida'', NL]
     @ imp_disp claves_io k
     @ [NL, Txt ''Semaforos'', NL] @ imp_semaforos (rm_claves_sem rm) k
     @ [Txt ''Varias'', NL,
        TAB, Txt ''Multiprogramacion = '', Num (int (MULTIPROGRAMACION c)), NL,
        TAB, Txt ''Quantum = '', Num (quantum_max k), NL,
        TAB, Txt ''Retardo =  '', Num (kernel.retardo k), NL,
        TAB, Txt ''Tamanio Stack = '', Num (tamanio_stack k), NL,
        Txt ''Variables Globales'', NL]
     @ imp_variables_compartidas (rm_claves_var rm) k
     @ [Txt ''--------------------------------'', NL]"

text \<open>
  \<open>main\<close> up to the end of the menu, with the operator alone at work (the other threads are the
  events of theory \<open>Kernel_Hilos\<close>): configuration, handshake, structures, menu. \<open>ant\<close> and \<open>v\<close>
  are what the variables of the menu hold before they are set.
\<close>

definition kernel_main ::
  "nat \<Rightarrow> (nat \<Rightarrow> ronda_menu) \<Rightarrow> config \<Rightarrow> texto_config \<Rightarrow> byte list list \<Rightarrow> byte \<Rightarrow> int
     \<Rightarrow> t_men_comun list \<Rightarrow> byte list \<Rightarrow> (escrito \<times> t_men_comun \<times> kernel) res option" where
  "kernel_main n rm c t claves_io ant v de_umv s =
     (case levantar_config c of Inl err \<Rightarrow> Some (Inl err)
      | Inr k \<Rightarrow>
         (case handshake_umv_kernel de_umv of Inl err \<Rightarrow> Some (Inl err)
          | Inr (hs, w, _) \<Rightarrow>
             map_option (\<lambda>r. bindE r (\<lambda>(w', s', k').
               Inr (en Pantalla (imprimir_config c t claves_io (rm 0) k) @ w @ en Pantalla w', hs, k')))
               (rondas_menu n (\<lambda>i. rm (Suc i)) ant v s (crear_inicializar_estructuras c k))))"

section \<open>A CPU\<close>

definition cpu_inicial :: "'m \<Rightarrow> mensaje list \<Rightarrow> 'm cpu" where
  "cpu_inicial m ms = \<lparr>dic_Variables = Map.empty, pcb = None, quantum_actual = 0, cpu_quantum_max = 0,
     cpu_etiquetas = Nulo, fueFinEjecucion = False, huboSegFault = False, cpu_quit_sistema = True,
     memoria = m, de_kernel = ms, a_kernel = [], roto_kernel = False\<rparr>"

definition imprimo_config :: "byte list \<Rightarrow> byte list \<Rightarrow> byte list \<Rightarrow> byte list \<Rightarrow> pieza list" where
  "imprimo_config puertoKernel ipKernel puertoUmv ipUmv =
     [Txt ''---------------Archivo Config----------------------'', NL,
      TAB, Txt ''Puerto Kernel'', TAB, Txt ''= '', Bytes puertoKernel, NL,
      TAB, Txt ''IP Kernel'', TAB, Txt ''= '', Bytes ipKernel, NL,
      TAB, Txt ''Puerto UMV'', TAB, Txt ''= '', Bytes puertoUmv, NL,
      TAB, Txt ''IP UMV'', TAB, TAB, Txt ''= '', Bytes ipUmv, NL,
      Txt ''---------------------------------------------------'', NL]"

text \<open>
  \<open>main\<close>: the handshakes with the kernel (\<open>hs_kernel\<close> is its first message) and the memory
  unit, then the loop, with fuel \<open>n\<close>.
\<close>

definition cpu_main ::
  "'m entorno_cpu \<Rightarrow> nat \<Rightarrow> 'm \<Rightarrow> t_men_comun list \<Rightarrow> mensaje list \<Rightarrow> t_men_comun list
     \<Rightarrow> (escrito \<times> 'm cpu option) res" where
  "cpu_main e n m hs_kernel ms de_umv =
     bindE (handshake_kernel_cpu hs_kernel) (\<lambda>(hs, w1, _).
     bindE (handshake_umv_cpu de_umv) (\<lambda>(_, w2, _).
     bindE (ciclo e n (cpu_inicial m ms\<lparr>a_kernel := [Men_Comun hs]\<rparr>)) (\<lambda>r.
       Inr (w1 @ w2, r))))"

section \<open>The daemons know each other\<close>

definition conectado_umv :: escrito where
  "conectado_umv = en Archivo_Log [Txt ''UMV conectada '', NL] @ en Pantalla [Txt ''UMV conectada'', NL]"

definition conectado_kernel :: escrito where
  "conectado_kernel = en Archivo_Log [Txt ''Kernel conectado'', NL] @ en Pantalla [Txt ''Kernel conectado'', NL]"

definition saludo :: "tipo_datos \<Rightarrow> t_men_comun" where
  "saludo t = \<lparr>tam_dato = 0, tipo = codigo t, dato = []\<rparr>"

lemma crear_saludo: "crear_men_comun t [] 0 = Inr \<lparr>tam_dato = 0, tipo = t, dato = []\<rparr>"
  by (simp add: crear_men_comun_def leer_def)

lemmas presentarse = handshake_kernel_cpu_def handshake_umv_cpu_def handshake_umv_kernel_def primero_def
  ingresar_new_cpu_def ingresar_nuevo_programa_def handshake_cpu_def handshake_prog_def enviar_comun_def
  enviar_def admin_conecciones_def conectado_umv_def conectado_kernel_def sem_incre_def
  crear_saludo saludo_def

text \<open>
  The handshakes fit together: what a CPU and a program send to the kernel, and a CPU and the
  kernel to the memory unit, is answered with the greeting that the other side expects, so that
  each of them reports the connection and none an error; the kernel then has the CPU in its
  list as free, and the memory unit serves the socket with the thread of its kind.
\<close>

theorem presentaciones:
  assumes "soc \<notin> rotos k"
  shows "(\<exists>k'. ingresar_new_cpu soc k = Inr k'
      \<and> salida k' = salida k @ [Envia soc (Men_Comun (saludo HS_KERNEL))]
      \<and> lista_cpu k' = lista_cpu k @ [\<lparr>soc_cpu = soc, soc_prog = 0, id_prog_exec = 0\<rparr>]
      \<and> cant_cpu_libres k' = cant_cpu_libres k + 1
      \<and> handshake_kernel_cpu (saludo HS_KERNEL # ms) = Inr (saludo HS_CPU, conectado_kernel, ms))
    \<and> (\<exists>v'. admin_conecciones soc (saludo HS_CPU) v = Inr (v', [(soc, saludo HS_UMV)])
      \<and> proc_activos v' soc = Some 0 \<and> su v' = su v
      \<and> handshake_umv_cpu (saludo HS_UMV # ms) = Inr (saludo HS_CPU, conectado_umv, ms))
    \<and> (\<exists>v'. admin_conecciones soc (saludo HS_KERNEL) v = Inr (v', [(soc, saludo HS_UMV)])
      \<and> soc_kernel_umv v' = soc \<and> proc_activos v' = proc_activos v \<and> su v' = su v
      \<and> handshake_umv_kernel (saludo HS_UMV # ms) = Inr (saludo HS_KERNEL,
          en Pantalla [Txt ''UMV conectada'', NL] @ en Archivo_Log [Txt ''Conectado a la UMV '', NL], ms))
    \<and> (\<exists>k'. ingresar_nuevo_programa soc k = Inr k' \<and> soc \<in> conj_soc_progs k'
      \<and> salida k' = salida k @ [Envia soc (Men_Comun (saludo HS_KERNEL))]
      \<and> handshake_kernel (saludo HS_KERNEL # ms) = Inr (\<lparr>tam_dato = 1, tipo = codigo HS_PROG, dato = [0]\<rparr>, ms))"
proof (intro conjI)
  show "\<exists>k'. ingresar_new_cpu soc k = Inr k'
      \<and> salida k' = salida k @ [Envia soc (Men_Comun (saludo HS_KERNEL))]
      \<and> lista_cpu k' = lista_cpu k @ [\<lparr>soc_cpu = soc, soc_prog = 0, id_prog_exec = 0\<rparr>]
      \<and> cant_cpu_libres k' = cant_cpu_libres k + 1
      \<and> handshake_kernel_cpu (saludo HS_KERNEL # ms) = Inr (saludo HS_CPU, conectado_kernel, ms)"
    using assms by (simp add: presentarse)
  show "\<exists>v'. admin_conecciones soc (saludo HS_CPU) v = Inr (v', [(soc, saludo HS_UMV)])
      \<and> proc_activos v' soc = Some 0 \<and> su v' = su v
      \<and> handshake_umv_cpu (saludo HS_UMV # ms) = Inr (saludo HS_CPU, conectado_umv, ms)"
    by (simp add: presentarse)
  show "\<exists>v'. admin_conecciones soc (saludo HS_KERNEL) v = Inr (v', [(soc, saludo HS_UMV)])
      \<and> soc_kernel_umv v' = soc \<and> proc_activos v' = proc_activos v \<and> su v' = su v
      \<and> handshake_umv_kernel (saludo HS_UMV # ms) = Inr (saludo HS_KERNEL,
          en Pantalla [Txt ''UMV conectada'', NL] @ en Archivo_Log [Txt ''Conectado a la UMV '', NL], ms)"
    by (simp add: presentarse)
  show "\<exists>k'. ingresar_nuevo_programa soc k = Inr k' \<and> soc \<in> conj_soc_progs k'
      \<and> salida k' = salida k @ [Envia soc (Men_Comun (saludo HS_KERNEL))]
      \<and> handshake_kernel (saludo HS_KERNEL # ms) = Inr (\<lparr>tam_dato = 1, tipo = codigo HS_PROG, dato = [0]\<rparr>, ms)"
    using assms by (simp add: presentarse handshake_kernel_def crear_men_comun_def leer_def)
qed

theorem presentaciones_testigo:
  "\<exists>k'. ingresar_new_cpu 9 k_ej = Inr k' \<and> cant_cpu_libres k' = 1
     \<and> handshake_kernel_cpu [saludo HS_KERNEL] = Inr (saludo HS_CPU, conectado_kernel, [])"
  using presentaciones [of 9 k_ej "[]"] by (auto simp: k_ej_def)

text \<open>A kernel that meets something else than the memory unit says both things and goes on.\<close>

lemma handshake_equivocado:
  "handshake_umv_kernel (saludo HS_KERNEL # ms) = Inr (saludo HS_KERNEL,
     en Pantalla [Txt ''ERROR HANDSHAKE''] @ en Archivo_Log [Txt ''Error en el handshake con la UMV '', NL]
     @ en Pantalla [Txt ''UMV conectada'', NL] @ en Archivo_Log [Txt ''Conectado a la UMV '', NL], ms)"
  by (simp add: presentarse)

end
