(* ===== verification/Spec2Isabelle.thy ===== *)
theory Spec2Isabelle
  imports UMV_Prop UMV_Fallas UMV_Consola_Prop UMV_Candados Sockets_Prop Sistema Programa
    Kernel_Candados Kernel_Consola Kernel_Transporte Arranque
begin

text \<open>
  A small operating system simulated by four C programs that talk over sockets. The
  development models their state and operations and proves what each promises and how they
  fit together.

  \<^bold>\<open>The program.\<close>
  \<^item> \<open>src/programa\<close> sends a script in the language AnSISOP to the kernel and shows what the
    kernel sends back.
  \<^item> \<open>src/kernel\<close> turns scripts into processes. The long-term scheduler (PLP) asks the memory
    unit for four segments, puts the process into new and admits it by least weight under a
    degree of multiprogramming. The short-term scheduler (PCP) dispatches ready to the free
    CPUs, round robin, and serves the semaphores, the shared variables and the devices.
  \<^item> \<open>src/CPU\<close> runs one process at a time for a quantum. A parser library reads a line and calls
    the primitives in \<open>cpu.c\<close>, which keep the variables and the calls in a stack segment.
  \<^item> \<open>src/UMV\<close> is the memory unit: one block of memory with a table of segments, first or worst
    fit, compaction, and bounds-checked accesses by logical address.
  \<^item> \<open>src/sockets_lib\<close> gives the message formats and the framing all of them use.

  \<^bold>\<open>Theories and the code they model.\<close>
  \<^item> \<open>Prelude\<close>: failures of C as values (\<open>c_error\<close>, \<open>res\<close>, \<open>bindE\<close>), 32-bit arithmetic (\<open>i32\<close>), block
    copies (\<open>leer\<close>, \<open>escribir\<close>), the lists and queues of the commons library. \<open>Cadenas\<close>: C strings,
    \<open>atoi\<close> and the decimal text of a number. \<open>Terminal\<close>: what is read from the keyboard (\<open>scanf\<close>,
    \<open>fgets\<close>) and written to the screen and the log files. \<open>Interfaz\<close>: locales for what the components expect
    of each other.
  \<^item> \<open>Sockets\<close>: \<open>sockets_lib.c\<close>, \<open>sockets_lib.h\<close>. The state of a connection is the byte list that is
    still to be received.
  \<^item> \<open>UMV_Mem\<close>: segment table, search, compaction, accesses (\<open>UMV.c\<close>); record \<open>umv\<close> is the globals.
    \<open>UMV_Server\<close>: the threads that serve the kernel, the CPUs and the console. \<open>UMV_Consola\<close>: the
    console as its operator meets it, from \<open>crearConsola\<close> to the dumps.
  \<^item> \<open>Kernel_Datos\<close>, \<open>Kernel_PCP\<close>, \<open>Kernel_PLP\<close>, \<open>Kernel_Hilos\<close>: \<open>kernel.c\<close>; record \<open>kernel\<close> is the
    globals, \<open>sistema\<close> adds how far each thread is in its round, \<open>paso_kernel\<close> is one event and
    \<open>corre\<close> the runs from a configuration. \<open>Kernel_Select\<close>: the loops of \<open>plp\<close> and \<open>pcp\<close> over the
    sockets that \<open>select\<close> found ready. \<open>Kernel_Salida\<close>, \<open>Kernel_Consola\<close>: the menu of the operator
    and what it prints.
  \<^item> \<open>CPU_Datos\<close>, \<open>CPU_Primitivas\<close>, \<open>CPU_Ciclo\<close>: \<open>cpu.c\<close>; record \<open>cpu\<close> is the globals, the memory unit
    behind the socket and what is sent and received.
  \<^item> \<open>Programa\<close>: \<open>programa.c\<close>. \<open>Arranque\<close>: the handshakes between the daemons, their first states
    and their \<open>main\<close>.
  \<^item> \<open>Candados\<close>: threads as rounds of lock operations and their interleavings. \<open>Kernel_Candados\<close>,
    \<open>UMV_Candados\<close>: the lock operations of \<open>kernel.c\<close> and \<open>UMV.c\<close>, one list for each way through a
    function.

  \<^bold>\<open>What the lemmas show.\<close>
  \<^item> \<open>UMV_Inv\<close>, \<open>UMV_Acceso\<close>, \<open>UMV_Vista\<close>, \<open>UMV_Corridas\<close>, \<open>UMV_Prop\<close>: in every run the segments lie in the
    memory and do not overlap; creation, compaction and destruction; the physical accesses
    refine the memory of a process as a map from its segments to bytes. \<open>UMV_Fallas\<close>: where the
    code loses data or escapes its bounds check. \<open>UMV_Consola_Prop\<close>: every round of the console is
    an order of \<open>UMV_Server\<close> or only prints; the printed map says which bytes are taken, and by whom.
  \<^item> \<open>Sockets_Prop\<close>: every message arrives as it was sent, and what each receive does when the
    connection is closed.
  \<^item> \<open>Kernel_Inv\<close>, \<open>Kernel_Corridas\<close>, \<open>Kernel_Semaforos\<close>: invariants of all runs, by rule induction on
    \<open>corre\<close>. \<open>Kernel_Prop\<close>, \<open>Kernel_Turnos\<close>, \<open>Kernel_Recursos\<close>: the queues, the counting semaphores,
    dispatch, the degree of multiprogramming, turns, exits, semaphores and shared variables of
    the programs, and the races that end or block the kernel. \<open>Kernel_Select\<close>: a round over the
    ready sockets is a run of events, each socket once. \<open>Kernel_Consola\<close>: every round of the menu is
    an order of \<open>menu_imp\<close>, and printing the queues by popping and pushing leaves them as they were.
  \<^item> \<open>Kernel_UMV\<close>, \<open>Kernel_UMV_Prop\<close>: the kernel in front of the memory unit of \<open>UMV_Server\<close>, through
    the locale \<open>gestor_segmentos\<close>: admission is all or nothing, and an exit frees everything.
  \<^item> \<open>CPU_Pila\<close>, \<open>CPU_Prop\<close>: the CPU in front of the memory unit, through the locale
    \<open>memoria_remota\<close>: the stack of a process as bytes, with its variables, calls and returns.
    \<open>CPU_Termina\<close>: the main loop ends.
  \<^item> \<open>Tipado\<close>, \<open>CPU_Tipos\<close>, \<open>CPU_Tipos_Prop\<close>, \<open>Kernel_Tipos\<close>, \<open>Kernel_Tipos_Prop\<close>: the types of a CPU and
    of the kernel at run time (32-bit numbers, messages that can be framed), one lemma per
    operation, proved for two memory units at once, of which one answers whenever the other does
    (\<open>sigue\<close>, locales \<open>mismo_servidor\<close> and \<open>mismo_gestor\<close>); and that the two sides fit.
    \<open>Transporte\<close>, \<open>Kernel_Transporte\<close>: so a daemon whose requests travel over byte streams runs as
    one that calls the memory unit directly.
  \<^item> \<open>CPU_Kernel\<close>: the messages of a CPU as the kernel handles them, from the end of a turn on one
    CPU to the start of the next on another. \<open>Sistema\<close>: from the script to the first instruction,
    through all four programs.
  \<^item> \<open>Candados\<close>, \<open>Kernel_Candados\<close>, \<open>UMV_Candados\<close>: the locales \<open>disciplina\<close> (what a thread holds) and
    \<open>jerarquia\<close> (a rank of the shared mutexes excludes a deadlock); the memory unit never blocks
    itself, the kernel can, and who has to take part in it.

  \<^bold>\<open>Conventions.\<close> An \<open>int32_t\<close> is an \<open>int\<close>, with \<open>i32\<close> written out where an operation can leave
  its range. A null dereference, an access outside an object, a call of \<open>exit\<close> and a wait without end are the
  values \<open>Inl e\<close>. Handlers that receive further messages get them as arguments. A thread of the
  kernel stops only where it waits on a counting semaphore; a handler is one step, except
  \<open>fin_ejecucion\<close>, whose two critical sections are also definitions of their own, because the
  end of a program can come between them.

  \<^bold>\<open>Bounds.\<close> Runs of the kernel admit fewer than \<open>2^31\<close> programs (their counter is an
  \<open>int32_t\<close>). \<open>ciclo\<close> has fuel; one more than the number of messages the kernel still sends is
  enough (\<open>ciclo_termina\<close>). \<open>turno\<close> is bounded by the quantum. The loops over holes, queues and
  segments are total functions with the bounds of the code. The loops of the two operators have a
  bound on their rounds and \<open>None\<close> behind it: at the end of the input the console repeats its
  last option for ever (\<open>consola_sin_entrada\<close>).

  \<^bold>\<open>Parameters.\<close> What is not in the repository: the sort and the decimal printing of the commons
  library (hypotheses: a sorted permutation; the decimal text), the order of its iterators, the
  parser (\<open>meta\<close>, \<open>analizadorLinea\<close>, \<open>metadata_buscar_etiqueta\<close>), \<open>rand\<close>, the contents of fresh heap
  and stack bytes, signals, the answer of \<open>select\<close>. The models of the CPU and of the kernel call the
  memory unit directly, which \<open>Transporte\<close> and \<open>Kernel_Transporte\<close> justify by the byte streams; the
  messages of the CPU are an input of the kernel and the other way round.

  \<^bold>\<open>Not modelled.\<close> Opening and closing sockets, reading of configuration files, what the servers
  and the primitives write to \<open>umv.log\<close>, \<open>plp.log\<close>, \<open>pcp.log\<close>, \<open>cpu.log\<close> and the screen as a trace, constant
  prompts, the shutdown of the kernel (\<open>finalizo_ejecucion\<close> only frees), and the freeing of memory,
  except where a freed block is used. The effect of a handler and
  its mutexes are modelled apart: the first as one step on the state, the second as the list of
  its lock operations; statements that work on shared data without the mutex are taken as part
  of the step.
\<close>

end
